(* ===== verification/Prelude.thy ===== *)
theory Prelude
  imports Main "HOL-Library.AList" "HOL-Library.Char_ord" "HOL-Library.List_Lexorder"
begin

text \<open>
  Shared foundations of the development: the Go error values, instants and
  durations, key/value tables, text as UTF-8 bytes, and the regular expressions
  of the Go standard library that the source compiles its patterns with.
\<close>

named_theorems pat_defs \<open>definitions of the compiled patterns\<close>
named_theorems store_defs \<open>definitions of the store operations\<close>
named_theorems stage_defs \<open>definitions of the reconciliation stages\<close>

section \<open>Errors\<close>

text \<open>
  One constructor per sentinel error of the packages that are modelled.
  \<open>ErrJoined\<close> is an error that wraps two others (\<open>errors.Join\<close>, several \<open>%w\<close>),
  \<open>ErrOther\<close> any error without a sentinel. \<open>errors_is\<close> is \<open>errors.Is\<close>.
\<close>

datatype err =
    ErrValidation | ErrNotFound | ErrConflict | ErrTerminal | ErrTransition | ErrRevision
  | ErrUnavailable | ErrForbidden | ErrLeaseLost | ErrArtifactConflict
  | ErrTargetReserved | ErrBenchmarkConflict | ErrExecutionConflict | ErrJobConflict
  | ErrBaselineTransition
  | ErrStateNotHandled | ErrExecutionNotBound | ErrArtifactsNotReady | ErrInvalidArtifacts
  | ErrAnalysisPending | ErrAnalysisFailed | ErrReportPending | ErrReportFailed
  | ErrLeaseGone | ErrArtifactPlan | ErrUploadGrantMismatch | ErrArtifactVerification
  | ErrTerminalEvidence | ErrTerminalConflict | ErrAttemptNotFound
  | ErrObjectNotFound | ErrObjectMismatch
  | ErrCanceled | ErrDeadlineExceeded | ErrCancellationObserved
  | ErrPostgres string
  | ErrOther string
  | ErrJoined err err

fun errors_is :: "err \<Rightarrow> err \<Rightarrow> bool" where
  "errors_is (ErrJoined a b) t = (ErrJoined a b = t \<or> errors_is a t \<or> errors_is b t)"
| "errors_is e t = (e = t)"

lemma errors_is_refl [simp]: "errors_is e e"
  by (cases e) auto

section \<open>Instants and durations\<close>

text \<open>
  An instant is its number of nanoseconds since the Unix epoch; \<open>Before\<close>, \<open>Add\<close>
  and \<open>Equal\<close> are \<open><\<close>, \<open>+\<close> and \<open>=\<close>. The zero \<open>time.Time\<close> of an optional column
  is \<open>None\<close>.
\<close>

type_synonym time = int
type_synonym duration = int

definition seconds :: "int \<Rightarrow> duration" where
  "seconds n = n * 1000000000"

definition minutes :: "int \<Rightarrow> duration" where
  "minutes n = seconds (60 * n)"

section \<open>Tables\<close>

text \<open>
  A Go map or a database table with a primary key is an association list that is
  read with \<open>map_of\<close> and written with \<open>AList.update\<close>.
\<close>

type_synonym ('k, 'v) table = "('k \<times> 'v) list"

definition tput :: "'k \<Rightarrow> 'v \<Rightarrow> ('k, 'v) table \<Rightarrow> ('k, 'v) table" where
  "tput k v t = AList.update k v t"

definition table_ok :: "('k, 'v) table \<Rightarrow> bool" where
  "table_ok t = distinct (map fst t)"

lemma map_of_tput [simp]: "map_of (tput k v t) = (map_of t)(k \<mapsto> v)"
  by (simp add: tput_def update_conv')

lemma tput_Nil [simp]: "tput k v [] = [(k, v)]"
  by (simp add: tput_def)

lemma tput_Cons [simp]:
  "tput k v ((k', v') # t) = (if k' = k then (k, v) # t else (k', v') # tput k v t)"
  by (simp add: tput_def)

lemma table_ok_Nil [simp]: "table_ok []"
  by (simp add: table_ok_def)

lemma table_ok_tput [simp]: "table_ok t \<Longrightarrow> table_ok (tput k v t)"
  by (simp add: table_ok_def tput_def distinct_update)

lemma table_ok_iff: "table_ok t \<Longrightarrow> (k, v) \<in> set t \<longleftrightarrow> map_of t k = Some v"
  by (auto simp: table_ok_def)

lemma dom_table: "dom (map_of t) = fst ` set t"
  by (simp add: dom_map_of_conv_image_fst)

section \<open>Results\<close>

text \<open>A fallible operation returns \<open>err + 'a\<close>; \<open>nil\<close> errors are \<open>Inr\<close>.\<close>

definition is_ok :: "err + 'a \<Rightarrow> bool" where
  "is_ok r = (case r of Inl _ \<Rightarrow> False | Inr _ \<Rightarrow> True)"

lemma is_ok_simps [simp]: "is_ok (Inr x)" "\<not> is_ok (Inl e)"
  by (simp_all add: is_ok_def)

lemma is_ok_iff: "is_ok r \<longleftrightarrow> (\<exists>x. r = Inr x)"
  by (cases r) auto

text \<open>A \<open>Validate\<close> method that only ever answers \<open>nil\<close> or \<open>ErrValidation\<close>.\<close>

definition check :: "bool \<Rightarrow> err + unit" where
  "check b = (if b then Inr () else Inl ErrValidation)"

lemma check_simps [simp]:
  "check b = Inr u \<longleftrightarrow> b"
  "check b = Inl e \<longleftrightarrow> \<not> b \<and> e = ErrValidation"
  "is_ok (check b) = b"
  by (auto simp: check_def)

end
