(* ===== verification/Text_Patterns.thy ===== *)
theory Text_Patterns
  imports Prelude
begin

text \<open>
  Text as the Go source sees it. Strings are byte sequences; \<open>unicode/utf8\<close> decides
  whether they are well formed and how many runes they have, \<open>strings\<close> trims and
  lower-cases them, and \<open>regexp\<close> matches them against compiled patterns. All the
  patterns of the source are anchored at both ends, so a pattern is a regular
  expression over bytes and matching is membership in its language, decided here by
  derivatives and proved against the language.
\<close>

section \<open>Bytes\<close>

definition byte :: "char \<Rightarrow> nat" where
  "byte c = of_char c"

definition is_digit :: "char \<Rightarrow> bool" where
  "is_digit c = (48 \<le> byte c \<and> byte c \<le> 57)"

definition is_lower :: "char \<Rightarrow> bool" where
  "is_lower c = (97 \<le> byte c \<and> byte c \<le> 122)"

definition is_upper :: "char \<Rightarrow> bool" where
  "is_upper c = (65 \<le> byte c \<and> byte c \<le> 90)"

definition is_lower_hex :: "char \<Rightarrow> bool" where
  "is_lower_hex c = (is_digit c \<or> (97 \<le> byte c \<and> byte c \<le> 102))"

definition is_upper_hex :: "char \<Rightarrow> bool" where
  "is_upper_hex c = (65 \<le> byte c \<and> byte c \<le> 70)"

definition is_lower_alnum :: "char \<Rightarrow> bool" where
  "is_lower_alnum c = (is_lower c \<or> is_digit c)"

definition is_alnum :: "char \<Rightarrow> bool" where
  "is_alnum c = (is_lower c \<or> is_upper c \<or> is_digit c)"

text \<open>The class \<open>\s\<close> of RE2: tab, newline, form feed, carriage return, space.\<close>

definition is_re_space :: "char \<Rightarrow> bool" where
  "is_re_space c = (byte c \<in> {9, 10, 12, 13, 32})"

lemmas byte_classes = byte_def is_digit_def is_lower_def is_upper_def is_lower_hex_def
  is_upper_hex_def is_lower_alnum_def is_alnum_def is_re_space_def

text \<open>\<open>strings.ToLower\<close> on the ASCII range.\<close>

definition to_lower_byte :: "char \<Rightarrow> char" where
  "to_lower_byte c = (if is_upper c then char_of (byte c + 32) else c)"

definition to_lower :: "string \<Rightarrow> string" where
  "to_lower s = map to_lower_byte s"

lemma to_lower_byte_idem [simp]: "to_lower_byte (to_lower_byte c) = to_lower_byte c"
  by (auto simp: to_lower_byte_def byte_classes)

lemma to_lower_idem [simp]: "to_lower (to_lower s) = to_lower s"
  by (simp add: to_lower_def)

lemma to_lower_byte_id: "is_lower c \<or> is_digit c \<or> byte c = 45 \<Longrightarrow> to_lower_byte c = c"
  by (auto simp: to_lower_byte_def byte_classes)

section \<open>UTF-8\<close>

text \<open>
  The encoding at the head of a byte sequence: \<open>Some (rune, width)\<close>, or \<open>None\<close> where
  \<open>utf8.DecodeRune\<close> reports an invalid encoding. The second-byte ranges exclude
  overlong forms, surrogates and values beyond \<open>U+10FFFF\<close>.
\<close>

definition cont_byte :: "nat \<Rightarrow> bool" where
  "cont_byte b = (128 \<le> b \<and> b \<le> 191)"

fun utf8_head :: "nat list \<Rightarrow> (nat \<times> nat) option" where
  "utf8_head [] = None"
| "utf8_head (a # rest) =
    (if a < 128 then Some (a, 1)
     else if 194 \<le> a \<and> a \<le> 223 then
       (case rest of b # _ \<Rightarrow> if cont_byte b then Some ((a - 192) * 64 + (b - 128), 2) else None
        | [] \<Rightarrow> None)
     else if 224 \<le> a \<and> a \<le> 239 then
       (case rest of b # c # _ \<Rightarrow>
          if (if a = 224 then 160 else 128) \<le> b \<and> b \<le> (if a = 237 then 159 else 191) \<and> cont_byte c
          then Some (((a - 224) * 64 + (b - 128)) * 64 + (c - 128), 3) else None
        | _ \<Rightarrow> None)
     else if 240 \<le> a \<and> a \<le> 244 then
       (case rest of b # c # d # _ \<Rightarrow>
          if (if a = 240 then 144 else 128) \<le> b \<and> b \<le> (if a = 244 then 143 else 191)
             \<and> cont_byte c \<and> cont_byte d
          then Some ((((a - 240) * 64 + (b - 128)) * 64 + (c - 128)) * 64 + (d - 128), 4) else None
        | _ \<Rightarrow> None)
     else None)"

fun runes_of :: "nat list \<Rightarrow> nat list" where
  "runes_of [] = []"
| "runes_of (b # bs) =
    (case utf8_head (b # bs) of
       None \<Rightarrow> 65533 # runes_of bs
     | Some (r, w) \<Rightarrow> r # runes_of (drop (w - 1) bs))"

fun valid_utf8 :: "nat list \<Rightarrow> bool" where
  "valid_utf8 [] = True"
| "valid_utf8 (b # bs) =
    (case utf8_head (b # bs) of
       None \<Rightarrow> False
     | Some (r, w) \<Rightarrow> valid_utf8 (drop (w - 1) bs))"

declare runes_of.simps(2) [simp del] valid_utf8.simps(2) [simp del] utf8_head.simps(2) [simp del]

text \<open>\<open>encoding/json\<close> writes U+FFFD for every byte that is not part of a valid encoding.\<close>

fun json_bytes :: "string \<Rightarrow> string" where
  "json_bytes [] = []"
| "json_bytes (c # cs) =
    (case utf8_head (map byte (c # cs)) of
       None \<Rightarrow> CHR 0xEF # CHR 0xBF # CHR 0xBD # json_bytes cs
     | Some (r, w) \<Rightarrow> c # take (w - 1) cs @ json_bytes (drop (w - 1) cs))"

declare json_bytes.simps(2) [simp del]

definition runes :: "string \<Rightarrow> nat list" where
  "runes s = runes_of (map byte s)"

definition utf8_ValidString :: "string \<Rightarrow> bool" where
  "utf8_ValidString s = valid_utf8 (map byte s)"

definition utf8_RuneCountInString :: "string \<Rightarrow> nat" where
  "utf8_RuneCountInString s = length (runes s)"

text \<open>\<open>unicode.IsSpace\<close>, and the only use the source makes of \<open>strings.TrimSpace\<close>.\<close>

definition unicode_IsSpace :: "nat \<Rightarrow> bool" where
  "unicode_IsSpace r =
    ((9 \<le> r \<and> r \<le> 13) \<or> r = 32 \<or> r = 133 \<or> r = 160 \<or> r = 5760 \<or> (8192 \<le> r \<and> r \<le> 8202)
     \<or> r = 8232 \<or> r = 8233 \<or> r = 8239 \<or> r = 8287 \<or> r = 12288)"

definition blank_text :: "string \<Rightarrow> bool" where
  "blank_text s = list_all unicode_IsSpace (runes s)"

lemma ascii_head [simp]: "b < 128 \<Longrightarrow> utf8_head (b # bs) = Some (b, 1)"
  by (simp add: utf8_head.simps)

lemma runes_ascii: "list_all (\<lambda>b. b < 128) bs \<Longrightarrow> runes_of bs = bs"
  by (induction bs) (simp_all add: runes_of.simps)

lemma valid_ascii: "list_all (\<lambda>b. b < 128) bs \<Longrightarrow> valid_utf8 bs"
  by (induction bs) (simp_all add: valid_utf8.simps)

lemma runes_of_nonempty: "bs \<noteq> [] \<Longrightarrow> runes_of bs \<noteq> []"
  by (cases bs) (simp_all add: runes_of.simps split: option.splits prod.splits)

lemma length_runes_of: "length (runes_of bs) \<le> length bs"
proof (induction bs rule: runes_of.induct)
  case (2 b bs)
  show ?case
  proof (cases "utf8_head (b # bs)")
    case None
    with "2.IH"(1) show ?thesis by (simp add: runes_of.simps)
  next
    case (Some p)
    obtain r w where p: "p = (r, w)" by force
    with "2.IH"(2) Some have "length (runes_of (drop (w - 1) bs)) \<le> length (drop (w - 1) bs)"
      by simp
    also have "\<dots> \<le> length bs" by simp
    finally show ?thesis using Some p by (simp add: runes_of.simps)
  qed
qed simp

lemma json_bytes_valid: "utf8_ValidString s \<Longrightarrow> json_bytes s = s"
proof (induction s rule: json_bytes.induct)
  case (2 c cs)
  from "2.prems" obtain r w where w: "utf8_head (map byte (c # cs)) = Some (r, w)"
    and rest: "utf8_ValidString (drop (w - 1) cs)"
    by (auto simp: utf8_ValidString_def valid_utf8.simps drop_map split: option.splits prod.splits)
  from w "2.IH"(2) [OF w refl rest] show ?case by (simp add: json_bytes.simps)
qed simp

lemma rune_count_bound: "utf8_RuneCountInString s \<le> length s"
  unfolding utf8_RuneCountInString_def runes_def
  using length_runes_of [of "map byte s"] by simp

section \<open>Regular expressions\<close>

text \<open>
  \<open>Rep p lo hi\<close> is a counted byte class \<open>[..]{lo,hi}\<close>; every counted repetition of
  the source is of this form.
\<close>

datatype rx =
    Zero
  | One
  | Rep "char \<Rightarrow> bool" nat nat
  | Alt rx rx
  | Seq rx rx
  | Star rx

abbreviation Cls :: "(char \<Rightarrow> bool) \<Rightarrow> rx" where
  "Cls p \<equiv> Rep p 1 1"

abbreviation Many1 :: "(char \<Rightarrow> bool) \<Rightarrow> rx" where
  "Many1 p \<equiv> Seq (Cls p) (Star (Cls p))"

definition Opt :: "rx \<Rightarrow> rx" where
  "Opt r = Alt One r"

fun Lit :: "string \<Rightarrow> rx" where
  "Lit [] = One"
| "Lit (c # cs) = Seq (Cls ((=) c)) (Lit cs)"

fun Seqs :: "rx list \<Rightarrow> rx" where
  "Seqs [] = One"
| "Seqs (r # rs) = Seq r (Seqs rs)"

fun nullable :: "rx \<Rightarrow> bool" where
  "nullable Zero = False"
| "nullable One = True"
| "nullable (Rep p lo hi) = (lo = 0)"
| "nullable (Alt a b) = (nullable a \<or> nullable b)"
| "nullable (Seq a b) = (nullable a \<and> nullable b)"
| "nullable (Star a) = True"

text \<open>Simplifying constructors keep derivatives small.\<close>

fun seq :: "rx \<Rightarrow> rx \<Rightarrow> rx" where
  "seq Zero b = Zero"
| "seq One b = b"
| "seq a b = Seq a b"

fun alt :: "rx \<Rightarrow> rx \<Rightarrow> rx" where
  "alt Zero b = b"
| "alt a Zero = a"
| "alt a b = Alt a b"

fun deriv :: "char \<Rightarrow> rx \<Rightarrow> rx" where
  "deriv c Zero = Zero"
| "deriv c One = Zero"
| "deriv c (Rep p lo hi) =
    (if p c \<and> 0 < hi then (if hi = 1 \<and> lo \<le> 1 then One else Rep p (lo - 1) (hi - 1)) else Zero)"
| "deriv c (Alt a b) = alt (deriv c a) (deriv c b)"
| "deriv c (Seq a b) =
    (if nullable a then alt (seq (deriv c a) b) (deriv c b) else seq (deriv c a) b)"
| "deriv c (Star a) = seq (deriv c a) (Star a)"

fun rx_match :: "rx \<Rightarrow> string \<Rightarrow> bool" where
  "rx_match r [] = nullable r"
| "rx_match r (c # cs) = rx_match (deriv c r) cs"

subsection \<open>The language of a pattern\<close>

inductive_set star_lang :: "string set \<Rightarrow> string set" for A where
  star_Nil [simp, intro]: "[] \<in> star_lang A"
| star_append [intro]: "u \<in> A \<Longrightarrow> v \<in> star_lang A \<Longrightarrow> u @ v \<in> star_lang A"

fun rx_lang :: "rx \<Rightarrow> string set" where
  "rx_lang Zero = {}"
| "rx_lang One = {[]}"
| "rx_lang (Rep p lo hi) = {s. list_all p s \<and> lo \<le> length s \<and> length s \<le> hi}"
| "rx_lang (Alt a b) = rx_lang a \<union> rx_lang b"
| "rx_lang (Seq a b) = {u @ v | u v. u \<in> rx_lang a \<and> v \<in> rx_lang b}"
| "rx_lang (Star a) = star_lang (rx_lang a)"

lemma star_Cons_iff:
  "c # s \<in> star_lang A \<longleftrightarrow> (\<exists>u v. s = u @ v \<and> c # u \<in> A \<and> v \<in> star_lang A)"
proof
  assume "c # s \<in> star_lang A"
  then show "\<exists>u v. s = u @ v \<and> c # u \<in> A \<and> v \<in> star_lang A"
    by (induction "c # s" arbitrary: s rule: star_lang.induct)
      (auto simp: append_eq_Cons_conv)
next
  assume "\<exists>u v. s = u @ v \<and> c # u \<in> A \<and> v \<in> star_lang A"
  then show "c # s \<in> star_lang A"
    using star_append [of "c # _" A] by fastforce
qed

lemma lang_seq [simp]: "rx_lang (seq a b) = rx_lang (Seq a b)"
  by (cases a) auto

lemma lang_alt [simp]: "rx_lang (alt a b) = rx_lang (Alt a b)"
  by (cases a; cases b) auto

lemma nullable_lang: "nullable r \<longleftrightarrow> [] \<in> rx_lang r"
  by (induction r) auto

text \<open>Sequencing distributes over the first character.\<close>

lemma Cons_mem_Seq:
  "c # s \<in> rx_lang (Seq a b) \<longleftrightarrow>
    (\<exists>u v. s = u @ v \<and> c # u \<in> rx_lang a \<and> v \<in> rx_lang b) \<or> ([] \<in> rx_lang a \<and> c # s \<in> rx_lang b)"
  by (auto simp: Cons_eq_append_conv)

lemma deriv_lang: "s \<in> rx_lang (deriv c r) \<longleftrightarrow> c # s \<in> rx_lang r"
proof (induction r arbitrary: s)
  case (Rep p lo hi)
  then show ?case by (cases s) auto
next
  case (Seq a b)
  then show ?case unfolding Cons_mem_Seq by (auto simp: nullable_lang)
next
  case (Star a)
  then show ?case by (auto simp: star_Cons_iff)
qed auto

theorem rx_match_lang: "rx_match r s \<longleftrightarrow> s \<in> rx_lang r"
  by (induction s arbitrary: r) (simp_all add: nullable_lang deriv_lang)

lemma match_Rep: "rx_match (Rep p lo hi) s \<longleftrightarrow> list_all p s \<and> lo \<le> length s \<and> length s \<le> hi"
  by (simp add: rx_match_lang)

lemma match_Seq_Cls:
  "rx_match (Seq (Cls p) r) s \<longleftrightarrow> (\<exists>c cs. s = c # cs \<and> p c \<and> rx_match r cs)"
proof (cases s)
  case (Cons c cs)
  have "rx_match Zero cs = False" by (simp add: rx_match_lang)
  with Cons show ?thesis by simp
qed simp

end
