(* ===== verification/Contract.thy ===== *)
theory Contract
  imports Text_Patterns
begin

text \<open>
  Package \<open>internal/contract\<close>: the pinned Run lifecycle (\<open>snapshot/transitions.json\<close>
  read by \<open>CanTransition\<close> and \<open>Terminal\<close>) and the pinned identifier patterns.
\<close>

section \<open>Run states\<close>

text \<open>
  A \<open>run.State\<close> is a string; the contract names fourteen of them, every other string
  (the empty one included) is \<open>StateUnknown\<close>.
\<close>

datatype run_state =
    StateCreated | StateValidating | StateProvisioning | StateWarmingUp | StateRunning
  | StateCollecting | StateAnalyzing | StateReporting | StateCancelling
  | StateCompleted | StateInvalid | StateAborted | StateInfrastructureFailure | StateTestFailure
  | StateUnknown string

text \<open>\<open>transitions[state]\<close>; \<open>None\<close> where the map has no such key.\<close>

fun transitions :: "run_state \<Rightarrow> run_state list option" where
  "transitions StateCreated = Some [StateValidating, StateAborted]"
| "transitions StateValidating =
    Some [StateProvisioning, StateInvalid, StateInfrastructureFailure, StateAborted]"
| "transitions StateProvisioning =
    Some [StateWarmingUp, StateRunning, StateInfrastructureFailure, StateCancelling]"
| "transitions StateWarmingUp =
    Some [StateRunning, StateCollecting, StateInfrastructureFailure, StateCancelling]"
| "transitions StateRunning = Some [StateCollecting, StateInfrastructureFailure, StateCancelling]"
| "transitions StateCollecting =
    Some [StateAnalyzing, StateTestFailure, StateInfrastructureFailure, StateCancelling]"
| "transitions StateAnalyzing = Some [StateReporting, StateInfrastructureFailure, StateCancelling]"
| "transitions StateReporting = Some [StateCompleted, StateInfrastructureFailure, StateCancelling]"
| "transitions StateCancelling = Some [StateAborted, StateInfrastructureFailure]"
| "transitions StateCompleted = Some []"
| "transitions StateInvalid = Some []"
| "transitions StateAborted = Some []"
| "transitions StateInfrastructureFailure = Some []"
| "transitions StateTestFailure = Some []"
| "transitions (StateUnknown s) = None"

definition CanTransition :: "run_state \<Rightarrow> run_state \<Rightarrow> bool" where
  "CanTransition from to = (case transitions from of None \<Rightarrow> False | Some next \<Rightarrow> to \<in> set next)"

definition Terminal :: "run_state \<Rightarrow> bool" where
  "Terminal s = (transitions s = Some [])"

text \<open>The stages before a terminal outcome, in the order the lifecycle visits them.\<close>

fun stage :: "run_state \<Rightarrow> nat" where
  "stage StateCreated = 0"
| "stage StateValidating = 1"
| "stage StateProvisioning = 2"
| "stage StateWarmingUp = 3"
| "stage StateRunning = 4"
| "stage StateCollecting = 5"
| "stage StateAnalyzing = 6"
| "stage StateReporting = 7"
| "stage StateCancelling = 8"
| "stage (StateUnknown s) = 0"
| "stage _ = 9"

lemma CanTransition_stage: "CanTransition a b \<Longrightarrow> stage a < stage b"
  by (cases a) (auto simp: CanTransition_def)

lemma Terminal_no_transition: "Terminal a \<Longrightarrow> \<not> CanTransition a b"
  by (simp add: Terminal_def CanTransition_def)

lemma stage_le_9: "stage a \<le> 9"
  by (cases a) auto

lemma Terminal_iff:
  "Terminal s \<longleftrightarrow> s \<in> {StateCompleted, StateInvalid, StateAborted, StateInfrastructureFailure, StateTestFailure}"
  by (cases s) (auto simp: Terminal_def)

lemma CanTransition_known: "CanTransition a b \<Longrightarrow> transitions a \<noteq> None \<and> transitions b \<noteq> None"
  by (cases a) (auto simp: CanTransition_def)

section \<open>Pinned identifiers\<close>

text \<open>\<open>^perf-[0-9]{8}-[0-9]{6}-[a-f0-9]{8}$\<close>\<close>

definition run_id_pattern :: rx where [pat_defs]:
  "run_id_pattern = Seqs [Lit ''perf-'', Rep is_digit 8 8, Lit ''-'', Rep is_digit 6 6, Lit ''-'',
     Rep is_lower_hex 8 8]"

definition ValidID :: "string \<Rightarrow> bool" where
  "ValidID s = rx_match run_id_pattern s"

text \<open>\<open>^[a-z][a-z0-9]*(?:-[a-z0-9]+)*$\<close>\<close>

definition resource_id_pattern :: rx where [pat_defs]:
  "resource_id_pattern = Seqs [Cls is_lower, Star (Cls is_lower_alnum),
     Star (Seq (Lit ''-'') (Many1 is_lower_alnum))]"

definition ValidResourceID :: "string \<Rightarrow> bool" where
  "ValidResourceID s = rx_match resource_id_pattern s"

text \<open>\<open>^(0|[1-9][0-9]*)\.(0|[1-9][0-9]*)\.(0|[1-9][0-9]*)$\<close>\<close>

definition version_number :: rx where [pat_defs]:
  "version_number = Alt (Lit ''0'') (Seq (Cls (\<lambda>c. is_digit c \<and> c \<noteq> CHR ''0'')) (Star (Cls is_digit)))"

definition version_pattern :: rx where [pat_defs]:
  "version_pattern = Seqs [version_number, Lit ''.'', version_number, Lit ''.'', version_number]"

definition ValidVersion :: "string \<Rightarrow> bool" where
  "ValidVersion s = rx_match version_pattern s"

text \<open>\<open>^[a-f0-9]{64}$\<close>\<close>

definition hash_pattern :: rx where [pat_defs]:
  "hash_pattern = Rep is_lower_hex 64 64"

lemma ValidID_nonempty: "ValidID s \<Longrightarrow> s \<noteq> []"
  by (cases s) (auto simp: ValidID_def run_id_pattern_def)

end
