(* ===== verification/Urls.thy ===== *)
theory Urls
  imports Text_Patterns
begin

text \<open>
  The part of \<open>net/url.Parse\<close> that artifact locations reach: they match
  \<open>^(s3|https)://[^\s?#]+$\<close> first, so there is always a scheme and an authority and
  never a query or a fragment. What can still fail is a control byte, a malformed
  host, port or percent escape; what the source inspects is the presence of user
  information and the host name.
\<close>

section \<open>Escapes, ports and host characters\<close>

definition is_hex :: "char \<Rightarrow> bool" where
  "is_hex c = (is_lower_hex c \<or> is_upper_hex c)"

text \<open>Percent escapes of a path: two hexadecimal digits each.\<close>

fun path_escapes_ok :: "string \<Rightarrow> bool" where
  "path_escapes_ok [] = True"
| "path_escapes_ok (c # s) =
    (if c = CHR ''%'' then
       (case s of a # b # _ \<Rightarrow> is_hex a \<and> is_hex b \<and> path_escapes_ok (drop 2 s) | _ \<Rightarrow> False)
     else path_escapes_ok s)"

text \<open>The bytes below 128 that a host may hold unescaped (\<open>shouldEscape\<close>, host mode).\<close>

definition host_byte :: "char \<Rightarrow> bool" where
  "host_byte c = (is_alnum c \<or> c \<in> set ''-_.~!$&()*+,;=:[]<>'' \<or> byte c = 39 \<or> byte c = 34)"

text \<open>In a host only non-ASCII bytes and the percent sign itself may be escaped.\<close>

fun host_escapes_ok :: "string \<Rightarrow> bool" where
  "host_escapes_ok [] = True"
| "host_escapes_ok (c # s) =
    (if c = CHR ''%'' then
       (case s of
          a # b # _ \<Rightarrow> is_hex a \<and> is_hex b \<and> (\<not> (byte a < 56) \<or> (a = CHR ''2'' \<and> b = CHR ''5''))
            \<and> host_escapes_ok (drop 2 s)
        | _ \<Rightarrow> False)
     else (128 \<le> byte c \<or> host_byte c) \<and> host_escapes_ok s)"

fun valid_optional_port :: "string \<Rightarrow> bool" where
  "valid_optional_port [] = True"
| "valid_optional_port (c # s) = (c = CHR '':'' \<and> list_all is_digit s)"

section \<open>IPv6 literals\<close>

fun split_on :: "char \<Rightarrow> string \<Rightarrow> string list" where
  "split_on d [] = [[]]"
| "split_on d (c # s) =
    (if c = d then [] # split_on d s
     else (case split_on d s of [] \<Rightarrow> [[c]] | p # ps \<Rightarrow> (c # p) # ps))"

definition hex_group :: "string \<Rightarrow> bool" where
  "hex_group g = (1 \<le> length g \<and> length g \<le> 4 \<and> list_all is_hex g)"

fun decimal :: "nat \<Rightarrow> string \<Rightarrow> nat" where
  "decimal n [] = n"
| "decimal n (c # s) = decimal (10 * n + (byte c - 48)) s"

definition ipv4_octet :: "string \<Rightarrow> bool" where
  "ipv4_octet g = (list_all is_digit g \<and> 1 \<le> length g \<and> length g \<le> 3
     \<and> (hd g = CHR ''0'' \<longrightarrow> length g = 1) \<and> decimal 0 g \<le> 255)"

definition ipv4_addr :: "string \<Rightarrow> bool" where
  "ipv4_addr s = (let ps = split_on CHR ''.'' s in length ps = 4 \<and> list_all ipv4_octet ps)"

text \<open>The number of 16-bit fields of the groups up to the end of the address.\<close>

fun fields_to_end :: "string list \<Rightarrow> nat option" where
  "fields_to_end [] = Some 0"
| "fields_to_end [g] = (if hex_group g then Some 1 else if ipv4_addr g then Some 2 else None)"
| "fields_to_end (g # gs) = (if hex_group g then map_option Suc (fields_to_end gs) else None)"

fun split_ellipsis :: "string \<Rightarrow> (string \<times> string) option" where
  "split_ellipsis (a # b # s) =
    (if a = CHR '':'' \<and> b = CHR '':'' then Some ([], s)
     else (case split_ellipsis (b # s) of None \<Rightarrow> None | Some (l, r) \<Rightarrow> Some (a # l, r)))"
| "split_ellipsis _ = None"

definition groups :: "string \<Rightarrow> string list" where
  "groups s = (if s = [] then [] else split_on CHR '':'' s)"

definition ipv6_addr :: "string \<Rightarrow> bool" where
  "ipv6_addr s =
    (case split_ellipsis s of
       None \<Rightarrow> fields_to_end (groups s) = Some 8
     | Some (l, r) \<Rightarrow> list_all hex_group (groups l) \<and>
         (case fields_to_end (groups r) of None \<Rightarrow> False | Some n \<Rightarrow> length (groups l) + n \<le> 7))"

text \<open>A bracketed host: an IPv6 address with an optional zone introduced by \<open>%25\<close>.\<close>

definition hex_value :: "char \<Rightarrow> nat" where
  "hex_value c = (if is_digit c then byte c - 48 else if is_lower_hex c then byte c - 87 else byte c - 55)"

fun zone_escapes_ok :: "string \<Rightarrow> bool" where
  "zone_escapes_ok [] = True"
| "zone_escapes_ok (c # s) =
    (if c = CHR ''%'' then
       (case s of
          a # b # _ \<Rightarrow> is_hex a \<and> is_hex b
            \<and> (let v = 16 * hex_value a + hex_value b in v = 37 \<or> v = 32 \<or> host_byte (char_of v))
            \<and> zone_escapes_ok (drop 2 s)
        | _ \<Rightarrow> False)
     else (128 \<le> byte c \<or> host_byte c) \<and> zone_escapes_ok s)"

definition ip_literal :: "string \<Rightarrow> bool" where
  "ip_literal h =
    (let a = takeWhile (\<lambda>c. c \<noteq> CHR ''%'') h; z = dropWhile (\<lambda>c. c \<noteq> CHR ''%'') h
     in ipv6_addr a \<and>
        (z = [] \<or> (take 3 z = ''%25'' \<and> drop 3 z \<noteq> [] \<and> zone_escapes_ok (drop 3 z))))"

section \<open>Parsing\<close>

record url =
  u_user :: bool
  u_host :: string

definition rev_after :: "char \<Rightarrow> string \<Rightarrow> string" where
  "rev_after d s = rev (takeWhile (\<lambda>c. c \<noteq> d) (rev s))"

definition parse_host :: "string \<Rightarrow> bool" where
  "parse_host h =
    (if CHR ''['' \<in> set h then
       hd h = CHR ''['' \<and> CHR ''['' \<notin> set (tl h) \<and> CHR '']'' \<in> set h
       \<and> valid_optional_port (rev_after CHR '']'' h)
       \<and> ip_literal (take (length h - length (rev_after CHR '']'' h) - 2) (tl h))
     else
       valid_optional_port (dropWhile (\<lambda>c. c \<noteq> CHR '':'') h) \<and> host_escapes_ok h)"

text \<open>The remainder after \<open>scheme://\<close>.\<close>

definition url_Parse :: "string \<Rightarrow> url option" where
  "url_Parse rest =
    (let authority = takeWhile (\<lambda>c. c \<noteq> CHR ''/'') rest;
         path = dropWhile (\<lambda>c. c \<noteq> CHR ''/'') rest;
         user = CHR ''@'' \<in> set authority;
         host = (if user then rev_after CHR ''@'' authority else authority)
     in if list_ex (\<lambda>c. byte c < 32 \<or> byte c = 127) rest then None
        else if \<not> parse_host host \<or> \<not> path_escapes_ok path then None
        else Some \<lparr>u_user = user, u_host = host\<rparr>)"

text \<open>\<open>Hostname()\<close> is empty exactly where the host starts with its port or is empty.\<close>

definition url_Hostname :: "url \<Rightarrow> string" where
  "url_Hostname u =
    (if u_host u \<noteq> [] \<and> hd (u_host u) = CHR ''['' then takeWhile (\<lambda>c. c \<noteq> CHR '']'') (tl (u_host u))
     else takeWhile (\<lambda>c. c \<noteq> CHR '':'') (u_host u))"

section \<open>Request URIs\<close>

text \<open>
  \<open>url.ParseRequestURI\<close>: an absolute URI or an absolute path, without a fragment. The
  scheme is the prefix before the first colon where its characters allow one.
\<close>

definition scheme_byte :: "char \<Rightarrow> bool" where
  "scheme_byte c = (is_alnum c \<or> c \<in> set ''+-.'')"

text \<open>\<open>None\<close> for a missing scheme before a colon, otherwise the scheme and the rest.\<close>

definition getScheme :: "string \<Rightarrow> (string \<times> string) option" where
  "getScheme s =
    (let p = takeWhile scheme_byte s; r = dropWhile scheme_byte s
     in if r \<noteq> [] \<and> hd r = CHR '':'' then
          (if p = [] then None
           else if is_lower (hd p) \<or> is_upper (hd p) then Some (to_lower p, tl r)
           else Some ([], s))
        else Some ([], s))"

text \<open>\<open>unescape\<close> and \<open>escape\<close> in path mode.\<close>

fun path_unescape :: "string \<Rightarrow> string" where
  "path_unescape (CHR ''%'' # a # b # s) = char_of (16 * hex_value a + hex_value b) # path_unescape s"
| "path_unescape (c # s) = c # path_unescape s"
| "path_unescape [] = []"

definition path_byte :: "char \<Rightarrow> bool" where
  "path_byte c = (is_alnum c \<or> c \<in> set ''-_.~$&+,/:;=@'')"

definition upper_hex_digit :: "nat \<Rightarrow> char" where
  "upper_hex_digit n = char_of (if n < 10 then 48 + n else 55 + n)"

fun path_escape :: "string \<Rightarrow> string" where
  "path_escape [] = []"
| "path_escape (c # s) =
    (if path_byte c then c # path_escape s
     else CHR ''%'' # upper_hex_digit (byte c div 16) # upper_hex_digit (byte c mod 16) # path_escape s)"

definition userinfo_ok :: "string \<Rightarrow> bool" where
  "userinfo_ok s = (list_all (\<lambda>c. is_alnum c \<or> c \<in> set ''-._:~!$&()*+,;=%@'' \<or> byte c = 39) s \<and> path_escapes_ok s)"

text \<open>\<open>ru_rawPath\<close> is the escaped path where it differs from the default escaping.\<close>

record request_url =
  ru_scheme :: string
  ru_user :: bool
  ru_host :: string
  ru_path :: string
  ru_rawPath :: string
  ru_rawQuery :: string
  ru_forceQuery :: bool

definition set_path :: "string \<Rightarrow> request_url \<Rightarrow> request_url option" where
  "set_path p u =
    (if \<not> path_escapes_ok p then None
     else let path = path_unescape p
          in Some (u\<lparr>ru_path := path, ru_rawPath := (if path_escape path = p then [] else p)\<rparr>))"

definition ParseRequestURI :: "string \<Rightarrow> request_url option" where
  "ParseRequestURI raw =
    (if list_ex (\<lambda>c. byte c < 32 \<or> byte c = 127) raw \<or> raw = [] then None
     else if raw = ''*'' then
       Some \<lparr>ru_scheme = [], ru_user = False, ru_host = [], ru_path = ''*'', ru_rawPath = [], ru_rawQuery = [], ru_forceQuery = False\<rparr>
     else case getScheme raw of
       None \<Rightarrow> None
     | Some (scheme, rest) \<Rightarrow>
         (let force = (rest \<noteq> [] \<and> last rest = CHR ''?'' \<and> CHR ''?'' \<notin> set (butlast rest));
              hier = takeWhile (\<lambda>c. c \<noteq> CHR ''?'') rest;
              query = (if force then [] else tl (dropWhile (\<lambda>c. c \<noteq> CHR ''?'') rest));
              u = \<lparr>ru_scheme = scheme, ru_user = False, ru_host = [], ru_path = [], ru_rawPath = [],
                   ru_rawQuery = query, ru_forceQuery = force\<rparr>
          in if hier = [] \<or> hd hier \<noteq> CHR ''/'' then (if scheme \<noteq> [] then Some u else None)
             else if scheme \<noteq> [] \<and> take 2 hier = ''//'' then
               (let after = drop 2 hier;
                    authority = takeWhile (\<lambda>c. c \<noteq> CHR ''/'') after;
                    path = dropWhile (\<lambda>c. c \<noteq> CHR ''/'') after;
                    user = CHR ''@'' \<in> set authority;
                    host = (if user then rev_after CHR ''@'' authority else authority);
                    info = take (length authority - length host - 1) authority
                in if \<not> parse_host host \<or> (user \<and> \<not> userinfo_ok info) then None
                   else set_path path (u\<lparr>ru_user := user, ru_host := host\<rparr>))
             else set_path hier u))"

text \<open>
  \<open>Host == Hostname()\<close> on a parsed host: neither a port nor brackets.
\<close>

definition plain_host :: "string \<Rightarrow> bool" where
  "plain_host h = (CHR '':'' \<notin> set h \<and> CHR ''['' \<notin> set h)"

lemma path_unescape_plain: "CHR ''%'' \<notin> set p \<Longrightarrow> path_unescape p = p"
  by (induction p rule: path_unescape.induct) auto

lemma path_escape_plain: "list_all path_byte p \<Longrightarrow> path_escape p = p"
  by (induction p) auto

end
