(* ===== verification/Digest.thy ===== *)
theory Digest
  imports Text_Patterns "HOL-Library.Word"
begin

text \<open>
  \<open>crypto/sha256\<close> and \<open>encoding/hex\<close> of the Go standard library, as the source uses
  them to name content: the SHA-256 function of FIPS 180-4 on a byte sequence and its
  lower-case hexadecimal rendering. Byte slices are strings, one character per byte.
\<close>

unbundle bit_operations_syntax

type_synonym bytes = string
type_synonym u32 = "32 word"

section \<open>SHA-256\<close>

text \<open>The round constants: fractional parts of the cube roots of the first 64 primes, in decimal.\<close>

definition sha_k :: "u32 list" where
  "sha_k = [
    1116352408, 1899447441, 3049323471, 3921009573, 961987163, 1508970993, 2453635748,
    2870763221, 3624381080, 310598401, 607225278, 1426881987, 1925078388, 2162078206,
    2614888103, 3248222580, 3835390401, 4022224774, 264347078, 604807628, 770255983,
    1249150122, 1555081692, 1996064986, 2554220882, 2821834349, 2952996808, 3210313671,
    3336571891, 3584528711, 113926993, 338241895, 666307205, 773529912, 1294757372,
    1396182291, 1695183700, 1986661051, 2177026350, 2456956037, 2730485921, 2820302411,
    3259730800, 3345764771, 3516065817, 3600352804, 4094571909, 275423344, 430227734,
    506948616, 659060556, 883997877, 958139571, 1322822218, 1537002063, 1747873779,
    1955562222, 2024104815, 2227730452, 2361852424, 2428436474, 2756734187, 3204031479,
    3329325298]"

record sha_state =
  ha :: u32
  hb :: u32
  hc :: u32
  hd' :: u32
  he :: u32
  hf :: u32
  hg :: u32
  hh :: u32

definition sha_init :: sha_state where
  "sha_init = \<lparr>ha = 0x6a09e667, hb = 0xbb67ae85, hc = 0x3c6ef372, hd' = 0xa54ff53a,
    he = 0x510e527f, hf = 0x9b05688c, hg = 0x1f83d9ab, hh = 0x5be0cd19\<rparr>"

definition big_sigma0 :: "u32 \<Rightarrow> u32" where
  "big_sigma0 x = word_rotr 2 x XOR word_rotr 13 x XOR word_rotr 22 x"

definition big_sigma1 :: "u32 \<Rightarrow> u32" where
  "big_sigma1 x = word_rotr 6 x XOR word_rotr 11 x XOR word_rotr 25 x"

definition small_sigma0 :: "u32 \<Rightarrow> u32" where
  "small_sigma0 x = word_rotr 7 x XOR word_rotr 18 x XOR drop_bit 3 x"

definition small_sigma1 :: "u32 \<Rightarrow> u32" where
  "small_sigma1 x = word_rotr 17 x XOR word_rotr 19 x XOR drop_bit 10 x"

text \<open>One round with round constant and message word.\<close>

definition sha_round :: "u32 \<times> u32 \<Rightarrow> sha_state \<Rightarrow> sha_state" where
  "sha_round kw s =
    (let t1 = hh s + big_sigma1 (he s) + ((he s AND hf s) XOR (NOT (he s) AND hg s)) + fst kw + snd kw;
         t2 = big_sigma0 (ha s) + ((ha s AND hb s) XOR (ha s AND hc s) XOR (hb s AND hc s))
     in \<lparr>ha = t1 + t2, hb = ha s, hc = hb s, hd' = hc s, he = hd' s + t1, hf = he s, hg = hf s, hh = hg s\<rparr>)"

text \<open>The message schedule, newest word first.\<close>

fun sha_extend :: "nat \<Rightarrow> u32 list \<Rightarrow> u32 list" where
  "sha_extend 0 ws = ws"
| "sha_extend (Suc n) ws =
    sha_extend n ((small_sigma1 (ws ! 1) + ws ! 6 + small_sigma0 (ws ! 14) + ws ! 15) # ws)"

definition sha_block :: "u32 list \<Rightarrow> sha_state \<Rightarrow> sha_state" where
  "sha_block ws s =
    (let r = fold sha_round (zip sha_k (rev (sha_extend 48 (rev ws)))) s
     in \<lparr>ha = ha s + ha r, hb = hb s + hb r, hc = hc s + hc r, hd' = hd' s + hd' r,
         he = he s + he r, hf = hf s + hf r, hg = hg s + hg r, hh = hh s + hh r\<rparr>)"

definition sha_pad :: "nat list \<Rightarrow> nat list" where
  "sha_pad bs =
    bs @ [128] @ replicate ((119 - length bs mod 64) mod 64) 0
       @ map (\<lambda>i. (8 * length bs div 256 ^ i) mod 256) [7, 6, 5, 4, 3, 2, 1, 0]"

fun be_words :: "nat list \<Rightarrow> u32 list" where
  "be_words (a # b # c # d # rest) = of_nat (((a * 256 + b) * 256 + c) * 256 + d) # be_words rest"
| "be_words _ = []"

fun sha_blocks :: "u32 list \<Rightarrow> sha_state \<Rightarrow> sha_state" where
  "sha_blocks [] s = s"
| "sha_blocks (w # ws) s = sha_blocks (drop 15 ws) (sha_block (take 16 (w # ws)) s)"

definition sha256_state :: "bytes \<Rightarrow> sha_state" where
  "sha256_state b = sha_blocks (be_words (sha_pad (map byte b))) sha_init"

section \<open>Hexadecimal\<close>

definition hex_digit :: "nat \<Rightarrow> char" where
  "hex_digit n = char_of (if n < 10 then 48 + n else 87 + n)"

definition hex_word :: "u32 \<Rightarrow> string" where
  "hex_word w = map (\<lambda>i. hex_digit (unat w div 16 ^ i mod 16)) [7, 6, 5, 4, 3, 2, 1, 0]"

text \<open>\<open>hex.EncodeToString(sha256.Sum256(value))\<close>.\<close>

definition sha256_hex :: "bytes \<Rightarrow> string" where
  "sha256_hex b =
    (let s = sha256_state b
     in concat (map hex_word [ha s, hb s, hc s, hd' s, he s, hf s, hg s, hh s]))"

lemma hex_digit_lower: "n < 16 \<Longrightarrow> is_lower_hex (hex_digit n)"
  by (auto simp: hex_digit_def byte_classes of_char_of)

lemma length_hex_word [simp]: "length (hex_word w) = 8"
  by (simp add: hex_word_def)

lemma hex_word_lower: "list_all is_lower_hex (hex_word w)"
  by (simp add: hex_word_def hex_digit_lower)

text \<open>A digest always has the shape of the checksum pattern \<open>^[a-f0-9]{64}$\<close>.\<close>

lemma length_sha256_hex [simp]: "length (sha256_hex b) = 64"
  by (simp add: sha256_hex_def Let_def)

lemma sha256_hex_shape: "rx_match (Rep is_lower_hex 64 64) (sha256_hex b)"
  by (simp add: match_Rep) (simp add: sha256_hex_def Let_def hex_word_lower)

end
