(* ===== verification/Run_Domain.thy ===== *)
theory Run_Domain
  imports Contract Urls Digest
begin

text \<open>
  Package \<open>internal/run\<close>: the Run snapshot, its revision-checked lifecycle transition
  and cancellation (\<open>domain.go\<close>), reconciliation leases (\<open>claims.go\<close>), artifact
  references (\<open>artifact.go\<close>) and benchmark reservations (\<open>benchmark.go\<close>). Pointers
  are options; \<open>Clone\<close> copies a value and is the identity here.
\<close>

section \<open>Snapshots and requests (domain.go)\<close>

datatype execution_target =
    ExecutionTargetKubernetes | ExecutionTargetNativeLinux | ExecutionTargetLegacyWindows
  | ExecutionTargetUnknown string

definition ExecutionTarget_Valid :: "execution_target \<Rightarrow> bool" where
  "ExecutionTarget_Valid target =
    (target = ExecutionTargetKubernetes \<or> target = ExecutionTargetNativeLinux
     \<or> target = ExecutionTargetLegacyWindows)"

datatype failure_code =
    FailureCodeValidationFailed | FailureCodeInfrastructureError | FailureCodePipelineTimeout
  | FailureCodeToolError | FailureCodeAnalysisError | FailureCodeUnknown string

definition maxRunRevision :: int where
  "maxRunRevision = 9007199254740991"

fun acceptsFailure :: "run_state \<Rightarrow> failure_code \<Rightarrow> bool" where
  "acceptsFailure StateInvalid code = (code = FailureCodeValidationFailed)"
| "acceptsFailure StateTestFailure code = (code = FailureCodeToolError)"
| "acceptsFailure StateInfrastructureFailure code =
    (code = FailureCodeInfrastructureError \<or> code = FailureCodePipelineTimeout
     \<or> code = FailureCodeAnalysisError)"
| "acceptsFailure _ code = False"

definition requiresFailure :: "run_state \<Rightarrow> bool" where
  "requiresFailure s = (s = StateInvalid \<or> s = StateTestFailure \<or> s = StateInfrastructureFailure)"

record reference =
  ref_id :: string
  ref_version :: string
  ref_sha256 :: string

record candidate =
  cand_gitSha :: string
  cand_image :: string

record request =
  testSuite :: string
  catalogue :: reference
  profile :: string
  req_candidate :: candidate
  environment :: reference
  policy :: reference

record failure =
  f_code :: failure_code
  f_message :: string

record run =
  r_id :: string
  r_state :: run_state
  r_revision :: int
  r_request :: request
  r_createdAt :: time
  r_updatedAt :: time
  r_finishedAt :: "time option"
  r_toolExitCode :: "int option"
  r_failure :: "failure option"

subsection \<open>Request validation\<close>

text \<open>
  \<open>Request.Validate\<close> encodes the request as JSON and checks it against the pinned
  \<open>CreateRun\<close> schema. Every property of the schema is a required string, so the check
  is the conjunction of the schema's patterns and its profile enumeration.
\<close>

text \<open>\<open>^[a-z][a-z0-9-]{0,62}$\<close>, \<open>^[0-9]+\.[0-9]+\.[0-9]+$\<close>, \<open>^[a-f0-9]{40}$\<close>\<close>

definition name63_pattern :: rx where [pat_defs]:
  "name63_pattern = Seq (Cls is_lower) (Rep (\<lambda>c. is_lower_alnum c \<or> c = CHR ''-'') 0 62)"

definition dotted_version_pattern :: rx where [pat_defs]:
  "dotted_version_pattern = Seqs [Many1 is_digit, Lit ''.'', Many1 is_digit, Lit ''.'', Many1 is_digit]"

definition git_sha_pattern :: rx where [pat_defs]:
  "git_sha_pattern = Rep is_lower_hex 40 40"

text \<open>
  \<open>^[a-z0-9]+(?:[.-][a-z0-9]+)*(?::[0-9]+)?(?:/[a-z0-9]+(?:[._-]+[a-z0-9]+)*)+@sha256:[a-f0-9]{64}$\<close>
\<close>

definition image_component :: rx where [pat_defs]:
  "image_component = Seqs [Lit ''/'', Many1 is_lower_alnum,
     Star (Seq (Many1 (\<lambda>c. c \<in> set ''._-'')) (Many1 is_lower_alnum))]"

definition request_image_pattern :: rx where [pat_defs]:
  "request_image_pattern = Seqs [Many1 is_lower_alnum,
     Star (Seq (Cls (\<lambda>c. c \<in> set ''.-'')) (Many1 is_lower_alnum)),
     Opt (Seq (Lit '':'') (Many1 is_digit)), image_component, Star image_component,
     Lit ''@sha256:'', Rep is_lower_hex 64 64]"

definition Reference_valid :: "reference \<Rightarrow> bool" where
  "Reference_valid r = (rx_match name63_pattern (ref_id r) \<and> rx_match dotted_version_pattern (ref_version r)
     \<and> rx_match hash_pattern (ref_sha256 r))"

definition Candidate_valid :: "candidate \<Rightarrow> bool" where
  "Candidate_valid c = (rx_match git_sha_pattern (cand_gitSha c)
     \<and> rx_match request_image_pattern (cand_image c))"

definition Request_Validate :: "request \<Rightarrow> err + unit" where
  "Request_Validate r = check
     (rx_match name63_pattern (testSuite r) \<and> Reference_valid (catalogue r)
      \<and> profile r \<in> set [''smoke'', ''average'', ''regression'', ''stress'', ''capacity'', ''soak'']
      \<and> Candidate_valid (req_candidate r) \<and> Reference_valid (environment r)
      \<and> Reference_valid (policy r))"

text \<open>\<open>^[A-Za-z0-9][A-Za-z0-9._:-]{15,127}$\<close>\<close>

definition key_pattern :: rx where [pat_defs]:
  "key_pattern = Seq (Cls is_alnum) (Rep (\<lambda>c. is_alnum c \<or> c \<in> set ''._:-'') 15 127)"

definition ValidKey :: "string \<Rightarrow> bool" where
  "ValidKey key = rx_match key_pattern key"

subsection \<open>Lifecycle transition and cancellation\<close>

record change =
  c_state :: run_state
  c_failure :: "failure option"
  c_toolExitCode :: "int option"

definition to_state :: "run_state \<Rightarrow> change" where
  "to_state s = \<lparr>c_state = s, c_failure = None, c_toolExitCode = None\<rparr>"

definition failure_message_ok :: "string \<Rightarrow> bool" where
  "failure_message_ok m = (utf8_ValidString m \<and> 1 \<le> utf8_RuneCountInString m
     \<and> utf8_RuneCountInString m \<le> 1000)"

definition Run_Transition :: "run \<Rightarrow> int \<Rightarrow> change \<Rightarrow> time \<Rightarrow> err + run" where
  "Run_Transition r expected ch now =
    (if r_revision r \<noteq> expected then Inl ErrRevision
     else if maxRunRevision \<le> r_revision r \<or> \<not> CanTransition (r_state r) (c_state ch)
       then Inl ErrTransition
     else if (case c_toolExitCode ch of None \<Rightarrow> False | Some x \<Rightarrow> x < 0 \<or> 255 < x)
       then Inl ErrValidation
     else if (case c_failure ch of None \<Rightarrow> False
              | Some f \<Rightarrow> \<not> failure_message_ok (f_message f) \<or> \<not> acceptsFailure (c_state ch) (f_code f))
       then Inl ErrValidation
     else if requiresFailure (c_state ch) \<and> c_failure ch = None then Inl ErrValidation
     else
       (let updated = (if now < r_updatedAt r then r_updatedAt r else now)
        in Inr (r\<lparr>r_state := c_state ch,
                  r_revision := r_revision r + 1,
                  r_updatedAt := updated,
                  r_failure := c_failure ch,
                  r_toolExitCode := (case c_toolExitCode ch of None \<Rightarrow> r_toolExitCode r | Some x \<Rightarrow> Some x),
                  r_finishedAt := (if Terminal (c_state ch) then Some updated else r_finishedAt r)\<rparr>)))"

definition Run_RequestCancellation :: "run \<Rightarrow> time \<Rightarrow> err + run" where
  "Run_RequestCancellation r now =
    (if r_state r = StateCancelling \<or> r_state r = StateAborted then Inr r
     else if r_state r = StateCreated \<or> r_state r = StateValidating
       then Run_Transition r (r_revision r) (to_state StateAborted) now
     else if Terminal (r_state r) then Inl ErrTerminal
     else Run_Transition r (r_revision r) (to_state StateCancelling) now)"

record accepted =
  acc_run :: run
  acc_expiresAt :: time

subsection \<open>Well-formed snapshots\<close>

definition new_run :: "string \<Rightarrow> request \<Rightarrow> time \<Rightarrow> run" where
  "new_run i rq now = \<lparr>r_id = i, r_state = StateCreated, r_revision = 1, r_request = rq,
     r_createdAt = now, r_updatedAt = now, r_finishedAt = None, r_toolExitCode = None, r_failure = None\<rparr>"

definition run_wf :: "run \<Rightarrow> bool" where
  "run_wf r =
    (1 \<le> r_revision r \<and> r_revision r \<le> maxRunRevision \<and> transitions (r_state r) \<noteq> None
     \<and> r_createdAt r \<le> r_updatedAt r
     \<and> r_finishedAt r = (if Terminal (r_state r) then Some (r_updatedAt r) else None)
     \<and> (case r_toolExitCode r of None \<Rightarrow> True | Some x \<Rightarrow> 0 \<le> x \<and> x \<le> 255)
     \<and> (case r_failure r of
          None \<Rightarrow> \<not> requiresFailure (r_state r)
        | Some f \<Rightarrow> acceptsFailure (r_state r) (f_code f) \<and> failure_message_ok (f_message f)))"

lemma acceptsFailure_requires: "acceptsFailure s c \<Longrightarrow> requiresFailure s"
  by (cases s) (auto simp: requiresFailure_def)

lemma new_run_wf [simp]: "run_wf (new_run i rq now)"
  by (simp add: run_wf_def new_run_def maxRunRevision_def Terminal_iff requiresFailure_def)

text \<open>What a successful transition tells, as an elimination rule.\<close>

lemma Run_Transition_InrE:
  assumes "Run_Transition r e ch now = Inr r'"
  obtains "r_revision r = e" "r_revision r < maxRunRevision" "CanTransition (r_state r) (c_state ch)"
    "case c_toolExitCode ch of None \<Rightarrow> True | Some x \<Rightarrow> 0 \<le> x \<and> x \<le> 255"
    "case c_failure ch of None \<Rightarrow> \<not> requiresFailure (c_state ch)
     | Some f \<Rightarrow> failure_message_ok (f_message f) \<and> acceptsFailure (c_state ch) (f_code f)"
    "r' = r\<lparr>r_state := c_state ch, r_revision := r_revision r + 1,
            r_updatedAt := max (r_updatedAt r) now, r_failure := c_failure ch,
            r_toolExitCode := (case c_toolExitCode ch of None \<Rightarrow> r_toolExitCode r | Some x \<Rightarrow> Some x),
            r_finishedAt := (if Terminal (c_state ch) then Some (max (r_updatedAt r) now) else r_finishedAt r)\<rparr>"
proof
  show "r_revision r = e" "r_revision r < maxRunRevision" "CanTransition (r_state r) (c_state ch)"
    using assms by (auto simp: Run_Transition_def split: if_splits)
  show "case c_toolExitCode ch of None \<Rightarrow> True | Some x \<Rightarrow> 0 \<le> x \<and> x \<le> 255"
    using assms by (auto simp: Run_Transition_def split: if_splits option.splits)
  show "case c_failure ch of None \<Rightarrow> \<not> requiresFailure (c_state ch)
     | Some f \<Rightarrow> failure_message_ok (f_message f) \<and> acceptsFailure (c_state ch) (f_code f)"
    using assms by (auto simp: Run_Transition_def split: if_splits option.splits)
  have m: "(if now < r_updatedAt r then r_updatedAt r else now) = max (r_updatedAt r) now" by simp
  show "r' = r\<lparr>r_state := c_state ch, r_revision := r_revision r + 1,
            r_updatedAt := max (r_updatedAt r) now, r_failure := c_failure ch,
            r_toolExitCode := (case c_toolExitCode ch of None \<Rightarrow> r_toolExitCode r | Some x \<Rightarrow> Some x),
            r_finishedAt := (if Terminal (c_state ch) then Some (max (r_updatedAt r) now) else r_finishedAt r)\<rparr>"
    using assms unfolding Run_Transition_def m Let_def by (auto split: if_splits)
qed

lemma Run_Transition_wf:
  assumes "run_wf r" "Run_Transition r e ch now = Inr r'"
  shows "run_wf r'"
  using assms(2)
proof (rule Run_Transition_InrE)
  assume h: "r_revision r < maxRunRevision" "CanTransition (r_state r) (c_state ch)"
    "case c_toolExitCode ch of None \<Rightarrow> True | Some x \<Rightarrow> 0 \<le> x \<and> x \<le> 255"
    "case c_failure ch of None \<Rightarrow> \<not> requiresFailure (c_state ch)
     | Some f \<Rightarrow> failure_message_ok (f_message f) \<and> acceptsFailure (c_state ch) (f_code f)"
  assume r': "r' = r\<lparr>r_state := c_state ch, r_revision := r_revision r + 1,
            r_updatedAt := max (r_updatedAt r) now, r_failure := c_failure ch,
            r_toolExitCode := (case c_toolExitCode ch of None \<Rightarrow> r_toolExitCode r | Some x \<Rightarrow> Some x),
            r_finishedAt := (if Terminal (c_state ch) then Some (max (r_updatedAt r) now) else r_finishedAt r)\<rparr>"
  from h(2) have nt: "\<not> Terminal (r_state r)" using Terminal_no_transition by blast
  from h(2) have known: "transitions (c_state ch) \<noteq> None" using CanTransition_known by blast
  from assms(1) nt have "r_finishedAt r = None" by (simp add: run_wf_def)
  with assms(1) h known show ?thesis
    unfolding r' run_wf_def by (auto split: option.splits)
qed

lemma Run_Transition_monotone:
  assumes "Run_Transition r e ch now = Inr r'"
  shows "r_id r' = r_id r" "r_request r' = r_request r" "r_createdAt r' = r_createdAt r"
    "r_revision r' = r_revision r + 1" "r_updatedAt r \<le> r_updatedAt r'"
    "CanTransition (r_state r) (r_state r')" "stage (r_state r) < stage (r_state r')"
  by (rule Run_Transition_InrE [OF assms], simp add: CanTransition_stage)+

lemma Run_RequestCancellation_cases:
  assumes "Run_RequestCancellation r now = Inr r'"
  shows "r' = r \<or> Run_Transition r (r_revision r) (to_state (r_state r')) now = Inr r'"
proof -
  have "r_state x = s" if "Run_Transition r e (to_state s) now = Inr x" for e s x
    using that by (rule Run_Transition_InrE) (simp add: to_state_def)
  with assms show ?thesis
    by (auto simp: Run_RequestCancellation_def split: if_splits)
qed

section \<open>Reconciliation leases (claims.go)\<close>

text \<open>\<open>^[a-zA-Z0-9][a-zA-Z0-9._:-]{0,127}$\<close> and \<open>^[a-f0-9]{32}$\<close>\<close>

definition worker_pattern :: rx where [pat_defs]:
  "worker_pattern = Seq (Cls is_alnum) (Rep (\<lambda>c. is_alnum c \<or> c \<in> set ''._:-'') 0 127)"

definition token_pattern :: rx where [pat_defs]:
  "token_pattern = Rep is_lower_hex 32 32"

record lease =
  l_runID :: string
  l_principal :: string
  l_workerID :: string
  l_token :: string
  l_expiresAt :: time

definition Lease_Valid :: "lease \<Rightarrow> bool" where
  "Lease_Valid l = (ValidID (l_runID l) \<and> l_principal l \<noteq> [] \<and> rx_match worker_pattern (l_workerID l)
     \<and> rx_match token_pattern (l_token l))"

record claim =
  cl_lease :: lease
  cl_run :: run

definition ValidLeaseTTL :: "duration \<Rightarrow> bool" where
  "ValidLeaseTTL ttl = (seconds 5 \<le> ttl \<and> ttl \<le> minutes 5 \<and> ttl mod seconds 1 = 0)"

definition ValidRetryDelay :: "duration \<Rightarrow> bool" where
  "ValidRetryDelay delay = (0 \<le> delay \<and> delay \<le> minutes 5 \<and> delay mod seconds 1 = 0)"

definition ValidClaimOptions :: "string \<Rightarrow> int \<Rightarrow> duration \<Rightarrow> bool" where
  "ValidClaimOptions workerID limit ttl =
    (rx_match worker_pattern workerID \<and> 1 \<le> limit \<and> limit \<le> 100 \<and> ValidLeaseTTL ttl)"

lemma ValidLeaseTTL_pos: "ValidLeaseTTL ttl \<Longrightarrow> 0 < ttl"
  by (simp add: ValidLeaseTTL_def seconds_def)

section \<open>Artifact references (artifact.go)\<close>

record artifact =
  a_id :: string
  a_runID :: string
  a_kind :: string
  a_uri :: string
  a_sha256 :: string
  a_sizeBytes :: int
  a_mediaType :: string
  a_format :: string

text \<open>\<open>^[a-f0-9]{8}-[a-f0-9]{4}-[a-f0-9]{4}-[a-f0-9]{4}-[a-f0-9]{12}$\<close>\<close>

definition uuid_pattern :: rx where [pat_defs]:
  "uuid_pattern = Seqs [Rep is_lower_hex 8 8, Lit ''-'', Rep is_lower_hex 4 4, Lit ''-'',
     Rep is_lower_hex 4 4, Lit ''-'', Rep is_lower_hex 4 4, Lit ''-'', Rep is_lower_hex 12 12]"

text \<open>\<open>^[a-z0-9][a-z0-9!#$&^_.+-]*/[a-z0-9][a-z0-9!#$&^_.+-]*$\<close> and \<open>^[a-z0-9][a-z0-9./_-]*$\<close>\<close>

definition media_token :: rx where [pat_defs]:
  "media_token = Seq (Cls is_lower_alnum) (Star (Cls (\<lambda>c. is_lower_alnum c \<or> c \<in> set ''!#$&^_.+-'')))"

definition media_pattern :: rx where [pat_defs]:
  "media_pattern = Seqs [media_token, Lit ''/'', media_token]"

definition format_pattern :: rx where [pat_defs]:
  "format_pattern = Seq (Cls is_lower_alnum) (Star (Cls (\<lambda>c. is_lower_alnum c \<or> c \<in> set ''./_-'')))"

text \<open>\<open>^(s3|https)://[^\s?#]+$\<close>\<close>

definition uri_pattern :: rx where [pat_defs]:
  "uri_pattern = Seqs [Alt (Lit ''s3'') (Lit ''https''), Lit ''://'',
     Many1 (\<lambda>c. \<not> is_re_space c \<and> c \<noteq> CHR ''?'' \<and> c \<noteq> CHR ''#'')]"

definition uri_rest :: "string \<Rightarrow> string" where
  "uri_rest u = drop (if take 2 u = ''s3'' then 5 else 8) u"

definition Artifact_Validate :: "artifact \<Rightarrow> err + unit" where
  "Artifact_Validate a =
    (if \<not> rx_match uuid_pattern (a_id a) \<or> \<not> ValidID (a_runID a)
        \<or> (a_kind a \<noteq> ''raw'' \<and> a_kind a \<noteq> ''normalized'') \<or> \<not> rx_match hash_pattern (a_sha256 a)
        \<or> a_sizeBytes a < 0 \<or> \<not> rx_match media_pattern (a_mediaType a)
        \<or> \<not> rx_match format_pattern (a_format a) \<or> \<not> rx_match uri_pattern (a_uri a)
     then Inl ErrValidation
     else
       (case url_Parse (uri_rest (a_uri a)) of
          None \<Rightarrow> Inl ErrValidation
        | Some u \<Rightarrow> if url_Hostname u = [] \<or> u_user u then Inl ErrValidation else Inr ()))"

lemma Artifact_Validate_Inl: "Artifact_Validate a = Inl e \<Longrightarrow> e = ErrValidation"
  by (auto simp: Artifact_Validate_def split: if_splits option.splits)

section \<open>Benchmark reservations (benchmark.go)\<close>

record benchmark_intent =
  bi_targetID :: string
  bi_clusterUID :: string
  bi_plan :: bytes
  bi_planSHA256 :: string

definition BenchmarkDigest :: "bytes \<Rightarrow> string" where
  "BenchmarkDigest b = sha256_hex b"

definition ValidBenchmarkUID :: "string \<Rightarrow> bool" where
  "ValidBenchmarkUID u = rx_match uuid_pattern u"

definition max_bytes :: nat where
  "max_bytes = 1048576"

definition BenchmarkIntent_Valid :: "benchmark_intent \<Rightarrow> bool" where
  "BenchmarkIntent_Valid i =
    (length (bi_targetID i) \<le> 63 \<and> rx_match resource_id_pattern (bi_targetID i)
     \<and> ValidBenchmarkUID (bi_clusterUID i) \<and> 0 < length (bi_plan i) \<and> length (bi_plan i) \<le> max_bytes
     \<and> BenchmarkDigest (bi_plan i) = bi_planSHA256 i)"

definition BenchmarkIntent_Same :: "benchmark_intent \<Rightarrow> benchmark_intent \<Rightarrow> bool" where
  "BenchmarkIntent_Same i j =
    (bi_targetID i = bi_targetID j \<and> bi_clusterUID i = bi_clusterUID j
     \<and> bi_planSHA256 i = bi_planSHA256 j \<and> bi_plan i = bi_plan j)"

record benchmark_cleanup =
  bc_startedAt :: time
  bc_fencedAt :: "time option"
  bc_notBefore :: time
  bc_ready :: bool
  bc_next :: change
  bc_receipt :: "bytes option"
  bc_releasedAt :: "time option"

record benchmark_reservation =
  br_runID :: string
  br_intent :: benchmark_intent
  br_admission :: bytes
  br_namespaceUID :: string
  br_request :: bytes
  br_cleanup :: "benchmark_cleanup option"

definition BenchmarkCleanupGrace :: duration where
  "BenchmarkCleanupGrace = minutes 2"

record benchmark_cleanup_proof =
  bp_schemaVersion :: int
  bp_runID :: string
  bp_planSHA256 :: string
  bp_clusterUID :: string
  bp_namespaceUID :: string
  bp_executorStopped :: bool
  bp_workloadStopped :: bool
  bp_authorityRemoved :: bool
  bp_namespaceFenced :: bool

definition BenchmarkCleanupProof_Matches :: "benchmark_cleanup_proof \<Rightarrow> benchmark_reservation \<Rightarrow> bool" where
  "BenchmarkCleanupProof_Matches p r =
    (bp_schemaVersion p = 1 \<and> bp_runID p = br_runID r \<and> bp_planSHA256 p = bi_planSHA256 (br_intent r)
     \<and> bp_clusterUID p = bi_clusterUID (br_intent r) \<and> bp_namespaceUID p = br_namespaceUID r
     \<and> bp_executorStopped p \<and> bp_workloadStopped p \<and> bp_authorityRemoved p \<and> bp_namespaceFenced p)"

lemma BenchmarkIntent_Same_iff: "BenchmarkIntent_Same i j \<longleftrightarrow> i = j"
  by (auto simp: BenchmarkIntent_Same_def)

end
