(* ===== verification/Calendar.thy ===== *)
theory Calendar
  imports Contract Digest
begin

text \<open>
  \<open>time.Time.Format("20060102-150405")\<close> in UTC, which names new Runs. The civil date
  of a day number uses 400-year eras that start on 1 March.
\<close>

definition div_day :: "time \<Rightarrow> int" where
  "div_day t = t div seconds 86400"

definition second_of_day :: "time \<Rightarrow> int" where
  "second_of_day t = (t div seconds 1) mod 86400"

text \<open>
  Year of the era and day of the year (from 1 March) of a day of the era: centuries,
  then four-year cycles, then years, the last one of each group taking the leap day.
\<close>

definition year_day :: "int \<Rightarrow> int \<times> int" where
  "year_day doe =
    (let n100 = min 3 (doe div 36524); r = doe - 36524 * n100;
         n4 = r div 1461; r4 = r mod 1461; n1 = min 3 (r4 div 365)
     in (100 * n100 + 4 * n4 + n1, r4 - 365 * n1))"

definition civil_of_era :: "int \<Rightarrow> int \<Rightarrow> int \<times> int \<times> int" where
  "civil_of_era era doe =
    (let yd = year_day doe; mp = (5 * snd yd + 2) div 153;
         m = (if mp < 10 then mp + 3 else mp - 9)
     in (fst yd + 400 * era + (if m \<le> 2 then 1 else 0), m, snd yd - (153 * mp + 2) div 5 + 1))"

definition civil_from_days :: "int \<Rightarrow> int \<times> int \<times> int" where
  "civil_from_days days = civil_of_era ((days + 719468) div 146097) ((days + 719468) mod 146097)"

text \<open>Decimal digits, padded on the left with zeros.\<close>

fun digits_of :: "nat \<Rightarrow> string" where
  "digits_of n = (if n < 10 then [char_of (48 + n)] else digits_of (n div 10) @ [char_of (48 + n mod 10)])"

declare digits_of.simps [simp del]

definition pad_int :: "nat \<Rightarrow> int \<Rightarrow> string" where
  "pad_int w n =
    (let ds = digits_of (nat \<bar>n\<bar>)
     in (if n < 0 then ''-'' else []) @ replicate (w - length ds) CHR ''0'' @ ds)"

definition format_stamp :: "time \<Rightarrow> string" where
  "format_stamp t =
    (case civil_from_days (div_day t) of (y, m, d) \<Rightarrow>
       let s = second_of_day t
       in pad_int 4 y @ pad_int 2 m @ pad_int 2 d @ ''-''
          @ pad_int 2 (s div 3600) @ pad_int 2 (s mod 3600 div 60) @ pad_int 2 (s mod 60))"

text \<open>The identifier of a Run accepted at \<open>t\<close> with four random bytes.\<close>

definition run_id_of :: "time \<Rightarrow> u32 \<Rightarrow> string" where
  "run_id_of t suffix = ''perf-'' @ format_stamp t @ ''-'' @ hex_word suffix"

section \<open>Shape of the identifiers\<close>

lemma is_digit_char_of: "n < 10 \<Longrightarrow> is_digit (char_of (48 + n :: nat))"
  by (simp add: is_digit_def byte_def)

lemma digits_of_digits: "list_all is_digit (digits_of n)"
proof (induction n rule: digits_of.induct)
  case (1 n)
  then show ?case by (subst digits_of.simps) (simp add: is_digit_char_of)
qed

lemma length_digits_of: "0 < w \<Longrightarrow> n < 10 ^ w \<Longrightarrow> length (digits_of n) \<le> w"
proof (induction w arbitrary: n)
  case (Suc w)
  show ?case
  proof (cases "n < 10")
    case True
    then show ?thesis by (subst digits_of.simps) simp
  next
    case False
    with Suc.prems have "0 < w" "n div 10 < 10 ^ w" by (cases w; auto)+
    then have "length (digits_of (n div 10)) \<le> w" by (rule Suc.IH)
    with False show ?thesis by (subst digits_of.simps) simp
  qed
qed simp

lemma is_digit_0: "is_digit CHR ''0''"
  by (simp add: byte_classes)

lemma pad_int_shape:
  assumes "0 \<le> n" "n < 10 ^ w" "0 < w"
  shows "length (pad_int w n) = w \<and> list_all is_digit (pad_int w n)"
proof -
  have "nat n < 10 ^ w" using assms by (simp add: nat_less_iff)
  then have "length (digits_of (nat n)) \<le> w" using assms(3) by (intro length_digits_of)
  moreover have "list_all is_digit (replicate k CHR ''0'')" for k
    using is_digit_0 by (simp add: list_all_length)
  ultimately show ?thesis
    using assms by (auto simp: pad_int_def Let_def digits_of_digits)
qed

text \<open>
  A day of the era decomposes into its year and the day of that year; the years before
  it account for the leap days.
\<close>

lemma year_day_bounds:
  assumes "0 \<le> doe" "doe < 146097"
  shows "0 \<le> fst (year_day doe)" "fst (year_day doe) \<le> 399"
    "0 \<le> snd (year_day doe)" "snd (year_day doe) \<le> 365"
    "doe = 365 * fst (year_day doe) + fst (year_day doe) div 4 - fst (year_day doe) div 100
       + snd (year_day doe)"
proof -
  define n100 where "n100 = min 3 (doe div 36524)"
  define r where "r = doe - 36524 * n100"
  define n4 where "n4 = r div 1461"
  define r4 where "r4 = r mod 1461"
  define n1 where "n1 = min 3 (r4 div 365)"
  have yd: "year_day doe = (100 * n100 + 4 * n4 + n1, r4 - 365 * n1)"
    by (simp add: year_day_def Let_def n100_def r_def n4_def r4_def n1_def)
  have h100: "0 \<le> n100" "n100 \<le> 3" using assms by (auto simp: n100_def)
  have hr: "0 \<le> r" "r \<le> 36524"
    using assms unfolding r_def n100_def by linarith+
  have hn4: "0 \<le> n4" "n4 \<le> 24" using hr by (auto simp: n4_def)
  have r: "r = 1461 * n4 + r4" by (simp add: n4_def r4_def)
  have hr4: "0 \<le> r4" "r4 \<le> 1460" using pos_mod_bound [of 1461 r] by (auto simp: r4_def)
  have hn1: "0 \<le> n1" "n1 \<le> 3" using hr4 by (auto simp: n1_def)
  have hd: "0 \<le> r4 - 365 * n1" "r4 - 365 * n1 \<le> 365"
    using hr4 unfolding n1_def by linarith+
  have doe: "doe = 36524 * n100 + 1461 * n4 + r4" using r by (simp add: r_def)
  have q4: "(100 * n100 + 4 * n4 + n1) div 4 = 25 * n100 + n4"
    using hn1 by (intro int_div_pos_eq [of _ _ _ n1]) auto
  have q100: "(100 * n100 + 4 * n4 + n1) div 100 = n100"
    using hn1 hn4 by (intro int_div_pos_eq [of _ _ _ "4 * n4 + n1"]) auto
  have sum: "doe = 365 * (100 * n100 + 4 * n4 + n1) + (25 * n100 + n4) - n100 + (r4 - 365 * n1)"
    unfolding doe by (simp add: algebra_simps)
  show "0 \<le> fst (year_day doe)" "fst (year_day doe) \<le> 399"
    "0 \<le> snd (year_day doe)" "snd (year_day doe) \<le> 365"
    unfolding yd fst_conv snd_conv using h100 hn4 hn1 hd by linarith+
  show "doe = 365 * fst (year_day doe) + fst (year_day doe) div 4 - fst (year_day doe) div 100
       + snd (year_day doe)"
    unfolding yd fst_conv snd_conv q4 q100 by (rule sum)
qed

lemma div_facts: "0 < k \<Longrightarrow> k * (n div k) \<le> n" "0 < k \<Longrightarrow> n < k * (n div k) + (k::int)"
  using pos_mod_bound [of k n] pos_mod_sign [of k n] mult_div_mod_eq [of k n] by linarith+

lemma month_bounds:
  assumes "0 \<le> doy" "doy \<le> (365::int)" "mp = (5 * doy + 2) div 153"
  shows "0 \<le> mp" "mp \<le> 11"
    "0 \<le> doy - (153 * mp + 2) div 5 + 1" "doy - (153 * mp + 2) div 5 + 1 < 100"
    "10 \<le> mp \<Longrightarrow> 306 \<le> doy"
  using assms div_facts [of 153 "5 * doy + 2"] div_facts [of 5 "153 * mp + 2"] by linarith+

text \<open>Years 0 to 9999 in nanoseconds since the epoch.\<close>

definition four_digit_year :: "time \<Rightarrow> bool" where
  "four_digit_year t = (- seconds 62167219200 \<le> t \<and> t < seconds 253402300800)"

lemma civil_of_era_bounds:
  assumes doe: "0 \<le> doe" "doe < 146097"
    and range: "- 60 \<le> 146097 * era + doe" "146097 * era + doe < 3652365"
    and civil: "civil_of_era era doe = (y, m, d)"
  shows "0 \<le> y" "y < 10 ^ 4" "0 \<le> m" "m < 10\<^sup>2" "0 \<le> d" "d < 10\<^sup>2"
proof -
  obtain yoe doy where yd: "year_day doe = (yoe, doy)" by (cases "year_day doe")
  define mp where "mp = (5 * doy + 2) div 153"
  note b = year_day_bounds [OF doe, unfolded yd fst_conv snd_conv]
  note mb = month_bounds [OF b(3,4) mp_def]
  have y: "y = yoe + 400 * era + (if m \<le> 2 then 1 else 0)"
    and m: "m = (if mp < 10 then mp + 3 else mp - 9)" and d: "d = doy - (153 * mp + 2) div 5 + 1"
    using civil unfolding civil_of_era_def Let_def yd fst_conv snd_conv mp_def [symmetric] prod.inject
    by blast+
  have m2: "m \<le> 2 \<longleftrightarrow> 10 \<le> mp" using m mb(1,2) by simp
  show "0 \<le> m" "m < 10\<^sup>2" "0 \<le> d" "d < 10\<^sup>2" using m d mb by auto
  have era: "- 1 \<le> era" "era \<le> 24" using doe range by linarith+
  have y399: "doe = 145731 + doy" if "yoe = 399" using b(5) that by simp
  show "0 \<le> y"
  proof (cases "era = - 1")
    case True
    with range(1) have low: "146037 \<le> doe" by linarith
    have "yoe = 399"
    proof (rule ccontr)
      assume "yoe \<noteq> 399"
      with b(2) have le: "yoe \<le> 398" by simp
      have "yoe div 4 \<le> 99" "0 \<le> yoe div 100" using b(1,2) by linarith+
      with b(4,5) low le show False by linarith
    qed
    moreover from this y399 low have "306 \<le> doy" by linarith
    then have "10 \<le> mp" unfolding mp_def by linarith
    ultimately show ?thesis using y True m2 by simp
  next
    case False
    with era b(1) y show ?thesis by simp
  qed
  show "y < 10 ^ 4"
  proof (cases "era = 24 \<and> yoe = 399")
    case True
    with range(2) have "doe < 146037" by linarith
    with y399 True have "doy < 306" by linarith
    with mb(5) m2 have "\<not> m \<le> 2" by linarith
    with y True show ?thesis by simp
  next
    case False
    with era b(2) have "yoe + 400 * era \<le> 9998" by linarith
    with y show ?thesis by simp
  qed
qed

lemma civil_from_days_bounds:
  assumes "- 719528 \<le> days" "days < 2932897" "civil_from_days days = (y, m, d)"
  shows "0 \<le> y" "y < 10 ^ 4" "0 \<le> m" "m < 10\<^sup>2" "0 \<le> d" "d < 10\<^sup>2"
proof -
  define era doe where "era = (days + 719468) div 146097" and "doe = (days + 719468) mod 146097"
  have z: "146097 * era + doe = days + 719468"
    unfolding era_def doe_def by (rule mult_div_mod_eq)
  have doe: "0 \<le> doe" "doe < 146097" unfolding doe_def by simp_all
  have "- 60 \<le> 146097 * era + doe" "146097 * era + doe < 3652365"
    unfolding z using assms(1,2) by simp_all
  from civil_of_era_bounds [OF doe this]
  show "0 \<le> y" "y < 10 ^ 4" "0 \<le> m" "m < 10\<^sup>2" "0 \<le> d" "d < 10\<^sup>2"
    using assms(3) unfolding civil_from_days_def era_def doe_def by blast+
qed

lemma day_range:
  assumes "four_digit_year t"
  shows "- 719528 \<le> div_day t" "div_day t < 2932897"
proof -
  have "- 719528 * seconds 86400 \<le> t" "t < 2932897 * seconds 86400"
    using assms by (simp_all add: four_digit_year_def seconds_def)
  moreover have "seconds 86400 * div_day t \<le> t" "t < seconds 86400 * div_day t + seconds 86400"
    unfolding div_day_def by (intro div_facts; simp add: seconds_def)+
  ultimately show "- 719528 \<le> div_day t" "div_day t < 2932897"
    unfolding seconds_def by linarith+
qed

lemma second_range: "0 \<le> second_of_day t" "second_of_day t < 86400"
  by (simp_all add: second_of_day_def)

lemma match_Seqs_append:
  "rx_match r u \<Longrightarrow> rx_match (Seqs rs) v \<Longrightarrow> rx_match (Seqs (r # rs)) (u @ v)"
  by (auto simp: rx_match_lang)

lemma match_Lit [simp]: "rx_match (Lit u) u"
proof (induction u)
  case (Cons c u)
  have "rx_match (Lit (c # u)) (c # u) = rx_match (Seq (Cls ((=) c)) (Lit u)) (c # u)" by simp
  also have "\<dots> = rx_match (Lit u) u" unfolding match_Seq_Cls by simp
  finally show ?case using Cons.IH by simp
qed simp

lemma format_stamp_shape:
  assumes "four_digit_year t"
  shows "\<exists>u v. format_stamp t = u @ ''-'' @ v \<and> rx_match (Rep is_digit 8 8) u \<and> rx_match (Rep is_digit 6 6) v"
proof -
  obtain y m d where c: "civil_from_days (div_day t) = (y, m, d)" by (cases "civil_from_days (div_day t)")
  note b = civil_from_days_bounds [OF day_range [OF assms] c]
  define s where "s = second_of_day t"
  have s: "0 \<le> s" "s < 86400" using second_range by (auto simp: s_def)
  have hms: "0 \<le> s div 3600" "s div 3600 < 10\<^sup>2" "0 \<le> s mod 3600 div 60" "s mod 3600 div 60 < 10\<^sup>2"
    "0 \<le> s mod 60" "s mod 60 < 10\<^sup>2"
    using s pos_mod_bound [of 3600 s] pos_mod_bound [of 60 s] by (auto simp: div_less_iff_less_mult)
  have stamp: "format_stamp t = (pad_int 4 y @ pad_int 2 m @ pad_int 2 d) @ ''-'' @
      (pad_int 2 (s div 3600) @ pad_int 2 (s mod 3600 div 60) @ pad_int 2 (s mod 60))"
    by (simp add: format_stamp_def c s_def Let_def)
  have "rx_match (Rep is_digit 8 8) (pad_int 4 y @ pad_int 2 m @ pad_int 2 d)"
    using pad_int_shape [OF b(1,2)] pad_int_shape [OF b(3,4)] pad_int_shape [OF b(5,6)]
    by (simp add: match_Rep)
  moreover have "rx_match (Rep is_digit 6 6)
      (pad_int 2 (s div 3600) @ pad_int 2 (s mod 3600 div 60) @ pad_int 2 (s mod 60))"
    using pad_int_shape [OF hms(1,2)] pad_int_shape [OF hms(3,4)] pad_int_shape [OF hms(5,6)]
    by (simp add: match_Rep)
  ultimately show ?thesis using stamp by blast
qed

text \<open>Identifiers generated in years 0 to 9999 satisfy the pinned Run identifier pattern.\<close>

lemma run_id_of_valid:
  assumes "four_digit_year t"
  shows "ValidID (run_id_of t suffix)"
proof -
  obtain u v where stamp: "format_stamp t = u @ ''-'' @ v"
    and u: "rx_match (Rep is_digit 8 8) u" and v: "rx_match (Rep is_digit 6 6) v"
    using format_stamp_shape [OF assms] by blast
  have h: "rx_match (Rep is_lower_hex 8 8) (hex_word suffix)"
    by (simp add: match_Rep hex_word_lower)
  have "rx_match run_id_pattern (''perf-'' @ u @ ''-'' @ v @ ''-'' @ hex_word suffix @ [])"
    unfolding run_id_pattern_def by (intro match_Seqs_append match_Lit u v h) simp
  then show ?thesis by (simp add: ValidID_def run_id_of_def stamp)
qed

end
