(* ===== verification/Lifecycle_Spec.thy ===== *)
theory Lifecycle_Spec
  imports Run_Domain Calendar
begin

text \<open>
  The abstract specification of Run coordination, and the contracts of the stores.

  A store is seen as a map from Run identifiers to their owner and current snapshot.
  Whatever a store does, its view only ever changes by creating a fresh Run in
  \<open>CREATED\<close> or by one pinned lifecycle transition of one Run (\<open>life_step\<close>). The locale
  \<open>lifecycle_store\<close> states that contract; what callers rely on (owners never change,
  revisions only grow, terminal snapshots are frozen, a Run has at most ten revisions)
  is proved once in it. \<open>idempotent_store\<close> adds the contract of
  \<open>run.Repository.Accept\<close>, \<open>lease_store\<close> the fencing of \<open>run.ClaimRepository\<close>,
  \<open>artifact_store\<close> the contract of \<open>run.ArtifactRepository\<close>.
\<close>

type_synonym run_view = "string \<rightharpoonup> string \<times> run"

section \<open>Abstract lifecycle steps\<close>

inductive life_step :: "run_view \<Rightarrow> run_view \<Rightarrow> bool" where
  create: "v i = None \<Longrightarrow> p \<noteq> [] \<Longrightarrow> life_step v (v(i \<mapsto> (p, new_run i rq now)))"
| advance: "v i = Some (p, r) \<Longrightarrow> Run_Transition r e ch now = Inr r' \<Longrightarrow> life_step v (v(i \<mapsto> (p, r')))"

abbreviation life_steps :: "run_view \<Rightarrow> run_view \<Rightarrow> bool" where
  "life_steps \<equiv> life_step\<^sup>*\<^sup>*"

lemma life_steps_advance [intro]:
  "v i = Some (p, r) \<Longrightarrow> Run_Transition r e ch now = Inr r' \<Longrightarrow> life_steps v (v(i \<mapsto> (p, r')))"
  by (intro r_into_rtranclp life_step.advance)

lemma life_steps_cancel [intro]:
  "v i = Some (p, r) \<Longrightarrow> Run_RequestCancellation r now = Inr r' \<Longrightarrow> life_steps v (v(i \<mapsto> (p, r')))"
  using Run_RequestCancellation_cases [of r now r'] life_steps_advance
  by (metis fun_upd_triv rtranclp.rtrancl_refl)

text \<open>How one Run may differ between two moments of its life.\<close>

definition evolves :: "run \<Rightarrow> run \<Rightarrow> bool" where
  "evolves r r' =
    (r_id r' = r_id r \<and> r_request r' = r_request r \<and> r_createdAt r' = r_createdAt r
     \<and> r_updatedAt r \<le> r_updatedAt r' \<and> r_revision r \<le> r_revision r'
     \<and> r_revision r' - r_revision r \<le> int (stage (r_state r')) - int (stage (r_state r))
     \<and> (r_revision r' = r_revision r \<longrightarrow> r' = r)
     \<and> (Terminal (r_state r) \<longrightarrow> r' = r))"

lemma evolves_refl [simp]: "evolves r r"
  by (simp add: evolves_def)

lemma evolves_trans:
  assumes "evolves a b" "evolves b c"
  shows "evolves a c"
proof -
  have "r_revision c = r_revision a \<Longrightarrow> c = a"
    using assms unfolding evolves_def by (metis order_antisym)
  with assms show ?thesis unfolding evolves_def by auto
qed

lemma evolves_transition:
  assumes "Run_Transition r e ch now = Inr r'"
  shows "evolves r r'"
proof -
  have "\<not> Terminal (r_state r)"
    using Run_Transition_monotone(6) [OF assms] Terminal_no_transition by blast
  with Run_Transition_monotone [OF assms] show ?thesis by (simp add: evolves_def)
qed

lemma life_step_evolves:
  assumes "life_step v v'" "v i = Some (p, r)"
  shows "\<exists>r'. v' i = Some (p, r') \<and> evolves r r'"
  using assms by cases (auto intro: evolves_transition)

lemma life_steps_evolves:
  assumes "life_steps v v'" "v i = Some (p, r)"
  shows "\<exists>r'. v' i = Some (p, r') \<and> evolves r r'"
  using assms
proof (induction rule: rtranclp_induct)
  case base
  then show ?case by auto
next
  case (step v1 v2)
  then show ?case by (meson evolves_trans life_step_evolves)
qed

text \<open>Invariant of the view: rows agree with their key, have an owner and are well formed.\<close>

definition view_ok :: "run_view \<Rightarrow> bool" where
  "view_ok v = (\<forall>i p r. v i = Some (p, r) \<longrightarrow>
     r_id r = i \<and> p \<noteq> [] \<and> run_wf r \<and> r_revision r \<le> 1 + int (stage (r_state r)))"

lemma view_ok_empty [simp]: "view_ok Map.empty"
  by (simp add: view_ok_def)

lemma view_okD:
  "view_ok v \<Longrightarrow> v i = Some (p, r) \<Longrightarrow>
    r_id r = i \<and> p \<noteq> [] \<and> run_wf r \<and> r_revision r \<le> 1 + int (stage (r_state r))"
  by (simp add: view_ok_def)

lemma life_step_ok: "life_step v v' \<Longrightarrow> view_ok v \<Longrightarrow> view_ok v'"
proof (induction rule: life_step.induct)
  case (create v i p rq now)
  then show ?case by (auto simp: view_ok_def) (simp_all add: new_run_def)
next
  case (advance v i p r e ch now r')
  have ok: "r_id r = i" "p \<noteq> []" "run_wf r" "r_revision r \<le> 1 + int (stage (r_state r))"
    using view_okD [OF advance.prems advance.hyps(1)] by auto
  from advance.hyps(2) ok(3) have "run_wf r'" by (rule Run_Transition_wf [rotated])
  with Run_Transition_monotone [OF advance.hyps(2)] ok advance.prems show ?case
    by (auto simp: view_ok_def)
qed

lemma life_steps_ok: "life_steps v v' \<Longrightarrow> view_ok v \<Longrightarrow> view_ok v'"
  by (induction rule: rtranclp_induct) (auto intro: life_step_ok)

section \<open>Contract of a store\<close>

text \<open>
  \<open>step op s\<close> is the state after one complete call, whatever it returned.
\<close>

locale lifecycle_store =
  fixes view :: "'s \<Rightarrow> run_view"
    and step :: "'op \<Rightarrow> 's \<Rightarrow> 's"
    and init :: 's
  assumes view_init: "view init = Map.empty"
    and step_refines: "life_steps (view s) (view (step op s))"
begin

lemma calls_refine: "life_steps (view s) (view (fold step ops s))"
proof (induction ops arbitrary: s)
  case (Cons op ops)
  from step_refines [of s op] Cons.IH [of "step op s"] show ?case by simp
qed simp

lemma reachable_ok: "view_ok (view (fold step ops init))"
  using life_steps_ok [OF calls_refine [of init]] by (simp add: view_init)

lemma reachable_bounded:
  assumes "view (fold step ops init) i = Some (p, r)"
  shows "1 \<le> r_revision r \<and> r_revision r \<le> 10"
  using view_okD [OF reachable_ok assms] stage_le_9 [of "r_state r"] by (auto simp: run_wf_def)

lemma owner_and_request_fixed:
  assumes "view s i = Some (p, r)"
  shows "\<exists>r'. view (fold step ops s) i = Some (p, r') \<and> evolves r r'"
  using life_steps_evolves [OF calls_refine assms] .

lemma terminal_frozen:
  assumes "view s i = Some (p, r)" "Terminal (r_state r)"
  shows "view (fold step ops s) i = Some (p, r)"
  using owner_and_request_fixed [OF assms(1), of ops] assms(2) by (auto simp: evolves_def)

end

text \<open>
  \<open>Accept\<close> binds a principal and key to the original acceptance and execution target.
  \<open>bound\<close> reads the binding, \<open>op_time\<close> the instant a call reads from the clock.
  \<open>accept_op e p k rq t\<close> is the call, \<open>answer\<close> its result where it returned one.
\<close>

locale idempotent_store = lifecycle_store view step init
  for view :: "'s \<Rightarrow> run_view" and step :: "'op \<Rightarrow> 's \<Rightarrow> 's" and init :: 's +
  fixes bound :: "'s \<Rightarrow> string \<Rightarrow> string \<Rightarrow> (accepted \<times> execution_target) option"
    and op_time :: "'op \<Rightarrow> time"
    and healthy :: "'op \<Rightarrow> bool"
    and accept_op :: "'e \<Rightarrow> string \<Rightarrow> string \<Rightarrow> request \<Rightarrow> execution_target \<Rightarrow> 'op"
    and answer :: "'op \<Rightarrow> 's \<Rightarrow> (err + accepted) option"
  assumes binding_kept:
      "bound s p k = Some (a, t) \<Longrightarrow> op_time op < acc_expiresAt a \<Longrightarrow> bound (step op s) p k = Some (a, t)"
    and accept_binds:
      "answer (accept_op e p k rq t) s = Some (Inr a) \<Longrightarrow>
        bound (step (accept_op e p k rq t) s) p k = Some (a, t)"
    and accept_keeps_request:
      "answer (accept_op e p k rq t) s = Some (Inr a) \<Longrightarrow> r_request (acc_run a) = rq"
    and accept_replay:
      "bound s p k = Some (a, t') \<Longrightarrow> healthy (accept_op e p k rq t) \<Longrightarrow>
        op_time (accept_op e p k rq t) < acc_expiresAt a \<Longrightarrow>
        answer (accept_op e p k rq t) s =
          Some (if r_request (acc_run a) = rq \<and> t' = t then Inr a else Inl ErrConflict)
        \<and> step (accept_op e p k rq t) s = s"
begin

lemma calls_keep_binding:
  assumes "bound s p k = Some (a, t)" "\<forall>op\<in>set ops. op_time op < acc_expiresAt a"
  shows "bound (fold step ops s) p k = Some (a, t)"
  using assms
proof (induction ops arbitrary: s)
  case (Cons op ops)
  then show ?case using binding_kept [of s p k a t op] by simp
qed simp

text \<open>
  A live replay after any sequence of other calls returns the original acceptance and
  changes nothing; the same key with another request or target is a conflict.
\<close>

lemma replay_returns_original:
  assumes acc: "answer (accept_op e p k rq t) s = Some (Inr a)"
    and live: "\<forall>op\<in>set ops. op_time op < acc_expiresAt a"
    and h: "healthy (accept_op e' p k rq' t')" "op_time (accept_op e' p k rq' t') < acc_expiresAt a"
  defines "s' \<equiv> fold step ops (step (accept_op e p k rq t) s)"
  shows "answer (accept_op e' p k rq' t') s' =
           Some (if rq' = rq \<and> t' = t then Inr a else Inl ErrConflict)
         \<and> step (accept_op e' p k rq' t') s' = s'"
proof -
  have "bound s' p k = Some (a, t)"
    unfolding s'_def using accept_binds [OF acc] live by (rule calls_keep_binding)
  from accept_replay [OF this h] accept_keeps_request [OF acc] show ?thesis by auto
qed

end

text \<open>
  Lease fencing. \<open>lease_at s i\<close> is the worker, token and expiry of the lease row of Run
  \<open>i\<close>, \<open>op_lease\<close> the lease a call presents, \<open>op_clock op i\<close> the instant a call reads
  for Run \<open>i\<close>. A live lease changes hands only through its own token, and a call that
  presents a lease which is not the live one has no effect at all.
\<close>

definition holds_lease :: "lease \<Rightarrow> time \<Rightarrow> (string \<times> string \<times> time) option \<Rightarrow> bool" where
  "holds_lease l now row = (\<exists>e. row = Some (l_workerID l, l_token l, e) \<and> now < e)"

locale lease_store =
  fixes step :: "'op \<Rightarrow> 's \<Rightarrow> 's"
    and lease_at :: "'s \<Rightarrow> string \<Rightarrow> (string \<times> string \<times> time) option"
    and op_lease :: "'op \<Rightarrow> lease option"
    and op_clock :: "'op \<Rightarrow> string \<Rightarrow> time"
  assumes live_kept:
      "lease_at s i = Some (w, tok, e) \<Longrightarrow> op_clock op i < e \<Longrightarrow>
        (\<forall>l. op_lease op = Some l \<longrightarrow> l_runID l = i \<longrightarrow> l_token l \<noteq> tok) \<Longrightarrow>
        lease_at (step op s) i = Some (w, tok, e)"
    and fenced:
      "op_lease op = Some l \<Longrightarrow> \<not> holds_lease l (op_clock op (l_runID l)) (lease_at s (l_runID l)) \<Longrightarrow>
        step op s = s"
begin

lemma exclusive:
  assumes "lease_at s i = Some (w, tok, e)"
    and "\<forall>op\<in>set ops. op_clock op i < e \<and> (\<forall>l. op_lease op = Some l \<longrightarrow> l_runID l = i \<longrightarrow> l_token l \<noteq> tok)"
  shows "lease_at (fold step ops s) i = Some (w, tok, e)"
  using assms
proof (induction ops arbitrary: s)
  case (Cons op ops)
  then show ?case using live_kept [of s i w tok e op] by simp
qed simp

text \<open>
  While a lease is live, whole call sequences of workers that present other tokens for
  its Run are without effect.
\<close>

lemma stale_calls_ignored:
  assumes "lease_at s i = Some (w, tok, e)"
    and "\<forall>op\<in>set ops. \<exists>l. op_lease op = Some l \<and> l_runID l = i \<and> l_token l \<noteq> tok"
  shows "fold step ops s = s"
  using assms(2)
proof (induction ops)
  case (Cons op ops)
  then obtain l where l: "op_lease op = Some l" "l_runID l = i" "l_token l \<noteq> tok" by auto
  then have "step op s = s" using fenced [OF l(1), of s] assms(1) by (simp add: holds_lease_def)
  with Cons show ?case by simp
qed simp

end

text \<open>
  Durable rows: a row under a key is never removed and only changes along a preorder
  \<open>ev\<close>, such as equality for write-once rows.
\<close>

locale evolving_rows =
  fixes row :: "'s \<Rightarrow> 'k \<rightharpoonup> 'v"
    and step :: "'op \<Rightarrow> 's \<Rightarrow> 's"
    and inv :: "'s \<Rightarrow> bool"
    and ev :: "'v \<Rightarrow> 'v \<Rightarrow> bool"
  assumes ev_refl: "ev v v"
    and ev_trans: "ev u v \<Longrightarrow> ev v w \<Longrightarrow> ev u w"
    and step_inv: "inv s \<Longrightarrow> inv (step op s)"
    and step_row: "inv s \<Longrightarrow> row s k = Some v \<Longrightarrow> \<exists>v'. row (step op s) k = Some v' \<and> ev v v'"
begin

lemma calls_inv: "inv s \<Longrightarrow> inv (fold step ops s)"
  by (induction ops arbitrary: s) (simp_all add: step_inv)

lemma calls_evolve: "inv s \<Longrightarrow> row s k = Some v \<Longrightarrow> \<exists>v'. row (fold step ops s) k = Some v' \<and> ev v v'"
proof (induction ops arbitrary: s v)
  case Nil
  then show ?case using ev_refl by auto
next
  case (Cons op ops)
  from step_row [OF Cons.prems, of op] obtain v1 where v1: "row (step op s) k = Some v1" "ev v v1" by blast
  from Cons.IH [OF step_inv [OF Cons.prems(1)] v1(1)] v1(2) ev_trans show ?case by auto
qed

end

text \<open>
  The registration loop of the collection stage: stop at the first error.
\<close>

fun register_all :: "(artifact \<Rightarrow> 's \<Rightarrow> (err + unit) \<times> 's) \<Rightarrow> artifact list \<Rightarrow> 's \<Rightarrow> (err + unit) \<times> 's" where
  "register_all reg [] s = (Inr (), s)"
| "register_all reg (a # as) s =
    (case reg a s of (Inl e, s') \<Rightarrow> (Inl e, s') | (Inr _, s') \<Rightarrow> register_all reg as s')"

definition canonical :: "artifact \<Rightarrow> artifact" where
  "canonical a = a\<lparr>a_id := to_lower (a_id a)\<rparr>"

text \<open>
  Evidence registration: a reference is written once under its identifier and is then
  immutable; registering it again is a no-op, and what a call (or another client between
  two calls) stored stays. \<open>e\<close> is whatever else a call depends on.
\<close>

locale artifact_store =
  fixes stored :: "'s \<Rightarrow> string \<rightharpoonup> artifact"
    and register :: "'e \<Rightarrow> string \<Rightarrow> artifact \<Rightarrow> 's \<Rightarrow> (err + unit) \<times> 's"
  assumes register_keeps: "register e p a s = (res, s') \<Longrightarrow> stored s \<subseteq>\<^sub>m stored s'"
    and register_ok:
      "register e p a s = (Inr u, s') \<Longrightarrow>
        Artifact_Validate (canonical a) = Inr () \<and> stored s' (a_id (canonical a)) = Some (canonical a)"
begin

lemma register_immutable:
  "stored s i = Some a \<Longrightarrow> register e p b s = (res, s') \<Longrightarrow> stored s' i = Some a"
  using register_keeps [of e p b s res s'] by (force simp: map_le_def dom_def)

text \<open>Other evidence under a used identifier is never accepted.\<close>

lemma register_conflict:
  assumes "stored s (a_id (canonical a)) = Some b" "b \<noteq> canonical a"
  shows "\<exists>x s'. register e p a s = (Inl x, s')"
proof -
  obtain res s' where c: "register e p a s = (res, s')" by force
  have "stored s' (a_id (canonical a)) = Some b" using assms(1) c by (rule register_immutable)
  with c assms(2) register_ok [of e p a s _ s'] show ?thesis by (cases res) auto
qed

lemma register_all_keeps:
  "register_all (register e p) bs s = (res, s') \<Longrightarrow> stored s \<subseteq>\<^sub>m stored s'"
proof (induction bs arbitrary: s)
  case (Cons b bs)
  obtain x s1 where b: "register e p b s = (x, s1)" by force
  then have "stored s \<subseteq>\<^sub>m stored s1" by (rule register_keeps)
  with Cons.IH [of s1] Cons.prems b show ?case by (auto split: sum.splits intro: map_le_trans)
qed simp

text \<open>After a successful loop every reference of the list is stored.\<close>

lemma register_all_stores:
  "register_all (register e p) bs s = (Inr u, s') \<Longrightarrow> b \<in> set bs \<Longrightarrow>
    stored s' (a_id (canonical b)) = Some (canonical b) \<and> Artifact_Validate (canonical b) = Inr ()"
proof (induction bs arbitrary: s)
  case (Cons c bs)
  obtain x s1 where c: "register e p c s = (x, s1)" by force
  with Cons.prems(1) obtain v where x: "x = Inr v" and rest: "register_all (register e p) bs s1 = (Inr u, s')"
    by (auto split: sum.splits)
  show ?case
  proof (cases "b \<in> set bs")
    case True
    with Cons.IH [OF rest] show ?thesis by blast
  next
    case False
    with Cons.prems(2) have "b = c" by simp
    with register_ok [OF c [unfolded x]] register_all_keeps [OF rest] show ?thesis
      by (force simp: map_le_def dom_def)
  qed
qed simp

end

end
