(* ===== verification/Pg_Store.thy ===== *)
theory Pg_Store
  imports Lifecycle_Spec
begin

text \<open>
  Package \<open>internal/postgres\<close>, the tables, transactions and Run operations:
  \<open>database.go\<close>, \<open>repository.go\<close> and \<open>artifacts.go\<close>. A table is an association list on
  its primary key whose values are the decoded columns.

  Every method runs one transaction that first takes the row lock of its Run (or the
  advisory lock of its key), so methods are atomic. \<open>transact\<close> runs such a transaction
  under a fault: it may fail before the commit, and a failing commit may or may not have
  persisted the writes. \<open>now\<close> is \<open>clock_timestamp()\<close> read under the lock.
\<close>

section \<open>Tables\<close>

record run_row =
  rr_principal :: string
  rr_target :: execution_target
  rr_snapshot :: run

record binding_row =
  bn_runID :: string
  bn_original :: run
  bn_expiresAt :: time

record lease_row =
  lr_worker :: string
  lr_token :: string
  lr_expiresAt :: time
  lr_availableAt :: time

record execution =
  x_runID :: string
  x_namespace :: string
  x_jobName :: string
  x_uid :: string
  x_specSHA256 :: string

record reservation_row =
  rv_intent :: benchmark_intent
  rv_admission :: bytes
  rv_namespaceUID :: "string option"
  rv_request :: "bytes option"
  rv_createdAt :: time
  rv_cleanupStartedAt :: "time option"
  rv_cleanupFencedAt :: "time option"
  rv_cleanupNotBefore :: "time option"
  rv_cleanupChange :: "change option"
  rv_cleanupReceipt :: "bytes option"
  rv_releasedAt :: "time option"

record db =
  d_runs :: "(string, run_row) table"
  d_bindings :: "(string \<times> string, binding_row) table"
  d_artifacts :: "(string, artifact) table"
  d_leases :: "(string, lease_row) table"
  d_executions :: "(string, execution) table"
  d_reservations :: "(string, reservation_row) table"

definition db_empty :: db where
  "db_empty = \<lparr>d_runs = [], d_bindings = [], d_artifacts = [], d_leases = [], d_executions = [],
     d_reservations = []\<rparr>"

section \<open>Storage errors and transactions (database.go)\<close>

datatype db_error = NoRows | CtxCanceled | CtxDeadline | PgError string | ConnError

definition validSQLState :: "string \<Rightarrow> bool" where
  "validSQLState code = (length code = 5 \<and> list_all (\<lambda>c. is_digit c \<or> is_upper c) code)"

fun storageError :: "db_error \<Rightarrow> err" where
  "storageError NoRows = ErrNotFound"
| "storageError CtxCanceled = ErrCanceled"
| "storageError CtxDeadline = ErrDeadlineExceeded"
| "storageError (PgError code) =
    (if \<not> validSQLState code then ErrOther ''postgres operation failed''
     else if take 2 code \<in> {''08'', ''53'', ''57''} \<or> code \<in> {''55P03'', ''40001'', ''40P01'', ''23505''}
       then ErrUnavailable
     else ErrPostgres code)"
| "storageError ConnError = ErrUnavailable"

text \<open>
  \<open>TxFails\<close>: \<open>begin\<close> or a statement fails and the transaction rolls back.
  \<open>TxCommitFails x persisted\<close>: the commit reports \<open>x\<close>; the flag says what really happened.
\<close>

datatype tx_fault = TxOk | TxFails db_error | TxCommitFails db_error bool

datatype ('a, 'd) tx_result = Abort err | Rollback 'a | Commit 'a 'd

definition transact :: "tx_fault \<Rightarrow> ('d \<Rightarrow> ('a, 'd) tx_result) \<Rightarrow> 'd \<Rightarrow> (err + 'a) \<times> 'd" where
  "transact fault body d =
    (case fault of
       TxFails x \<Rightarrow> (Inl (storageError x), d)
     | _ \<Rightarrow>
       (case body d of
          Abort e \<Rightarrow> (Inl e, d)
        | Rollback a \<Rightarrow> (Inr a, d)
        | Commit a d' \<Rightarrow>
            (case fault of
               TxCommitFails x persisted \<Rightarrow> (Inl (storageError x), if persisted then d' else d)
             | _ \<Rightarrow> (Inr a, d'))))"

lemma transact_cases:
  assumes "transact f body d = (res, d')"
  obtains (unchanged) "d' = d" "\<And>a. res = Inr a \<Longrightarrow> body d = Rollback a"
  | (committed) a where "body d = Commit a d'" "\<And>x. res = Inr x \<Longrightarrow> x = a"
proof (cases "body d")
  case (Abort e)
  with assms show ?thesis by (intro unchanged) (auto simp: transact_def split: tx_fault.splits)
next
  case (Rollback a)
  with assms show ?thesis by (intro unchanged) (auto simp: transact_def split: tx_fault.splits)
next
  case (Commit a d1)
  show ?thesis
  proof (cases f)
    case TxOk
    with assms Commit have "res = Inr a" "d' = d1" by (simp_all add: transact_def)
    then show ?thesis by (intro committed [of a]) (simp_all add: Commit)
  next
    case (TxFails x)
    with assms show ?thesis by (intro unchanged) (auto simp: transact_def)
  next
    case (TxCommitFails x persisted)
    with assms Commit have "res = Inl (storageError x)" "d' = (if persisted then d1 else d)"
      by (simp_all add: transact_def)
    then show ?thesis
      by (cases persisted; intro committed [of a] unchanged) (simp_all add: Commit)
  qed
qed

text \<open>A transaction that never returned an error was not disturbed by a fault.\<close>

lemma transact_Inr:
  assumes "transact f body d = (Inr a, d')"
  shows "body d = Commit a d' \<or> body d = Rollback a \<and> d' = d"
  using assms by (cases f; cases "body d") (auto simp: transact_def)

section \<open>Runs (repository.go)\<close>

definition insert_binding :: "string \<Rightarrow> string \<Rightarrow> binding_row \<Rightarrow> db \<Rightarrow> db" where
  "insert_binding p key b d = d\<lparr>d_bindings := tput (p, key) b (d_bindings d)\<rparr>"

text \<open>
  The insert of a new Run is rejected by the primary key (SQLSTATE 23505) and by the
  identifier check of the table (23514).
\<close>

definition pg_create :: "time \<Rightarrow> u32 \<Rightarrow> string \<Rightarrow> string \<Rightarrow> request \<Rightarrow> execution_target \<Rightarrow> db \<Rightarrow> (accepted, db) tx_result"
  where [store_defs]:
  "pg_create now suffix p key request target d =
    (let i = run_id_of now suffix; created = new_run i request now; expiry = now + 24 * minutes 60
     in if \<not> ValidID i then Abort (storageError (PgError ''23514''))
        else if map_of (d_runs d) i \<noteq> None then Abort (storageError (PgError ''23505''))
        else Commit \<lparr>acc_run = created, acc_expiresAt = expiry\<rparr>
          (insert_binding p key \<lparr>bn_runID = i, bn_original = created, bn_expiresAt = expiry\<rparr>
            (d\<lparr>d_runs := tput i \<lparr>rr_principal = p, rr_target = target, rr_snapshot = created\<rparr> (d_runs d)\<rparr>)))"

text \<open>The binding joined with its Run: the original snapshot, its expiry and target.\<close>

definition select_binding :: "string \<Rightarrow> string \<Rightarrow> db \<Rightarrow> (accepted \<times> execution_target) option" where
  "select_binding p key d =
    (case map_of (d_bindings d) (p, key) of
       None \<Rightarrow> None
     | Some b \<Rightarrow>
         (case map_of (d_runs d) (bn_runID b) of
            None \<Rightarrow> None
          | Some row \<Rightarrow>
              if rr_principal row = p
              then Some (\<lparr>acc_run = bn_original b, acc_expiresAt = bn_expiresAt b\<rparr>, rr_target row)
              else None))"

definition pg_Accept ::
  "tx_fault \<Rightarrow> time \<Rightarrow> u32 \<Rightarrow> string \<Rightarrow> string \<Rightarrow> request \<Rightarrow> execution_target \<Rightarrow> db \<Rightarrow> (err + accepted) \<times> db"
  where [store_defs]:
  "pg_Accept fault now suffix p key request target d =
    (if p = [] \<or> \<not> ValidKey key \<or> \<not> is_ok (Request_Validate request) \<or> \<not> ExecutionTarget_Valid target
     then (Inl ErrValidation, d)
     else transact fault (\<lambda>d.
       (case select_binding p key d of
          None \<Rightarrow> pg_create now suffix p key request target d
        | Some (previous, previousTarget) \<Rightarrow>
            if now < acc_expiresAt previous then
              (if r_request (acc_run previous) \<noteq> request \<or> previousTarget \<noteq> target then Abort ErrConflict
               else Rollback previous)
            else pg_create now suffix p key request target d)) d)"

definition lockedRun :: "string \<Rightarrow> string \<Rightarrow> db \<Rightarrow> err + run" where [store_defs]:
  "lockedRun p i d =
    (case map_of (d_runs d) i of
       None \<Rightarrow> Inl (storageError NoRows)
     | Some row \<Rightarrow> if rr_principal row = p then Inr (rr_snapshot row) else Inl (storageError NoRows))"

definition pg_Get :: "db_error option \<Rightarrow> string \<Rightarrow> string \<Rightarrow> db \<Rightarrow> err + run" where [store_defs]:
  "pg_Get fault p i d = (case fault of Some x \<Rightarrow> Inl (storageError x) | None \<Rightarrow> lockedRun p i d)"

definition put_snapshot :: "string \<Rightarrow> run \<Rightarrow> db \<Rightarrow> db" where [store_defs]:
  "put_snapshot i r d =
    (case map_of (d_runs d) i of
       None \<Rightarrow> d
     | Some row \<Rightarrow> d\<lparr>d_runs := tput i (row\<lparr>rr_snapshot := r\<rparr>) (d_runs d)\<rparr>)"

definition mutate ::
  "tx_fault \<Rightarrow> time \<Rightarrow> string \<Rightarrow> string \<Rightarrow> (run \<Rightarrow> time \<Rightarrow> err + run) \<Rightarrow> db \<Rightarrow> (err + run) \<times> db" where [store_defs]:
  "mutate fault now p i ch d =
    transact fault (\<lambda>d.
      (case lockedRun p i d of
         Inl e \<Rightarrow> Abort e
       | Inr current \<Rightarrow>
           (case ch current now of
              Inl e \<Rightarrow> Abort e
            | Inr next \<Rightarrow>
                if r_revision next = r_revision current then Rollback current
                else Commit next (put_snapshot i next d)))) d"

definition pg_Cancel :: "tx_fault \<Rightarrow> time \<Rightarrow> string \<Rightarrow> string \<Rightarrow> db \<Rightarrow> (err + run) \<times> db" where [store_defs]:
  "pg_Cancel fault now p i d = mutate fault now p i Run_RequestCancellation d"

definition pg_Advance :: "tx_fault \<Rightarrow> time \<Rightarrow> string \<Rightarrow> string \<Rightarrow> int \<Rightarrow> change \<Rightarrow> db \<Rightarrow> (err + run) \<times> db" where [store_defs]:
  "pg_Advance fault now p i revision ch d =
    mutate fault now p i (\<lambda>current t. Run_Transition current revision ch t) d"

section \<open>Artifacts (artifacts.go)\<close>

definition pg_RegisterArtifact :: "tx_fault \<Rightarrow> string \<Rightarrow> artifact \<Rightarrow> db \<Rightarrow> (err + unit) \<times> db" where [store_defs]:
  "pg_RegisterArtifact fault p a0 d =
    (let a = canonical a0
     in case Artifact_Validate a of
          Inl e \<Rightarrow> (Inl e, d)
        | Inr _ \<Rightarrow>
          transact fault (\<lambda>d.
            (case lockedRun p (a_runID a) d of
               Inl e \<Rightarrow> Abort e
             | Inr _ \<Rightarrow>
                 (case map_of (d_artifacts d) (a_id a) of
                    Some previous \<Rightarrow> if previous \<noteq> a then Abort ErrArtifactConflict else Commit () d
                  | None \<Rightarrow> Commit () (d\<lparr>d_artifacts := tput (a_id a) a (d_artifacts d)\<rparr>)))) d)"

definition pg_GetArtifact :: "db_error option \<Rightarrow> string \<Rightarrow> string \<Rightarrow> string \<Rightarrow> db \<Rightarrow> err + artifact" where [store_defs]:
  "pg_GetArtifact fault p runID i d =
    (case fault of Some x \<Rightarrow> Inl (storageError x)
     | None \<Rightarrow>
       (case lockedRun p runID d of
          Inl e \<Rightarrow> Inl e
        | Inr _ \<Rightarrow>
            (case map_of (d_artifacts d) (to_lower i) of
               None \<Rightarrow> Inl (storageError NoRows)
             | Some a \<Rightarrow> if a_runID a = runID then Inr a else Inl (storageError NoRows))))"

definition pg_ListArtifacts :: "db_error option \<Rightarrow> string \<Rightarrow> string \<Rightarrow> db \<Rightarrow> err + artifact list" where [store_defs]:
  "pg_ListArtifacts fault p runID d =
    (case fault of Some x \<Rightarrow> Inl (storageError x)
     | None \<Rightarrow>
       (case lockedRun p runID d of
          Inl _ \<Rightarrow> Inl ErrNotFound
        | Inr _ \<Rightarrow> Inr (sort_key a_id (filter (\<lambda>a. a_runID a = runID) (map snd (d_artifacts d))))))"

end
