(* ===== verification/Pg_Claims.thy ===== *)
theory Pg_Claims
  imports Pg_Store "HOL-Library.Product_Lexorder" "HOL-Library.Option_ord"
begin

text \<open>
  Package \<open>internal/postgres\<close>, the durable reconciliation leases (\<open>claims.go\<close>) and the
  Kubernetes execution identities bound under them (\<open>executions.go\<close>). A lease row is
  retained after expiry; its opaque token fences every write a worker makes.
\<close>

section \<open>Reconciliation leases (claims.go)\<close>

text \<open>An unreleased benchmark reservation keeps a terminal Run eligible.\<close>

definition held :: "string \<Rightarrow> db \<Rightarrow> bool" where [store_defs]:
  "held i d = (case map_of (d_reservations d) i of None \<Rightarrow> False | Some rv \<Rightarrow> rv_releasedAt rv = None)"

definition active_state :: "run_state \<Rightarrow> bool" where
  "active_state s = (s \<in> set [StateCreated, StateValidating, StateProvisioning, StateWarmingUp, StateRunning,
     StateCollecting, StateAnalyzing, StateReporting, StateCancelling])"

text \<open>
  The \<open>WHERE\<close> clause for one Run row against the lease and reservation rows of the
  statement's snapshot \<open>old\<close>; \<open>q i\<close> are the two readings of \<open>clock_timestamp()\<close> the row
  is tested with.
\<close>

definition claim_candidate :: "(string \<Rightarrow> time \<times> time) \<Rightarrow> db \<Rightarrow> string \<times> run_row \<Rightarrow> bool" where [store_defs]:
  "claim_candidate q old row =
    (rr_target (snd row) = ExecutionTargetKubernetes
     \<and> (active_state (r_state (rr_snapshot (snd row))) \<or> held (fst row) old)
     \<and> (case map_of (d_leases old) (fst row) of
          None \<Rightarrow> True
        | Some l \<Rightarrow> lr_expiresAt l \<le> fst (q (fst row))
            \<and> (lr_availableAt l \<le> snd (q (fst row)) \<or> r_state (rr_snapshot (snd row)) = StateCancelling)))"

text \<open>\<open>ORDER BY\<close>: cancelling first, then availability with nulls first, then identifier.\<close>

definition claim_key :: "db \<Rightarrow> string \<times> run_row \<Rightarrow> bool \<times> time option \<times> string" where [store_defs]:
  "claim_key old row =
    (r_state (rr_snapshot (snd row)) \<noteq> StateCancelling,
     map_option lr_availableAt (map_of (d_leases old) (fst row)), fst row)"

text \<open>
  \<open>FOR UPDATE OF r SKIP LOCKED\<close> under READ COMMITTED: rows are chosen and ordered in the
  snapshot \<open>old\<close>, rows locked by others (\<open>skip\<close>) are passed over, and the condition is
  tested again on the latest version of a locked Run row, with the lease and reservation
  rows still those of the snapshot. The limit counts the rows that are returned.
\<close>

definition lockClaimCandidates ::
  "(string \<Rightarrow> time \<times> time) \<Rightarrow> (string \<Rightarrow> bool) \<Rightarrow> nat \<Rightarrow> db \<Rightarrow> db \<Rightarrow> (string \<times> run) list" where [store_defs]:
  "lockClaimCandidates q skip limit old d =
    (let chosen = filter (\<lambda>row. \<not> skip (fst row))
           (sort_key (claim_key old) (filter (claim_candidate q old) (d_runs old)));
         locked = List.map_filter (\<lambda>row. map_option (Pair (fst row)) (map_of (d_runs d) (fst row))) chosen
     in map (\<lambda>row. (rr_principal (snd row), rr_snapshot (snd row)))
          (take limit (filter (claim_candidate q old) locked)))"

definition lease_blocked :: "run \<Rightarrow> time \<Rightarrow> db \<Rightarrow> bool" where [store_defs]:
  "lease_blocked r now d =
    (case map_of (d_leases d) (r_id r) of
       None \<Rightarrow> False
     | Some l \<Rightarrow> now < lr_expiresAt l \<or> (r_state r \<noteq> StateCancelling \<and> now < lr_availableAt l))"

definition tryAcquireClaim ::
  "time \<Rightarrow> string \<Rightarrow> string \<times> run \<Rightarrow> string \<Rightarrow> duration \<Rightarrow> db \<Rightarrow> (claim \<times> db) option" where [store_defs]:
  "tryAcquireClaim now token cand workerID ttl d =
    (case cand of (p, r) \<Rightarrow>
       if lease_blocked r now d then None
       else
         (let l = \<lparr>l_runID = r_id r, l_principal = p, l_workerID = workerID, l_token = token,
                   l_expiresAt = now + ttl\<rparr>
          in Some (\<lparr>cl_lease = l, cl_run = r\<rparr>,
               d\<lparr>d_leases := tput (r_id r) \<lparr>lr_worker = workerID, lr_token = token,
                 lr_expiresAt = now + ttl, lr_availableAt = now\<rparr> (d_leases d)\<rparr>)))"

fun acquire_all ::
  "(string \<Rightarrow> time) \<Rightarrow> (string \<Rightarrow> string) \<Rightarrow> string \<Rightarrow> duration \<Rightarrow> (string \<times> run) list \<Rightarrow> db \<Rightarrow> claim list \<times> db" where
  "acquire_all clock tok w ttl [] d = ([], d)"
| "acquire_all clock tok w ttl (c # cs) d =
    (case tryAcquireClaim (clock (r_id (snd c))) (tok (r_id (snd c))) c w ttl d of
       None \<Rightarrow> acquire_all clock tok w ttl cs d
     | Some (cl, d') \<Rightarrow> (case acquire_all clock tok w ttl cs d' of (cls, d'') \<Rightarrow> (cl # cls, d'')))"

text \<open>
  What one \<open>ClaimRuns\<close> call sees of its environment: the snapshot of the candidate
  statement (possibly older than the state the locks see), its clock readings, rows
  locked elsewhere, the instant and the random token of each acquisition.
\<close>

record claim_env =
  ce_snapshot :: db
  ce_query :: "string \<Rightarrow> time \<times> time"
  ce_skip :: "string \<Rightarrow> bool"
  ce_clock :: "string \<Rightarrow> time"
  ce_token :: "string \<Rightarrow> string"

definition pg_ClaimRuns ::
  "tx_fault \<Rightarrow> claim_env \<Rightarrow> string \<Rightarrow> int \<Rightarrow> duration \<Rightarrow> db \<Rightarrow> (err + claim list) \<times> db" where [store_defs]:
  "pg_ClaimRuns fault env workerID limit ttl d =
    (if \<not> ValidClaimOptions workerID limit ttl then (Inl ErrValidation, d)
     else transact fault (\<lambda>d.
       (case acquire_all (ce_clock env) (ce_token env) workerID ttl
               (lockClaimCandidates (ce_query env) (ce_skip env) (nat limit) (ce_snapshot env) d) d of
          (claims, d') \<Rightarrow> Commit claims d')) d)"

definition lockOwnedClaim :: "time \<Rightarrow> lease \<Rightarrow> db \<Rightarrow> err + run" where [store_defs]:
  "lockOwnedClaim now l d =
    (case lockedRun (l_principal l) (l_runID l) d of
       Inl e \<Rightarrow> if e = ErrNotFound then Inl ErrLeaseLost else Inl e
     | Inr current \<Rightarrow>
         (case map_of (d_leases d) (l_runID l) of
            None \<Rightarrow> Inl ErrLeaseLost
          | Some row \<Rightarrow>
              if lr_worker row \<noteq> l_workerID l \<or> lr_token row \<noteq> l_token l \<or> \<not> now < lr_expiresAt row
              then Inl ErrLeaseLost
              else if Terminal (r_state current) \<and> \<not> held (l_runID l) d then Inl ErrLeaseLost
              else Inr current))"

definition update_lease :: "string \<Rightarrow> (lease_row \<Rightarrow> lease_row) \<Rightarrow> db \<Rightarrow> db" where [store_defs]:
  "update_lease i f d =
    (case map_of (d_leases d) i of
       None \<Rightarrow> d
     | Some row \<Rightarrow> d\<lparr>d_leases := tput i (f row) (d_leases d)\<rparr>)"

definition pg_RenewClaim :: "tx_fault \<Rightarrow> time \<Rightarrow> lease \<Rightarrow> duration \<Rightarrow> db \<Rightarrow> (err + claim) \<times> db" where [store_defs]:
  "pg_RenewClaim fault now l ttl d =
    (if \<not> Lease_Valid l \<or> \<not> ValidLeaseTTL ttl then (Inl ErrValidation, d)
     else transact fault (\<lambda>d.
       (case lockOwnedClaim now l d of
          Inl e \<Rightarrow> Abort e
        | Inr current \<Rightarrow>
            Commit \<lparr>cl_lease = l\<lparr>l_expiresAt := now + ttl\<rparr>, cl_run = current\<rparr>
              (update_lease (l_runID l) (\<lambda>row. row\<lparr>lr_expiresAt := now + ttl\<rparr>) d))) d)"

definition pg_ReleaseClaim :: "tx_fault \<Rightarrow> time \<Rightarrow> lease \<Rightarrow> duration \<Rightarrow> db \<Rightarrow> (err + unit) \<times> db" where [store_defs]:
  "pg_ReleaseClaim fault now l delay d =
    (if \<not> Lease_Valid l \<or> \<not> ValidRetryDelay delay then (Inl ErrValidation, d)
     else transact fault (\<lambda>d.
       (case lockOwnedClaim now l d of
          Inl e \<Rightarrow> Abort e
        | Inr _ \<Rightarrow>
            Commit () (update_lease (l_runID l)
              (\<lambda>row. row\<lparr>lr_expiresAt := now, lr_availableAt := now + delay\<rparr>) d))) d)"

definition expire_if_terminal :: "time \<Rightarrow> run \<Rightarrow> string \<Rightarrow> db \<Rightarrow> db" where [store_defs]:
  "expire_if_terminal now r i d =
    (if Terminal (r_state r) then update_lease i (\<lambda>row. row\<lparr>lr_expiresAt := now\<rparr>) d else d)"

definition pg_AdvanceClaim :: "tx_fault \<Rightarrow> time \<Rightarrow> lease \<Rightarrow> int \<Rightarrow> change \<Rightarrow> db \<Rightarrow> (err + run) \<times> db" where [store_defs]:
  "pg_AdvanceClaim fault now l revision ch d =
    (if \<not> Lease_Valid l then (Inl ErrValidation, d)
     else transact fault (\<lambda>d.
       (case lockOwnedClaim now l d of
          Inl e \<Rightarrow> Abort e
        | Inr current \<Rightarrow>
            (case Run_Transition current revision ch now of
               Inl e \<Rightarrow> Abort e
             | Inr next \<Rightarrow>
                 Commit next (expire_if_terminal now next (l_runID l) (put_snapshot (l_runID l) next d))))) d)"

section \<open>Execution identities (executions.go)\<close>

text \<open>
  \<open>dns\<close> stands for \<open>len(validation.IsDNS1123Label(x)) == 0\<close> of the Kubernetes libraries.
\<close>

definition Execution_Valid :: "(string \<Rightarrow> bool) \<Rightarrow> execution \<Rightarrow> bool" where
  "Execution_Valid dns x =
    (ValidID (x_runID x) \<and> x_jobName x = x_runID x \<and> dns (x_namespace x)
     \<and> rx_match worker_pattern (x_uid x) \<and> rx_match hash_pattern (x_specSHA256 x))"

definition getExecution :: "(string \<Rightarrow> bool) \<Rightarrow> string \<Rightarrow> db \<Rightarrow> err + execution option" where [store_defs]:
  "getExecution dns i d =
    (case map_of (d_executions d) i of
       None \<Rightarrow> Inr None
     | Some x \<Rightarrow> if Execution_Valid dns x then Inr (Some x)
                 else Inl (ErrOther ''invalid stored Kubernetes execution''))"

definition pg_BindExecution ::
  "(string \<Rightarrow> bool) \<Rightarrow> tx_fault \<Rightarrow> time \<Rightarrow> lease \<Rightarrow> execution \<Rightarrow> db \<Rightarrow> (err + unit) \<times> db" where [store_defs]:
  "pg_BindExecution dns fault now l x d =
    (if \<not> Lease_Valid l \<or> \<not> Execution_Valid dns x \<or> x_runID x \<noteq> l_runID l then (Inl ErrValidation, d)
     else transact fault (\<lambda>d.
       (case lockOwnedClaim now l d of
          Inl e \<Rightarrow> Abort e
        | Inr _ \<Rightarrow>
            (let d1 = (case map_of (d_executions d) (x_runID x) of
                         Some _ \<Rightarrow> d
                       | None \<Rightarrow> d\<lparr>d_executions := tput (x_runID x) x (d_executions d)\<rparr>)
             in case getExecution dns (x_runID x) d1 of
                  Inl e \<Rightarrow> Abort e
                | Inr None \<Rightarrow> Abort ErrExecutionConflict
                | Inr (Some stored) \<Rightarrow> if stored \<noteq> x then Abort ErrExecutionConflict else Commit () d1))) d)"

definition pg_GetExecution ::
  "(string \<Rightarrow> bool) \<Rightarrow> tx_fault \<Rightarrow> time \<Rightarrow> lease \<Rightarrow> db \<Rightarrow> (err + execution option) \<times> db" where [store_defs]:
  "pg_GetExecution dns fault now l d =
    (if \<not> Lease_Valid l then (Inl ErrValidation, d)
     else transact fault (\<lambda>d.
       (case lockOwnedClaim now l d of
          Inl e \<Rightarrow> Abort e
        | Inr _ \<Rightarrow> (case getExecution dns (l_runID l) d of Inl e \<Rightarrow> Abort e | Inr x \<Rightarrow> Commit x d))) d)"

end
