(* ===== verification/Pg_Benchmark.thy ===== *)
theory Pg_Benchmark
  imports Pg_Claims
begin

text \<open>
  Package \<open>internal/postgres\<close>, the exclusive holds on benchmark targets
  (\<open>benchmark_reservations.go\<close>) and their verified release (\<open>benchmark_cleanup.go\<close>),
  with the constraints of migrations 0017 and 0018. \<open>now\<close> is the clock read when the
  Run is locked, \<open>q\<close> the later reading inside the reservation query. \<open>proof_of\<close> stands
  for \<open>jsondocument.Valid\<close> and \<open>jsondocument.Decode\<close> on a receipt: the attestation it
  encodes, or \<open>None\<close>.
\<close>

section \<open>The reservation table\<close>

text \<open>The check constraints on a stored row.\<close>

definition benchmark_cleanup_shape :: "reservation_row \<Rightarrow> bool" where
  "benchmark_cleanup_shape rv =
    (case (rv_cleanupStartedAt rv, rv_cleanupNotBefore rv) of
       (Some started, Some notBefore) \<Rightarrow>
         started + minutes 2 \<le> notBefore \<and> rv_cleanupChange rv \<noteq> None
         \<and> (case rv_cleanupFencedAt rv of None \<Rightarrow> True
            | Some fenced \<Rightarrow> started \<le> fenced \<and> fenced + minutes 2 \<le> notBefore)
         \<and> (case rv_releasedAt rv of
              None \<Rightarrow> rv_cleanupReceipt rv = None
            | Some released \<Rightarrow> rv_cleanupFencedAt rv \<noteq> None \<and> notBefore \<le> released
                \<and> (case rv_cleanupReceipt rv of None \<Rightarrow> False
                   | Some b \<Rightarrow> 1 \<le> length b \<and> length b \<le> max_bytes))
     | (None, None) \<Rightarrow>
         rv_cleanupFencedAt rv = None \<and> rv_cleanupChange rv = None \<and> rv_cleanupReceipt rv = None
         \<and> rv_releasedAt rv = None
     | _ \<Rightarrow> False)"

definition reservation_check :: "reservation_row \<Rightarrow> bool" where
  "reservation_check rv =
    (benchmark_cleanup_shape rv \<and> (rv_request rv = None \<or> rv_namespaceUID rv \<noteq> None)
     \<and> (case rv_request rv of None \<Rightarrow> True | Some b \<Rightarrow> 1 \<le> length b \<and> length b \<le> max_bytes))"

text \<open>An \<open>UPDATE ... WHERE run_id = i\<close>: \<open>None\<close> when a check constraint rejects the new row.\<close>

definition update_reservation :: "string \<Rightarrow> (reservation_row \<Rightarrow> reservation_row) \<Rightarrow> db \<Rightarrow> db option" where [store_defs]:
  "update_reservation i f d =
    (case map_of (d_reservations d) i of
       None \<Rightarrow> Some d
     | Some rv \<Rightarrow>
         if reservation_check (f rv) then Some (d\<lparr>d_reservations := tput i (f rv) (d_reservations d)\<rparr>)
         else None)"

definition check_violation :: err where
  "check_violation = storageError (PgError ''23514'')"

definition update_or_abort :: "'a \<Rightarrow> db option \<Rightarrow> ('a, db) tx_result" where [store_defs]:
  "update_or_abort a r = (case r of None \<Rightarrow> Abort check_violation | Some d \<Rightarrow> Commit a d)"

text \<open>\<open>INSERT ... ON CONFLICT DO NOTHING\<close> against the primary key and the partial unique index.\<close>

definition target_held :: "string \<Rightarrow> db \<Rightarrow> bool" where [store_defs]:
  "target_held target d =
    list_ex (\<lambda>(i, rv). bi_targetID (rv_intent rv) = target \<and> rv_releasedAt rv = None) (d_reservations d)"

definition insert_reservation :: "time \<Rightarrow> string \<Rightarrow> benchmark_intent \<Rightarrow> bytes \<Rightarrow> db \<Rightarrow> db" where [store_defs]:
  "insert_reservation now i intent admission d =
    (if map_of (d_reservations d) i \<noteq> None \<or> target_held (bi_targetID intent) d then d
     else d\<lparr>d_reservations := tput i
       \<lparr>rv_intent = intent, rv_admission = admission, rv_namespaceUID = None, rv_request = None,
        rv_createdAt = now, rv_cleanupStartedAt = None, rv_cleanupFencedAt = None,
        rv_cleanupNotBefore = None, rv_cleanupChange = None, rv_cleanupReceipt = None,
        rv_releasedAt = None\<rparr> (d_reservations d)\<rparr>)"

section \<open>Reading a reservation\<close>

definition cleanup_ready :: "time \<Rightarrow> reservation_row \<Rightarrow> bool" where [store_defs]:
  "cleanup_ready q rv =
    (rv_cleanupFencedAt rv \<noteq> None \<and> (case rv_cleanupNotBefore rv of None \<Rightarrow> False | Some t \<Rightarrow> t \<le> q))"

definition read_cleanup :: "time \<Rightarrow> reservation_row \<Rightarrow> err + benchmark_cleanup option" where [store_defs]:
  "read_cleanup q rv =
    (case rv_cleanupStartedAt rv of
       None \<Rightarrow> Inr None
     | Some started \<Rightarrow>
         (case (rv_cleanupNotBefore rv, rv_cleanupChange rv) of
            (Some deadline, Some next) \<Rightarrow>
              if c_state next = StateUnknown [] then Inl (ErrOther ''invalid stored benchmark cleanup'')
              else Inr (Some \<lparr>bc_startedAt = started, bc_fencedAt = rv_cleanupFencedAt rv, bc_notBefore = deadline,
                     bc_ready = cleanup_ready q rv, bc_next = next, bc_receipt = rv_cleanupReceipt rv,
                     bc_releasedAt = rv_releasedAt rv\<rparr>)
          | _ \<Rightarrow> Inl (ErrOther ''invalid stored benchmark cleanup'')))"

definition readBenchmarkReservation :: "time \<Rightarrow> string \<Rightarrow> db \<Rightarrow> err + benchmark_reservation option" where [store_defs]:
  "readBenchmarkReservation q i d =
    (case map_of (d_reservations d) i of
       None \<Rightarrow> Inr None
     | Some rv \<Rightarrow>
         (case read_cleanup q rv of
            Inl e \<Rightarrow> Inl e
          | Inr cleanup \<Rightarrow>
              if \<not> BenchmarkIntent_Valid (rv_intent rv) \<or> rv_admission rv = []
                 \<or> (case rv_namespaceUID rv of None \<Rightarrow> False | Some u \<Rightarrow> \<not> ValidBenchmarkUID u)
              then Inl (ErrOther ''invalid stored benchmark reservation'')
              else Inr (Some \<lparr>br_runID = i, br_intent = rv_intent rv, br_admission = rv_admission rv,
                     br_namespaceUID = (case rv_namespaceUID rv of None \<Rightarrow> [] | Some u \<Rightarrow> u),
                     br_request = (case rv_request rv of None \<Rightarrow> [] | Some b \<Rightarrow> b),
                     br_cleanup = cleanup\<rparr>)))"

section \<open>Holding a target (benchmark_reservations.go)\<close>

definition benchmarkProvisioning :: "run \<Rightarrow> int \<Rightarrow> err + unit" where [store_defs]:
  "benchmarkProvisioning current revision =
    (if r_revision current \<noteq> revision then Inl ErrRevision
     else if r_state current \<noteq> StateProvisioning then Inl ErrTransition
     else Inr ())"

definition run_target :: "string \<Rightarrow> db \<Rightarrow> err + execution_target" where [store_defs]:
  "run_target i d =
    (case map_of (d_runs d) i of None \<Rightarrow> Inl (storageError NoRows) | Some row \<Rightarrow> Inr (rr_target row))"

definition pg_ReserveBenchmark ::
  "tx_fault \<Rightarrow> time \<Rightarrow> time \<Rightarrow> lease \<Rightarrow> int \<Rightarrow> benchmark_intent \<Rightarrow> bytes \<Rightarrow> db \<Rightarrow> (err + benchmark_reservation) \<times> db"
  where [store_defs]:
  "pg_ReserveBenchmark fault now q l revision intent admission d =
    (if \<not> Lease_Valid l \<or> revision < 1 \<or> \<not> BenchmarkIntent_Valid intent
        \<or> length admission < 1 \<or> max_bytes < length admission
     then (Inl ErrValidation, d)
     else transact fault (\<lambda>d.
       (case lockOwnedClaim now l d of
          Inl e \<Rightarrow> Abort e
        | Inr current \<Rightarrow>
          (case benchmarkProvisioning current revision of
             Inl e \<Rightarrow> Abort e
           | Inr _ \<Rightarrow>
             (case run_target (l_runID l) d of
                Inl e \<Rightarrow> Abort e
              | Inr target \<Rightarrow>
                  if target \<noteq> ExecutionTargetKubernetes then Abort ErrValidation
                  else
                    (let d1 = insert_reservation now (l_runID l) intent admission d
                     in case readBenchmarkReservation q (l_runID l) d1 of
                          Inl e \<Rightarrow> Abort e
                        | Inr None \<Rightarrow> Abort ErrTargetReserved
                        | Inr (Some stored) \<Rightarrow>
                            if \<not> BenchmarkIntent_Same (br_intent stored) intent then Abort ErrBenchmarkConflict
                            else if br_cleanup stored \<noteq> None then Abort ErrBenchmarkConflict
                            else Commit stored d1))))) d)"

definition pg_GetBenchmarkReservation ::
  "tx_fault \<Rightarrow> time \<Rightarrow> time \<Rightarrow> lease \<Rightarrow> db \<Rightarrow> (err + benchmark_reservation option) \<times> db" where [store_defs]:
  "pg_GetBenchmarkReservation fault now q l d =
    (if \<not> Lease_Valid l then (Inl ErrValidation, d)
     else transact fault (\<lambda>d.
       (case lockOwnedClaim now l d of
          Inl e \<Rightarrow> Abort e
        | Inr _ \<Rightarrow>
            (case readBenchmarkReservation q (l_runID l) d of Inl e \<Rightarrow> Abort e | Inr x \<Rightarrow> Commit x d))) d)"

text \<open>The two writes of \<open>materializeBenchmark\<close> on the stored value and its row.\<close>

definition materialize ::
  "string \<Rightarrow> string \<Rightarrow> bytes \<Rightarrow> benchmark_reservation \<Rightarrow> db \<Rightarrow> (benchmark_reservation, db) tx_result" where [store_defs]:
  "materialize i uid request stored d =
    (if uid \<noteq> [] then
       (if br_namespaceUID stored \<noteq> [] \<and> br_namespaceUID stored \<noteq> uid then Abort ErrBenchmarkConflict
        else update_or_abort (stored\<lparr>br_namespaceUID := uid\<rparr>)
          (update_reservation i (\<lambda>rv. rv\<lparr>rv_namespaceUID := Some uid\<rparr>) d))
     else
       (if br_namespaceUID stored = [] \<or> br_request stored \<noteq> [] \<and> br_request stored \<noteq> request
        then Abort ErrBenchmarkConflict
        else update_or_abort (stored\<lparr>br_request := request\<rparr>)
          (update_reservation i (\<lambda>rv. rv\<lparr>rv_request := Some request\<rparr>) d)))"

definition materializeBenchmark ::
  "tx_fault \<Rightarrow> time \<Rightarrow> time \<Rightarrow> lease \<Rightarrow> int \<Rightarrow> string \<Rightarrow> string \<Rightarrow> bytes \<Rightarrow> db \<Rightarrow> (err + benchmark_reservation) \<times> db"
  where [store_defs]:
  "materializeBenchmark fault now q l revision planSHA256 uid request d =
    (if \<not> Lease_Valid l \<or> revision < 1 then (Inl ErrValidation, d)
     else transact fault (\<lambda>d.
       (case lockOwnedClaim now l d of
          Inl e \<Rightarrow> Abort e
        | Inr current \<Rightarrow>
          (case benchmarkProvisioning current revision of
             Inl e \<Rightarrow> Abort e
           | Inr _ \<Rightarrow>
             (case readBenchmarkReservation q (l_runID l) d of
                Inl e \<Rightarrow> Abort e
              | Inr None \<Rightarrow> Abort ErrBenchmarkConflict
              | Inr (Some stored) \<Rightarrow>
                  if bi_planSHA256 (br_intent stored) \<noteq> planSHA256 \<or> br_cleanup stored \<noteq> None
                  then Abort ErrBenchmarkConflict
                  else materialize (l_runID l) uid request stored d)))) d)"

definition pg_BindBenchmarkNamespace ::
  "tx_fault \<Rightarrow> time \<Rightarrow> time \<Rightarrow> lease \<Rightarrow> int \<Rightarrow> string \<Rightarrow> string \<Rightarrow> db \<Rightarrow> (err + benchmark_reservation) \<times> db" where [store_defs]:
  "pg_BindBenchmarkNamespace fault now q l revision planSHA256 uid d =
    (if \<not> ValidBenchmarkUID uid then (Inl ErrValidation, d)
     else materializeBenchmark fault now q l revision planSHA256 uid [] d)"

definition pg_SealBenchmarkRequest ::
  "tx_fault \<Rightarrow> time \<Rightarrow> time \<Rightarrow> lease \<Rightarrow> int \<Rightarrow> string \<Rightarrow> bytes \<Rightarrow> db \<Rightarrow> (err + benchmark_reservation) \<times> db" where [store_defs]:
  "pg_SealBenchmarkRequest fault now q l revision planSHA256 request d =
    (if length request < 1 \<or> max_bytes < length request then (Inl ErrValidation, d)
     else materializeBenchmark fault now q l revision planSHA256 [] request d)"

section \<open>Verified release (benchmark_cleanup.go)\<close>

text \<open>The intended outcome as it is read back from its JSON encoding.\<close>

definition json_change :: "change \<Rightarrow> change" where
  "json_change ch = ch\<lparr>c_failure := map_option (\<lambda>f. f\<lparr>f_message := json_bytes (f_message f)\<rparr>) (c_failure ch)\<rparr>"

definition cleanup_outcome_ok :: "run \<Rightarrow> int \<Rightarrow> change \<Rightarrow> time \<Rightarrow> err + unit" where [store_defs]:
  "cleanup_outcome_ok current revision next now =
    (if Terminal (r_state current)
     then (if c_state next \<noteq> r_state current then Inl ErrTransition else Inr ())
     else if c_state next \<noteq> r_state current
     then (case Run_Transition current revision next now of Inl e \<Rightarrow> Inl e | Inr _ \<Rightarrow> Inr ())
     else if r_state current \<noteq> StateCollecting \<and> r_state current \<noteq> StateAnalyzing
             \<and> r_state current \<noteq> StateReporting
     then Inl ErrTransition
     else Inr ())"

definition pg_BeginBenchmarkCleanup ::
  "tx_fault \<Rightarrow> time \<Rightarrow> time \<Rightarrow> lease \<Rightarrow> int \<Rightarrow> string \<Rightarrow> change \<Rightarrow> db \<Rightarrow> (err + benchmark_reservation) \<times> db"
  where [store_defs]:
  "pg_BeginBenchmarkCleanup fault now q l revision planSHA256 next d =
    (if \<not> Lease_Valid l \<or> revision < 1 then (Inl ErrValidation, d)
     else transact fault (\<lambda>d.
       (case lockOwnedClaim now l d of
          Inl e \<Rightarrow> Abort e
        | Inr current \<Rightarrow>
          if r_revision current \<noteq> revision then Abort ErrRevision
          else (case readBenchmarkReservation q (l_runID l) d of
             Inl e \<Rightarrow> Abort e
           | Inr None \<Rightarrow> Abort ErrBenchmarkConflict
           | Inr (Some stored) \<Rightarrow>
             if bi_planSHA256 (br_intent stored) \<noteq> planSHA256 then Abort ErrBenchmarkConflict
             else (case br_cleanup stored of
                Some cleanup \<Rightarrow>
                  if bc_releasedAt cleanup \<noteq> None
                     \<or> r_state current \<noteq> StateCancelling \<and> bc_next cleanup \<noteq> next
                  then Abort ErrBenchmarkConflict else Commit stored d
              | None \<Rightarrow>
                  (case cleanup_outcome_ok current revision next now of
                     Inl e \<Rightarrow> Abort e
                   | Inr _ \<Rightarrow>
                     update_or_abort
                       (stored\<lparr>br_cleanup := Some \<lparr>bc_startedAt = now, bc_fencedAt = None,
                          bc_notBefore = now + BenchmarkCleanupGrace, bc_ready = False, bc_next = next,
                          bc_receipt = None, bc_releasedAt = None\<rparr>\<rparr>)
                       (update_reservation (l_runID l)
                          (\<lambda>rv. rv\<lparr>rv_cleanupStartedAt := Some now,
                             rv_cleanupNotBefore := Some (now + BenchmarkCleanupGrace),
                             rv_cleanupChange := Some (json_change next)\<rparr>) d)))))) d)"

definition pg_BindBenchmarkCleanupNamespace ::
  "tx_fault \<Rightarrow> time \<Rightarrow> time \<Rightarrow> lease \<Rightarrow> int \<Rightarrow> string \<Rightarrow> string \<Rightarrow> db \<Rightarrow> (err + benchmark_reservation) \<times> db"
  where [store_defs]:
  "pg_BindBenchmarkCleanupNamespace fault now q l revision planSHA256 uid d =
    (if \<not> Lease_Valid l \<or> revision < 1 \<or> \<not> ValidBenchmarkUID uid then (Inl ErrValidation, d)
     else transact fault (\<lambda>d.
       (case lockOwnedClaim now l d of
          Inl e \<Rightarrow> Abort e
        | Inr current \<Rightarrow>
          if r_revision current \<noteq> revision then Abort ErrRevision
          else (case readBenchmarkReservation q (l_runID l) d of
             Inl e \<Rightarrow> Abort e
           | Inr None \<Rightarrow> Abort ErrBenchmarkConflict
           | Inr (Some stored) \<Rightarrow>
             if bi_planSHA256 (br_intent stored) \<noteq> planSHA256
                \<or> (case br_cleanup stored of None \<Rightarrow> True | Some c \<Rightarrow> bc_releasedAt c \<noteq> None)
                \<or> br_namespaceUID stored \<noteq> [] \<and> br_namespaceUID stored \<noteq> uid
             then Abort ErrBenchmarkConflict
             else update_or_abort (stored\<lparr>br_namespaceUID := uid\<rparr>)
               (update_reservation (l_runID l) (\<lambda>rv. rv\<lparr>rv_namespaceUID := Some uid\<rparr>) d)))) d)"

definition pg_RecordBenchmarkCleanupFence ::
  "tx_fault \<Rightarrow> time \<Rightarrow> time \<Rightarrow> lease \<Rightarrow> int \<Rightarrow> string \<Rightarrow> db \<Rightarrow> (err + benchmark_reservation) \<times> db" where [store_defs]:
  "pg_RecordBenchmarkCleanupFence fault now q l revision planSHA256 d =
    (if \<not> Lease_Valid l \<or> revision < 1 then (Inl ErrValidation, d)
     else transact fault (\<lambda>d.
       (case lockOwnedClaim now l d of
          Inl e \<Rightarrow> Abort e
        | Inr current \<Rightarrow>
          if r_revision current \<noteq> revision then Abort ErrRevision
          else (case readBenchmarkReservation q (l_runID l) d of
             Inl e \<Rightarrow> Abort e
           | Inr None \<Rightarrow> Abort ErrBenchmarkConflict
           | Inr (Some stored) \<Rightarrow>
             if bi_planSHA256 (br_intent stored) \<noteq> planSHA256 then Abort ErrBenchmarkConflict
             else (case br_cleanup stored of
                None \<Rightarrow> Abort ErrBenchmarkConflict
              | Some c \<Rightarrow>
                if bc_releasedAt c \<noteq> None then Abort ErrBenchmarkConflict
                else if bc_fencedAt c \<noteq> None then Commit stored d
                else update_or_abort
                  (stored\<lparr>br_cleanup := Some (c\<lparr>bc_fencedAt := Some now,
                     bc_notBefore := now + BenchmarkCleanupGrace, bc_ready := False\<rparr>)\<rparr>)
                  (update_reservation (l_runID l)
                     (\<lambda>rv. rv\<lparr>rv_cleanupFencedAt := Some now,
                        rv_cleanupNotBefore := Some (now + BenchmarkCleanupGrace)\<rparr>) d))))) d)"

text \<open>The lifecycle outcome: cancellation wins, a terminal Run keeps its snapshot.\<close>

definition cleanup_next :: "run \<Rightarrow> int \<Rightarrow> change \<Rightarrow> time \<Rightarrow> err + run" where [store_defs]:
  "cleanup_next current revision stored_next now =
    (if Terminal (r_state current) then Inr current
     else
       (let ch = (if r_state current = StateCancelling then to_state StateAborted else stored_next)
        in if c_state ch \<noteq> r_state current then Run_Transition current revision ch now else Inr current))"

definition pg_FinishBenchmarkCleanup ::
  "(bytes \<Rightarrow> benchmark_cleanup_proof option) \<Rightarrow> tx_fault \<Rightarrow> time \<Rightarrow> time \<Rightarrow> lease \<Rightarrow> int \<Rightarrow> string \<Rightarrow> bytes \<Rightarrow> db
    \<Rightarrow> (err + run) \<times> db" where [store_defs]:
  "pg_FinishBenchmarkCleanup proof_of fault now q l revision planSHA256 receipt d =
    (if \<not> Lease_Valid l \<or> revision < 1 \<or> length receipt < 1 \<or> max_bytes < length receipt
     then (Inl ErrValidation, d)
     else transact fault (\<lambda>d.
       (case lockOwnedClaim now l d of
          Inl e \<Rightarrow> Abort e
        | Inr current \<Rightarrow>
          if r_revision current \<noteq> revision then Abort ErrRevision
          else (case readBenchmarkReservation q (l_runID l) d of
             Inl e \<Rightarrow> Abort e
           | Inr None \<Rightarrow> Abort ErrBenchmarkConflict
           | Inr (Some stored) \<Rightarrow>
             if bi_planSHA256 (br_intent stored) \<noteq> planSHA256 then Abort ErrBenchmarkConflict
             else (case br_cleanup stored of
                None \<Rightarrow> Abort ErrBenchmarkConflict
              | Some c \<Rightarrow>
                if bc_fencedAt c = None \<or> bc_releasedAt c \<noteq> None \<or> now < bc_notBefore c
                then Abort ErrBenchmarkConflict
                else if (case proof_of receipt of None \<Rightarrow> True
                         | Some p \<Rightarrow> \<not> BenchmarkCleanupProof_Matches p stored)
                then Abort ErrBenchmarkConflict
                else (case cleanup_next current revision (bc_next c) now of
                   Inl e \<Rightarrow> Abort e
                 | Inr next \<Rightarrow>
                   update_or_abort next
                     (map_option (expire_if_terminal now next (l_runID l))
                       (update_reservation (l_runID l)
                          (\<lambda>rv. rv\<lparr>rv_cleanupReceipt := Some receipt, rv_releasedAt := Some now\<rparr>)
                          (if Terminal (r_state current) then d else put_snapshot (l_runID l) next d)))))))) d)"

end
