(* ===== verification/Pg_Machine.thy ===== *)
theory Pg_Machine
  imports Pg_Benchmark
begin

text \<open>
  The Postgres repository as a state machine over all its writing methods, with every
  transaction fault and clock reading as an input of the call, and the proofs that it
  meets the store contracts: lifecycle refinement, idempotent acceptance, lease fencing
  and immutable artifacts.
\<close>

section \<open>Calls\<close>

datatype pg_op =
    PAccept "tx_fault \<times> time \<times> u32" string string request execution_target
  | PCancel tx_fault time string string
  | PAdvance tx_fault time string string int change
  | PRegisterArtifact tx_fault string artifact
  | PClaimRuns tx_fault claim_env string int duration
  | PRenewClaim tx_fault time lease duration
  | PReleaseClaim tx_fault time lease duration
  | PAdvanceClaim tx_fault time lease int change
  | PBindExecution "string \<Rightarrow> bool" tx_fault time lease execution
  | PReserve tx_fault time time lease int benchmark_intent bytes
  | PBindNamespace tx_fault time time lease int string string
  | PSealRequest tx_fault time time lease int string bytes
  | PBeginCleanup tx_fault time time lease int string change
  | PBindCleanupNamespace tx_fault time time lease int string string
  | PRecordFence tx_fault time time lease int string
  | PFinishCleanup "bytes \<Rightarrow> benchmark_cleanup_proof option" tx_fault time time lease int string bytes

fun pg_step :: "pg_op \<Rightarrow> db \<Rightarrow> db" where
  "pg_step (PAccept (f, now, w) p k rq t) d = snd (pg_Accept f now w p k rq t d)"
| "pg_step (PCancel f now p i) d = snd (pg_Cancel f now p i d)"
| "pg_step (PAdvance f now p i rv ch) d = snd (pg_Advance f now p i rv ch d)"
| "pg_step (PRegisterArtifact f p a) d = snd (pg_RegisterArtifact f p a d)"
| "pg_step (PClaimRuns f env w n ttl) d = snd (pg_ClaimRuns f env w n ttl d)"
| "pg_step (PRenewClaim f now l ttl) d = snd (pg_RenewClaim f now l ttl d)"
| "pg_step (PReleaseClaim f now l delay) d = snd (pg_ReleaseClaim f now l delay d)"
| "pg_step (PAdvanceClaim f now l rv ch) d = snd (pg_AdvanceClaim f now l rv ch d)"
| "pg_step (PBindExecution dns f now l x) d = snd (pg_BindExecution dns f now l x d)"
| "pg_step (PReserve f now q l rv intent adm) d = snd (pg_ReserveBenchmark f now q l rv intent adm d)"
| "pg_step (PBindNamespace f now q l rv plan uid) d = snd (pg_BindBenchmarkNamespace f now q l rv plan uid d)"
| "pg_step (PSealRequest f now q l rv plan b) d = snd (pg_SealBenchmarkRequest f now q l rv plan b d)"
| "pg_step (PBeginCleanup f now q l rv plan ch) d = snd (pg_BeginBenchmarkCleanup f now q l rv plan ch d)"
| "pg_step (PBindCleanupNamespace f now q l rv plan uid) d =
    snd (pg_BindBenchmarkCleanupNamespace f now q l rv plan uid d)"
| "pg_step (PRecordFence f now q l rv plan) d = snd (pg_RecordBenchmarkCleanupFence f now q l rv plan d)"
| "pg_step (PFinishCleanup pr f now q l rv plan b) d = snd (pg_FinishBenchmarkCleanup pr f now q l rv plan b d)"

text \<open>The instant a call reads while it holds the lock of Run \<open>i\<close>.\<close>

fun pg_clock :: "pg_op \<Rightarrow> string \<Rightarrow> time" where
  "pg_clock (PAccept (f, now, w) p k rq t) i = now"
| "pg_clock (PCancel f now p j) i = now"
| "pg_clock (PAdvance f now p j rv ch) i = now"
| "pg_clock (PRegisterArtifact f p a) i = 0"
| "pg_clock (PClaimRuns f env w n ttl) i = ce_clock env i"
| "pg_clock (PRenewClaim f now l ttl) i = now"
| "pg_clock (PReleaseClaim f now l delay) i = now"
| "pg_clock (PAdvanceClaim f now l rv ch) i = now"
| "pg_clock (PBindExecution dns f now l x) i = now"
| "pg_clock (PReserve f now q l rv intent adm) i = now"
| "pg_clock (PBindNamespace f now q l rv plan uid) i = now"
| "pg_clock (PSealRequest f now q l rv plan b) i = now"
| "pg_clock (PBeginCleanup f now q l rv plan ch) i = now"
| "pg_clock (PBindCleanupNamespace f now q l rv plan uid) i = now"
| "pg_clock (PRecordFence f now q l rv plan) i = now"
| "pg_clock (PFinishCleanup pr f now q l rv plan b) i = now"

text \<open>The lease a call presents.\<close>

fun pg_lease :: "pg_op \<Rightarrow> lease option" where
  "pg_lease (PAccept e p k rq t) = None"
| "pg_lease (PCancel f now p j) = None"
| "pg_lease (PAdvance f now p j rv ch) = None"
| "pg_lease (PRegisterArtifact f p a) = None"
| "pg_lease (PClaimRuns f env w n ttl) = None"
| "pg_lease (PRenewClaim f now l ttl) = Some l"
| "pg_lease (PReleaseClaim f now l delay) = Some l"
| "pg_lease (PAdvanceClaim f now l rv ch) = Some l"
| "pg_lease (PBindExecution dns f now l x) = Some l"
| "pg_lease (PReserve f now q l rv intent adm) = Some l"
| "pg_lease (PBindNamespace f now q l rv plan uid) = Some l"
| "pg_lease (PSealRequest f now q l rv plan b) = Some l"
| "pg_lease (PBeginCleanup f now q l rv plan ch) = Some l"
| "pg_lease (PBindCleanupNamespace f now q l rv plan uid) = Some l"
| "pg_lease (PRecordFence f now q l rv plan) = Some l"
| "pg_lease (PFinishCleanup pr f now q l rv plan b) = Some l"

definition pg_view :: "db \<Rightarrow> run_view" where
  "pg_view d i = map_option (\<lambda>row. (rr_principal row, rr_snapshot row)) (map_of (d_runs d) i)"

definition pg_lease_at :: "db \<Rightarrow> string \<Rightarrow> (string \<times> string \<times> time) option" where
  "pg_lease_at d i = map_option (\<lambda>row. (lr_worker row, lr_token row, lr_expiresAt row)) (map_of (d_leases d) i)"

section \<open>What a committed body changes\<close>

lemma transact_rel:
  assumes "R d d" "\<And>a d'. body d = Commit a d' \<Longrightarrow> R d d'"
  shows "R d (snd (transact f body d))"
proof -
  obtain res d' where t: "transact f body d = (res, d')" by force
  then show ?thesis by (cases rule: transact_cases) (use assms t in auto)
qed

lemma transact_stuck: "(\<And>a d'. body d \<noteq> Commit a d') \<Longrightarrow> snd (transact f body d) = d"
  by (rule transact_rel [where R = "\<lambda>d d'. d' = d"]) auto

lemma lockedRun_view: "lockedRun p i d = Inr r \<longleftrightarrow> pg_view d i = Some (p, r)"
  by (auto simp: lockedRun_def pg_view_def split: option.splits)

lemma lockOwnedClaim_Inr:
  "lockOwnedClaim now l d = Inr r \<longleftrightarrow>
    pg_view d (l_runID l) = Some (l_principal l, r) \<and> holds_lease l now (pg_lease_at d (l_runID l))
    \<and> (Terminal (r_state r) \<longrightarrow> held (l_runID l) d)"
proof (cases "lockedRun (l_principal l) (l_runID l) d")
  case (Inl e)
  then show ?thesis by (auto simp: lockOwnedClaim_def lockedRun_view [symmetric])
next
  case (Inr c)
  then show ?thesis
    by (auto simp: lockOwnedClaim_def lockedRun_view [symmetric] holds_lease_def pg_lease_at_def split: option.splits)
qed

lemma put_snapshot_view:
  "pg_view d i = Some (p, r) \<Longrightarrow> pg_view (put_snapshot i next d) = (pg_view d)(i \<mapsto> (p, next))"
  by (auto simp: put_snapshot_def pg_view_def fun_eq_iff split: option.splits)

lemma put_snapshot_frame [simp]:
  "d_leases (put_snapshot i r d) = d_leases d" "d_bindings (put_snapshot i r d) = d_bindings d"
  "d_artifacts (put_snapshot i r d) = d_artifacts d" "d_executions (put_snapshot i r d) = d_executions d"
  "d_reservations (put_snapshot i r d) = d_reservations d"
  by (auto simp: put_snapshot_def split: option.splits)

lemma update_lease_frame [simp]:
  "d_runs (update_lease i f d) = d_runs d" "d_bindings (update_lease i f d) = d_bindings d"
  "d_artifacts (update_lease i f d) = d_artifacts d" "d_executions (update_lease i f d) = d_executions d"
  "d_reservations (update_lease i f d) = d_reservations d"
  by (auto simp: update_lease_def split: option.splits)

lemma update_lease_other: "j \<noteq> i \<Longrightarrow> map_of (d_leases (update_lease i f d)) j = map_of (d_leases d) j"
  by (auto simp: update_lease_def split: option.splits)

lemma expire_frame [simp]:
  "d_runs (expire_if_terminal now r i d) = d_runs d" "d_bindings (expire_if_terminal now r i d) = d_bindings d"
  "d_artifacts (expire_if_terminal now r i d) = d_artifacts d"
  "d_executions (expire_if_terminal now r i d) = d_executions d"
  "d_reservations (expire_if_terminal now r i d) = d_reservations d"
  by (simp_all add: expire_if_terminal_def)

lemma update_reservation_frame:
  assumes "update_reservation i f d = Some d'"
  shows "d_runs d' = d_runs d" "d_bindings d' = d_bindings d" "d_artifacts d' = d_artifacts d"
    "d_executions d' = d_executions d" "d_leases d' = d_leases d"
  using assms by (auto simp: update_reservation_def split: option.splits if_splits)

lemma update_or_abort_Commit: "update_or_abort a r = Commit b d \<longleftrightarrow> a = b \<and> r = Some d"
  by (auto simp: update_or_abort_def split: option.splits)

lemma insert_reservation_frame [simp]:
  "d_runs (insert_reservation now i intent adm d) = d_runs d"
  "d_bindings (insert_reservation now i intent adm d) = d_bindings d"
  "d_leases (insert_reservation now i intent adm d) = d_leases d"
  "d_artifacts (insert_reservation now i intent adm d) = d_artifacts d"
  "d_executions (insert_reservation now i intent adm d) = d_executions d"
  by (simp_all add: insert_reservation_def)

lemma pg_view_cong: "d_runs d = d_runs d' \<Longrightarrow> pg_view d = pg_view d'"
  by (simp add: pg_view_def fun_eq_iff)

lemma pg_view_frame [simp]:
  "pg_view (d\<lparr>d_artifacts := as\<rparr>) = pg_view d" "pg_view (d\<lparr>d_leases := ls\<rparr>) = pg_view d"
  by (simp_all add: pg_view_def fun_eq_iff)

section \<open>Fenced calls\<close>

text \<open>
  The effect of every call that presents a lease: it owned the lease, its Run made at most
  one transition, and no other Run's rows, no binding and no artifact changed.
\<close>

definition one_transition :: "time \<Rightarrow> string \<Rightarrow> run \<Rightarrow> db \<Rightarrow> db \<Rightarrow> bool" where
  "one_transition now i r d d' =
    (d_runs d' = d_runs d \<or>
     (\<exists>rv ch r'. Run_Transition r rv ch now = Inr r' \<and> d_runs d' = d_runs (put_snapshot i r' d)))"

definition other_rows_kept :: "string \<Rightarrow> db \<Rightarrow> db \<Rightarrow> bool" where
  "other_rows_kept i d d' =
    (d_bindings d' = d_bindings d \<and> d_artifacts d' = d_artifacts d
     \<and> (\<forall>j. j \<noteq> i \<longrightarrow> map_of (d_leases d') j = map_of (d_leases d) j
         \<and> map_of (d_executions d') j = map_of (d_executions d) j
         \<and> map_of (d_reservations d') j = map_of (d_reservations d) j))"

definition fenced_effect :: "time \<Rightarrow> lease \<Rightarrow> db \<Rightarrow> db \<Rightarrow> bool" where
  "fenced_effect now l d d' =
    (d' = d \<or> (\<exists>r. lockOwnedClaim now l d = Inr r \<and> one_transition now (l_runID l) r d d'
      \<and> other_rows_kept (l_runID l) d d'))"

lemma fenced_effect_refl [simp]: "fenced_effect now l d d"
  by (simp add: fenced_effect_def)

lemma one_transition_refl: "d_runs d' = d_runs d \<Longrightarrow> one_transition now i r d d'"
  by (simp add: one_transition_def)

lemma fenced_effectI:
  "lockOwnedClaim now l d = Inr r \<Longrightarrow> one_transition now (l_runID l) r d d' \<Longrightarrow>
    other_rows_kept (l_runID l) d d' \<Longrightarrow> fenced_effect now l d d'"
  by (auto simp: fenced_effect_def)

lemma update_lease_kept [simp]: "other_rows_kept i d (update_lease i f d)"
  by (simp add: other_rows_kept_def update_lease_other)

lemma update_reservation_kept: "update_reservation i f d = Some d' \<Longrightarrow> other_rows_kept i d d'"
  by (auto simp: other_rows_kept_def update_reservation_def split: option.splits if_splits)

lemma insert_reservation_kept [simp]: "other_rows_kept i d (insert_reservation now i intent adm d)"
  by (simp add: other_rows_kept_def insert_reservation_def)

lemma expire_kept: "other_rows_kept i d d1 \<Longrightarrow> other_rows_kept i d (expire_if_terminal now r i d1)"
  by (simp add: other_rows_kept_def expire_if_terminal_def update_lease_other)

lemma put_snapshot_kept [simp]: "other_rows_kept i d (put_snapshot i r d)"
  by (simp add: other_rows_kept_def)

lemma other_rows_kept_refl [simp]: "other_rows_kept i d d"
  by (simp add: other_rows_kept_def)

lemma other_rows_kept_trans:
  "other_rows_kept i a b \<Longrightarrow> other_rows_kept i b c \<Longrightarrow> other_rows_kept i a c"
  by (simp add: other_rows_kept_def)

lemma update_reservation_effect:
  assumes "lockOwnedClaim now l d = Inr r" "update_reservation (l_runID l) f d = Some d'"
  shows "fenced_effect now l d d'"
  using assms update_reservation_frame(1) [OF assms(2)]
  by (intro fenced_effectI one_transition_refl update_reservation_kept)

lemma update_lease_effect:
  "lockOwnedClaim now l d = Inr r \<Longrightarrow> fenced_effect now l d (update_lease (l_runID l) f d)"
  by (erule fenced_effectI) (simp_all add: one_transition_def)

lemma RenewClaim_effect: "fenced_effect now l d (snd (pg_RenewClaim f now l ttl d))"
  unfolding pg_RenewClaim_def
  by (auto intro!: transact_rel [where R = "fenced_effect now l"] elim: update_lease_effect split: sum.splits)

lemma ReleaseClaim_effect: "fenced_effect now l d (snd (pg_ReleaseClaim f now l delay d))"
  unfolding pg_ReleaseClaim_def
  by (auto intro!: transact_rel [where R = "fenced_effect now l"] elim: update_lease_effect split: sum.splits)

lemma AdvanceClaim_effect: "fenced_effect now l d (snd (pg_AdvanceClaim f now l rv ch d))"
proof -
  have "fenced_effect now l d (expire_if_terminal now r' (l_runID l) (put_snapshot (l_runID l) r' d))"
    if "lockOwnedClaim now l d = Inr r" "Run_Transition r rv ch now = Inr r'" for r r'
    using that by (intro fenced_effectI expire_kept) (auto simp: one_transition_def)
  then show ?thesis
    unfolding pg_AdvanceClaim_def
    by (auto intro!: transact_rel [where R = "fenced_effect now l"] split: sum.splits)
qed

lemma BindExecution_effect: "fenced_effect now l d (snd (pg_BindExecution dns f now l x d))"
proof -
  have "fenced_effect now l d (d\<lparr>d_executions := tput (l_runID l) x (d_executions d)\<rparr>)"
    if "lockOwnedClaim now l d = Inr r" for r
    using that by (rule fenced_effectI) (simp_all add: one_transition_def other_rows_kept_def)
  then show ?thesis
    unfolding pg_BindExecution_def
    by (auto simp: Let_def intro!: transact_rel [where R = "fenced_effect now l"]
        split: sum.splits option.splits if_splits)
qed

lemma Reserve_effect: "fenced_effect now l d (snd (pg_ReserveBenchmark f now q l rv intent adm d))"
proof -
  have "fenced_effect now l d (insert_reservation now (l_runID l) intent adm d)"
    if "lockOwnedClaim now l d = Inr r" for r
    using that by (rule fenced_effectI) (simp_all add: one_transition_def)
  then show ?thesis
    unfolding pg_ReserveBenchmark_def
    by (auto simp: Let_def intro!: transact_rel [where R = "fenced_effect now l"]
        split: sum.splits option.splits if_splits)
qed

lemma materialize_Commit:
  "materialize i uid req stored d = Commit a d' \<Longrightarrow> \<exists>f. update_reservation i f d = Some d'"
  by (auto simp: materialize_def update_or_abort_Commit split: if_splits)

lemma materialize_effect: "fenced_effect now l d (snd (materializeBenchmark f now q l rv plan uid req d))"
  unfolding materializeBenchmark_def
  by (auto intro!: transact_rel [where R = "fenced_effect now l"] dest!: materialize_Commit
      elim: update_reservation_effect split: sum.splits option.splits if_splits)

lemma BindNamespace_effect: "fenced_effect now l d (snd (pg_BindBenchmarkNamespace f now q l rv plan uid d))"
  by (simp add: pg_BindBenchmarkNamespace_def materialize_effect)

lemma SealRequest_effect: "fenced_effect now l d (snd (pg_SealBenchmarkRequest f now q l rv plan b d))"
  by (simp add: pg_SealBenchmarkRequest_def materialize_effect)

lemma BeginCleanup_effect: "fenced_effect now l d (snd (pg_BeginBenchmarkCleanup f now q l rv plan ch d))"
  unfolding pg_BeginBenchmarkCleanup_def
  by (auto intro!: transact_rel [where R = "fenced_effect now l"] simp: update_or_abort_Commit
      elim: update_reservation_effect split: sum.splits option.splits if_splits)

lemma BindCleanupNamespace_effect:
  "fenced_effect now l d (snd (pg_BindBenchmarkCleanupNamespace f now q l rv plan uid d))"
  unfolding pg_BindBenchmarkCleanupNamespace_def
  by (auto intro!: transact_rel [where R = "fenced_effect now l"] simp: update_or_abort_Commit
      elim: update_reservation_effect split: sum.splits option.splits if_splits)

lemma RecordFence_effect: "fenced_effect now l d (snd (pg_RecordBenchmarkCleanupFence f now q l rv plan d))"
  unfolding pg_RecordBenchmarkCleanupFence_def
  by (auto intro!: transact_rel [where R = "fenced_effect now l"] simp: update_or_abort_Commit
      elim: update_reservation_effect split: sum.splits option.splits if_splits)

lemma cleanup_next_Inr:
  "cleanup_next r rv ch now = Inr r' \<Longrightarrow>
    r' = r \<or> (\<exists>ch'. Run_Transition r rv ch' now = Inr r')"
  by (auto simp: cleanup_next_def Let_def split: if_splits)

lemma finish_write_effect:
  assumes up: "update_reservation (l_runID l) f d0 = Some d1"
    and own: "lockOwnedClaim now l d = Inr r" and nx: "cleanup_next r rv ch now = Inr r'"
    and d0: "d0 = (if Terminal (r_state r) then d else put_snapshot (l_runID l) r' d)"
  shows "fenced_effect now l d (expire_if_terminal now r' (l_runID l) d1)"
proof (rule fenced_effectI [OF own])
  have "other_rows_kept (l_runID l) d d0" by (simp add: d0)
  with update_reservation_kept [OF up]
  show "other_rows_kept (l_runID l) d (expire_if_terminal now r' (l_runID l) d1)"
    by (blast intro: expire_kept other_rows_kept_trans)
  obtain row where row: "map_of (d_runs d) (l_runID l) = Some row" "rr_snapshot row = r"
    using own by (auto simp: lockOwnedClaim_Inr pg_view_def)
  have "one_transition now (l_runID l) r d d0"
    using cleanup_next_Inr [OF nx] row
    by (auto simp: d0 one_transition_def put_snapshot_def tput_def update_triv)
  then show "one_transition now (l_runID l) r d (expire_if_terminal now r' (l_runID l) d1)"
    by (simp add: one_transition_def update_reservation_frame(1) [OF up])
qed

lemma FinishCleanup_effect:
  "fenced_effect now l d (snd (pg_FinishBenchmarkCleanup pr f now q l rv plan b d))"
  unfolding pg_FinishBenchmarkCleanup_def
  by (auto intro!: transact_rel [where R = "fenced_effect now l"] simp: update_or_abort_Commit
      elim!: finish_write_effect split: sum.splits option.splits if_splits)

lemmas fenced_effects = RenewClaim_effect ReleaseClaim_effect AdvanceClaim_effect BindExecution_effect
  Reserve_effect BindNamespace_effect SealRequest_effect BeginCleanup_effect BindCleanupNamespace_effect
  RecordFence_effect FinishCleanup_effect

lemma fenced_call: "pg_lease op = Some l \<Longrightarrow> fenced_effect (pg_clock op (l_runID l)) l d (pg_step op d)"
  by (cases op) (auto simp: fenced_effects)

section \<open>Acceptance, cancellation and claiming\<close>

definition created_db :: "time \<Rightarrow> string \<Rightarrow> string \<Rightarrow> string \<Rightarrow> request \<Rightarrow> execution_target \<Rightarrow> db \<Rightarrow> db" where
  "created_db now i p k rq t d =
    insert_binding p k \<lparr>bn_runID = i, bn_original = new_run i rq now, bn_expiresAt = now + 24 * minutes 60\<rparr>
      (d\<lparr>d_runs := tput i \<lparr>rr_principal = p, rr_target = t, rr_snapshot = new_run i rq now\<rparr> (d_runs d)\<rparr>)"

lemma pg_create_Commit:
  assumes "pg_create now w p k rq t d = Commit a d'"
  shows "map_of (d_runs d) (run_id_of now w) = None" "ValidID (run_id_of now w)"
    "a = \<lparr>acc_run = new_run (run_id_of now w) rq now, acc_expiresAt = now + 24 * minutes 60\<rparr>"
    "d' = created_db now (run_id_of now w) p k rq t d"
  using assms by (auto simp: pg_create_def created_db_def Let_def split: if_splits)

lemma pg_create_not_Rollback: "pg_create now w p k rq t d \<noteq> Rollback a"
  by (simp add: pg_create_def Let_def)

definition live_binding :: "time \<Rightarrow> string \<Rightarrow> string \<Rightarrow> db \<Rightarrow> bool" where
  "live_binding now p k d =
    (case select_binding p k d of None \<Rightarrow> False | Some (a, t) \<Rightarrow> now < acc_expiresAt a)"

text \<open>
  The outcomes of \<open>Accept\<close>: nothing is written and the answer, if it is one, is the live
  binding; or a new Run and binding are written, which an uncertain commit may hide.
\<close>

lemma pg_Accept_cases:
  assumes "pg_Accept f now w p k rq t d = (res, d')"
  obtains (unchanged) "d' = d"
      "\<And>a. res = Inr a \<Longrightarrow> select_binding p k d = Some (a, t) \<and> now < acc_expiresAt a \<and> r_request (acc_run a) = rq"
  | (created) a where "p \<noteq> []" "\<not> live_binding now p k d" "pg_create now w p k rq t d = Commit a d'"
      "\<And>x. res = Inr x \<Longrightarrow> x = a"
proof (cases "p = [] \<or> \<not> ValidKey k \<or> \<not> is_ok (Request_Validate rq) \<or> \<not> ExecutionTarget_Valid t")
  case True
  with assms have "d' = d" "res = Inl ErrValidation" by (auto simp: pg_Accept_def)
  then show thesis by (intro unchanged) auto
next
  case inp: False
  define body where "body = (\<lambda>d. (case select_binding p k d of
          None \<Rightarrow> pg_create now w p k rq t d
        | Some (previous, previousTarget) \<Rightarrow>
            if now < acc_expiresAt previous then
              (if r_request (acc_run previous) \<noteq> rq \<or> previousTarget \<noteq> t then Abort ErrConflict
               else Rollback previous)
            else pg_create now w p k rq t d))"
  have "transact f body d = (res, d')" using assms inp by (simp add: pg_Accept_def body_def)
  then show thesis
  proof (cases rule: transact_cases)
    case unch: unchanged
    show thesis
    proof (rule unchanged [OF unch(1)])
      fix a assume "res = Inr a"
      then have "body d = Rollback a" by (rule unch(2))
      then show "select_binding p k d = Some (a, t) \<and> now < acc_expiresAt a \<and> r_request (acc_run a) = rq"
        by (auto simp: body_def pg_create_not_Rollback split: option.splits if_splits)
    qed
  next
    case (committed a)
    have "\<not> live_binding now p k d \<and> pg_create now w p k rq t d = Commit a d'"
      using committed(1) by (auto simp: body_def live_binding_def split: option.splits if_splits)
    with inp committed(2) show thesis by (intro created [of a]) auto
  qed
qed

lemma created_db_view:
  "pg_view (created_db now i p k rq t d) = (pg_view d)(i \<mapsto> (p, new_run i rq now))"
  by (simp add: created_db_def insert_binding_def pg_view_def fun_eq_iff)

lemma Accept_refines: "life_steps (pg_view d) (pg_view (snd (pg_Accept f now w p k rq t d)))"
proof -
  obtain res d' where c: "pg_Accept f now w p k rq t d = (res, d')" by force
  then have "life_steps (pg_view d) (pg_view d')"
  proof (cases rule: pg_Accept_cases)
    case (created a)
    note cr = pg_create_Commit [OF created(3)]
    have "pg_view d (run_id_of now w) = None" using cr(1) by (simp add: pg_view_def)
    with life_step.create [of "pg_view d" "run_id_of now w" p rq now] created(1)
    show ?thesis by (simp add: cr(4) created_db_view r_into_rtranclp)
  qed simp
  with c show ?thesis by simp
qed

lemma mutate_refines:
  assumes "\<And>r r'. ch r now = Inr r' \<Longrightarrow> pg_view d i = Some (p, r) \<Longrightarrow> life_steps (pg_view d) ((pg_view d)(i \<mapsto> (p, r')))"
  shows "life_steps (pg_view d) (pg_view (snd (mutate f now p i ch d)))"
  unfolding mutate_def
  by (rule transact_rel [where R = "\<lambda>d d'. life_steps (pg_view d) (pg_view d')"])
    (auto simp: lockedRun_view put_snapshot_view split: sum.splits if_splits intro: assms)

lemma same_leases: "\<exists>ls. (d::db) = d\<lparr>d_leases := ls\<rparr>"
  by (rule exI [of _ "d_leases d"]) simp

lemma same_artifacts: "\<exists>as. (d::db) = d\<lparr>d_artifacts := as\<rparr>"
  by (rule exI [of _ "d_artifacts d"]) simp

lemma acquire_all_frame:
  "acquire_all clock tok w ttl cs d = (cls, d') \<Longrightarrow> \<exists>ls. d' = d\<lparr>d_leases := ls\<rparr>"
proof (induction cs arbitrary: d cls)
  case Nil
  then show ?case using same_leases by auto
next
  case (Cons c cs)
  obtain cl d1 where step: "acquire_all clock tok w ttl cs d1 = (cl, d')" "\<exists>ls. d1 = d\<lparr>d_leases := ls\<rparr>"
  proof (cases "tryAcquireClaim (clock (r_id (snd c))) (tok (r_id (snd c))) c w ttl d")
    case None
    with Cons.prems that [of d cls] same_leases show thesis by simp
  next
    case (Some x)
    with Cons.prems that show thesis
      by (cases x) (fastforce simp: tryAcquireClaim_def Let_def split: prod.splits if_splits)
  qed
  from Cons.IH [OF step(1)] step(2) show ?case by auto
qed

lemma ClaimRuns_frame: "\<exists>ls. snd (pg_ClaimRuns f env w n ttl d) = d\<lparr>d_leases := ls\<rparr>"
  unfolding pg_ClaimRuns_def
  by (auto intro!: transact_rel [where R = "\<lambda>d d'. \<exists>ls. d' = d\<lparr>d_leases := ls\<rparr>"] same_leases
    dest: acquire_all_frame split: prod.splits)

lemma RegisterArtifact_frame: "\<exists>as. snd (pg_RegisterArtifact f p a d) = d\<lparr>d_artifacts := as\<rparr>"
  unfolding pg_RegisterArtifact_def
  by (auto simp: Let_def intro!: transact_rel [where R = "\<lambda>d d'. \<exists>as. d' = d\<lparr>d_artifacts := as\<rparr>"]
    same_artifacts split: sum.splits option.splits if_splits)

lemma fenced_refines:
  assumes "fenced_effect now l d d'"
  shows "life_steps (pg_view d) (pg_view d')"
proof -
  consider "d' = d" | r where "lockOwnedClaim now l d = Inr r" "one_transition now (l_runID l) r d d'"
    using assms by (auto simp: fenced_effect_def)
  then show ?thesis
  proof cases
    case (2 r)
    have v: "pg_view d (l_runID l) = Some (l_principal l, r)" using 2(1) by (simp add: lockOwnedClaim_Inr)
    from 2(2) show ?thesis unfolding one_transition_def
    proof
      assume "d_runs d' = d_runs d"
      from pg_view_cong [OF this] show ?thesis by simp
    next
      assume "\<exists>rv ch r'. Run_Transition r rv ch now = Inr r' \<and> d_runs d' = d_runs (put_snapshot (l_runID l) r' d)"
      then obtain rv ch r' where t: "Run_Transition r rv ch now = Inr r'"
        and d': "d_runs d' = d_runs (put_snapshot (l_runID l) r' d)" by blast
      from pg_view_cong [OF d'] put_snapshot_view [OF v, of r'] life_steps_advance [of "pg_view d", OF v t]
      show ?thesis by simp
    qed
  qed simp
qed

lemma pg_step_refines: "life_steps (pg_view d) (pg_view (pg_step op d))"
proof (cases "pg_lease op")
  case (Some l)
  then show ?thesis using fenced_call fenced_refines by blast
next
  case None
  then show ?thesis
  proof (cases op)
    case (PAccept e p k rq t)
    then show ?thesis by (cases e) (simp add: Accept_refines)
  next
    case (PRegisterArtifact f p a)
    then show ?thesis using RegisterArtifact_frame [of f p a d] by auto
  next
    case (PClaimRuns f env w n ttl)
    then show ?thesis using ClaimRuns_frame [of f env w n ttl d] by auto
  qed (auto simp: pg_Cancel_def pg_Advance_def intro!: mutate_refines)
qed

interpretation pg: lifecycle_store pg_view pg_step db_empty
  by unfold_locales (auto simp: pg_view_def db_empty_def pg_step_refines)

section \<open>Idempotent acceptance\<close>

text \<open>Run rows stay, with their owner and target.\<close>

definition rows_kept :: "db \<Rightarrow> db \<Rightarrow> bool" where
  "rows_kept d d' = (\<forall>i row. map_of (d_runs d) i = Some row \<longrightarrow>
     (\<exists>row'. map_of (d_runs d') i = Some row' \<and> rr_principal row' = rr_principal row \<and> rr_target row' = rr_target row))"

lemma rows_kept_same: "d_runs d' = d_runs d \<Longrightarrow> rows_kept d d'"
  by (simp add: rows_kept_def)

lemma rows_kept_put [simp]: "rows_kept d (put_snapshot i r d)"
  by (auto simp: rows_kept_def put_snapshot_def split: option.splits)

lemma rows_kept_binding:
  assumes "rows_kept d d'" "map_of (d_bindings d') (p, k) = map_of (d_bindings d) (p, k)"
    "select_binding p k d = Some (a, t)"
  shows "select_binding p k d' = Some (a, t)"
proof -
  obtain b row where b: "map_of (d_bindings d) (p, k) = Some b" "map_of (d_runs d) (bn_runID b) = Some row"
    "rr_principal row = p" "rr_target row = t" "a = \<lparr>acc_run = bn_original b, acc_expiresAt = bn_expiresAt b\<rparr>"
    using assms(3) by (auto simp: select_binding_def split: option.splits if_splits)
  obtain row' where "map_of (d_runs d') (bn_runID b) = Some row'" "rr_principal row' = p" "rr_target row' = t"
    using assms(1) b by (auto simp: rows_kept_def)
  with b assms(2) show ?thesis by (simp add: select_binding_def)
qed

lemma fenced_rows: "fenced_effect now l d d' \<Longrightarrow> rows_kept d d' \<and> d_bindings d' = d_bindings d"
proof -
  have "rows_kept d d'" if "d_runs d' = d_runs (put_snapshot i r d)" for i r
    using that rows_kept_put [of d i r] by (simp add: rows_kept_def)
  then show "fenced_effect now l d d' \<Longrightarrow> rows_kept d d' \<and> d_bindings d' = d_bindings d"
    by (auto simp: fenced_effect_def one_transition_def other_rows_kept_def rows_kept_same)
qed

lemma mutate_rows:
  "rows_kept d (snd (mutate f now p i ch d)) \<and> d_bindings (snd (mutate f now p i ch d)) = d_bindings d"
  unfolding mutate_def
  by (rule transact_rel [where R = "\<lambda>d d'. rows_kept d d' \<and> d_bindings d' = d_bindings d"])
    (auto simp: rows_kept_same split: sum.splits if_splits)

lemma Accept_binding_kept:
  assumes b: "select_binding p k d = Some (a, t)" and live: "now < acc_expiresAt a"
    and call: "pg_Accept f now w p' k' rq t' d = (res, d')"
  shows "select_binding p k d' = Some (a, t)"
  using call
proof (cases rule: pg_Accept_cases)
  case unchanged
  with b show ?thesis by simp
next
  case (created x)
  note cr = pg_create_Commit [OF created(3)]
  have "(p', k') \<noteq> (p, k)" using created(2) b live by (auto simp: live_binding_def)
  then have "map_of (d_bindings d') (p, k) = map_of (d_bindings d) (p, k)"
    by (auto simp: cr(4) created_db_def insert_binding_def)
  moreover have "rows_kept d d'"
    using cr(1) by (auto simp: cr(4) created_db_def insert_binding_def rows_kept_def)
  ultimately show ?thesis by (intro rows_kept_binding [OF _ _ b])
qed

lemma pg_binding_kept:
  assumes b: "select_binding p k d = Some (a, t)" and live: "pg_clock op i < acc_expiresAt a"
  shows "select_binding p k (pg_step op d) = Some (a, t)"
proof (cases "pg_lease op")
  case (Some l)
  note rows = fenced_rows [OF fenced_call [OF this, of d]]
  show ?thesis by (rule rows_kept_binding [OF _ _ b]) (simp_all add: rows)
next
  case None
  have frame: "select_binding p k d' = Some (a, t)" if "rows_kept d d' \<and> d_bindings d' = d_bindings d" for d'
    by (rule rows_kept_binding [OF _ _ b]) (simp_all add: that)
  show ?thesis
  proof (cases op)
    case (PAccept e p' k' rq t')
    obtain f now w where e: "e = (f, now, w)" by (cases e)
    obtain res d' where c: "pg_Accept f now w p' k' rq t' d = (res, d')" by force
    have "now < acc_expiresAt a" using live by (simp add: PAccept e)
    from Accept_binding_kept [OF b this c] c show ?thesis by (simp add: PAccept e)
  next
    case (PRegisterArtifact f p a)
    then show ?thesis using RegisterArtifact_frame [of f p a d] by (auto intro!: frame simp: rows_kept_same)
  next
    case (PClaimRuns f env w n ttl)
    then show ?thesis using ClaimRuns_frame [of f env w n ttl d] by (auto intro!: frame simp: rows_kept_same)
  next
    case (PCancel f now p i)
    then show ?thesis by (simp add: pg_Cancel_def frame mutate_rows)
  next
    case (PAdvance f now p i rv ch)
    then show ?thesis by (simp add: pg_Advance_def frame mutate_rows)
  qed (use None in simp_all)
qed

fun pg_healthy :: "pg_op \<Rightarrow> bool" where
  "pg_healthy (PAccept (f, now, w) p k rq t) =
    (f = TxOk \<and> p \<noteq> [] \<and> ValidKey k \<and> is_ok (Request_Validate rq) \<and> ExecutionTarget_Valid t)"
| "pg_healthy _ = False"

fun pg_answer :: "pg_op \<Rightarrow> db \<Rightarrow> (err + accepted) option" where
  "pg_answer (PAccept (f, now, w) p k rq t) d = Some (fst (pg_Accept f now w p k rq t d))"
| "pg_answer _ d = None"

interpretation pg_accept: idempotent_store pg_view pg_step db_empty "\<lambda>d p k. select_binding p k d"
  "\<lambda>op. pg_clock op []" pg_healthy PAccept pg_answer
proof unfold_locales
  fix s p k a t op
  assume "select_binding p k s = Some (a, t)" "pg_clock op [] < acc_expiresAt a"
  then show "select_binding p k (pg_step op s) = Some (a, t)" by (rule pg_binding_kept)
next
  fix e :: "tx_fault \<times> time \<times> u32" and p k rq t s a
  obtain f now w where e: "e = (f, now, w)" by (cases e)
  obtain res d' where c: "pg_Accept f now w p k rq t s = (res, d')" by force
  assume "pg_answer (PAccept e p k rq t) s = Some (Inr a)"
  with c have r: "res = Inr a" by (simp add: e)
  from c have "select_binding p k d' = Some (a, t) \<and> r_request (acc_run a) = rq"
  proof (cases rule: pg_Accept_cases)
    case unchanged
    with unchanged(2) [OF r] show ?thesis by simp
  next
    case (created x)
    with pg_create_Commit [OF created(3)] created(4) [OF r] show ?thesis
      by (simp add: created_db_def insert_binding_def select_binding_def new_run_def)
  qed
  with c show "select_binding p k (pg_step (PAccept e p k rq t) s) = Some (a, t)"
    "r_request (acc_run a) = rq"
    by (simp_all add: e)
next
  fix s p k a t' and e :: "tx_fault \<times> time \<times> u32" and rq t
  obtain f now w where e: "e = (f, now, w)" by (cases e)
  assume "select_binding p k s = Some (a, t')" "pg_healthy (PAccept e p k rq t)"
    "pg_clock (PAccept e p k rq t) [] < acc_expiresAt a"
  then show "pg_answer (PAccept e p k rq t) s =
      Some (if r_request (acc_run a) = rq \<and> t' = t then Inr a else Inl ErrConflict)
      \<and> pg_step (PAccept e p k rq t) s = s"
    by (auto simp: e pg_Accept_def transact_def)
qed

section \<open>Lease fencing\<close>

lemma acquire_all_live:
  assumes "acquire_all clock tok w ttl cs d = (cls, d')"
    "map_of (d_leases d) i = Some row" "clock i < lr_expiresAt row"
  shows "map_of (d_leases d') i = Some row \<and> (\<forall>c\<in>set cls. l_runID (cl_lease c) \<noteq> i)"
  using assms(1,2)
proof (induction cs arbitrary: d cls)
  case (Cons c cs)
  show ?case
  proof (cases "tryAcquireClaim (clock (r_id (snd c))) (tok (r_id (snd c))) c w ttl d")
    case None
    with Cons.prems Cons.IH [of d cls] show ?thesis by simp
  next
    case (Some x)
    obtain cl d1 where x: "x = (cl, d1)" by force
    obtain rest where rest: "acquire_all clock tok w ttl cs d1 = (rest, d')" "cls = cl # rest"
      using Cons.prems(1) Some x by (auto split: prod.splits)
    have ne: "r_id (snd c) \<noteq> i"
      using Some Cons.prems(2) assms(3) by (auto simp: tryAcquireClaim_def lease_blocked_def split: prod.splits)
    then have "map_of (d_leases d1) i = Some row" "l_runID (cl_lease cl) \<noteq> i"
      using Some x Cons.prems(2) by (auto simp: tryAcquireClaim_def Let_def split: prod.splits if_splits)
    with Cons.IH [OF rest(1)] rest(2) show ?thesis by simp
  qed
qed simp

lemma ClaimRuns_live:
  assumes "map_of (d_leases d) i = Some row" "ce_clock env i < lr_expiresAt row"
  shows "map_of (d_leases (snd (pg_ClaimRuns f env w n ttl d))) i = Some row"
  unfolding pg_ClaimRuns_def
  using assms(1)
  by (auto intro!: transact_rel [where R = "\<lambda>d d'. map_of (d_leases d) i = Some row \<longrightarrow> map_of (d_leases d') i = Some row", THEN mp]
    dest: acquire_all_live [where clock = "ce_clock env" and i = i and row = row, OF _ _ assms(2)] split: prod.splits)

lemma mutate_leases [simp]: "d_leases (snd (mutate f now p i ch d)) = d_leases d"
  unfolding mutate_def
  by (rule transact_rel [where R = "\<lambda>d d'. d_leases d' = d_leases d"]) (auto split: sum.splits if_splits)

lemma Accept_leases [simp]: "d_leases (snd (pg_Accept f now w p k rq t d)) = d_leases d"
proof -
  obtain res d' where c: "pg_Accept f now w p k rq t d = (res, d')" by force
  then have "d_leases d' = d_leases d"
    by (cases rule: pg_Accept_cases)
      (auto dest: pg_create_Commit(4) simp: created_db_def insert_binding_def)
  with c show ?thesis by simp
qed

lemma fenced_lease_kept:
  assumes "fenced_effect now l d d'" "l_runID l = i \<longrightarrow> \<not> holds_lease l now (pg_lease_at d i)"
  shows "map_of (d_leases d') i = map_of (d_leases d) i"
  using assms by (cases "l_runID l = i") (auto simp: fenced_effect_def other_rows_kept_def lockOwnedClaim_Inr)

lemma pg_lease_kept:
  assumes row: "map_of (d_leases d) i = Some row" and live: "pg_clock op i < lr_expiresAt row"
    and tok: "\<forall>l. pg_lease op = Some l \<longrightarrow> l_runID l = i \<longrightarrow> l_token l \<noteq> lr_token row"
  shows "map_of (d_leases (pg_step op d)) i = Some row"
proof (cases "pg_lease op")
  case (Some l)
  have "l_runID l = i \<longrightarrow> \<not> holds_lease l (pg_clock op (l_runID l)) (pg_lease_at d i)"
    using tok Some row by (auto simp: holds_lease_def pg_lease_at_def)
  from fenced_lease_kept [OF fenced_call [OF Some] this] row show ?thesis by simp
next
  case None
  show ?thesis
  proof (cases op)
    case (PAccept e p k rq t)
    then show ?thesis using row by (cases e) simp
  next
    case (PRegisterArtifact f p a)
    then show ?thesis using RegisterArtifact_frame [of f p a d] row by auto
  next
    case (PClaimRuns f env w n ttl)
    then show ?thesis using ClaimRuns_live [OF row, of env] live by simp
  qed (use None row in \<open>simp_all add: pg_Cancel_def pg_Advance_def\<close>)
qed

interpretation pg_leases: lease_store pg_step pg_lease_at pg_lease pg_clock
proof unfold_locales
  fix s i w tok e op
  assume "pg_lease_at s i = Some (w, tok, e)" "pg_clock op i < e"
    "\<forall>l. pg_lease op = Some l \<longrightarrow> l_runID l = i \<longrightarrow> l_token l \<noteq> tok"
  then show "pg_lease_at (pg_step op s) i = Some (w, tok, e)"
    using pg_lease_kept [of s i _ op] by (auto simp: pg_lease_at_def)
next
  fix op l s
  assume l: "pg_lease op = Some l" and "\<not> holds_lease l (pg_clock op (l_runID l)) (pg_lease_at s (l_runID l))"
  then show "pg_step op s = s"
    using fenced_call [OF l, of s] by (auto simp: fenced_effect_def lockOwnedClaim_Inr)
qed

section \<open>Artifacts\<close>

definition registered :: "artifact \<Rightarrow> db \<Rightarrow> db \<Rightarrow> bool" where
  "registered a s s' =
    (s' = s \<or> map_of (d_artifacts s) (a_id a) = None
      \<and> s' = s\<lparr>d_artifacts := tput (a_id a) a (d_artifacts s)\<rparr>)"

lemma registered_refl [simp]: "registered a d d"
  by (simp add: registered_def)

lemma registered_new [simp]:
  "map_of (d_artifacts d) (a_id a) = None \<Longrightarrow>
    registered a d (d\<lparr>d_artifacts := tput (a_id a) a (d_artifacts d)\<rparr>)"
  by (simp add: registered_def)

lemma RegisterArtifact_rel: "registered (canonical a) d (snd (pg_RegisterArtifact f p a d))"
  unfolding pg_RegisterArtifact_def Let_def
  by (auto intro!: transact_rel [where R = "registered (canonical a)"]
    split: sum.splits option.splits if_splits)

interpretation pg_artifacts: artifact_store "\<lambda>d. map_of (d_artifacts d)" pg_RegisterArtifact
proof unfold_locales
  fix e p a s res s'
  assume "pg_RegisterArtifact e p a s = (res, s')"
  with RegisterArtifact_rel [of a s e p] show "map_of (d_artifacts s) \<subseteq>\<^sub>m map_of (d_artifacts s')"
    by (auto simp: registered_def map_le_def)
next
  fix e p a s u s'
  assume "pg_RegisterArtifact e p a s = (Inr u, s')"
  then show "Artifact_Validate (canonical a) = Inr ()
      \<and> map_of (d_artifacts s') (a_id (canonical a)) = Some (canonical a)"
    unfolding pg_RegisterArtifact_def Let_def
    by (auto dest!: transact_Inr split: sum.splits option.splits if_splits)
qed

lemma mutate_artifacts [simp]: "d_artifacts (snd (mutate f now p i ch d)) = d_artifacts d"
  unfolding mutate_def
  by (rule transact_rel [where R = "\<lambda>d d'. d_artifacts d' = d_artifacts d"]) (auto split: sum.splits if_splits)

lemma Accept_artifacts [simp]: "d_artifacts (snd (pg_Accept f now w p k rq t d)) = d_artifacts d"
proof -
  obtain res d' where c: "pg_Accept f now w p k rq t d = (res, d')" by force
  then have "d_artifacts d' = d_artifacts d"
    by (cases rule: pg_Accept_cases)
      (auto dest: pg_create_Commit(4) simp: created_db_def insert_binding_def)
  with c show ?thesis by simp
qed

lemma pg_step_artifacts: "map_of (d_artifacts d) \<subseteq>\<^sub>m map_of (d_artifacts (pg_step op d))"
proof (cases "pg_lease op")
  case (Some l)
  from fenced_call [OF this, of d] show ?thesis by (auto simp: fenced_effect_def other_rows_kept_def)
next
  case None
  then show ?thesis
  proof (cases op)
    case (PAccept e p k rq t)
    then show ?thesis by (cases e) simp
  next
    case (PRegisterArtifact f p a)
    then show ?thesis using RegisterArtifact_rel [of a d f p] by (auto simp: registered_def map_le_def)
  next
    case (PClaimRuns f env w n ttl)
    then show ?thesis using ClaimRuns_frame [of f env w n ttl d] by auto
  qed (simp_all add: pg_Cancel_def pg_Advance_def)
qed

interpretation pg_evidence: evolving_rows "\<lambda>d. map_of (d_artifacts d)" pg_step "\<lambda>d. True" "(=)"
  using pg_step_artifacts by unfold_locales (force simp: map_le_def dom_def)+

end
