(* ===== verification/Pg_Claiming.thy ===== *)
theory Pg_Claiming
  imports Pg_Machine
begin

text \<open>
  What \<open>ClaimRuns\<close> returns: at most the requested number of distinct Runs, each the current
  snapshot of a Kubernetes Run that nobody held, each under a fresh lease of the caller.
\<close>

definition claimed ::
  "(string \<Rightarrow> time) \<Rightarrow> (string \<Rightarrow> string) \<Rightarrow> string \<Rightarrow> duration \<Rightarrow> (string \<times> run) list \<Rightarrow> db \<Rightarrow> db \<Rightarrow> claim \<Rightarrow> bool"
  where
  "claimed clock tok w ttl cs d d' c =
    ((l_principal (cl_lease c), cl_run c) \<in> set cs
     \<and> cl_lease c = \<lparr>l_runID = r_id (cl_run c), l_principal = l_principal (cl_lease c), l_workerID = w,
         l_token = tok (r_id (cl_run c)), l_expiresAt = clock (r_id (cl_run c)) + ttl\<rparr>
     \<and> \<not> lease_blocked (cl_run c) (clock (r_id (cl_run c))) d
     \<and> pg_lease_at d' (r_id (cl_run c)) = Some (w, tok (r_id (cl_run c)), clock (r_id (cl_run c)) + ttl))"

lemma acquire_all_length: "acquire_all clock tok w ttl cs d = (cls, d') \<Longrightarrow> length cls \<le> length cs"
proof (induction cs arbitrary: d cls)
  case (Cons c cs)
  then show ?case
    by (cases "tryAcquireClaim (clock (r_id (snd c))) (tok (r_id (snd c))) c w ttl d")
      (fastforce split: prod.splits)+
qed simp

lemma acquire_all_claims:
  assumes "acquire_all clock tok w ttl cs d = (cls, d')" "0 < ttl"
  shows "(\<forall>c\<in>set cls. claimed clock tok w ttl cs d d' c) \<and> distinct (map (\<lambda>c. r_id (cl_run c)) cls)"
  using assms(1)
proof (induction cs arbitrary: d cls)
  case (Cons c cs)
  obtain p r where c: "c = (p, r)" by force
  let ?i = "r_id r"
  show ?case
  proof (cases "lease_blocked r (clock ?i) d")
    case True
    then have "acquire_all clock tok w ttl cs d = (cls, d')"
      using Cons.prems by (simp add: c tryAcquireClaim_def)
    from Cons.IH [OF this] show ?thesis by (auto simp: claimed_def)
  next
    case free: False
    let ?row = "\<lparr>lr_worker = w, lr_token = tok ?i, lr_expiresAt = clock ?i + ttl, lr_availableAt = clock ?i\<rparr>"
    let ?cl = "\<lparr>cl_lease = \<lparr>l_runID = ?i, l_principal = p, l_workerID = w, l_token = tok ?i,
        l_expiresAt = clock ?i + ttl\<rparr>, cl_run = r\<rparr>"
    let ?d1 = "d\<lparr>d_leases := tput ?i ?row (d_leases d)\<rparr>"
    obtain rest where rest: "acquire_all clock tok w ttl cs ?d1 = (rest, d')" "cls = ?cl # rest"
      using Cons.prems free by (auto simp: c tryAcquireClaim_def Let_def split: prod.splits)
    have live: "map_of (d_leases d') ?i = Some ?row \<and> (\<forall>c\<in>set rest. l_runID (cl_lease c) \<noteq> ?i)"
      by (rule acquire_all_live [OF rest(1)]) (simp_all add: assms(2))
    have hd: "claimed clock tok w ttl (c # cs) d d' ?cl"
      using free live by (simp add: claimed_def c pg_lease_at_def)
    have tl: "claimed clock tok w ttl (c # cs) d d' x \<and> r_id (cl_run x) \<noteq> ?i" if "x \<in> set rest" for x
    proof -
      have x: "claimed clock tok w ttl cs ?d1 d' x" using Cons.IH [OF rest(1)] that by blast
      then have id: "l_runID (cl_lease x) = r_id (cl_run x)" unfolding claimed_def by (metis lease.select_convs(1))
      then have ne: "r_id (cl_run x) \<noteq> ?i" using live that by auto
      with x show ?thesis by (auto simp: claimed_def lease_blocked_def)
    qed
    have "r_id r \<notin> (\<lambda>c. r_id (cl_run c)) ` set rest" using tl by (metis (no_types, lifting) image_iff)
    with Cons.IH [OF rest(1)] hd tl rest(2) show ?thesis by simp
  qed
qed simp

text \<open>Candidates are current rows that satisfied the query on its snapshot.\<close>

lemma candidates_current:
  assumes "(p, r) \<in> set (lockClaimCandidates q skip n old d)"
  shows "\<exists>i row. map_of (d_runs d) i = Some row \<and> rr_principal row = p \<and> rr_snapshot row = r
    \<and> claim_candidate q old (i, row) \<and> \<not> skip i"
  using assms unfolding lockClaimCandidates_def Let_def
  by (fastforce simp: List.map_filter_def dest: in_set_takeD)

lemma candidates_length: "length (lockClaimCandidates q skip n old d) \<le> n"
  by (simp add: lockClaimCandidates_def Let_def)

lemma ClaimRuns_Inr:
  assumes "pg_ClaimRuns f env w n ttl d = (Inr cls, d')"
  shows "ValidClaimOptions w n ttl" "acquire_all (ce_clock env) (ce_token env) w ttl
    (lockClaimCandidates (ce_query env) (ce_skip env) (nat n) (ce_snapshot env) d) d = (cls, d')"
proof -
  show v: "ValidClaimOptions w n ttl" using assms by (auto simp: pg_ClaimRuns_def split: if_splits)
  with assms have "transact f (\<lambda>d. case acquire_all (ce_clock env) (ce_token env) w ttl
    (lockClaimCandidates (ce_query env) (ce_skip env) (nat n) (ce_snapshot env) d) d of
      (claims, d') \<Rightarrow> Commit claims d') d = (Inr cls, d')" by (simp add: pg_ClaimRuns_def)
  from transact_Inr [OF this] show "acquire_all (ce_clock env) (ce_token env) w ttl
    (lockClaimCandidates (ce_query env) (ce_skip env) (nat n) (ce_snapshot env) d) d = (cls, d')"
    by (auto split: prod.splits)
qed

lemma ClaimRuns_bounded:
  assumes "pg_ClaimRuns f env w n ttl d = (Inr cls, d')"
  shows "length cls \<le> nat n"
  using acquire_all_length [OF ClaimRuns_Inr(2) [OF assms]] candidates_length order_trans by blast

lemma ClaimRuns_claims:
  assumes call: "pg_ClaimRuns f env w n ttl d = (Inr cls, d')" and c: "c \<in> set cls"
    and ok: "view_ok (pg_view d)"
  shows "\<exists>row. map_of (d_runs d) (r_id (cl_run c)) = Some row \<and> rr_snapshot row = cl_run c
      \<and> rr_principal row = l_principal (cl_lease c) \<and> rr_target row = ExecutionTargetKubernetes
      \<and> claimed (ce_clock env) (ce_token env) w ttl
          (lockClaimCandidates (ce_query env) (ce_skip env) (nat n) (ce_snapshot env) d) d d' c"
proof -
  note a = ClaimRuns_Inr [OF call]
  have "0 < ttl" using a(1) by (auto simp: ValidClaimOptions_def dest: ValidLeaseTTL_pos)
  from acquire_all_claims [OF a(2) this] c
  have cl: "claimed (ce_clock env) (ce_token env) w ttl
      (lockClaimCandidates (ce_query env) (ce_skip env) (nat n) (ce_snapshot env) d) d d' c" by blast
  then have "(l_principal (cl_lease c), cl_run c)
      \<in> set (lockClaimCandidates (ce_query env) (ce_skip env) (nat n) (ce_snapshot env) d)"
    by (simp add: claimed_def)
  from candidates_current [OF this] obtain i row where row: "map_of (d_runs d) i = Some row"
    "rr_principal row = l_principal (cl_lease c)" "rr_snapshot row = cl_run c"
    "claim_candidate (ce_query env) (ce_snapshot env) (i, row)" by blast
  have "r_id (cl_run c) = i"
    using view_okD [OF ok, of i "rr_principal row" "cl_run c"] row by (simp add: pg_view_def)
  with row cl show ?thesis by (auto simp: claim_candidate_def)
qed

end
