(* ===== verification/Programs.thy ===== *)
theory Programs
  imports Prelude
begin

text \<open>
  Sequential Go code that calls interfaces. A call (\<open>'w, 'a\<close>) \<open>op\<close> changes the world and
  returns an error or a value. A program composes calls; it has no outcome (\<open>None\<close>) when
  a polling loop is still running after the polls it was given. \<open>valid\<close> is the Hoare
  triple of partial correctness for programs.
\<close>

type_synonym ('w, 'a) op = "'w \<Rightarrow> (err + 'a) \<times> 'w"
type_synonym ('w, 'a) prog = "'w \<Rightarrow> ((err + 'a) \<times> 'w) option"

definition ret :: "'a \<Rightarrow> ('w, 'a) prog" where
  "ret a w = Some (Inr a, w)"

definition fail :: "err \<Rightarrow> ('w, 'a) prog" where
  "fail e w = Some (Inl e, w)"

definition call :: "('w, 'a) op \<Rightarrow> ('w, 'a) prog" where
  "call f w = Some (f w)"

definition attempt :: "('w, 'a) prog \<Rightarrow> (err + 'a \<Rightarrow> ('w, 'b) prog) \<Rightarrow> ('w, 'b) prog" where
  "attempt m k w = (case m w of None \<Rightarrow> None | Some (r, w') \<Rightarrow> k r w')"

text \<open>\<open>if err != nil { return err }\<close>\<close>

definition bind_ok :: "('w, 'a) prog \<Rightarrow> ('a \<Rightarrow> ('w, 'b) prog) \<Rightarrow> ('w, 'b) prog" where
  "bind_ok m k = attempt m (\<lambda>r. case r of Inl e \<Rightarrow> fail e | Inr a \<Rightarrow> k a)"

definition of_result :: "err + 'a \<Rightarrow> ('w, 'a) prog" where
  "of_result r w = Some (r, w)"

named_theorems prog_defs \<open>the program combinators\<close>

lemmas [prog_defs] = ret_def fail_def call_def attempt_def bind_ok_def of_result_def

definition valid :: "('w \<Rightarrow> bool) \<Rightarrow> ('w, 'a) prog \<Rightarrow> (err + 'a \<Rightarrow> 'w \<Rightarrow> bool) \<Rightarrow> bool" where
  "valid P m Q = (\<forall>w. P w \<longrightarrow> (case m w of None \<Rightarrow> True | Some (r, w') \<Rightarrow> Q r w'))"

abbreviation preserves :: "('w \<Rightarrow> bool) \<Rightarrow> ('w, 'a) prog \<Rightarrow> bool" where
  "preserves P m \<equiv> valid P m (\<lambda>_. P)"

named_theorems prog_intros \<open>introduction rules for preservation\<close>

lemma validD: "valid P m Q \<Longrightarrow> P w \<Longrightarrow> m w = Some (r, w') \<Longrightarrow> Q r w'"
  by (auto simp: valid_def)

lemma valid_weaken: "valid P m Q \<Longrightarrow> (\<And>r w. Q r w \<Longrightarrow> Q' r w) \<Longrightarrow> valid P m Q'"
  by (auto simp: valid_def split: option.splits)

lemma valid_attempt:
  assumes "valid P m Q" "\<And>r. valid (Q r) (k r) R"
  shows "valid P (attempt m k) R"
  unfolding valid_def attempt_def
proof (intro allI impI)
  fix w assume "P w"
  show "case (case m w of None \<Rightarrow> None | Some (r, w') \<Rightarrow> k r w') of None \<Rightarrow> True | Some (r, w') \<Rightarrow> R r w'"
  proof (cases "m w")
    case (Some x)
    obtain r w' where x: "x = (r, w')" by force
    have "Q r w'" using assms(1) \<open>P w\<close> Some x by (auto dest: validD)
    with assms(2) [of r] Some x show ?thesis by (auto simp: valid_def)
  qed simp
qed

lemma preserves_ret [prog_intros]: "preserves P (ret a)"
  by (simp add: valid_def ret_def)

lemma preserves_fail [prog_intros]: "preserves P (fail e)"
  by (simp add: valid_def fail_def)

lemma preserves_of_result [prog_intros]: "preserves P (of_result r)"
  by (simp add: valid_def of_result_def)

lemma preserves_call: "(\<And>w. P w \<Longrightarrow> P (snd (f w))) \<Longrightarrow> preserves P (call f)"
  by (force simp: valid_def call_def)

lemma preserves_attempt [prog_intros]:
  "preserves P m \<Longrightarrow> (\<And>r. preserves P (k r)) \<Longrightarrow> preserves P (attempt m k)"
  by (rule valid_attempt)

lemma preserves_bind_ok [prog_intros]:
  assumes "preserves P m" "\<And>a. preserves P (k a)"
  shows "preserves P (bind_ok m k)"
  unfolding bind_ok_def using assms by (intro preserves_attempt) (auto intro: preserves_fail split: sum.split)

lemma preserves_if [prog_intros]:
  "(c \<Longrightarrow> preserves P a) \<Longrightarrow> (\<not> c \<Longrightarrow> preserves P b) \<Longrightarrow> preserves P (if c then a else b)"
  by simp

lemma preserves_option [prog_intros]:
  "(x = None \<Longrightarrow> preserves P a) \<Longrightarrow> (\<And>y. x = Some y \<Longrightarrow> preserves P (b y)) \<Longrightarrow>
    preserves P (case x of None \<Rightarrow> a | Some y \<Rightarrow> b y)"
  by (cases x) auto

lemma preserves_sum [prog_intros]:
  "(\<And>e. x = Inl e \<Longrightarrow> preserves P (a e)) \<Longrightarrow> (\<And>y. x = Inr y \<Longrightarrow> preserves P (b y)) \<Longrightarrow>
    preserves P (case x of Inl e \<Rightarrow> a e | Inr y \<Rightarrow> b y)"
  by (cases x) auto

end
