(* ===== verification/Reconcile.thy ===== *)
theory Reconcile
  imports Programs Pg_Claims
begin

text \<open>
  Package \<open>internal/reconcile\<close>: the lifecycle stages of a claimed Run, from validation to
  reporting, and the router that selects one. The Go code reaches storage, the cluster and
  the verified collectors through interfaces; \<open>services\<close> holds one function per interface
  method, so the stages are higher-order in them. The result of a stage is the error it
  returns or its \<open>RetryAfter\<close>.
\<close>

section \<open>Interfaces\<close>

datatype job_phase = JobAbsent | JobPending | JobRunning | JobSucceeded | JobFailed | JobPhaseUnknown string

record observation =
  ob_phase :: job_phase
  ob_deleting :: bool

record raw_artifact_set =
  ra_manifest :: artifact
  ra_artifacts :: "artifact list"

record analysis_input =
  ai_manifest :: artifact
  ai_sources :: "artifact list"

text \<open>
  \<open>'job\<close> is \<open>*batchv1.Job\<close>; \<open>ensureJob\<close> and \<open>findJob\<close> return \<open>dispatch.Execution()\<close>.
  \<open>dns\<close> is the label check of the Kubernetes libraries that \<open>Execution.Valid\<close> uses.
\<close>

record ('w, 'job) services =
  s_AdvanceClaim :: "lease \<Rightarrow> int \<Rightarrow> change \<Rightarrow> ('w, run) op"
  s_RenewClaim :: "lease \<Rightarrow> duration \<Rightarrow> ('w, claim) op"
  s_GetExecution :: "lease \<Rightarrow> ('w, execution option) op"
  s_BindExecution :: "lease \<Rightarrow> execution \<Rightarrow> ('w, unit) op"
  s_RegisterArtifact :: "string \<Rightarrow> artifact \<Rightarrow> ('w, unit) op"
  s_ListArtifacts :: "string \<Rightarrow> string \<Rightarrow> ('w, artifact list) op"
  s_ResolveJob :: "string \<Rightarrow> run \<Rightarrow> ('w, 'job option) op"
  s_ValidateJob :: "string \<Rightarrow> 'job \<Rightarrow> err + unit"
  s_EnsureJob :: "string \<Rightarrow> 'job \<Rightarrow> ('w, execution) op"
  s_FindJob :: "string \<Rightarrow> 'job \<Rightarrow> ('w, execution option) op"
  s_ObserveJob :: "execution \<Rightarrow> ('w, observation) op"
  s_RequestJobStop :: "execution \<Rightarrow> ('w, unit) op"
  s_ConfirmExecutionStopped :: "execution \<Rightarrow> ('w, bool) op"
  s_CollectRawArtifacts :: "string \<Rightarrow> run \<Rightarrow> ('w, raw_artifact_set) op"
  s_Normalize :: "string \<Rightarrow> run \<Rightarrow> analysis_input \<Rightarrow> ('w, artifact) op"
  s_Report :: "string \<Rightarrow> run \<Rightarrow> artifact \<Rightarrow> ('w, artifact) op"
  s_PublishReport :: "(string \<Rightarrow> run \<Rightarrow> artifact \<Rightarrow> artifact \<Rightarrow> ('w, unit) op) option"
  s_ctxErr :: "('w, unit) op"
  s_wait :: "duration \<Rightarrow> ('w, unit) op"
  s_dns :: "string \<Rightarrow> bool"

section \<open>Shared steps (validation.go)\<close>

definition ValidAttemptTimeout :: "duration \<Rightarrow> bool" where
  "ValidAttemptTimeout timeout = (0 < timeout \<and> timeout \<le> minutes 5)"

definition validOwnedClaim :: "claim \<Rightarrow> bool" where
  "validOwnedClaim c =
    (Lease_Valid (cl_lease c) \<and> l_runID (cl_lease c) = r_id (cl_run c) \<and> 1 \<le> r_revision (cl_run c))"

text \<open>A revision conflict ends the attempt without an error: the next attempt reads the new state.\<close>

definition advanceOwnedClaim :: "('w, 'job) services \<Rightarrow> claim \<Rightarrow> change \<Rightarrow> ('w, duration) prog" where [stage_defs]:
  "advanceOwnedClaim sv c ch =
    attempt (call (s_AdvanceClaim sv (cl_lease c) (r_revision (cl_run c)) ch))
      (\<lambda>r. case r of
         Inl e \<Rightarrow> if errors_is e ErrRevision then ret 0 else fail e
       | Inr _ \<Rightarrow> ret 0)"

definition failed_with :: "run_state \<Rightarrow> failure_code \<Rightarrow> string \<Rightarrow> change" where
  "failed_with st code message =
    \<lparr>c_state = st, c_failure = Some \<lparr>f_code = code, f_message = message\<rparr>, c_toolExitCode = None\<rparr>"

section \<open>Validation stage (validation.go)\<close>

definition validation_reject :: "('w, 'job) services \<Rightarrow> claim \<Rightarrow> string \<Rightarrow> ('w, duration) prog" where [stage_defs]:
  "validation_reject sv c message =
    advanceOwnedClaim sv c (failed_with StateInvalid FailureCodeValidationFailed message)"

definition resolutionError :: "('w, 'job) services \<Rightarrow> claim \<Rightarrow> err \<Rightarrow> ('w, duration) prog" where [stage_defs]:
  "resolutionError sv c e =
    (if errors_is e ErrValidation then validation_reject sv c ''approved execution plan is invalid''
     else if errors_is e ErrForbidden then validation_reject sv c ''execution resources are not authorized''
     else fail e)"

definition Validation_Reconcile :: "('w, 'job) services \<Rightarrow> claim \<Rightarrow> ('w, duration) prog" where [stage_defs]:
  "Validation_Reconcile sv c =
    (if \<not> validOwnedClaim c then fail ErrValidation
     else if r_state (cl_run c) \<noteq> StateValidating then fail ErrStateNotHandled
     else attempt (call (s_ResolveJob sv (l_principal (cl_lease c)) (cl_run c)))
       (\<lambda>r. case r of
          Inl e \<Rightarrow> resolutionError sv c e
        | Inr None \<Rightarrow> validation_reject sv c ''approved execution plan is invalid''
        | Inr (Some template) \<Rightarrow>
            (case s_ValidateJob sv (r_id (cl_run c)) template of
               Inl e \<Rightarrow> resolutionError sv c e
             | Inr _ \<Rightarrow> advanceOwnedClaim sv c (to_state StateProvisioning))))"

section \<open>Decisions for a bound execution (lifecycle.go)\<close>

datatype decision = ActionWait | ActionStop | ActionConfirmStop | ActionAdvance change

definition validPhase :: "job_phase \<Rightarrow> bool" where
  "validPhase p = (p \<in> set [JobAbsent, JobPending, JobRunning, JobSucceeded, JobFailed])"

definition terminal_phase :: "job_phase \<Rightarrow> bool" where
  "terminal_phase p = (p = JobSucceeded \<or> p = JobFailed)"

definition infrastructureFailure :: "string \<Rightarrow> decision" where
  "infrastructureFailure message =
    ActionAdvance (failed_with StateInfrastructureFailure FailureCodeInfrastructureError message)"

definition DecideBoundExecution :: "run_state \<Rightarrow> observation \<Rightarrow> err + decision" where
  "DecideBoundExecution st ob =
    (if \<not> validPhase (ob_phase ob) then Inl ErrValidation
     else if st = StateCancelling then
       (if ob_phase ob = JobAbsent then Inr ActionConfirmStop else Inr ActionStop)
     else if st \<noteq> StateProvisioning \<and> st \<noteq> StateWarmingUp \<and> st \<noteq> StateRunning then Inl ErrStateNotHandled
     else if ob_phase ob = JobAbsent then
       Inr (infrastructureFailure ''Kubernetes Job disappeared before artifact collection'')
     else if ob_deleting ob then
       Inr (infrastructureFailure ''Kubernetes Job deletion was not requested by the run'')
     else if st = StateProvisioning then
       (if ob_phase ob = JobPending then Inr ActionWait else Inr (ActionAdvance (to_state StateRunning)))
     else if \<not> terminal_phase (ob_phase ob) then Inr ActionWait
     else Inr (ActionAdvance (to_state StateCollecting)))"

section \<open>Bound execution stage (bound_execution.go)\<close>

record bound_execution_config =
  be_retryAfter :: duration
  be_cancellationPollEvery :: duration

definition BoundExecutionConfig_Validate :: "bound_execution_config \<Rightarrow> err + unit" where
  "BoundExecutionConfig_Validate cfg = check
    (0 < be_retryAfter cfg \<and> ValidRetryDelay (be_retryAfter cfg)
     \<and> 0 < be_cancellationPollEvery cfg \<and> be_cancellationPollEvery cfg \<le> minutes 5)"

definition bound_apply ::
  "('w, 'job) services \<Rightarrow> bound_execution_config \<Rightarrow> claim \<Rightarrow> decision \<Rightarrow> ('w, duration) prog" where [stage_defs]:
  "bound_apply sv cfg c dec =
    (case dec of
       ActionWait \<Rightarrow> ret (be_retryAfter cfg)
     | ActionAdvance ch \<Rightarrow> advanceOwnedClaim sv c ch
     | _ \<Rightarrow> fail ErrValidation)"

definition cancellationAction ::
  "('w, 'job) services \<Rightarrow> run_state \<Rightarrow> execution \<Rightarrow> ('w, decision) prog" where [stage_defs]:
  "cancellationAction sv st x =
    bind_ok (call (s_ObserveJob sv x)) (\<lambda>ob. of_result (DecideBoundExecution st ob))"

text \<open>Returns whether the execution is gone and whether a stop has been requested.\<close>

definition continueCancellation ::
  "('w, 'job) services \<Rightarrow> execution \<Rightarrow> decision \<Rightarrow> bool \<Rightarrow> ('w, bool \<times> bool) prog" where [stage_defs]:
  "continueCancellation sv x action stopRequested =
    (case action of
       ActionStop \<Rightarrow>
         if stopRequested then ret (False, True)
         else bind_ok (call (s_RequestJobStop sv x)) (\<lambda>_. ret (False, True))
     | ActionConfirmStop \<Rightarrow>
         bind_ok (call (s_ConfirmExecutionStopped sv x)) (\<lambda>stopped. ret (stopped, stopRequested))
     | _ \<Rightarrow> fail ErrValidation)"

text \<open>The polling loop; the first argument bounds the number of polls.\<close>

fun bound_cancel ::
  "nat \<Rightarrow> ('w, 'job) services \<Rightarrow> bound_execution_config \<Rightarrow> claim \<Rightarrow> execution \<Rightarrow> bool \<Rightarrow> ('w, duration) prog" where
  "bound_cancel 0 sv cfg c x stopRequested = (\<lambda>w. None)"
| "bound_cancel (Suc n) sv cfg c x stopRequested =
    bind_ok (cancellationAction sv (r_state (cl_run c)) x)
      (\<lambda>action. bind_ok (continueCancellation sv x action stopRequested)
        (\<lambda>(complete, requested).
           if complete then bound_apply sv cfg c (ActionAdvance (to_state StateAborted))
           else bind_ok (call (s_wait sv (be_cancellationPollEvery cfg)))
             (\<lambda>_. bound_cancel n sv cfg c x requested)))"

definition Bound_Reconcile ::
  "nat \<Rightarrow> ('w, 'job) services \<Rightarrow> bound_execution_config \<Rightarrow> claim \<Rightarrow> ('w, duration) prog" where [stage_defs]:
  "Bound_Reconcile n sv cfg c =
    (if \<not> Lease_Valid (cl_lease c) \<or> l_runID (cl_lease c) \<noteq> r_id (cl_run c)
        \<or> r_state (cl_run c) = StateUnknown []
     then fail ErrValidation
     else bind_ok (call (s_GetExecution sv (cl_lease c)))
       (\<lambda>found. case found of
          None \<Rightarrow> fail ErrExecutionNotBound
        | Some x \<Rightarrow>
            if \<not> Execution_Valid (s_dns sv) x \<or> x_runID x \<noteq> r_id (cl_run c) then fail ErrValidation
            else if r_state (cl_run c) = StateCancelling then bound_cancel n sv cfg c x False
            else bind_ok (call (s_ObserveJob sv x))
              (\<lambda>ob. bind_ok (of_result (DecideBoundExecution (r_state (cl_run c)) ob))
                (bound_apply sv cfg c))))"

section \<open>Provisioning stage (provisioning.go)\<close>

record provisioning_config =
  pc_leaseTTL :: duration
  pc_attemptTimeout :: duration

definition ProvisioningConfig_Validate :: "provisioning_config \<Rightarrow> err + unit" where
  "ProvisioningConfig_Validate cfg = check
    (ValidLeaseTTL (pc_leaseTTL cfg) \<and> ValidAttemptTimeout (pc_attemptTimeout cfg)
     \<and> pc_attemptTimeout cfg \<le> pc_leaseTTL cfg div 2)"

definition recoverCancellation ::
  "('w, 'job) services \<Rightarrow> provisioning_config \<Rightarrow> claim \<Rightarrow> ('w, duration) prog" where [stage_defs]:
  "recoverCancellation sv cfg c =
    bind_ok (call (s_ResolveJob sv (l_principal (cl_lease c)) (cl_run c)))
      (\<lambda>t. case t of
         None \<Rightarrow> fail ErrValidation
       | Some template \<Rightarrow>
         bind_ok (call (s_RenewClaim sv (cl_lease c) (pc_leaseTTL cfg)))
           (\<lambda>current.
              if r_state (cl_run current) \<noteq> StateCancelling
                 \<or> r_revision (cl_run current) \<noteq> r_revision (cl_run c)
              then ret 0
              else bind_ok (call (s_FindJob sv (r_id (cl_run c)) template))
                (\<lambda>found. case found of
                   None \<Rightarrow> advanceOwnedClaim sv current (to_state StateAborted)
                 | Some x \<Rightarrow>
                     if \<not> Execution_Valid (s_dns sv) x \<or> x_runID x \<noteq> r_id (cl_run c) then fail ErrValidation
                     else bind_ok (call (s_BindExecution sv (cl_lease c) x)) (\<lambda>_. ret 0))))"

definition dispatchAndBind ::
  "('w, 'job) services \<Rightarrow> provisioning_config \<Rightarrow> claim \<Rightarrow> ('w, duration) prog" where [stage_defs]:
  "dispatchAndBind sv cfg c =
    bind_ok (call (s_ResolveJob sv (l_principal (cl_lease c)) (cl_run c)))
      (\<lambda>t. case t of
         None \<Rightarrow> fail ErrValidation
       | Some template \<Rightarrow>
         bind_ok (call (s_RenewClaim sv (cl_lease c) (pc_leaseTTL cfg)))
           (\<lambda>current.
              if r_state (cl_run current) \<noteq> StateProvisioning
                 \<or> r_revision (cl_run current) \<noteq> r_revision (cl_run c)
              then ret 0
              else bind_ok (call (s_ctxErr sv))
                (\<lambda>_. bind_ok (call (s_EnsureJob sv (r_id (cl_run c)) template))
                  (\<lambda>x. if \<not> Execution_Valid (s_dns sv) x \<or> x_runID x \<noteq> r_id (cl_run c) then fail ErrValidation
                       else bind_ok (call (s_BindExecution sv (cl_lease c) x)) (\<lambda>_. ret 0)))))"

definition Provisioning_Reconcile ::
  "nat \<Rightarrow> ('w, 'job) services \<Rightarrow> provisioning_config \<Rightarrow> bound_execution_config \<Rightarrow> claim \<Rightarrow> ('w, duration) prog"
  where [stage_defs]:
  "Provisioning_Reconcile n sv cfg bcfg c =
    (if \<not> validOwnedClaim c then fail ErrValidation
     else if r_state (cl_run c) \<noteq> StateProvisioning \<and> r_state (cl_run c) \<noteq> StateCancelling
     then fail ErrStateNotHandled
     else bind_ok (call (s_GetExecution sv (cl_lease c)))
       (\<lambda>found. case found of
          Some x \<Rightarrow>
            if \<not> Execution_Valid (s_dns sv) x \<or> x_runID x \<noteq> r_id (cl_run c) then fail ErrValidation
            else Bound_Reconcile n sv bcfg c
        | None \<Rightarrow>
            if r_state (cl_run c) = StateCancelling then recoverCancellation sv cfg c
            else dispatchAndBind sv cfg c))"

section \<open>The cancellation loop ends\<close>

lemma advance_ends: "\<exists>r w'. advanceOwnedClaim sv c ch w = Some (r, w')"
  by (auto simp: advanceOwnedClaim_def prog_defs split: sum.splits prod.splits)

lemma bound_apply_ends: "\<exists>r w'. bound_apply sv cfg c dec w = Some (r, w')"
  using advance_ends by (cases dec) (auto simp: bound_apply_def ret_def fail_def)

lemma bound_cancel_more:
  "bound_cancel n sv cfg c x b w = Some r \<Longrightarrow> n \<le> n' \<Longrightarrow> bound_cancel n' sv cfg c x b w = Some r"
proof (induction n arbitrary: n' b w)
  case (Suc n)
  then obtain k where n': "n' = Suc k" "n \<le> k" by (cases n') auto
  from Suc.prems(1) show ?case
    by (auto simp: n' prog_defs split: option.splits prod.splits sum.splits if_splits intro: Suc.IH n'(2))
qed simp

text \<open>
  \<open>m w\<close> bounds the polls until the cluster shows the Job absent and confirms that its Pods
  are gone; calls do not increase it and waiting decreases it.
\<close>

definition cluster_settles ::
  "('w, 'job) services \<Rightarrow> bound_execution_config \<Rightarrow> execution \<Rightarrow> ('w \<Rightarrow> nat) \<Rightarrow> bool" where
  "cluster_settles sv cfg x m =
    ((\<forall>w. m (snd (s_ObserveJob sv x w)) \<le> m w \<and> m (snd (s_RequestJobStop sv x w)) \<le> m w
        \<and> m (snd (s_ConfirmExecutionStopped sv x w)) \<le> m w
        \<and> m (snd (s_wait sv (be_cancellationPollEvery cfg) w)) \<le> m w - 1)
     \<and> (\<forall>w ob. m w = 0 \<longrightarrow> fst (s_ObserveJob sv x w) = Inr ob \<longrightarrow> ob_phase ob = JobAbsent)
     \<and> (\<forall>w b. m w = 0 \<longrightarrow> fst (s_ConfirmExecutionStopped sv x w) = Inr b \<longrightarrow> b))"

lemma cancellationAction_cases:
  assumes "cluster_settles sv cfg x m" "st = StateCancelling"
  obtains (error) e w1 where "cancellationAction sv st x w = Some (Inl e, w1)"
  | (stop) w1 where "cancellationAction sv st x w = Some (Inr ActionStop, w1)" "m w1 \<le> m w" "m w \<noteq> 0"
  | (confirm) w1 where "cancellationAction sv st x w = Some (Inr ActionConfirmStop, w1)" "m w1 \<le> m w"
proof (cases "s_ObserveJob sv x w")
  case (Pair r w1)
  have le: "m w1 \<le> m w" using assms(1) Pair unfolding cluster_settles_def by (metis snd_conv)
  show ?thesis
  proof (cases r)
    case (Inl e)
    with Pair error [of e w1] show ?thesis by (simp add: cancellationAction_def prog_defs)
  next
    case (Inr ob)
    have z: "m w = 0 \<Longrightarrow> ob_phase ob = JobAbsent"
      using assms(1) Pair Inr unfolding cluster_settles_def by (metis fst_conv)
    have act: "cancellationAction sv st x w = Some (DecideBoundExecution st ob, w1)"
      using Pair Inr by (simp add: cancellationAction_def prog_defs)
    show ?thesis
    proof (cases "validPhase (ob_phase ob)")
      case False
      with act error [of ErrValidation w1] show ?thesis by (simp add: DecideBoundExecution_def)
    next
      case True
      with act le z stop [of w1] confirm [of w1] show ?thesis
        by (cases "ob_phase ob = JobAbsent") (auto simp: DecideBoundExecution_def assms(2))
    qed
  qed
qed

lemma continueCancellation_cases:
  assumes "cluster_settles sv cfg x m" "action = ActionStop \<or> action = ActionConfirmStop"
  obtains (error) e w1 where "continueCancellation sv x action b w = Some (Inl e, w1)"
  | (complete) b' w1 where "continueCancellation sv x action b w = Some (Inr (True, b'), w1)"
  | (go) b' w1 where "continueCancellation sv x action b w = Some (Inr (False, b'), w1)" "m w1 \<le> m w"
      "action = ActionStop \<or> m w \<noteq> 0"
proof (cases "action = ActionStop")
  case True
  have "m (snd (s_RequestJobStop sv x w)) \<le> m w" using assms(1) by (auto simp: cluster_settles_def)
  with True assms(2) that show ?thesis
    by (cases b; cases "s_RequestJobStop sv x w"; cases "fst (s_RequestJobStop sv x w)")
      (auto simp: continueCancellation_def prog_defs)
next
  case False
  with assms(2) have act: "action = ActionConfirmStop" by simp
  obtain r w1 where c: "s_ConfirmExecutionStopped sv x w = (r, w1)" by force
  have le: "m w1 \<le> m w" using assms(1) c unfolding cluster_settles_def by (metis snd_conv)
  show ?thesis
  proof (cases r)
    case (Inl e)
    with act c error [of e w1] show ?thesis by (simp add: continueCancellation_def prog_defs)
  next
    case (Inr stopped)
    have "m w = 0 \<Longrightarrow> stopped" using assms(1) c Inr unfolding cluster_settles_def by (metis fst_conv)
    with act c Inr le complete [of b w1] go [of b w1] show ?thesis
      by (cases stopped) (auto simp: continueCancellation_def prog_defs)
  qed
qed

lemma bound_cancel_ends:
  assumes "cluster_settles sv cfg x m" "r_state (cl_run c) = StateCancelling"
  shows "m w < n \<Longrightarrow> \<exists>r w'. bound_cancel n sv cfg c x b w = Some (r, w')"
proof (induction n arbitrary: b w)
  case (Suc n)
  note settle = assms(1)
  let ?body = "\<lambda>action w1. bind_ok (continueCancellation sv x action b)
        (\<lambda>(complete, requested). if complete then bound_apply sv cfg c (ActionAdvance (to_state StateAborted))
           else bind_ok (call (s_wait sv (be_cancellationPollEvery cfg)))
             (\<lambda>_. bound_cancel n sv cfg c x requested)) w1"
  have cont: "\<exists>r w'. ?body action w1 = Some (r, w')"
    if "action = ActionStop \<or> action = ActionConfirmStop" "action = ActionStop \<longrightarrow> m w \<noteq> 0" "m w1 \<le> m w" for action w1
    using settle that(1)
  proof (cases rule: continueCancellation_cases [where b = b and w = w1])
    case (error e w2)
    then show ?thesis by (simp add: prog_defs)
  next
    case (complete b' w2)
    then show ?thesis using bound_apply_ends [of sv cfg c "ActionAdvance (to_state StateAborted)" w2] by (simp add: prog_defs)
  next
    case (go b' w2)
    obtain r w3 where w3: "s_wait sv (be_cancellationPollEvery cfg) w2 = (r, w3)" by force
    have "m w3 \<le> m w2 - 1" using settle w3 unfolding cluster_settles_def by (metis snd_conv)
    with go(2,3) that(2,3) Suc.prems have "m w3 < n" by linarith
    from Suc.IH [OF this, of b'] go(1) w3 show ?thesis by (cases r) (auto simp: prog_defs)
  qed
  show ?case
    using settle assms(2)
  proof (cases rule: cancellationAction_cases [where w = w])
    case (error e w1)
    then show ?thesis by (simp add: prog_defs)
  next
    case (stop w1)
    with cont [of ActionStop w1] show ?thesis by (simp add: bind_ok_def attempt_def)
  next
    case (confirm w1)
    with cont [of ActionConfirmStop w1] show ?thesis by (simp add: bind_ok_def attempt_def)
  qed
qed simp

end
