(* ===== verification/Evidence.thy ===== *)
theory Evidence
  imports Reconcile
begin

text \<open>
  Package \<open>internal/reconcile\<close>, the evidence stages: collection of raw artifacts,
  normalization and reporting (\<open>collection.go\<close>, \<open>analysis.go\<close>, \<open>reporting.go\<close>) and the
  router over all stages (\<open>router.go\<close>).
\<close>

section \<open>Collection stage (collection.go)\<close>

record stage_config =
  sc_attemptTimeout :: duration
  sc_retryAfter :: duration

text \<open>\<open>CollectionConfig\<close>, \<open>AnalysisConfig\<close> and \<open>ReportingConfig\<close> have the same fields and checks.\<close>

definition StageConfig_Validate :: "stage_config \<Rightarrow> err + unit" where
  "StageConfig_Validate cfg = check
    (ValidAttemptTimeout (sc_attemptTimeout cfg) \<and> 0 < sc_retryAfter cfg \<and> ValidRetryDelay (sc_retryAfter cfg))"

definition validRawManifestFormat :: "string \<Rightarrow> bool" where
  "validRawManifestFormat f = (f = ''raw-result/v1'' \<or> f = ''raw-result/v2'')"

text \<open>The loop of \<open>RawArtifactSet.Validate\<close> over the identifiers and locations seen so far.\<close>

fun raw_items_ok :: "string \<Rightarrow> string set \<Rightarrow> string set \<Rightarrow> artifact list \<Rightarrow> bool" where
  "raw_items_ok runID ids locations [] = True"
| "raw_items_ok runID ids locations (a # as) =
    (a_runID a = runID \<and> a_kind a = ''raw'' \<and> is_ok (Artifact_Validate a)
     \<and> a_id a \<notin> ids \<and> a_uri a \<notin> locations
     \<and> raw_items_ok runID (insert (a_id a) ids) (insert (a_uri a) locations) as)"

definition RawArtifactSet_Validate :: "raw_artifact_set \<Rightarrow> string \<Rightarrow> err + unit" where
  "RawArtifactSet_Validate s runID = check
    (ra_artifacts s \<noteq> [] \<and> a_runID (ra_manifest s) = runID \<and> a_kind (ra_manifest s) = ''raw''
     \<and> a_mediaType (ra_manifest s) = ''application/json'' \<and> validRawManifestFormat (a_format (ra_manifest s))
     \<and> is_ok (Artifact_Validate (ra_manifest s))
     \<and> raw_items_ok runID {a_id (ra_manifest s)} {a_uri (ra_manifest s)} (ra_artifacts s))"

definition collection_reject :: "('w, 'job) services \<Rightarrow> claim \<Rightarrow> ('w, duration) prog" where [stage_defs]:
  "collection_reject sv c =
    advanceOwnedClaim sv c
      (failed_with StateTestFailure FailureCodeToolError ''execution did not produce valid raw artifacts'')"

definition Collection_Reconcile :: "('w, 'job) services \<Rightarrow> stage_config \<Rightarrow> claim \<Rightarrow> ('w, duration) prog"
  where [stage_defs]:
  "Collection_Reconcile sv cfg c =
    (if \<not> validOwnedClaim c then fail ErrValidation
     else if r_state (cl_run c) \<noteq> StateCollecting then fail ErrStateNotHandled
     else attempt (call (s_CollectRawArtifacts sv (l_principal (cl_lease c)) (cl_run c)))
       (\<lambda>r. case r of
          Inl e \<Rightarrow>
            if errors_is e ErrArtifactsNotReady \<and> errors_is e ErrInvalidArtifacts then fail ErrValidation
            else if errors_is e ErrArtifactsNotReady then ret (sc_retryAfter cfg)
            else if errors_is e ErrInvalidArtifacts then collection_reject sv c
            else fail e
        | Inr collected \<Rightarrow>
            bind_ok (of_result (RawArtifactSet_Validate collected (r_id (cl_run c))))
              (\<lambda>_. bind_ok (call (register_all (s_RegisterArtifact sv (l_principal (cl_lease c)))
                               (ra_artifacts collected @ [ra_manifest collected])))
                (\<lambda>_. advanceOwnedClaim sv c (to_state StateAnalyzing)))))"

section \<open>Analysis stage (analysis.go)\<close>

text \<open>The zero \<open>run.Artifact\<close>: an unset manifest or candidate has an empty identifier.\<close>

definition no_artifact :: artifact where
  "no_artifact = \<lparr>a_id = [], a_runID = [], a_kind = [], a_uri = [], a_sha256 = [], a_sizeBytes = 0,
     a_mediaType = [], a_format = []\<rparr>"

type_synonym evidence = "analysis_input \<times> artifact option"

definition addRaw :: "artifact \<Rightarrow> evidence \<Rightarrow> err + evidence" where
  "addRaw a ev = (case ev of (input, normalized) \<Rightarrow>
     if \<not> validRawManifestFormat (a_format a)
     then Inr (input\<lparr>ai_sources := ai_sources input @ [a]\<rparr>, normalized)
     else if a_id (ai_manifest input) \<noteq> [] \<or> a_mediaType a \<noteq> ''application/json'' then Inl ErrValidation
     else Inr (input\<lparr>ai_manifest := a\<rparr>, normalized))"

definition addNormalized :: "artifact \<Rightarrow> evidence \<Rightarrow> err + evidence" where
  "addNormalized a ev = (case ev of (input, normalized) \<Rightarrow>
     if normalized \<noteq> None \<or> a_format a \<noteq> ''normalized-result/v1'' \<or> a_mediaType a \<noteq> ''application/json''
     then Inl ErrValidation
     else Inr (input, Some a))"

definition evidence_add :: "string \<Rightarrow> artifact \<Rightarrow> evidence \<Rightarrow> err + evidence" where
  "evidence_add runID a ev =
    (if a_runID a \<noteq> runID \<or> \<not> is_ok (Artifact_Validate a) then Inl ErrValidation
     else if a_kind a = ''raw'' then addRaw a ev
     else if a_kind a = ''normalized'' then addNormalized a ev
     else Inl ErrValidation)"

fun evidence_all :: "string \<Rightarrow> artifact list \<Rightarrow> evidence \<Rightarrow> err + evidence" where
  "evidence_all runID [] ev = Inr ev"
| "evidence_all runID (a # as) ev =
    (case evidence_add runID a ev of Inl _ \<Rightarrow> Inl ErrValidation | Inr ev' \<Rightarrow> evidence_all runID as ev')"

definition validNormalizedArtifact :: "string \<Rightarrow> artifact \<Rightarrow> analysis_input \<Rightarrow> err + unit" where
  "validNormalizedArtifact runID output input = check
    (a_runID output = runID \<and> a_kind output = ''normalized'' \<and> a_mediaType output = ''application/json''
     \<and> a_format output = ''normalized-result/v1'' \<and> is_ok (Artifact_Validate output)
     \<and> a_id output \<noteq> a_id (ai_manifest input) \<and> a_uri output \<noteq> a_uri (ai_manifest input)
     \<and> list_all (\<lambda>s. a_id output \<noteq> a_id s \<and> a_uri output \<noteq> a_uri s) (ai_sources input))"

definition analysisEvidence :: "string \<Rightarrow> artifact list \<Rightarrow> err + evidence" where
  "analysisEvidence runID as =
    (case evidence_all runID as (\<lparr>ai_manifest = no_artifact, ai_sources = []\<rparr>, None) of
       Inl e \<Rightarrow> Inl e
     | Inr (input, normalized) \<Rightarrow>
         if a_id (ai_manifest input) = [] \<or> ai_sources input = [] then Inl ErrValidation
         else (case normalized of
            None \<Rightarrow> Inr (input, None)
          | Some n \<Rightarrow> if is_ok (validNormalizedArtifact runID n input) then Inr (input, Some n)
                      else Inl ErrValidation))"

definition operational_errors :: "err list" where
  "operational_errors = [ErrCanceled, ErrDeadlineExceeded, ErrLeaseLost, ErrUnavailable, ErrArtifactConflict]"

text \<open>\<open>executionError\<close> of both stages; the sentinels and the message differ.\<close>

definition executionError ::
  "err \<Rightarrow> err \<Rightarrow> string \<Rightarrow> ('w, 'job) services \<Rightarrow> stage_config \<Rightarrow> claim \<Rightarrow> err \<Rightarrow> ('w, duration) prog" where [stage_defs]:
  "executionError pending_err failed_err message sv cfg c e =
    bind_ok (call (s_ctxErr sv))
      (\<lambda>_. case find (errors_is e) operational_errors of
         Some operational \<Rightarrow> fail operational
       | None \<Rightarrow>
           if errors_is e pending_err \<and> errors_is e failed_err then fail ErrValidation
           else if errors_is e pending_err then ret (sc_retryAfter cfg)
           else if \<not> errors_is e failed_err then fail e
           else advanceOwnedClaim sv c
             (failed_with StateInfrastructureFailure FailureCodeAnalysisError message))"

definition Analysis_Reconcile :: "('w, 'job) services \<Rightarrow> stage_config \<Rightarrow> claim \<Rightarrow> ('w, duration) prog"
  where [stage_defs]:
  "Analysis_Reconcile sv cfg c =
    (if \<not> validOwnedClaim c then fail ErrValidation
     else if r_state (cl_run c) \<noteq> StateAnalyzing then fail ErrStateNotHandled
     else bind_ok (call (s_ListArtifacts sv (l_principal (cl_lease c)) (r_id (cl_run c))))
       (\<lambda>artifacts. case analysisEvidence (r_id (cl_run c)) artifacts of
          Inl e \<Rightarrow> fail e
        | Inr (input, Some _) \<Rightarrow> advanceOwnedClaim sv c (to_state StateReporting)
        | Inr (input, None) \<Rightarrow>
            attempt (call (s_Normalize sv (l_principal (cl_lease c)) (cl_run c) input))
              (\<lambda>r. case r of
                 Inl e \<Rightarrow> executionError ErrAnalysisPending ErrAnalysisFailed ''normalization failed'' sv cfg c e
               | Inr output \<Rightarrow>
                   bind_ok (of_result (validNormalizedArtifact (r_id (cl_run c)) output input))
                     (\<lambda>_. bind_ok (call (s_RegisterArtifact sv (l_principal (cl_lease c)) output))
                       (\<lambda>_. advanceOwnedClaim sv c (to_state StateReporting))))))"

section \<open>Reporting stage (reporting.go)\<close>

fun reporting_scan :: "string \<Rightarrow> artifact list \<Rightarrow> artifact \<times> artifact option \<Rightarrow> err + (artifact \<times> artifact option)" where
  "reporting_scan runID [] st = Inr st"
| "reporting_scan runID (a # as) (candidate, report) =
    (if a_runID a \<noteq> runID \<or> \<not> is_ok (Artifact_Validate a) then Inl ErrValidation
     else if a_kind a = ''raw'' then reporting_scan runID as (candidate, report)
     else if a_kind a \<noteq> ''normalized'' \<or> a_mediaType a \<noteq> ''application/json'' then Inl ErrValidation
     else if a_format a = ''normalized-result/v1'' then
       (if a_id candidate \<noteq> [] then Inl ErrValidation else reporting_scan runID as (a, report))
     else if a_format a = ''analysis-result/v1'' then
       (if report \<noteq> None then Inl ErrValidation else reporting_scan runID as (candidate, Some a))
     else Inl ErrValidation)"

definition validReportArtifact :: "string \<Rightarrow> artifact \<Rightarrow> artifact list \<Rightarrow> err + unit" where
  "validReportArtifact runID output existing = check
    (a_runID output = runID \<and> a_kind output = ''normalized'' \<and> a_mediaType output = ''application/json''
     \<and> a_format output = ''analysis-result/v1'' \<and> is_ok (Artifact_Validate output)
     \<and> list_all (\<lambda>s. a_id output \<noteq> a_id s \<and> a_uri output \<noteq> a_uri s) existing)"

text \<open>\<open>artifactsWithout\<close> removes the first equal reference.\<close>

definition artifactsWithout :: "artifact \<Rightarrow> artifact list \<Rightarrow> artifact list" where
  "artifactsWithout excluded as = remove1 excluded as"

definition reportingEvidence :: "string \<Rightarrow> artifact list \<Rightarrow> err + (artifact \<times> artifact option)" where
  "reportingEvidence runID as =
    (case reporting_scan runID as (no_artifact, None) of
       Inl e \<Rightarrow> Inl e
     | Inr (candidate, report) \<Rightarrow>
         if a_id candidate = [] then Inl ErrValidation
         else (case report of
            None \<Rightarrow> Inr (candidate, None)
          | Some r \<Rightarrow> if is_ok (validReportArtifact runID r (artifactsWithout r as)) then Inr (candidate, Some r)
                      else Inl ErrValidation))"

definition publish_and_complete ::
  "('w, 'job) services \<Rightarrow> claim \<Rightarrow> artifact \<Rightarrow> artifact \<Rightarrow> ('w, duration) prog" where [stage_defs]:
  "publish_and_complete sv c candidate report =
    (case s_PublishReport sv of
       None \<Rightarrow> advanceOwnedClaim sv c (to_state StateCompleted)
     | Some publish \<Rightarrow>
         bind_ok (call (s_ctxErr sv))
           (\<lambda>_. bind_ok (call (publish (l_principal (cl_lease c)) (cl_run c) candidate report))
             (\<lambda>_. bind_ok (call (s_ctxErr sv))
               (\<lambda>_. advanceOwnedClaim sv c (to_state StateCompleted)))))"

definition Reporting_Reconcile :: "('w, 'job) services \<Rightarrow> stage_config \<Rightarrow> claim \<Rightarrow> ('w, duration) prog"
  where [stage_defs]:
  "Reporting_Reconcile sv cfg c =
    (if \<not> validOwnedClaim c then fail ErrValidation
     else if r_state (cl_run c) \<noteq> StateReporting then fail ErrStateNotHandled
     else bind_ok (call (s_ListArtifacts sv (l_principal (cl_lease c)) (r_id (cl_run c))))
       (\<lambda>artifacts. case reportingEvidence (r_id (cl_run c)) artifacts of
          Inl e \<Rightarrow> fail e
        | Inr (candidate, Some report) \<Rightarrow> publish_and_complete sv c candidate report
        | Inr (candidate, None) \<Rightarrow>
            attempt (call (s_Report sv (l_principal (cl_lease c)) (cl_run c) candidate))
              (\<lambda>r. case r of
                 Inl e \<Rightarrow> executionError ErrReportPending ErrReportFailed ''analysis report generation failed'' sv cfg c e
               | Inr output \<Rightarrow>
                   bind_ok (of_result (validReportArtifact (r_id (cl_run c)) output artifacts))
                     (\<lambda>_. bind_ok (call (s_RegisterArtifact sv (l_principal (cl_lease c)) output))
                       (\<lambda>_. publish_and_complete sv c candidate output)))))"

section \<open>Router (router.go)\<close>

record router_config =
  rc_provisioning :: provisioning_config
  rc_bound :: bound_execution_config
  rc_collection :: stage_config
  rc_analysis :: stage_config
  rc_reporting :: stage_config

definition Router_Reconcile :: "nat \<Rightarrow> ('w, 'job) services \<Rightarrow> router_config \<Rightarrow> claim \<Rightarrow> ('w, duration) prog"
  where [stage_defs]:
  "Router_Reconcile n sv cfg c =
    (if \<not> validOwnedClaim c then fail ErrValidation
     else case r_state (cl_run c) of
       StateCreated \<Rightarrow> advanceOwnedClaim sv c (to_state StateValidating)
     | StateValidating \<Rightarrow> Validation_Reconcile sv c
     | StateProvisioning \<Rightarrow> Provisioning_Reconcile n sv (rc_provisioning cfg) (rc_bound cfg) c
     | StateCancelling \<Rightarrow> Provisioning_Reconcile n sv (rc_provisioning cfg) (rc_bound cfg) c
     | StateWarmingUp \<Rightarrow> Bound_Reconcile n sv (rc_bound cfg) c
     | StateRunning \<Rightarrow> Bound_Reconcile n sv (rc_bound cfg) c
     | StateCollecting \<Rightarrow> Collection_Reconcile sv (rc_collection cfg) c
     | StateAnalyzing \<Rightarrow> Analysis_Reconcile sv (rc_analysis cfg) c
     | StateReporting \<Rightarrow> Reporting_Reconcile sv (rc_reporting cfg) c
     | _ \<Rightarrow> fail ErrStateNotHandled)"

section \<open>Evidence scans\<close>

lemma valid_artifact_id: "is_ok (Artifact_Validate a) \<Longrightarrow> a_id a \<noteq> []"
proof
  assume ok: "is_ok (Artifact_Validate a)" and "a_id a = []"
  then have "rx_match uuid_pattern []" by (auto simp: Artifact_Validate_def split: if_splits)
  then show False by (simp add: uuid_pattern_def)
qed

definition is_manifest :: "artifact \<Rightarrow> bool" where
  "is_manifest a = validRawManifestFormat (a_format a)"

definition raw_item :: "string \<Rightarrow> artifact \<Rightarrow> bool" where
  "raw_item runID a = (a_runID a = runID \<and> a_kind a = ''raw'' \<and> is_ok (Artifact_Validate a)
     \<and> (is_manifest a \<longrightarrow> a_mediaType a = ''application/json''))"

lemma evidence_sources:
  assumes "list_all (\<lambda>a. raw_item runID a \<and> \<not> is_manifest a) as"
  shows "evidence_all runID as (inp, n) = Inr (inp\<lparr>ai_sources := ai_sources inp @ as\<rparr>, n)"
  using assms
proof (induction as arbitrary: inp)
  case (Cons a as)
  then show ?case by (simp add: evidence_add_def addRaw_def raw_item_def is_manifest_def)
qed simp

lemma evidence_append:
  "evidence_all runID (as @ bs) ev =
    (case evidence_all runID as ev of Inl e \<Rightarrow> Inl e | Inr ev' \<Rightarrow> evidence_all runID bs ev')"
  by (induction as arbitrary: ev) (auto split: sum.splits)

lemma evidence_one_manifest:
  assumes "list_all (\<lambda>a. raw_item runID a \<and> \<not> is_manifest a) (as @ bs)" "raw_item runID m" "is_manifest m"
    "a_id (ai_manifest inp) = []"
  shows "evidence_all runID (as @ m # bs) (inp, n) =
    Inr (inp\<lparr>ai_manifest := m, ai_sources := ai_sources inp @ as @ bs\<rparr>, n)"
proof -
  have "evidence_add runID m (inp\<lparr>ai_sources := ai_sources inp @ as\<rparr>, n)
      = Inr (inp\<lparr>ai_sources := ai_sources inp @ as, ai_manifest := m\<rparr>, n)"
    using assms(2-4) by (simp add: evidence_add_def addRaw_def raw_item_def is_manifest_def)
  moreover have "evidence_all runID as (inp, n) = Inr (inp\<lparr>ai_sources := ai_sources inp @ as\<rparr>, n)"
    using assms(1) by (intro evidence_sources) simp
  moreover have "evidence_all runID bs (inp\<lparr>ai_sources := ai_sources inp @ as, ai_manifest := m\<rparr>, n)
      = Inr (inp\<lparr>ai_manifest := m, ai_sources := ai_sources inp @ as @ bs\<rparr>, n)"
    using assms(1) evidence_sources [of runID bs "inp\<lparr>ai_sources := ai_sources inp @ as, ai_manifest := m\<rparr>" n] by simp
  ultimately show ?thesis by (simp add: evidence_append)
qed

lemma raw_items_raw:
  "raw_items_ok runID ids locs as \<Longrightarrow> a \<in> set as \<Longrightarrow> a_runID a = runID \<and> a_kind a = ''raw'' \<and> is_ok (Artifact_Validate a)"
  by (induction as arbitrary: ids locs) auto

text \<open>
  The evidence of a validated collection is recovered from storage in any order, provided
  the collector puts no second manifest among the sources (which its validation does not
  check).
\<close>

lemma collected_evidence:
  assumes v: "RawArtifactSet_Validate s runID = Inr ()" and nm: "list_all (\<lambda>a. \<not> is_manifest a) (ra_artifacts s)"
    and mem: "set (as @ bs) = set (ra_artifacts s)"
  shows "analysisEvidence runID (as @ ra_manifest s # bs) = Inr (\<lparr>ai_manifest = ra_manifest s, ai_sources = as @ bs\<rparr>, None)"
proof -
  note v' = v [unfolded RawArtifactSet_Validate_def, simplified]
  have src: "list_all (\<lambda>a. raw_item runID a \<and> \<not> is_manifest a) (as @ bs)"
    using raw_items_raw [of runID _ _ "ra_artifacts s"] v' nm mem unfolding list_all_iff raw_item_def by blast
  have m: "raw_item runID (ra_manifest s)" "is_manifest (ra_manifest s)"
    using v' by (auto simp: raw_item_def is_manifest_def)
  have "a_id (ra_manifest s) \<noteq> []" using v' valid_artifact_id by blast
  moreover have "as @ bs \<noteq> []" using mem v' by force
  ultimately show ?thesis
    using evidence_one_manifest [OF src m, of "\<lparr>ai_manifest = no_artifact, ai_sources = []\<rparr>" None]
    by (simp add: analysisEvidence_def no_artifact_def)
qed

text \<open>
  The converse: with a second manifest among the sources, which the validation of a collected
  set accepts, no listing of the stored evidence is ever accepted for analysis.
\<close>

lemma raw_items_fresh: "raw_items_ok runID ids locs as \<Longrightarrow> a \<in> set as \<Longrightarrow> a_id a \<notin> ids"
  by (induction as arbitrary: ids locs) auto

lemma evidence_manifests:
  assumes "evidence_all runID as ev = Inr ev'"
  shows "length (filter (\<lambda>a. a_kind a = ''raw'' \<and> is_manifest a) as) + (if a_id (ai_manifest (fst ev)) = [] then 0 else 1) \<le> 1"
  using assms
proof (induction as arbitrary: ev)
  case (Cons a as)
  then obtain ev1 where ev1: "evidence_add runID a ev = Inr ev1" "evidence_all runID as ev1 = Inr ev'" by (auto split: sum.splits)
  have "is_ok (Artifact_Validate a)" using ev1(1) by (auto simp: evidence_add_def split: if_splits)
  then have "a_id a \<noteq> []" using valid_artifact_id by (cases "Artifact_Validate a") auto
  with ev1(1) Cons.IH [OF ev1(2)] show ?case
    by (cases ev) (auto simp: evidence_add_def addRaw_def addNormalized_def is_manifest_def split: if_splits)
qed simp

lemma evidence_all_Inl: "evidence_all runID as ev = Inl e \<Longrightarrow> e = ErrValidation"
  by (induction as arbitrary: ev) (auto split: sum.splits)

lemma second_manifest_blocks_analysis:
  assumes v: "RawArtifactSet_Validate s runID = Inr ()" and a: "a \<in> set (ra_artifacts s)" "is_manifest a"
    and mem: "set as = set (ra_artifacts s @ [ra_manifest s])"
  shows "analysisEvidence runID as = Inl ErrValidation"
proof (cases "evidence_all runID as (\<lparr>ai_manifest = no_artifact, ai_sources = []\<rparr>, None)")
  case (Inr ev)
  note v' = v [unfolded RawArtifactSet_Validate_def, simplified]
  let ?ms = "filter (\<lambda>a. a_kind a = ''raw'' \<and> is_manifest a) as"
  have "a \<noteq> ra_manifest s" using v' raw_items_fresh [OF _ a(1)] by fastforce
  moreover have "a \<in> set ?ms" using a mem v' raw_items_raw [of runID _ _ "ra_artifacts s" a] by auto
  moreover have "ra_manifest s \<in> set ?ms" using mem v' by (simp add: is_manifest_def)
  ultimately have "\<not> length ?ms \<le> 1" by (cases ?ms; cases "tl ?ms") (auto simp: filter_eq_Cons_iff)
  with evidence_manifests [OF Inr] show ?thesis by auto
qed (use evidence_all_Inl in \<open>auto simp: analysisEvidence_def\<close>)

end
