(* ===== verification/Pg_Holds.thy ===== *)
theory Pg_Holds
  imports Pg_Machine
begin

text \<open>
  Invariants of benchmark target holds and of execution identities over all calls of the
  Postgres repository: an active target belongs to one Run, what was materialised is never
  replaced, and a hold is released only after its fenced drain period.
\<close>

section \<open>How a hold may change\<close>

definition keeps :: "'a option \<Rightarrow> 'a option \<Rightarrow> bool" where
  "keeps a b = (a \<noteq> None \<longrightarrow> b = a)"

definition hold_evolves :: "reservation_row \<Rightarrow> reservation_row \<Rightarrow> bool" where
  "hold_evolves rv rv' =
    (rv_intent rv' = rv_intent rv \<and> rv_admission rv' = rv_admission rv \<and> rv_createdAt rv' = rv_createdAt rv
     \<and> keeps (rv_namespaceUID rv) (rv_namespaceUID rv') \<and> keeps (rv_request rv) (rv_request rv')
     \<and> keeps (rv_cleanupStartedAt rv) (rv_cleanupStartedAt rv') \<and> keeps (rv_cleanupChange rv) (rv_cleanupChange rv')
     \<and> keeps (rv_cleanupFencedAt rv) (rv_cleanupFencedAt rv')
     \<and> (rv_cleanupFencedAt rv \<noteq> None \<longrightarrow> rv_cleanupNotBefore rv' = rv_cleanupNotBefore rv)
     \<and> (rv_cleanupStartedAt rv \<noteq> None \<longrightarrow> rv_request rv' = rv_request rv)
     \<and> (rv_releasedAt rv \<noteq> None \<longrightarrow> rv' = rv))"

lemma hold_evolves_refl [simp]: "hold_evolves rv rv"
  by (simp add: hold_evolves_def keeps_def)

lemma hold_evolves_trans: "hold_evolves a b \<Longrightarrow> hold_evolves b c \<Longrightarrow> hold_evolves a c"
  unfolding hold_evolves_def keeps_def by (elim conjE, intro conjI) (auto 0 0)

definition row_ok :: "reservation_row \<Rightarrow> bool" where
  "row_ok rv = (reservation_check rv \<and> BenchmarkIntent_Valid (rv_intent rv))"

text \<open>The writes of the reservation table.\<close>

inductive hold_step :: "(string, reservation_row) table \<Rightarrow> (string, reservation_row) table \<Rightarrow> bool" where
  same: "hold_step t t"
| hold: "map_of t i = None \<Longrightarrow>
    (\<forall>j rv'. (j, rv') \<in> set t \<longrightarrow> rv_releasedAt rv' = None \<longrightarrow> bi_targetID (rv_intent rv') \<noteq> bi_targetID (rv_intent rv)) \<Longrightarrow>
    row_ok rv \<Longrightarrow> hold_step t (tput i rv t)"
| change: "map_of t i = Some rv \<Longrightarrow> hold_evolves rv rv' \<Longrightarrow> reservation_check rv' \<Longrightarrow> hold_step t (tput i rv' t)"

definition holds_exclusive :: "(string, reservation_row) table \<Rightarrow> bool" where
  "holds_exclusive t = (\<forall>i j rv rv'. map_of t i = Some rv \<longrightarrow> map_of t j = Some rv' \<longrightarrow>
     rv_releasedAt rv = None \<longrightarrow> rv_releasedAt rv' = None \<longrightarrow>
     bi_targetID (rv_intent rv) = bi_targetID (rv_intent rv') \<longrightarrow> i = j)"

definition holds_ok :: "(string, reservation_row) table \<Rightarrow> bool" where
  "holds_ok t = (table_ok t \<and> holds_exclusive t \<and> (\<forall>i rv. map_of t i = Some rv \<longrightarrow> row_ok rv))"

lemma holds_ok_Nil [simp]: "holds_ok []"
  by (simp add: holds_ok_def holds_exclusive_def)

lemma hold_step_ok:
  assumes "hold_step t t'" "holds_ok t"
  shows "holds_ok t'"
  using assms
proof cases
  case (hold i rv)
  have "rv_releasedAt rv' = None \<longrightarrow> bi_targetID (rv_intent rv') \<noteq> bi_targetID (rv_intent rv)"
    if "map_of t j = Some rv'" for j rv'
    using hold(3) that by (auto dest: map_of_SomeD)
  with hold assms(2) show ?thesis
    unfolding holds_ok_def holds_exclusive_def by (auto simp: eq_commute)
next
  case (change i rv rv')
  have r: "rv_releasedAt rv' = None \<Longrightarrow> rv_releasedAt rv = None" "rv_intent rv' = rv_intent rv"
    using change(3) by (auto simp: hold_evolves_def)
  have "row_ok rv'" using change assms(2) r(2) by (auto simp: holds_ok_def row_ok_def)
  moreover have "holds_exclusive t'"
    using assms(2) change(2) r unfolding change(1) holds_ok_def holds_exclusive_def
    by (auto split: if_splits)
  ultimately show ?thesis using assms(2) by (auto simp: change(1) holds_ok_def)
qed simp

lemma hold_step_row:
  assumes "hold_step t t'" "map_of t i = Some rv"
  shows "\<exists>rv'. map_of t' i = Some rv' \<and> hold_evolves rv rv'"
  using assms by cases auto

section \<open>Every call makes such a write\<close>

lemma read_reservation:
  assumes "readBenchmarkReservation q i d = Inr (Some b)"
  obtains rv where "map_of (d_reservations d) i = Some rv" "br_runID b = i" "br_intent b = rv_intent rv"
    "br_namespaceUID b = (case rv_namespaceUID rv of None \<Rightarrow> [] | Some u \<Rightarrow> u)"
    "br_request b = (case rv_request rv of None \<Rightarrow> [] | Some x \<Rightarrow> x)"
    "rv_namespaceUID rv \<noteq> Some []"
    "br_cleanup b = None \<longleftrightarrow> rv_cleanupStartedAt rv = None"
    "\<And>c. br_cleanup b = Some c \<Longrightarrow>
      rv_cleanupStartedAt rv = Some (bc_startedAt c) \<and> rv_cleanupFencedAt rv = bc_fencedAt c
      \<and> rv_cleanupNotBefore rv = Some (bc_notBefore c) \<and> rv_cleanupChange rv = Some (bc_next c)
      \<and> rv_releasedAt rv = bc_releasedAt c"
proof -
  obtain rv where rv: "map_of (d_reservations d) i = Some rv"
    using assms by (auto simp: readBenchmarkReservation_def split: option.splits)
  obtain cl where cl: "read_cleanup q rv = Inr cl"
    using assms rv by (auto simp: readBenchmarkReservation_def split: sum.splits)
  have uid: "\<not> ValidBenchmarkUID []"
    by (simp add: ValidBenchmarkUID_def uuid_pattern_def)
  note b = assms [unfolded readBenchmarkReservation_def rv option.case cl sum.case]
  show thesis
  proof (rule that [OF rv])
    show "rv_namespaceUID rv \<noteq> Some []" using b uid by (auto split: option.splits if_splits)
    show "br_cleanup b = None \<longleftrightarrow> rv_cleanupStartedAt rv = None"
      using b cl by (auto simp: read_cleanup_def split: option.splits if_splits)
    show "rv_cleanupStartedAt rv = Some (bc_startedAt c) \<and> rv_cleanupFencedAt rv = bc_fencedAt c
      \<and> rv_cleanupNotBefore rv = Some (bc_notBefore c) \<and> rv_cleanupChange rv = Some (bc_next c)
      \<and> rv_releasedAt rv = bc_releasedAt c" if "br_cleanup b = Some c" for c
      using b cl that by (auto simp: read_cleanup_def split: option.splits if_splits)
  qed (use b in \<open>auto split: if_splits\<close>)
qed

definition hold_call :: "db \<Rightarrow> db \<Rightarrow> bool" where
  "hold_call d d' = (holds_ok (d_reservations d) \<longrightarrow> hold_step (d_reservations d) (d_reservations d'))"

lemma hold_call_same: "d_reservations d' = d_reservations d \<Longrightarrow> hold_call d d'"
  by (simp add: hold_call_def hold_step.same)

lemma hold_call_refl [simp]: "hold_call d d"
  by (simp add: hold_call_same)

lemma update_reservation_hold:
  assumes "update_reservation i f d = Some d'" "readBenchmarkReservation q i d = Inr (Some b)"
    and "\<And>rv. map_of (d_reservations d) i = Some rv \<Longrightarrow> row_ok rv \<Longrightarrow> hold_evolves rv (f rv)"
  shows "hold_call d d'"
  unfolding hold_call_def
proof
  assume ok: "holds_ok (d_reservations d)"
  obtain rv where rv: "map_of (d_reservations d) i = Some rv" using assms(2) by (rule read_reservation)
  then have "d_reservations d' = tput i (f rv) (d_reservations d)" "reservation_check (f rv)"
    using assms(1) by (auto simp: update_reservation_def split: if_splits)
  moreover have "row_ok rv" using ok rv by (auto simp: holds_ok_def)
  ultimately show "hold_step (d_reservations d) (d_reservations d')"
    using assms(3) [OF rv] rv by (auto intro: hold_step.change)
qed

text \<open>Consequences of the table constraints for a row whose cleanup has not begun, or not ended.\<close>

lemma shape_not_started:
  "row_ok rv \<Longrightarrow> rv_cleanupStartedAt rv = None \<Longrightarrow>
    rv_cleanupFencedAt rv = None \<and> rv_cleanupNotBefore rv = None \<and> rv_cleanupChange rv = None
    \<and> rv_cleanupReceipt rv = None \<and> rv_releasedAt rv = None"
  by (auto simp: row_ok_def reservation_check_def benchmark_cleanup_shape_def split: option.splits)

lemma request_nonempty: "row_ok rv \<Longrightarrow> rv_request rv \<noteq> Some []"
  by (auto simp: row_ok_def reservation_check_def)

lemma insert_hold:
  assumes "BenchmarkIntent_Valid intent"
  shows "hold_call d (insert_reservation now i intent adm d)"
proof (cases "map_of (d_reservations d) i \<noteq> None \<or> target_held (bi_targetID intent) d")
  case True
  then show ?thesis by (intro hold_call_same) (auto simp: insert_reservation_def)
next
  case False
  with assms show ?thesis
    unfolding hold_call_def insert_reservation_def
    by (auto simp: target_held_def list_ex_iff row_ok_def reservation_check_def benchmark_cleanup_shape_def
        intro!: hold_step.hold)
qed

lemma Reserve_hold: "hold_call d (snd (pg_ReserveBenchmark f now q l rv intent adm d))"
  unfolding pg_ReserveBenchmark_def
  by (auto simp: Let_def intro!: transact_rel [where R = hold_call] insert_hold
      split: sum.splits option.splits if_splits)

lemma materialize_Commit_hold:
  assumes c: "materialize i uid req b d = Commit a d'"
    and r: "readBenchmarkReservation q i d = Inr (Some b)" and n: "br_cleanup b = None"
  shows "hold_call d d'"
proof -
  obtain rv where rv: "map_of (d_reservations d) i = Some rv"
      "br_namespaceUID b = (case rv_namespaceUID rv of None \<Rightarrow> [] | Some u \<Rightarrow> u)"
      "br_request b = (case rv_request rv of None \<Rightarrow> [] | Some x \<Rightarrow> x)"
      "rv_namespaceUID rv \<noteq> Some []" "rv_cleanupStartedAt rv = None"
    using r n by (metis read_reservation)
  obtain g where g: "update_reservation i g d = Some d'"
    and e: "row_ok rv \<Longrightarrow> hold_evolves rv (g rv)"
  proof (cases "uid = []")
    case True
    with c that show thesis
      using rv(3,5) shape_not_started [of rv] request_nonempty [of rv]
      by (auto simp: materialize_def update_or_abort_Commit hold_evolves_def keeps_def
          split: if_splits option.splits)
  next
    case False
    with c that show thesis
      using rv(2,4,5) shape_not_started [of rv]
      by (auto simp: materialize_def update_or_abort_Commit hold_evolves_def keeps_def
          split: if_splits option.splits)
  qed
  show ?thesis using update_reservation_hold [OF g r] rv(1) e by simp
qed

lemma materializeBenchmark_hold: "hold_call d (snd (materializeBenchmark f now q l rv plan uid req d))"
  unfolding materializeBenchmark_def
  by (auto intro!: transact_rel [where R = hold_call] intro: materialize_Commit_hold
      split: sum.splits option.splits if_splits)

lemma begin_hold:
  assumes r: "readBenchmarkReservation q i d = Inr (Some b)" and n: "br_cleanup b = None"
    and u: "update_reservation i (\<lambda>rv. rv\<lparr>rv_cleanupStartedAt := Some now,
      rv_cleanupNotBefore := Some t, rv_cleanupChange := Some ch\<rparr>) d = Some d'"
  shows "hold_call d d'"
proof (rule update_reservation_hold [OF u r])
  fix rv assume rv: "map_of (d_reservations d) i = Some rv" "row_ok rv"
  have "rv_cleanupStartedAt rv = None" using r n rv(1) by (auto elim: read_reservation)
  with shape_not_started [OF rv(2)] show "hold_evolves rv (rv\<lparr>rv_cleanupStartedAt := Some now,
      rv_cleanupNotBefore := Some t, rv_cleanupChange := Some ch\<rparr>)"
    by (simp add: hold_evolves_def keeps_def)
qed

lemma cleanup_namespace_hold:
  assumes r: "readBenchmarkReservation q i d = Inr (Some b)"
    and c: "br_cleanup b = Some c" "bc_releasedAt c = None"
    and uid: "br_namespaceUID b = [] \<or> br_namespaceUID b = uid"
    and u: "update_reservation i (\<lambda>rv. rv\<lparr>rv_namespaceUID := Some uid\<rparr>) d = Some d'"
  shows "hold_call d d'"
proof (rule update_reservation_hold [OF u r])
  fix rv assume rv: "map_of (d_reservations d) i = Some rv" "row_ok rv"
  have "rv_releasedAt rv = None" "keeps (rv_namespaceUID rv) (Some uid)"
    using r c uid rv(1) by (auto elim!: read_reservation simp: keeps_def split: option.splits)
  then show "hold_evolves rv (rv\<lparr>rv_namespaceUID := Some uid\<rparr>)" by (simp add: hold_evolves_def keeps_def)
qed

lemma fence_hold:
  assumes r: "readBenchmarkReservation q i d = Inr (Some b)"
    and c: "br_cleanup b = Some c" "bc_releasedAt c = None" "bc_fencedAt c = None"
    and u: "update_reservation i (\<lambda>rv. rv\<lparr>rv_cleanupFencedAt := Some now, rv_cleanupNotBefore := Some t\<rparr>) d = Some d'"
  shows "hold_call d d'"
proof (rule update_reservation_hold [OF u r])
  fix rv assume rv: "map_of (d_reservations d) i = Some rv" "row_ok rv"
  have "rv_releasedAt rv = None" "rv_cleanupFencedAt rv = None"
    using r c rv(1) by (auto elim!: read_reservation)
  then show "hold_evolves rv (rv\<lparr>rv_cleanupFencedAt := Some now, rv_cleanupNotBefore := Some t\<rparr>)"
    by (simp add: hold_evolves_def keeps_def)
qed

lemma finish_hold:
  assumes r: "readBenchmarkReservation q i d = Inr (Some b)"
    and c: "br_cleanup b = Some c" "bc_releasedAt c = None"
    and u: "update_reservation i (\<lambda>rv. rv\<lparr>rv_cleanupReceipt := Some x, rv_releasedAt := Some t\<rparr>) d = Some d'"
  shows "hold_call d d'"
proof (rule update_reservation_hold [OF u r])
  fix rv assume rv: "map_of (d_reservations d) i = Some rv" "row_ok rv"
  have "rv_releasedAt rv = None" using r c rv(1) by (auto elim!: read_reservation)
  then show "hold_evolves rv (rv\<lparr>rv_cleanupReceipt := Some x, rv_releasedAt := Some t\<rparr>)"
    by (simp add: hold_evolves_def keeps_def)
qed

lemma BeginCleanup_hold: "hold_call d (snd (pg_BeginBenchmarkCleanup f now q l rv plan ch d))"
  unfolding pg_BeginBenchmarkCleanup_def
  by (auto intro!: transact_rel [where R = hold_call] elim: begin_hold simp: update_or_abort_Commit
      split: sum.splits option.splits if_splits)

lemma BindCleanupNamespace_hold: "hold_call d (snd (pg_BindBenchmarkCleanupNamespace f now q l rv plan uid d))"
  unfolding pg_BindBenchmarkCleanupNamespace_def
  by (auto intro!: transact_rel [where R = hold_call] elim: cleanup_namespace_hold simp: update_or_abort_Commit
      split: sum.splits option.splits if_splits)

lemma RecordFence_hold: "hold_call d (snd (pg_RecordBenchmarkCleanupFence f now q l rv plan d))"
  unfolding pg_RecordBenchmarkCleanupFence_def
  by (auto intro!: transact_rel [where R = hold_call] elim: fence_hold simp: update_or_abort_Commit
      split: sum.splits option.splits if_splits)

text \<open>
  What a committed release needs: the live lease at the exact revision, an unreleased fenced
  cleanup past its drain deadline, and an attestation for exactly this hold.
\<close>

definition release_ready ::
  "(bytes \<Rightarrow> benchmark_cleanup_proof option) \<Rightarrow> time \<Rightarrow> lease \<Rightarrow> int \<Rightarrow> string \<Rightarrow> bytes \<Rightarrow> db \<Rightarrow> run \<Rightarrow> reservation_row \<Rightarrow> run \<Rightarrow> bool"
  where
  "release_ready pr now l rv plan b d current row r' =
    (lockOwnedClaim now l d = Inr current \<and> r_revision current = rv
     \<and> map_of (d_reservations d) (l_runID l) = Some row \<and> bi_planSHA256 (rv_intent row) = plan
     \<and> rv_releasedAt row = None
     \<and> (\<exists>started fenced deadline next. rv_cleanupStartedAt row = Some started
         \<and> rv_cleanupFencedAt row = Some fenced
         \<and> rv_cleanupNotBefore row = Some deadline \<and> deadline \<le> now
         \<and> rv_cleanupChange row = Some next \<and> cleanup_next current rv next now = Inr r')
     \<and> (\<exists>p stored. pr b = Some p \<and> BenchmarkCleanupProof_Matches p stored \<and> br_runID stored = l_runID l
         \<and> br_intent stored = rv_intent row
         \<and> br_namespaceUID stored = (case rv_namespaceUID row of None \<Rightarrow> [] | Some u \<Rightarrow> u)))"

definition released_row :: "bytes \<Rightarrow> time \<Rightarrow> reservation_row \<Rightarrow> reservation_row" where
  "released_row b now row = row\<lparr>rv_cleanupReceipt := Some b, rv_releasedAt := Some now\<rparr>"

definition released :: "(bytes \<Rightarrow> benchmark_cleanup_proof option) \<Rightarrow> time \<Rightarrow> lease \<Rightarrow> int \<Rightarrow> string \<Rightarrow> bytes \<Rightarrow> run \<Rightarrow> db \<Rightarrow> db \<Rightarrow> bool"
  where
  "released pr now l rv plan b r' d d' =
    (\<exists>current row. release_ready pr now l rv plan b d current row r'
      \<and> reservation_check (released_row b now row)
      \<and> d_reservations d' = tput (l_runID l) (released_row b now row) (d_reservations d)
      \<and> pg_view d' = (if Terminal (r_state current) then pg_view d
                      else (pg_view d)(l_runID l \<mapsto> (l_principal l, r'))))"

lemma finish_commit:
  assumes own: "lockOwnedClaim now l d = Inr current"
    and rd: "readBenchmarkReservation q (l_runID l) d = Inr (Some stored)"
    and c: "br_cleanup stored = Some c" "bc_fencedAt c = Some fenced" "bc_releasedAt c = None" "\<not> now < bc_notBefore c"
    and pr: "pr b = Some p" "BenchmarkCleanupProof_Matches p stored"
    and nx: "cleanup_next current (r_revision current) (bc_next c) now = Inr r'"
    and d0: "d0 = (if Terminal (r_state current) then d else put_snapshot (l_runID l) r' d)"
    and up: "update_reservation (l_runID l)
      (\<lambda>rv. rv\<lparr>rv_cleanupReceipt := Some b, rv_releasedAt := Some now\<rparr>) d0 = Some d1"
  shows "released pr now l (r_revision current) (bi_planSHA256 (br_intent stored)) b r' d
    (expire_if_terminal now r' (l_runID l) d1)"
proof -
  have same: "d_reservations d0 = d_reservations d" by (simp add: d0)
  show ?thesis
  proof (rule read_reservation [OF rd])
    fix row
    assume row: "map_of (d_reservations d) (l_runID l) = Some row" "br_runID stored = l_runID l"
      "br_intent stored = rv_intent row"
      "br_namespaceUID stored = (case rv_namespaceUID row of None \<Rightarrow> [] | Some u \<Rightarrow> u)"
      "\<And>c. br_cleanup stored = Some c \<Longrightarrow>
        rv_cleanupStartedAt row = Some (bc_startedAt c) \<and> rv_cleanupFencedAt row = bc_fencedAt c
        \<and> rv_cleanupNotBefore row = Some (bc_notBefore c) \<and> rv_cleanupChange row = Some (bc_next c)
        \<and> rv_releasedAt row = bc_releasedAt c"
    have "release_ready pr now l (r_revision current) (bi_planSHA256 (br_intent stored)) b d current row r'"
      unfolding release_ready_def using own row(1-4) row(5) [OF c(1)] c nx pr by auto
    moreover have "reservation_check (released_row b now row)"
      "d_reservations d1 = tput (l_runID l) (released_row b now row) (d_reservations d)"
      using up row(1) same by (auto simp: update_reservation_def released_row_def split: if_splits)
    moreover have "pg_view (expire_if_terminal now r' (l_runID l) d1) = pg_view d0"
      by (rule pg_view_cong) (simp add: update_reservation_frame [OF up])
    moreover have "pg_view d0 = (if Terminal (r_state current) then pg_view d
        else (pg_view d)(l_runID l \<mapsto> (l_principal l, r')))"
      using own by (simp add: d0 lockOwnedClaim_Inr put_snapshot_view)
    ultimately show ?thesis unfolding released_def by auto
  qed
qed

lemma Finish_released:
  assumes "pg_FinishBenchmarkCleanup pr f now q l rv plan b d = (res, d')"
  shows "d' = d \<and> (\<exists>e. res = Inl e) \<or> (\<exists>r'. released pr now l rv plan b r' d d' \<and> (\<forall>x. res = Inr x \<longrightarrow> x = r'))"
proof (cases "\<not> Lease_Valid l \<or> rv < 1 \<or> length b < 1 \<or> max_bytes < length b")
  case True
  with assms show ?thesis unfolding pg_FinishBenchmarkCleanup_def if_P [OF True] by auto
next
  case False
  from assms show ?thesis
    unfolding pg_FinishBenchmarkCleanup_def if_not_P [OF False]
  proof (cases rule: transact_cases)
    case unchanged
    then show ?thesis
      by (cases res) (auto split: sum.splits option.splits if_splits simp: update_or_abort_def)
  next
    case (committed r')
    have "released pr now l rv plan b r' d d'"
      using committed(1)
      by (auto simp: update_or_abort_Commit split: sum.splits option.splits if_splits intro: finish_commit)
    with committed(2) show ?thesis by blast
  qed
qed

lemma released_hold:
  assumes "released pr now l rv plan b r' d d'"
  shows "hold_call d d'"
proof -
  obtain current row where r: "release_ready pr now l rv plan b d current row r'"
    "reservation_check (released_row b now row)"
    "d_reservations d' = tput (l_runID l) (released_row b now row) (d_reservations d)"
    using assms by (auto simp: released_def)
  have "hold_evolves row (released_row b now row)"
    using r(1) by (auto simp: release_ready_def released_row_def hold_evolves_def keeps_def)
  with r show ?thesis by (auto simp: hold_call_def release_ready_def intro: hold_step.change)
qed

lemma FinishCleanup_hold: "hold_call d (snd (pg_FinishBenchmarkCleanup pr f now q l rv plan b d))"
proof -
  obtain res d' where c: "pg_FinishBenchmarkCleanup pr f now q l rv plan b d = (res, d')" by force
  from Finish_released [OF c] have "hold_call d d'" by (auto intro: released_hold)
  with c show ?thesis by simp
qed

text \<open>Calls that never touch the reservation table.\<close>

lemma Accept_reservations [simp]:
  "d_reservations (snd (pg_Accept f now w p k rq t d)) = d_reservations d"
  "d_executions (snd (pg_Accept f now w p k rq t d)) = d_executions d"
proof -
  obtain res d' where c: "pg_Accept f now w p k rq t d = (res, d')" by force
  then have "d_reservations d' = d_reservations d \<and> d_executions d' = d_executions d"
    by (cases rule: pg_Accept_cases)
      (auto dest: pg_create_Commit(4) simp: created_db_def insert_binding_def)
  with c show "d_reservations (snd (pg_Accept f now w p k rq t d)) = d_reservations d"
    "d_executions (snd (pg_Accept f now w p k rq t d)) = d_executions d" by simp_all
qed

lemma mutate_reservations [simp]:
  "d_reservations (snd (mutate f now p i ch d)) = d_reservations d"
  "d_executions (snd (mutate f now p i ch d)) = d_executions d"
  unfolding mutate_def
  by (rule transact_rel [where R = "\<lambda>d d'. d_reservations d' = d_reservations d"],
      auto split: sum.splits if_splits)
    (rule transact_rel [where R = "\<lambda>d d'. d_executions d' = d_executions d"],
      auto split: sum.splits if_splits)

lemma claim_reservations [simp]:
  "d_reservations (snd (pg_RenewClaim f now l ttl d)) = d_reservations d"
  "d_reservations (snd (pg_ReleaseClaim f now l delay d)) = d_reservations d"
  "d_reservations (snd (pg_AdvanceClaim f now l rv ch d)) = d_reservations d"
  "d_reservations (snd (pg_BindExecution dns f now l x d)) = d_reservations d"
  unfolding pg_RenewClaim_def pg_ReleaseClaim_def pg_AdvanceClaim_def pg_BindExecution_def Let_def
  by (auto intro!: transact_rel [where R = "\<lambda>d d'. d_reservations d' = d_reservations d"]
      split: sum.splits option.splits if_splits)

lemma RegisterArtifact_reservations [simp]:
  "d_reservations (snd (pg_RegisterArtifact f p a d)) = d_reservations d"
  "d_executions (snd (pg_RegisterArtifact f p a d)) = d_executions d"
  using RegisterArtifact_frame [of f p a d] by auto

lemma ClaimRuns_reservations [simp]:
  "d_reservations (snd (pg_ClaimRuns f env w n ttl d)) = d_reservations d"
  "d_executions (snd (pg_ClaimRuns f env w n ttl d)) = d_executions d"
  using ClaimRuns_frame [of f env w n ttl d] by auto

lemma pg_step_hold: "hold_call d (pg_step op d)"
proof (cases op)
  case (PAccept e p k rq t)
  then show ?thesis by (cases e) (simp add: hold_call_same)
qed (simp_all add: hold_call_same pg_Cancel_def pg_Advance_def Reserve_hold pg_BindBenchmarkNamespace_def
    pg_SealBenchmarkRequest_def materializeBenchmark_hold BeginCleanup_hold BindCleanupNamespace_hold
    RecordFence_hold FinishCleanup_hold)

interpretation pg_holds: evolving_rows "\<lambda>d. map_of (d_reservations d)" pg_step
  "\<lambda>d. holds_ok (d_reservations d)" hold_evolves
proof unfold_locales
  fix s :: db and op assume ok: "holds_ok (d_reservations s)"
  with pg_step_hold [of s op] have st: "hold_step (d_reservations s) (d_reservations (pg_step op s))"
    by (simp add: hold_call_def)
  from hold_step_ok [OF st ok] show "holds_ok (d_reservations (pg_step op s))" .
  fix k v assume "map_of (d_reservations s) k = Some v"
  with hold_step_row [OF st]
  show "\<exists>v'. map_of (d_reservations (pg_step op s)) k = Some v' \<and> hold_evolves v v'" by blast
qed (auto intro: hold_evolves_trans)

lemma reachable_holds_ok: "holds_ok (d_reservations (fold pg_step ops db_empty))"
  by (rule pg_holds.calls_inv) (simp add: db_empty_def)

section \<open>Execution identities are written once\<close>

definition execs_kept :: "db \<Rightarrow> db \<Rightarrow> bool" where
  "execs_kept d d' = (\<forall>i x. map_of (d_executions d) i = Some x \<longrightarrow> map_of (d_executions d') i = Some x)"

lemma execs_kept_same: "d_executions d' = d_executions d \<Longrightarrow> execs_kept d d'"
  by (simp add: execs_kept_def)

lemma execs_kept_new:
  "map_of (d_executions d) i = None \<Longrightarrow> execs_kept d (d\<lparr>d_executions := tput i x (d_executions d)\<rparr>)"
  by (auto simp: execs_kept_def)

lemma update_reservation_execs: "update_reservation i f d = Some d' \<Longrightarrow> d_executions d' = d_executions d"
  by (rule update_reservation_frame)

lemma claim_execs [simp]:
  "d_executions (snd (pg_RenewClaim f now l ttl d)) = d_executions d"
  "d_executions (snd (pg_ReleaseClaim f now l delay d)) = d_executions d"
  "d_executions (snd (pg_AdvanceClaim f now l rv ch d)) = d_executions d"
  unfolding pg_RenewClaim_def pg_ReleaseClaim_def pg_AdvanceClaim_def
  by (auto intro!: transact_rel [where R = "\<lambda>d d'. d_executions d' = d_executions d"] split: sum.splits)

lemma hold_execs [simp]:
  "d_executions (snd (pg_ReserveBenchmark f now q l rv intent adm d)) = d_executions d"
  "d_executions (snd (pg_BeginBenchmarkCleanup f now q l rv plan ch d)) = d_executions d"
  "d_executions (snd (pg_BindBenchmarkCleanupNamespace f now q l rv plan uid d)) = d_executions d"
  "d_executions (snd (pg_RecordBenchmarkCleanupFence f now q l rv plan d)) = d_executions d"
  unfolding pg_ReserveBenchmark_def pg_BeginBenchmarkCleanup_def pg_BindBenchmarkCleanupNamespace_def
    pg_RecordBenchmarkCleanupFence_def Let_def
  by (auto intro!: transact_rel [where R = "\<lambda>d d'. d_executions d' = d_executions d"]
      simp: update_or_abort_Commit update_reservation_execs split: sum.splits option.splits if_splits)

lemma materialize_execs [simp]: "d_executions (snd (materializeBenchmark f now q l rv plan uid b d)) = d_executions d"
  unfolding materializeBenchmark_def
  by (auto intro!: transact_rel [where R = "\<lambda>d d'. d_executions d' = d_executions d"]
      simp: update_reservation_execs dest!: materialize_Commit split: sum.splits option.splits if_splits)

lemma finish_execs [simp]:
  "d_executions (snd (pg_FinishBenchmarkCleanup pr f now q l rv plan b d)) = d_executions d"
  unfolding pg_FinishBenchmarkCleanup_def
  by (auto intro!: transact_rel [where R = "\<lambda>d d'. d_executions d' = d_executions d"]
      simp: update_or_abort_Commit update_reservation_execs split: sum.splits option.splits if_splits)

lemma BindExecution_execs: "execs_kept d (snd (pg_BindExecution dns f now l x d))"
  unfolding pg_BindExecution_def Let_def
  by (auto intro!: transact_rel [where R = execs_kept] execs_kept_new simp: execs_kept_same
      split: sum.splits option.splits if_splits)

lemma pg_step_execs: "execs_kept d (pg_step op d)"
proof (cases op)
  case (PAccept e p k rq t)
  then show ?thesis by (cases e) (simp add: execs_kept_same)
qed (simp_all add: execs_kept_same BindExecution_execs pg_Cancel_def pg_Advance_def
    pg_BindBenchmarkNamespace_def pg_SealBenchmarkRequest_def)

interpretation pg_executions: evolving_rows "\<lambda>d. map_of (d_executions d)" pg_step "\<lambda>d. True" "(=)"
  using pg_step_execs by unfold_locales (auto simp: execs_kept_def)

end
