(* ===== verification/Stage_Safety.thy ===== *)
theory Stage_Safety
  imports Evidence Pg_Holds
begin

text \<open>
  What a reconciliation attempt may do. \<open>claimed_stage\<close> is the contract between the stages
  and the services they call, for an arbitrary world predicate \<open>P\<close>: every call keeps \<open>P\<close>,
  where advances are only assumed safe for requests that are lawful for the claimed
  snapshot, Job creation only for \<open>PROVISIONING\<close> and Job deletion only for \<open>CANCELLING\<close>. That the
  router then keeps \<open>P\<close> shows that the stages make no other request. The contract is met
  by the Postgres repository with any interleaving of other clients.
\<close>

section \<open>Lawful requests\<close>

definition lawful :: "run_state \<Rightarrow> change \<Rightarrow> bool" where
  "lawful st ch =
    (CanTransition st (c_state ch) \<and> c_toolExitCode ch = None
     \<and> (case c_failure ch of
          None \<Rightarrow> \<not> requiresFailure (c_state ch)
        | Some f \<Rightarrow> failure_message_ok (f_message f) \<and> acceptsFailure (c_state ch) (f_code f)))"

lemma lawful_accepted:
  assumes "lawful (r_state r) ch" "r_revision r < maxRunRevision"
  shows "\<exists>r'. Run_Transition r (r_revision r) ch now = Inr r'"
  using assms by (auto simp: lawful_def Run_Transition_def Let_def split: option.splits)

lemma ascii_message_ok:
  assumes "list_all (\<lambda>c. byte c < 128) m" "1 \<le> length m" "length m \<le> 1000"
  shows "failure_message_ok m"
proof -
  have "list_all (\<lambda>b. b < 128) (map byte m)" using assms(1) by (simp add: list.pred_map comp_def)
  then have "runes m = map byte m" "utf8_ValidString m"
    by (simp_all add: runes_def runes_ascii utf8_ValidString_def valid_ascii)
  with assms(2,3) show ?thesis by (simp add: failure_message_ok_def utf8_RuneCountInString_def)
qed

lemma to_state_lawful:
  "CanTransition st s \<Longrightarrow> \<not> requiresFailure s \<Longrightarrow> lawful st (to_state s)"
  by (simp add: lawful_def to_state_def)

lemma failed_lawful:
  "CanTransition st s \<Longrightarrow> acceptsFailure s code \<Longrightarrow> failure_message_ok m \<Longrightarrow> lawful st (failed_with s code m)"
  by (simp add: lawful_def failed_with_def)

lemma stage_messages_ok [simp]:
  "failure_message_ok ''approved execution plan is invalid''"
  "failure_message_ok ''execution resources are not authorized''"
  "failure_message_ok ''Kubernetes Job disappeared before artifact collection''"
  "failure_message_ok ''Kubernetes Job deletion was not requested by the run''"
  "failure_message_ok ''execution did not produce valid raw artifacts''"
  "failure_message_ok ''normalization failed''"
  "failure_message_ok ''analysis report generation failed''"
  by (rule ascii_message_ok, simp_all add: byte_def)+

text \<open>Decisions for a bound execution only request pinned edges.\<close>

lemma Decide_lawful:
  assumes "DecideBoundExecution st ob = Inr (ActionAdvance ch)"
  shows "lawful st ch"
  using assms
  by (auto simp: DecideBoundExecution_def infrastructureFailure_def CanTransition_def transitions.simps
      requiresFailure_def intro!: to_state_lawful failed_lawful split: if_splits)

section \<open>The contract of the services\<close>

definition same_lease :: "lease \<Rightarrow> lease \<Rightarrow> bool" where
  "same_lease l l' = (l_runID l = l_runID l' \<and> l_principal l = l_principal l'
     \<and> l_workerID l = l_workerID l' \<and> l_token l = l_token l')"

lemma same_lease_refl [simp]: "same_lease l l"
  by (simp add: same_lease_def)

lemma preserves_bind_known:
  assumes "\<And>w. P w \<Longrightarrow> P (snd (f w))" "\<And>w a w'. f w = (Inr a, w') \<Longrightarrow> G a"
    "\<And>a. G a \<Longrightarrow> preserves P (k a)"
  shows "preserves P (bind_ok (call f) k)"
  unfolding bind_ok_def
proof (rule valid_attempt [where Q = "\<lambda>r w. P w \<and> (\<forall>a. r = Inr a \<longrightarrow> G a)"])
  show "valid P (call f) (\<lambda>r w. P w \<and> (\<forall>a. r = Inr a \<longrightarrow> G a))"
    using assms(1,2) by (fastforce simp: valid_def call_def split: prod.splits)
  show "valid (\<lambda>w. P w \<and> (\<forall>a. r = Inr a \<longrightarrow> G a)) (case r of Inl e \<Rightarrow> fail e | Inr a \<Rightarrow> k a) (\<lambda>_. P)" for r
    using assms(3) by (cases r) (auto simp: valid_def fail_def split: option.splits)
qed

locale claimed_stage =
  fixes sv :: "('w, 'job) services"
    and c :: claim
    and P :: "'w \<Rightarrow> bool"
  assumes advance: "P w \<Longrightarrow> same_lease l (cl_lease c) \<Longrightarrow> lawful (r_state (cl_run c)) ch \<Longrightarrow>
      P (snd (s_AdvanceClaim sv l (r_revision (cl_run c)) ch w))"
    and renew: "P w \<Longrightarrow> P (snd (s_RenewClaim sv (cl_lease c) ttl w))"
    and renew_lease: "s_RenewClaim sv (cl_lease c) ttl w = (Inr c', w') \<Longrightarrow> same_lease (cl_lease c') (cl_lease c)"
    and get_execution: "P w \<Longrightarrow> P (snd (s_GetExecution sv (cl_lease c) w))"
    and bind_execution: "P w \<Longrightarrow> Execution_Valid (s_dns sv) x \<Longrightarrow> x_runID x = r_id (cl_run c) \<Longrightarrow>
      P (snd (s_BindExecution sv (cl_lease c) x w))"
    and register: "P w \<Longrightarrow> P (snd (s_RegisterArtifact sv (l_principal (cl_lease c)) a w))"
    and list_artifacts: "P w \<Longrightarrow> P (snd (s_ListArtifacts sv (l_principal (cl_lease c)) (r_id (cl_run c)) w))"
    and resolve: "P w \<Longrightarrow> P (snd (s_ResolveJob sv (l_principal (cl_lease c)) (cl_run c) w))"
    and ensure: "r_state (cl_run c) = StateProvisioning \<Longrightarrow> P w \<Longrightarrow>
      P (snd (s_EnsureJob sv (r_id (cl_run c)) t w))"
    and find_job: "P w \<Longrightarrow> P (snd (s_FindJob sv (r_id (cl_run c)) t w))"
    and observe: "P w \<Longrightarrow> P (snd (s_ObserveJob sv x w))"
    and stop: "r_state (cl_run c) = StateCancelling \<Longrightarrow> P w \<Longrightarrow> P (snd (s_RequestJobStop sv x w))"
    and confirm: "P w \<Longrightarrow> P (snd (s_ConfirmExecutionStopped sv x w))"
    and collect: "P w \<Longrightarrow> P (snd (s_CollectRawArtifacts sv (l_principal (cl_lease c)) (cl_run c) w))"
    and normalize: "P w \<Longrightarrow> P (snd (s_Normalize sv (l_principal (cl_lease c)) (cl_run c) inp w))"
    and report: "P w \<Longrightarrow> P (snd (s_Report sv (l_principal (cl_lease c)) (cl_run c) a w))"
    and publish: "s_PublishReport sv = Some pub \<Longrightarrow> P w \<Longrightarrow>
      P (snd (pub (l_principal (cl_lease c)) (cl_run c) a b w))"
    and ctx_err: "P w \<Longrightarrow> P (snd (s_ctxErr sv w))"
    and wait: "P w \<Longrightarrow> P (snd (s_wait sv delay w))"
begin

lemma call_rules:
  "preserves P (call (s_RenewClaim sv (cl_lease c) ttl))"
  "preserves P (call (s_GetExecution sv (cl_lease c)))"
  "preserves P (call (s_RegisterArtifact sv (l_principal (cl_lease c)) a))"
  "preserves P (call (s_ListArtifacts sv (l_principal (cl_lease c)) (r_id (cl_run c))))"
  "preserves P (call (s_ResolveJob sv (l_principal (cl_lease c)) (cl_run c)))"
  "preserves P (call (s_FindJob sv (r_id (cl_run c)) t))"
  "preserves P (call (s_ObserveJob sv x))"
  "preserves P (call (s_ConfirmExecutionStopped sv x))"
  "preserves P (call (s_CollectRawArtifacts sv (l_principal (cl_lease c)) (cl_run c)))"
  "preserves P (call (s_Normalize sv (l_principal (cl_lease c)) (cl_run c) inp))"
  "preserves P (call (s_Report sv (l_principal (cl_lease c)) (cl_run c) a))"
  "preserves P (call (s_ctxErr sv))"
  "preserves P (call (s_wait sv delay))"
  by (rule preserves_call, erule renew get_execution register list_artifacts resolve find_job observe
      confirm collect normalize report ctx_err wait)+

lemma advance_preserves:
  assumes "lawful (r_state (cl_run c)) ch" "same_lease (cl_lease c') (cl_lease c)"
    "r_revision (cl_run c') = r_revision (cl_run c)"
  shows "preserves P (advanceOwnedClaim sv c' ch)"
  unfolding advanceOwnedClaim_def assms(3)
  using assms(1,2) by (intro prog_intros preserves_call advance)

lemma self_advance: "lawful (r_state (cl_run c)) ch \<Longrightarrow> preserves P (advanceOwnedClaim sv c ch)"
  by (rule advance_preserves) simp_all

lemma validation_preserves: "preserves P (Validation_Reconcile sv c)"
proof (cases "r_state (cl_run c) = StateValidating")
  case True
  have "preserves P (validation_reject sv c m)" if "failure_message_ok m" for m
    unfolding validation_reject_def using True that
    by (intro self_advance failed_lawful) (auto simp: CanTransition_def)
  moreover have "preserves P (advanceOwnedClaim sv c (to_state StateProvisioning))"
    using True by (intro self_advance to_state_lawful) (auto simp: CanTransition_def requiresFailure_def)
  ultimately show ?thesis
    unfolding Validation_Reconcile_def resolutionError_def by (intro prog_intros call_rules) simp_all
qed (auto simp: Validation_Reconcile_def intro!: prog_intros)

lemma bound_apply_preserves:
  "(\<And>ch. dec = ActionAdvance ch \<Longrightarrow> lawful (r_state (cl_run c)) ch) \<Longrightarrow> preserves P (bound_apply sv cfg c dec)"
  unfolding bound_apply_def by (cases dec) (auto intro: prog_intros self_advance)

lemma bound_cancel_preserves:
  assumes "r_state (cl_run c) = StateCancelling"
  shows "preserves P (bound_cancel n sv cfg c x b)"
proof (induction n arbitrary: b)
  case 0
  show ?case by (simp add: valid_def)
next
  case (Suc n)
  have ab: "lawful (r_state (cl_run c)) (to_state StateAborted)"
    using assms by (intro to_state_lawful) (auto simp: CanTransition_def requiresFailure_def)
  have cont: "preserves P (continueCancellation sv x a b)" for a
    unfolding continueCancellation_def
    using assms by (cases a) (auto intro!: prog_intros call_rules preserves_call stop)
  show ?case
    unfolding bound_cancel.simps cancellationAction_def
    by (intro prog_intros call_rules cont) (auto intro!: prog_intros call_rules bound_apply_preserves ab Suc.IH split: prod.split)
qed

lemma bound_preserves: "preserves P (Bound_Reconcile n sv cfg c)"
proof -
  have dec: "preserves P (bind_ok (of_result (DecideBoundExecution (r_state (cl_run c)) ob)) (bound_apply sv cfg c))" for ob
  proof (cases "DecideBoundExecution (r_state (cl_run c)) ob")
    case (Inl e)
    then show ?thesis by (simp add: valid_def prog_defs)
  next
    case (Inr d)
    have "preserves P (bound_apply sv cfg c d)" using Inr by (intro bound_apply_preserves) (auto dest: Decide_lawful)
    then show ?thesis by (simp add: Inr valid_def prog_defs)
  qed
  show ?thesis
    unfolding Bound_Reconcile_def by (intro prog_intros call_rules dec bound_cancel_preserves)
qed

lemma provisioning_preserves: "preserves P (Provisioning_Reconcile n sv cfg bcfg c)"
proof -
  have bindx: "preserves P (bind_ok (call (s_BindExecution sv (cl_lease c) x)) (\<lambda>_. ret 0))"
    if "\<not> (\<not> Execution_Valid (s_dns sv) x \<or> x_runID x \<noteq> r_id (cl_run c))" for x
    using that by (intro prog_intros preserves_call bind_execution) auto
  have "preserves P (recoverCancellation sv cfg c)" if "r_state (cl_run c) = StateCancelling"
  proof -
    have "lawful (r_state (cl_run c)) (to_state StateAborted)"
      using that by (intro to_state_lawful) (auto simp: CanTransition_def requiresFailure_def)
    note aborted = advance_preserves [OF this]
    have tail: "preserves P (if r_state (cl_run current) \<noteq> StateCancelling
          \<or> r_revision (cl_run current) \<noteq> r_revision (cl_run c) then ret 0
        else bind_ok (call (s_FindJob sv (r_id (cl_run c)) template))
          (\<lambda>found. case found of None \<Rightarrow> advanceOwnedClaim sv current (to_state StateAborted)
           | Some x \<Rightarrow> if \<not> Execution_Valid (s_dns sv) x \<or> x_runID x \<noteq> r_id (cl_run c) then fail ErrValidation
              else bind_ok (call (s_BindExecution sv (cl_lease c) x)) (\<lambda>_. ret 0)))"
      if "same_lease (cl_lease current) (cl_lease c)" for current template
      using that by (intro preserves_if preserves_ret preserves_fail preserves_option
          preserves_bind_ok [OF call_rules(6)] bindx aborted) auto
    show ?thesis
      unfolding recoverCancellation_def
      by (intro preserves_bind_ok [OF call_rules(5)] preserves_option preserves_fail
          preserves_bind_known [where G = "\<lambda>c'. same_lease (cl_lease c') (cl_lease c)"] tail)
        (auto intro: renew renew_lease)
  qed
  moreover have "preserves P (dispatchAndBind sv cfg c)" if "r_state (cl_run c) = StateProvisioning"
    unfolding dispatchAndBind_def
    by (intro prog_intros call_rules bindx preserves_call ensure that)
  ultimately show ?thesis
    unfolding Provisioning_Reconcile_def by (intro prog_intros call_rules bound_preserves) auto
qed

lemma register_all_preserves: "P w \<Longrightarrow> P (snd (register_all (s_RegisterArtifact sv (l_principal (cl_lease c))) as w))"
proof (induction as arbitrary: w)
  case (Cons a as)
  obtain r w' where a: "s_RegisterArtifact sv (l_principal (cl_lease c)) a w = (r, w')" by force
  have "P w'" using register [OF Cons.prems, of a] a by simp
  with Cons.IH a show ?case by (cases r) auto
qed simp

lemma collection_preserves: "preserves P (Collection_Reconcile sv cfg c)"
proof (cases "r_state (cl_run c) = StateCollecting")
  case True
  have "preserves P (collection_reject sv c)"
    unfolding collection_reject_def using True
    by (intro self_advance failed_lawful) (auto simp: CanTransition_def)
  moreover have "preserves P (advanceOwnedClaim sv c (to_state StateAnalyzing))"
    using True by (intro self_advance to_state_lawful) (auto simp: CanTransition_def requiresFailure_def)
  ultimately show ?thesis
    unfolding Collection_Reconcile_def
    by (intro prog_intros call_rules preserves_call register_all_preserves) simp_all
qed (auto simp: Collection_Reconcile_def intro!: prog_intros)

lemma executionError_preserves:
  assumes "CanTransition (r_state (cl_run c)) StateInfrastructureFailure" "failure_message_ok m"
  shows "preserves P (executionError e1 e2 m sv cfg c e)"
proof -
  have "preserves P (advanceOwnedClaim sv c (failed_with StateInfrastructureFailure FailureCodeAnalysisError m))"
    using assms by (intro self_advance failed_lawful) auto
  then show ?thesis unfolding executionError_def by (intro prog_intros call_rules)
qed

lemma analysis_preserves: "preserves P (Analysis_Reconcile sv cfg c)"
proof (cases "r_state (cl_run c) = StateAnalyzing")
  case True
  have adv: "preserves P (advanceOwnedClaim sv c (to_state StateReporting))"
    using True by (intro self_advance to_state_lawful) (auto simp: CanTransition_def requiresFailure_def)
  have err: "preserves P (executionError ErrAnalysisPending ErrAnalysisFailed ''normalization failed'' sv cfg c e)" for e
    using True by (intro executionError_preserves) (auto simp: CanTransition_def)
  show ?thesis
    unfolding Analysis_Reconcile_def
    by (intro preserves_if preserves_fail preserves_bind_ok [OF call_rules(4)])
      (auto split: sum.split option.split prod.split intro!: prog_intros call_rules adv err)
qed (auto simp: Analysis_Reconcile_def intro!: prog_intros)

lemma reporting_preserves: "preserves P (Reporting_Reconcile sv cfg c)"
proof (cases "r_state (cl_run c) = StateReporting")
  case True
  have adv: "preserves P (advanceOwnedClaim sv c (to_state StateCompleted))"
    using True by (intro self_advance to_state_lawful) (auto simp: CanTransition_def requiresFailure_def)
  have pub: "preserves P (publish_and_complete sv c a b)" for a b
    unfolding publish_and_complete_def
    by (intro prog_intros call_rules adv preserves_call) (auto intro: publish)
  have err: "preserves P (executionError ErrReportPending ErrReportFailed ''analysis report generation failed'' sv cfg c e)" for e
    using True by (intro executionError_preserves) (auto simp: CanTransition_def)
  show ?thesis
    unfolding Reporting_Reconcile_def
    by (intro preserves_if preserves_fail preserves_bind_ok [OF call_rules(4)])
      (auto split: sum.split option.split prod.split intro!: prog_intros call_rules pub err)
qed (auto simp: Reporting_Reconcile_def intro!: prog_intros)

theorem router_preserves: "preserves P (Router_Reconcile n sv cfg c)"
  unfolding Router_Reconcile_def
  by (intro preserves_if preserves_fail)
    (auto split: run_state.split intro!: self_advance to_state_lawful validation_preserves provisioning_preserves
      bound_preserves collection_preserves analysis_preserves reporting_preserves preserves_fail
      simp: CanTransition_def requiresFailure_def)

end

end
