(* ===== verification/Pg_World.thy ===== *)
theory Pg_World
  imports Stage_Safety
begin

text \<open>
  The reconciliation stages on the Postgres repository. A world is the database, a step
  counter and the log of the requests the attempt has made. The schedule says what happens
  around the attempt's n-th call: which calls of other clients run before it, the fault of
  its transaction and the clock it reads. The answers of the cluster and of the verified
  collectors are arbitrary functions of the world.
\<close>

section \<open>Worlds and schedules\<close>

datatype event =
    EvAdvance lease int change
  | EvEnsureJob string
  | EvStopJob execution
  | EvBind lease execution

record world =
  pw_db :: db
  pw_tick :: nat
  pw_log :: "event list"

type_synonym schedule = "nat \<Rightarrow> pg_op list \<times> tx_fault \<times> time"

record 'job answers =
  an_resolve :: "string \<Rightarrow> run \<Rightarrow> world \<Rightarrow> err + 'job option"
  an_validate :: "string \<Rightarrow> 'job \<Rightarrow> err + unit"
  an_ensure :: "string \<Rightarrow> 'job \<Rightarrow> world \<Rightarrow> err + execution"
  an_find :: "string \<Rightarrow> 'job \<Rightarrow> world \<Rightarrow> err + execution option"
  an_observe :: "execution \<Rightarrow> world \<Rightarrow> err + observation"
  an_stop :: "execution \<Rightarrow> world \<Rightarrow> err + unit"
  an_confirm :: "execution \<Rightarrow> world \<Rightarrow> err + bool"
  an_collect :: "string \<Rightarrow> run \<Rightarrow> world \<Rightarrow> err + raw_artifact_set"
  an_normalize :: "string \<Rightarrow> run \<Rightarrow> analysis_input \<Rightarrow> world \<Rightarrow> err + artifact"
  an_report :: "string \<Rightarrow> run \<Rightarrow> artifact \<Rightarrow> world \<Rightarrow> err + artifact"
  an_publish :: "(string \<Rightarrow> run \<Rightarrow> artifact \<Rightarrow> artifact \<Rightarrow> world \<Rightarrow> err + unit) option"
  an_ctx :: "world \<Rightarrow> err + unit"
  an_wait :: "duration \<Rightarrow> world \<Rightarrow> err + unit"
  an_dns :: "string \<Rightarrow> bool"

text \<open>One storage call after the other clients of this tick.\<close>

definition db_call :: "schedule \<Rightarrow> event list \<Rightarrow> (tx_fault \<Rightarrow> time \<Rightarrow> db \<Rightarrow> (err + 'a) \<times> db) \<Rightarrow> (world, 'a) op" where
  "db_call sch evs f w =
    (case sch (pw_tick w) of (others, fault, now) \<Rightarrow>
      (case f fault now (fold pg_step others (pw_db w)) of
         (r, d) \<Rightarrow> (r, \<lparr>pw_db = d, pw_tick = Suc (pw_tick w), pw_log = pw_log w @ evs\<rparr>)))"

definition ext_call :: "schedule \<Rightarrow> event list \<Rightarrow> (world \<Rightarrow> err + 'a) \<Rightarrow> (world, 'a) op" where
  "ext_call sch evs f w = db_call sch evs (\<lambda>_ _ d. (f w, d)) w"

definition read_fault :: "tx_fault \<Rightarrow> db_error option" where
  "read_fault f = (case f of TxOk \<Rightarrow> None | TxFails x \<Rightarrow> Some x | TxCommitFails x _ \<Rightarrow> Some x)"

definition pg_services :: "schedule \<Rightarrow> 'job answers \<Rightarrow> (world, 'job) services" where
  "pg_services sch an =
    \<lparr>s_AdvanceClaim = \<lambda>l rv ch. db_call sch [EvAdvance l rv ch] (\<lambda>f now. pg_AdvanceClaim f now l rv ch),
     s_RenewClaim = \<lambda>l ttl. db_call sch [] (\<lambda>f now. pg_RenewClaim f now l ttl),
     s_GetExecution = \<lambda>l. db_call sch [] (\<lambda>f now. pg_GetExecution (an_dns an) f now l),
     s_BindExecution = \<lambda>l x. db_call sch [EvBind l x] (\<lambda>f now. pg_BindExecution (an_dns an) f now l x),
     s_RegisterArtifact = \<lambda>p a. db_call sch [] (\<lambda>f now. pg_RegisterArtifact f p a),
     s_ListArtifacts = \<lambda>p i. db_call sch [] (\<lambda>f now d. (pg_ListArtifacts (read_fault f) p i d, d)),
     s_ResolveJob = \<lambda>p r. ext_call sch [] (an_resolve an p r),
     s_ValidateJob = an_validate an,
     s_EnsureJob = \<lambda>i t. ext_call sch [EvEnsureJob i] (an_ensure an i t),
     s_FindJob = \<lambda>i t. ext_call sch [] (an_find an i t),
     s_ObserveJob = \<lambda>x. ext_call sch [] (an_observe an x),
     s_RequestJobStop = \<lambda>x. ext_call sch [EvStopJob x] (an_stop an x),
     s_ConfirmExecutionStopped = \<lambda>x. ext_call sch [] (an_confirm an x),
     s_CollectRawArtifacts = \<lambda>p r. ext_call sch [] (an_collect an p r),
     s_Normalize = \<lambda>p r inp. ext_call sch [] (an_normalize an p r inp),
     s_Report = \<lambda>p r a. ext_call sch [] (an_report an p r a),
     s_PublishReport = map_option (\<lambda>pub p r a b. ext_call sch [] (pub p r a b)) (an_publish an),
     s_ctxErr = ext_call sch [] (an_ctx an),
     s_wait = \<lambda>t. ext_call sch [] (an_wait an t),
     s_dns = an_dns an\<rparr>"

section \<open>Every attempt is authorised and refines the lifecycle\<close>

text \<open>The requests a claim authorises.\<close>

fun authorised :: "(string \<Rightarrow> bool) \<Rightarrow> claim \<Rightarrow> event \<Rightarrow> bool" where
  "authorised dns c (EvAdvance l rv ch) =
    (same_lease l (cl_lease c) \<and> rv = r_revision (cl_run c) \<and> lawful (r_state (cl_run c)) ch)"
| "authorised dns c (EvEnsureJob i) = (r_state (cl_run c) = StateProvisioning \<and> i = r_id (cl_run c))"
| "authorised dns c (EvStopJob x) = (r_state (cl_run c) = StateCancelling)"
| "authorised dns c (EvBind l x) = (l = cl_lease c \<and> Execution_Valid dns x \<and> x_runID x = r_id (cl_run c))"

definition attempt_ok :: "(string \<Rightarrow> bool) \<Rightarrow> claim \<Rightarrow> world \<Rightarrow> world \<Rightarrow> bool" where
  "attempt_ok dns c w0 w =
    (life_steps (pg_view (pw_db w0)) (pg_view (pw_db w))
     \<and> (\<exists>evs. pw_log w = pw_log w0 @ evs \<and> list_all (authorised dns c) evs))"

lemma attempt_ok_refl [simp]: "attempt_ok dns c w w"
  by (simp add: attempt_ok_def)

lemma db_call_ok:
  assumes "attempt_ok dns c w0 w" "list_all (authorised dns c) evs"
    and "\<And>fault now d. life_steps (pg_view d) (pg_view (snd (f fault now d)))"
  shows "attempt_ok dns c w0 (snd (db_call sch evs f w))"
proof -
  obtain others fault now where t: "sch (pw_tick w) = (others, fault, now)" by (cases "sch (pw_tick w)")
  define d where "d = fold pg_step others (pw_db w)"
  obtain r d' where f: "f fault now d = (r, d')" by force
  have "life_steps (pg_view (pw_db w)) (pg_view d)" unfolding d_def by (rule pg.calls_refine)
  also have "life_steps (pg_view d) (pg_view d')" using assms(3) [of d fault now] f by simp
  finally have "life_steps (pg_view (pw_db w)) (pg_view d')" .
  moreover have "snd (db_call sch evs f w) = \<lparr>pw_db = d', pw_tick = Suc (pw_tick w), pw_log = pw_log w @ evs\<rparr>"
    by (simp add: db_call_def t f flip: d_def)
  ultimately show ?thesis using assms(1,2) by (auto simp: attempt_ok_def)
qed

lemma ext_call_ok:
  assumes "attempt_ok dns c w0 w" "list_all (authorised dns c) evs"
  shows "attempt_ok dns c w0 (snd (ext_call sch evs f w))"
  unfolding ext_call_def using assms by (rule db_call_ok) simp

lemma RenewClaim_lease:
  assumes "pg_RenewClaim f now l ttl d = (Inr c', d')"
  shows "same_lease (cl_lease c') l"
  using assms by (auto simp: pg_RenewClaim_def same_lease_def dest!: transact_Inr split: if_splits sum.splits)

lemma db_call_result: "db_call sch evs f w = (r, w') \<Longrightarrow> \<exists>fault now d. r = fst (f fault now d)"
  by (auto simp: db_call_def split: prod.splits) (metis fst_conv)

lemma GetExecution_db [simp]: "snd (pg_GetExecution dns f now l d) = d"
  unfolding pg_GetExecution_def
  by (auto intro!: transact_rel [where R = "\<lambda>d d'. d' = d"] split: sum.splits)

interpretation pg_stage: claimed_stage "pg_services sch an" c "attempt_ok (an_dns an) c w0"
  for sch an c w0
proof -
  have fenced: "life_steps (pg_view d) (pg_view d')" if "fenced_effect now l d d'" for now l d d'
    using that by (rule fenced_refines)
  have art: "life_steps (pg_view d) (pg_view (snd (pg_RegisterArtifact f p a d)))" for f p a d
    using RegisterArtifact_frame [of f p a d] by auto
  show "claimed_stage (pg_services sch an) c (attempt_ok (an_dns an) c w0)"
    unfolding claimed_stage_def pg_services_def
    by (auto intro!: db_call_ok ext_call_ok fenced [OF AdvanceClaim_effect] fenced [OF RenewClaim_effect]
        fenced [OF BindExecution_effect] art dest!: db_call_result elim!: RenewClaim_lease
        intro: RenewClaim_lease [OF prod_eqI])
qed

section \<open>Evidence is durable\<close>

lemma db_call_artifacts:
  assumes "\<And>f now d. map_of (d_artifacts d) \<subseteq>\<^sub>m map_of (d_artifacts (snd (g f now d)))"
  shows "map_of (d_artifacts (pw_db w)) \<subseteq>\<^sub>m map_of (d_artifacts (pw_db (snd (db_call sch evs g w))))"
proof -
  obtain others fault now where t: "sch (pw_tick w) = (others, fault, now)" by (cases "sch (pw_tick w)")
  define d where "d = fold pg_step others (pw_db w)"
  have "map_of (d_artifacts (pw_db w)) \<subseteq>\<^sub>m map_of (d_artifacts d)"
    using pg_evidence.calls_evolve [of "pw_db w" _ _ others] by (auto simp: map_le_def d_def dom_def)
  moreover have "pw_db (snd (db_call sch evs g w)) = snd (g fault now d)"
    by (simp add: db_call_def t d_def split: prod.splits)
  ultimately show ?thesis using assms [of d fault now] by (auto intro: map_le_trans)
qed

definition world_register :: "schedule \<Rightarrow> string \<Rightarrow> artifact \<Rightarrow> (world, unit) op" where
  "world_register sch p a = db_call sch [] (\<lambda>f now. pg_RegisterArtifact f p a)"

lemma RegisterArtifact_keeps: "map_of (d_artifacts d) \<subseteq>\<^sub>m map_of (d_artifacts (snd (pg_RegisterArtifact f p a d)))"
  using RegisterArtifact_rel [of a d f p] by (auto simp: registered_def map_le_def)

interpretation world_artifacts: artifact_store "\<lambda>w. map_of (d_artifacts (pw_db w))" world_register
proof unfold_locales
  fix sch p a w res w'
  assume "world_register sch p a w = (res, w')"
  with db_call_artifacts [of "\<lambda>f now. pg_RegisterArtifact f p a" w sch "[]"] RegisterArtifact_keeps
  show "map_of (d_artifacts (pw_db w)) \<subseteq>\<^sub>m map_of (d_artifacts (pw_db w'))"
    by (simp add: world_register_def)
next
  fix sch p a w u w'
  assume "world_register sch p a w = (Inr u, w')"
  then obtain f d d' where "pg_RegisterArtifact f p a d = (Inr u, d')" "pw_db w' = d'"
    by (auto simp: world_register_def db_call_def split: prod.splits)
  with pg_artifacts.register_ok [of f p a d u d']
  show "Artifact_Validate (canonical a) = Inr ()
      \<and> map_of (d_artifacts (pw_db w')) (a_id (canonical a)) = Some (canonical a)" by simp
qed

lemma AdvanceClaim_artifacts: "d_artifacts (snd (pg_AdvanceClaim f now l rv ch d)) = d_artifacts d"
  using AdvanceClaim_effect [of now l d f rv ch] by (auto simp: fenced_effect_def other_rows_kept_def)

lemma advance_keeps_artifacts:
  assumes "advanceOwnedClaim (pg_services sch an) c ch w = Some (res, w')"
  shows "map_of (d_artifacts (pw_db w)) \<subseteq>\<^sub>m map_of (d_artifacts (pw_db w'))"
proof -
  let ?g = "\<lambda>f now. pg_AdvanceClaim f now (cl_lease c) (r_revision (cl_run c)) ch"
  have "w' = snd (db_call sch [EvAdvance (cl_lease c) (r_revision (cl_run c)) ch] ?g w)"
    using assms by (auto simp: advanceOwnedClaim_def prog_defs pg_services_def split: sum.splits if_splits prod.splits)
  then show ?thesis using db_call_artifacts [of ?g w sch] by (simp add: AdvanceClaim_artifacts)
qed

lemma collection_stores_all:
  assumes "Collection_Reconcile (pg_services sch an) cfg c w = Some (Inr delay, w')"
    and "an_collect an (l_principal (cl_lease c)) (cl_run c) w = Inr collected"
    and "a \<in> set (ra_artifacts collected @ [ra_manifest collected])"
  shows "map_of (d_artifacts (pw_db w')) (a_id (canonical a)) = Some (canonical a)"
proof -
  let ?reg = "world_register sch (l_principal (cl_lease c))"
  have reg: "s_RegisterArtifact (pg_services sch an) (l_principal (cl_lease c)) = ?reg"
    by (simp add: pg_services_def world_register_def fun_eq_iff)
  obtain w1 where w1: "s_CollectRawArtifacts (pg_services sch an) (l_principal (cl_lease c)) (cl_run c) w = (Inr collected, w1)"
    using assms(2) by (cases "sch (pw_tick w)") (simp add: pg_services_def ext_call_def db_call_def)
  obtain u w2 where r: "register_all ?reg (ra_artifacts collected @ [ra_manifest collected]) w1 = (Inr u, w2)"
    and adv: "advanceOwnedClaim (pg_services sch an) c (to_state StateAnalyzing) w2 = Some (Inr delay, w')"
    using assms(1) w1
    by (auto simp: Collection_Reconcile_def prog_defs reg split: if_splits sum.splits prod.splits)
  from world_artifacts.register_all_stores [OF r assms(3)] advance_keeps_artifacts [OF adv]
  show ?thesis by (force simp: map_le_def dom_def)
qed

end
