(* ===== verification/Worker.thy ===== *)
theory Worker
  imports Pg_Claiming Pg_World
begin

text \<open>
  Package \<open>internal/worker\<close>: the bounded scheduler. \<open>process\<close> follows one attempt through
  the outcomes of its \<open>select\<close> statement, \<open>worker_step\<close> is one iteration of \<open>Run\<close>. An
  attempt runs in its own goroutine and reports one completion; the loop owns the set of
  active Runs.
\<close>

section \<open>Configuration\<close>

record worker_config =
  wc_workerID :: string
  wc_capacity :: int
  wc_leaseTTL :: duration
  wc_renewEvery :: duration
  wc_pollEvery :: duration
  wc_failureDelay :: duration

definition Config_Validate :: "worker_config \<Rightarrow> err + unit" where
  "Config_Validate cfg = check
    (ValidClaimOptions (wc_workerID cfg) (wc_capacity cfg) (wc_leaseTTL cfg)
     \<and> 0 < wc_renewEvery cfg \<and> wc_renewEvery cfg \<le> wc_leaseTTL cfg div 2
     \<and> 0 < wc_pollEvery cfg \<and> wc_pollEvery cfg \<le> minutes 5
     \<and> ValidRetryDelay (wc_failureDelay cfg))"

definition DefaultConfig :: "string \<Rightarrow> worker_config" where
  "DefaultConfig workerID =
    \<lparr>wc_workerID = workerID, wc_capacity = 4, wc_leaseTTL = seconds 30, wc_renewEvery = seconds 10,
     wc_pollEvery = seconds 1, wc_failureDelay = seconds 5\<rparr>"

section \<open>One attempt\<close>

datatype operation = OperationClaim | OperationRenew | OperationReconcile | OperationRelease

record worker_event =
  we_runID :: string
  we_operation :: operation
  we_err :: err

record completion =
  cp_runID :: string
  cp_events :: "worker_event list"

record 'w worker_store =
  ws_RenewClaim :: "lease \<Rightarrow> duration \<Rightarrow> ('w, claim) op"
  ws_ReleaseClaim :: "lease \<Rightarrow> duration \<Rightarrow> ('w, unit) op"

definition worker_release :: "'w worker_store \<Rightarrow> claim \<Rightarrow> duration \<Rightarrow> 'w \<Rightarrow> completion \<times> 'w" where
  "worker_release st c delay w =
    (case ws_ReleaseClaim st (cl_lease c) delay w of (r, w') \<Rightarrow>
      (\<lparr>cp_runID = r_id (cl_run c),
        cp_events = (case r of
          Inl e \<Rightarrow> if errors_is e ErrLeaseLost then []
                   else [\<lparr>we_runID = r_id (cl_run c), we_operation = OperationRelease, we_err = e\<rparr>]
        | Inr _ \<Rightarrow> [])\<rparr>, w'))"

definition attempt_delay :: "worker_config \<Rightarrow> claim \<Rightarrow> err + duration \<Rightarrow> duration \<times> worker_event list" where
  "attempt_delay cfg c result =
    (case result of
       Inl e \<Rightarrow> (wc_failureDelay cfg, [\<lparr>we_runID = r_id (cl_run c), we_operation = OperationReconcile, we_err = e\<rparr>])
     | Inr delay \<Rightarrow>
         if \<not> ValidRetryDelay delay
         then (wc_failureDelay cfg,
           [\<lparr>we_runID = r_id (cl_run c), we_operation = OperationReconcile, we_err = ErrValidation\<rparr>])
         else (delay, []))"

definition worker_finish ::
  "'w worker_store \<Rightarrow> worker_config \<Rightarrow> claim \<Rightarrow> err + duration \<Rightarrow> 'w \<Rightarrow> completion \<times> 'w" where
  "worker_finish st cfg c result w =
    (if (case result of Inl e \<Rightarrow> errors_is e ErrLeaseLost | Inr _ \<Rightarrow> False)
     then (\<lparr>cp_runID = r_id (cl_run c), cp_events = []\<rparr>, w)
     else
       (case attempt_delay cfg c result of (delay, events) \<Rightarrow>
         (case worker_release st c delay w of (rel, w') \<Rightarrow>
           (rel\<lparr>cp_events := events @ cp_events rel\<rparr>, w'))))"

text \<open>
  The outcomes of the \<open>select\<close>: the reconciler returned, the renewal timer fired, or the
  parent context ended. The flags are \<open>parent.Err() != nil\<close> at that moment. Waiting for
  the reconciler after a cancel (\<open>\<open><-done\<close>\<close>) has no outcome that is used.
\<close>

datatype select = SelDone "err + duration" bool | SelTimer bool | SelParentDone

fun process ::
  "'w worker_store \<Rightarrow> worker_config \<Rightarrow> claim \<Rightarrow> select list \<Rightarrow> 'w \<Rightarrow> (completion \<times> 'w) option" where
  "process st cfg c [] w = None"
| "process st cfg c (SelDone result parentDone # sels) w =
    Some (if parentDone then (\<lparr>cp_runID = r_id (cl_run c), cp_events = []\<rparr>, w)
          else worker_finish st cfg c result w)"
| "process st cfg c (SelTimer parentDone # sels) w =
    (case ws_RenewClaim st (cl_lease c) (wc_leaseTTL cfg) w of
       (Inl e, w') \<Rightarrow>
         Some (\<lparr>cp_runID = r_id (cl_run c),
                cp_events = (if errors_is e ErrLeaseLost \<or> parentDone then []
                  else [\<lparr>we_runID = r_id (cl_run c), we_operation = OperationRenew, we_err = e\<rparr>])\<rparr>, w')
     | (Inr renewed, w') \<Rightarrow>
         if r_state (cl_run c) \<noteq> StateCancelling \<and> r_state (cl_run renewed) = StateCancelling
         then Some (worker_release st renewed 0 w')
         else process st cfg renewed sels w')"
| "process st cfg c (SelParentDone # sels) w =
    Some (\<lparr>cp_runID = r_id (cl_run c), cp_events = []\<rparr>, w)"

section \<open>The scheduler loop\<close>

definition validClaim :: "claim \<Rightarrow> bool" where
  "validClaim c = (Lease_Valid (cl_lease c) \<and> r_id (cl_run c) = l_runID (cl_lease c)
     \<and> r_state (cl_run c) \<noteq> StateUnknown [])"

text \<open>\<open>wk_started\<close> lists the claims whose attempts were started, \<open>wk_stopped\<close> what \<open>Run\<close> returned.\<close>

record 's worker_state =
  wk_active :: "string list"
  wk_store :: 's
  wk_started :: "claim list"
  wk_reports :: "worker_event list"
  wk_stopped :: "err option"

fun start_claims :: "claim list \<Rightarrow> 's worker_state \<Rightarrow> 's worker_state" where
  "start_claims [] st = st"
| "start_claims (c # cs) st =
    (if \<not> validClaim c \<or> r_id (cl_run c) \<in> set (wk_active st)
     then start_claims cs (st\<lparr>wk_reports := wk_reports st @
       [\<lparr>we_runID = r_id (cl_run c), we_operation = OperationClaim, we_err = ErrValidation\<rparr>]\<rparr>)
     else start_claims cs (st\<lparr>wk_active := r_id (cl_run c) # wk_active st, wk_started := wk_started st @ [c]\<rparr>))"

definition startAvailable ::
  "('e \<Rightarrow> string \<Rightarrow> int \<Rightarrow> duration \<Rightarrow> 's \<Rightarrow> (err + claim list) \<times> 's) \<Rightarrow> worker_config \<Rightarrow> 'e \<Rightarrow> 's worker_state
    \<Rightarrow> err option \<times> 's worker_state" where
  "startAvailable claim_runs cfg e st =
    (case claim_runs e (wc_workerID cfg) (wc_capacity cfg - int (length (wk_active st))) (wc_leaseTTL cfg) (wk_store st) of
       (Inl x, s) \<Rightarrow> (Some x, st\<lparr>wk_store := s\<rparr>)
     | (Inr claims, s) \<Rightarrow> (None, start_claims claims (st\<lparr>wk_store := s\<rparr>)))"

text \<open>
  One iteration: the poll timer (only selected below capacity; the flag is
  \<open>ctx.Err() == nil\<close> after the claim), a completion, the end of the context, or a change
  that attempts and other clients make to the store meanwhile.
\<close>

datatype ('e, 's) worker_input = WPoll 'e bool | WCompleted completion | WCtxDone err | WStore "'s \<Rightarrow> 's"

fun worker_step ::
  "('e \<Rightarrow> string \<Rightarrow> int \<Rightarrow> duration \<Rightarrow> 's \<Rightarrow> (err + claim list) \<times> 's) \<Rightarrow> worker_config
    \<Rightarrow> ('e, 's) worker_input \<Rightarrow> 's worker_state \<Rightarrow> 's worker_state" where
  "worker_step claim_runs cfg (WPoll e ctxAlive) st =
    (if wk_stopped st \<noteq> None \<or> wc_capacity cfg \<le> int (length (wk_active st)) then st
     else case startAvailable claim_runs cfg e st of
       (Some x, st') \<Rightarrow>
         if ctxAlive then st'\<lparr>wk_reports := wk_reports st' @
             [\<lparr>we_runID = [], we_operation = OperationClaim, we_err = x\<rparr>]\<rparr>
         else st'
     | (None, st') \<Rightarrow> st')"
| "worker_step claim_runs cfg (WCompleted cp) st =
    (if wk_stopped st \<noteq> None then st
     else st\<lparr>wk_active := removeAll (cp_runID cp) (wk_active st), wk_reports := wk_reports st @ cp_events cp\<rparr>)"
| "worker_step claim_runs cfg (WCtxDone x) st =
    (if wk_stopped st \<noteq> None then st else st\<lparr>wk_active := [], wk_stopped := Some x\<rparr>)"
| "worker_step claim_runs cfg (WStore f) st = st\<lparr>wk_store := f (wk_store st)\<rparr>"

definition worker_init :: "'s \<Rightarrow> 's worker_state" where
  "worker_init s = \<lparr>wk_active = [], wk_store = s, wk_started = [], wk_reports = [], wk_stopped = None\<rparr>"

section \<open>Capacity\<close>

text \<open>The contract of \<open>run.ReconciliationStore.ClaimRuns\<close> that the loop relies on.\<close>

locale claim_source =
  fixes claim_runs :: "'e \<Rightarrow> string \<Rightarrow> int \<Rightarrow> duration \<Rightarrow> 's \<Rightarrow> (err + claim list) \<times> 's"
  assumes claims_bounded: "claim_runs e w n ttl s = (Inr cs, s') \<Longrightarrow> length cs \<le> nat n"
begin

lemma start_claims_active:
  "distinct (wk_active st) \<Longrightarrow>
    distinct (wk_active (start_claims cs st)) \<and> length (wk_active (start_claims cs st)) \<le> length (wk_active st) + length cs"
proof (induction cs arbitrary: st)
  case (Cons c cs)
  show ?case
  proof (cases "\<not> validClaim c \<or> r_id (cl_run c) \<in> set (wk_active st)")
    case True
    with Cons.IH [of "st\<lparr>wk_reports := wk_reports st @
       [\<lparr>we_runID = r_id (cl_run c), we_operation = OperationClaim, we_err = ErrValidation\<rparr>]\<rparr>"] Cons.prems
    show ?thesis by simp
  next
    case False
    with Cons.IH [of "st\<lparr>wk_active := r_id (cl_run c) # wk_active st, wk_started := wk_started st @ [c]\<rparr>"] Cons.prems
    show ?thesis by simp
  qed
qed simp

lemma step_within_capacity:
  assumes "distinct (wk_active st)" "int (length (wk_active st)) \<le> wc_capacity cfg"
  shows "distinct (wk_active (worker_step claim_runs cfg i st))
    \<and> int (length (wk_active (worker_step claim_runs cfg i st))) \<le> wc_capacity cfg"
proof (cases i)
  case (WPoll e alive)
  show ?thesis
  proof (cases "wk_stopped st \<noteq> None \<or> wc_capacity cfg \<le> int (length (wk_active st))")
    case True
    with assms show ?thesis by (auto simp: WPoll)
  next
    case False
    obtain r s where r: "claim_runs e (wc_workerID cfg) (wc_capacity cfg - int (length (wk_active st)))
        (wc_leaseTTL cfg) (wk_store st) = (r, s)" by force
    show ?thesis
    proof (cases r)
      case (Inl x)
      with r False assms show ?thesis by (auto simp: WPoll startAvailable_def)
    next
      case (Inr cs)
      have "length cs \<le> nat (wc_capacity cfg - int (length (wk_active st)))"
        using claims_bounded r Inr by blast
      moreover have "distinct (wk_active (start_claims cs (st\<lparr>wk_store := s\<rparr>)))
          \<and> length (wk_active (start_claims cs (st\<lparr>wk_store := s\<rparr>))) \<le> length (wk_active st) + length cs"
        using start_claims_active [of "st\<lparr>wk_store := s\<rparr>" cs] assms(1) by simp
      ultimately show ?thesis using False r Inr by (auto simp: WPoll startAvailable_def)
    qed
  qed
next
  case (WCompleted cp)
  have "int (length (removeAll (cp_runID cp) (wk_active st))) \<le> wc_capacity cfg"
    using length_removeAll_less_eq [of "cp_runID cp" "wk_active st"] assms(2) by linarith
  with assms show ?thesis by (auto simp: WCompleted distinct_removeAll)
qed (use assms in auto)

lemma run_within_capacity:
  assumes "0 \<le> wc_capacity cfg"
  shows "distinct (wk_active (fold (worker_step claim_runs cfg) is (worker_init s)))
    \<and> int (length (wk_active (fold (worker_step claim_runs cfg) is (worker_init s)))) \<le> wc_capacity cfg"
proof (induction "is" rule: rev_induct)
  case Nil
  with assms show ?case by (simp add: worker_init_def)
next
  case (snoc i "is")
  then show ?case using step_within_capacity by simp
qed

end

interpretation pg_claims: claim_source "\<lambda>(f, env). pg_ClaimRuns f env"
  by unfold_locales (auto split: prod.splits dest: ClaimRuns_bounded)

end
