(* ===== verification/Baselines.thy ===== *)
theory Baselines
  imports Run_Domain Complex_Main
begin

text \<open>
  Package \<open>internal/baseline\<close> (\<open>domain.go\<close>) and the identity checks it takes from
  \<open>internal/rawresult\<close>: versioned baseline records with qualification evidence, an
  append-only lifecycle and revision-checked transitions.
\<close>

section \<open>Shared identity checks (rawresult)\<close>

record identity =
  id_id :: string
  id_version :: string
  id_sha256 :: string

definition Identity_valid :: "identity \<Rightarrow> bool" where
  "Identity_valid i = (rx_match resource_id_pattern (id_id i) \<and> rx_match version_pattern (id_version i)
     \<and> rx_match hash_pattern (id_sha256 i))"

text \<open>\<open>^[a-z0-9][a-z0-9._:/-]*@sha256:[a-f0-9]{64}$\<close>\<close>

definition ValidImage :: "string \<Rightarrow> bool" where
  "ValidImage s = rx_match (Seqs [Cls is_lower_alnum,
     Star (Cls (\<lambda>c. is_lower_alnum c \<or> c \<in> set ''._:/-'')), Lit ''@sha256:'', Rep is_lower_hex 64 64]) s"

text \<open>
  \<open>ValidTimestamp(value.Format(time.RFC3339Nano))\<close> for a UTC instant: the rendering has
  a four-digit year and drops trailing zeros of the fraction, so the pattern's at most
  six fractional digits are whole microseconds; parsing a rendered instant succeeds.
\<close>

definition validTimestamp :: "time \<Rightarrow> bool" where
  "validTimestamp t = (- seconds 62167219200 \<le> t \<and> t < seconds 253402300800 \<and> t mod 1000 = 0)"

definition validText :: "string \<Rightarrow> bool" where
  "validText s = (utf8_ValidString s \<and> \<not> blank_text s)"

definition validAuditText :: "string \<Rightarrow> nat \<Rightarrow> bool" where
  "validAuditText s maximum = (validText s \<and> utf8_RuneCountInString s \<le> maximum)"

section \<open>Records\<close>

datatype bl_state = BlCandidate | BlQualified | BlApproved | BlRetired | BlUnknown string

datatype qual_status = QualificationPending | QualificationPassed | QualificationFailed | QualificationUnknown string

text \<open>An IEEE 754 double as the checks see it; a finite double is a rational number.\<close>

datatype float64 = NaN | PosInf | NegInf | Fin rat

fun float_negative :: "float64 \<Rightarrow> bool" where
  "float_negative (Fin q) = (q < 0)"
| "float_negative NegInf = True"
| "float_negative _ = False"

fun float_finite :: "float64 \<Rightarrow> bool" where
  "float_finite (Fin q) = True"
| "float_finite _ = False"

record software =
  sw_gitSHA :: string
  sw_image :: string
  sw_version :: string

record bl_environment =
  env_identity :: identity
  env_fingerprint :: string

record dataset =
  ds_kind :: string
  ds_id :: string
  ds_version :: string
  ds_sha256 :: string
  ds_seed :: "int option"

record qualification =
  q_status :: qual_status
  q_reasons :: "string list"
  q_sampleCount :: "int option"
  q_maximumCV :: "float64 option"

record bl_event =
  ev_state :: bl_state
  ev_at :: time
  ev_actor :: string
  ev_reason :: string

record bl_record =
  bl_schemaVersion :: int
  bl_kind :: string
  bl_id :: string
  bl_version :: string
  bl_revision :: int
  bl_state :: bl_state
  bl_testID :: string
  bl_sourceRunID :: string
  bl_artifact :: artifact
  bl_software :: software
  bl_workload :: identity
  bl_environment :: bl_environment
  bl_dataset :: dataset
  bl_qualification :: qualification
  bl_createdAt :: time
  bl_lifecycle :: "bl_event list"

record bl_create =
  bcr_id :: string
  bcr_version :: string
  bcr_testID :: string
  bcr_sourceRunID :: string
  bcr_artifact :: artifact
  bcr_software :: software
  bcr_workload :: identity
  bcr_environment :: bl_environment
  bcr_dataset :: dataset
  bcr_actor :: string
  bcr_reason :: string

record bl_change =
  bch_state :: bl_state
  bch_qualification :: "qualification option"
  bch_actor :: string
  bch_reason :: string

record bl_selection =
  sel_id :: string
  sel_version :: string
  sel_testID :: string
  sel_workload :: identity
  sel_environment :: bl_environment
  sel_dataset :: dataset

definition maximumRevision :: int where
  "maximumRevision = 9007199254740991"

section \<open>Validation\<close>

definition Environment_valid :: "bl_environment \<Rightarrow> bool" where
  "Environment_valid e = (Identity_valid (env_identity e) \<and> rx_match hash_pattern (env_fingerprint e))"

text \<open>\<open>^[A-Fa-f0-9]{40}$\<close>\<close>

definition Software_valid :: "software \<Rightarrow> bool" where
  "Software_valid s = (rx_match (Rep is_hex 40 40) (sw_gitSHA s) \<and> ValidImage (sw_image s)
     \<and> (sw_version s = [] \<or> validText (sw_version s)))"

definition Dataset_valid :: "dataset \<Rightarrow> bool" where
  "Dataset_valid d =
    (if ds_kind d = ''none'' then
       ds_id d = [] \<and> ds_version d = [] \<and> ds_sha256 d = [] \<and> ds_seed d = None
     else if ds_kind d = ''versioned'' then
       Identity_valid \<lparr>id_id = ds_id d, id_version = ds_version d, id_sha256 = ds_sha256 d\<rparr>
       \<and> (case ds_seed d of None \<Rightarrow> False | Some n \<Rightarrow> 0 \<le> n)
     else False)"

definition Dataset_equal :: "dataset \<Rightarrow> dataset \<Rightarrow> bool" where
  "Dataset_equal d o' =
    (ds_kind d = ds_kind o' \<and> ds_id d = ds_id o' \<and> ds_version d = ds_version o'
     \<and> ds_sha256 d = ds_sha256 o'
     \<and> (case (ds_seed d, ds_seed o') of (Some a, Some b) \<Rightarrow> a = b | (a, b) \<Rightarrow> a = None \<and> b = None))"

definition cv_ok :: "float64 \<Rightarrow> bool" where
  "cv_ok x = (\<not> float_negative x \<and> float_finite x)"

text \<open>The reason loop: every reason is text and none repeats.\<close>

fun reasons_ok :: "string list \<Rightarrow> string list \<Rightarrow> bool" where
  "reasons_ok seen [] = True"
| "reasons_ok seen (x # xs) = (validText x \<and> x \<notin> set seen \<and> reasons_ok (x # seen) xs)"

definition Qualification_valid :: "qualification \<Rightarrow> bool" where
  "Qualification_valid q =
    ((case q_status q of
        QualificationPending \<Rightarrow> q_sampleCount q = None \<and> q_maximumCV q = None
      | QualificationPassed \<Rightarrow>
          (case q_sampleCount q of None \<Rightarrow> False | Some n \<Rightarrow> 1 \<le> n)
          \<and> (case q_maximumCV q of None \<Rightarrow> False | Some x \<Rightarrow> cv_ok x)
      | QualificationFailed \<Rightarrow>
          q_reasons q \<noteq> []
          \<and> (case q_sampleCount q of None \<Rightarrow> True | Some n \<Rightarrow> 1 \<le> n)
          \<and> (case q_maximumCV q of None \<Rightarrow> True | Some x \<Rightarrow> cv_ok x)
      | QualificationUnknown _ \<Rightarrow> False)
     \<and> reasons_ok [] (q_reasons q))"

definition validArtifact :: "artifact \<Rightarrow> string \<Rightarrow> bool" where
  "validArtifact a source =
    (Artifact_Validate a = Inr () \<and> a_runID a = source \<and> a_kind a = ''normalized''
     \<and> a_mediaType a = ''application/json'' \<and> a_format a = ''normalized-result/v1'')"

fun allowedTransition :: "bl_state \<Rightarrow> bl_state \<Rightarrow> bool" where
  "allowedTransition BlCandidate to = (to = BlQualified \<or> to = BlRetired)"
| "allowedTransition BlQualified to = (to = BlApproved \<or> to = BlRetired)"
| "allowedTransition BlApproved to = (to = BlRetired)"
| "allowedTransition _ to = False"

definition event_ok :: "bl_event \<Rightarrow> bool" where
  "event_ok e = (validTimestamp (ev_at e) \<and> validAuditText (ev_actor e) 128 \<and> validAuditText (ev_reason e) 1024)"

text \<open>The lifecycle loop; \<open>prev\<close> is \<open>Lifecycle[index-1]\<close>.\<close>

fun events_ok :: "bl_event option \<Rightarrow> bl_event list \<Rightarrow> bool" where
  "events_ok prev [] = True"
| "events_ok prev (e # es) =
    (event_ok e
     \<and> (case prev of None \<Rightarrow> True
        | Some p \<Rightarrow> allowedTransition (ev_state p) (ev_state e) \<and> \<not> ev_at e < ev_at p)
     \<and> events_ok (Some e) es)"

definition Record_valid :: "bl_record \<Rightarrow> bool" where
  "Record_valid r =
    (bl_schemaVersion r = 1 \<and> bl_kind r = ''PerformanceBaseline''
     \<and> rx_match resource_id_pattern (bl_id r) \<and> rx_match version_pattern (bl_version r)
     \<and> 1 \<le> bl_revision r \<and> bl_revision r \<le> maximumRevision
     \<and> rx_match resource_id_pattern (bl_testID r) \<and> ValidID (bl_sourceRunID r)
     \<and> validArtifact (bl_artifact r) (bl_sourceRunID r) \<and> Software_valid (bl_software r)
     \<and> Identity_valid (bl_workload r) \<and> Environment_valid (bl_environment r)
     \<and> Dataset_valid (bl_dataset r) \<and> Qualification_valid (bl_qualification r)
     \<and> validTimestamp (bl_createdAt r) \<and> bl_lifecycle r \<noteq> []
     \<and> bl_revision r = int (length (bl_lifecycle r))
     \<and> \<not> (bl_state r = BlCandidate \<and> q_status (bl_qualification r) = QualificationPassed)
     \<and> ((bl_state r = BlQualified \<or> bl_state r = BlApproved) \<longrightarrow>
          q_status (bl_qualification r) = QualificationPassed)
     \<and> ev_state (hd (bl_lifecycle r)) = BlCandidate \<and> ev_at (hd (bl_lifecycle r)) = bl_createdAt r
     \<and> ev_state (last (bl_lifecycle r)) = bl_state r
     \<and> events_ok None (bl_lifecycle r))"

definition Selection_valid :: "bl_selection \<Rightarrow> bool" where
  "Selection_valid s =
    (rx_match resource_id_pattern (sel_id s) \<and> rx_match version_pattern (sel_version s)
     \<and> rx_match resource_id_pattern (sel_testID s) \<and> Identity_valid (sel_workload s)
     \<and> Environment_valid (sel_environment s) \<and> Dataset_valid (sel_dataset s))"

definition MatchesSelection :: "bl_record \<Rightarrow> bl_selection \<Rightarrow> bool" where
  "MatchesSelection r s =
    (Record_valid r \<and> Selection_valid s \<and> bl_state r = BlApproved \<and> bl_id r = sel_id s
     \<and> bl_version r = sel_version s \<and> bl_testID r = sel_testID s \<and> bl_workload r = sel_workload s
     \<and> bl_environment r = sel_environment s \<and> Dataset_equal (bl_dataset r) (sel_dataset s))"

section \<open>Creation and transition\<close>

definition Baseline_New :: "bl_create \<Rightarrow> time \<Rightarrow> err + bl_record" where
  "Baseline_New c now =
    (let record = \<lparr>bl_schemaVersion = 1, bl_kind = ''PerformanceBaseline'', bl_id = bcr_id c,
           bl_version = bcr_version c, bl_revision = 1, bl_state = BlCandidate, bl_testID = bcr_testID c,
           bl_sourceRunID = bcr_sourceRunID c, bl_artifact = bcr_artifact c, bl_software = bcr_software c,
           bl_workload = bcr_workload c, bl_environment = bcr_environment c, bl_dataset = bcr_dataset c,
           bl_qualification = \<lparr>q_status = QualificationPending, q_reasons = [], q_sampleCount = None,
             q_maximumCV = None\<rparr>,
           bl_createdAt = now,
           bl_lifecycle = [\<lparr>ev_state = BlCandidate, ev_at = now, ev_actor = bcr_actor c, ev_reason = bcr_reason c\<rparr>]\<rparr>
     in if Record_valid record then Inr record else Inl ErrValidation)"

text \<open>The qualification a change may carry; \<open>None\<close> is the rejected change.\<close>

definition changed_qualification :: "bl_record \<Rightarrow> bl_change \<Rightarrow> qualification option" where
  "changed_qualification r ch =
    (case bch_state ch of
       BlQualified \<Rightarrow>
         (case bch_qualification ch of
            None \<Rightarrow> None
          | Some q \<Rightarrow> if q_status q = QualificationPassed \<and> Qualification_valid q then Some q else None)
     | BlRetired \<Rightarrow>
         (case bch_qualification ch of
            None \<Rightarrow> Some (bl_qualification r)
          | Some q \<Rightarrow> if bl_state r = BlCandidate \<and> q_status q = QualificationFailed \<and> Qualification_valid q
                      then Some q else None)
     | _ \<Rightarrow>
         (case bch_qualification ch of None \<Rightarrow> Some (bl_qualification r) | Some q \<Rightarrow> None))"

definition Baseline_Transition :: "bl_record \<Rightarrow> int \<Rightarrow> bl_change \<Rightarrow> time \<Rightarrow> err + bl_record" where
  "Baseline_Transition r expected ch now =
    (if bl_revision r \<noteq> expected then Inl ErrRevision
     else if \<not> Record_valid r then Inl ErrValidation
     else if maximumRevision \<le> bl_revision r \<or> \<not> allowedTransition (bl_state r) (bch_state ch)
       then Inl ErrBaselineTransition
     else if \<not> validAuditText (bch_actor ch) 128 \<or> \<not> validAuditText (bch_reason ch) 1024
          \<or> \<not> validTimestamp now \<or> now < ev_at (last (bl_lifecycle r))
       then Inl ErrValidation
     else
       (case changed_qualification r ch of
          None \<Rightarrow> Inl ErrValidation
        | Some q \<Rightarrow>
            (let next = r\<lparr>bl_qualification := q, bl_state := bch_state ch, bl_revision := bl_revision r + 1,
                   bl_lifecycle := bl_lifecycle r @ [\<lparr>ev_state = bch_state ch, ev_at = now,
                     ev_actor = bch_actor ch, ev_reason = bch_reason ch\<rparr>]\<rparr>
             in if Record_valid next then Inr next else Inl ErrValidation)))"

section \<open>Lifecycle lemmas\<close>

lemma events_ok_append:
  "events_ok prev (es @ [e]) \<longleftrightarrow> events_ok prev es \<and> event_ok e \<and>
     (case (if es = [] then prev else Some (last es)) of None \<Rightarrow> True
      | Some p \<Rightarrow> allowedTransition (ev_state p) (ev_state e) \<and> \<not> ev_at e < ev_at p)"
  by (induction es arbitrary: prev) auto

text \<open>
  The states a valid lifecycle can go through: a candidate is qualified, then approved,
  and may be retired at any point.
\<close>

definition lifecycle_paths :: "bl_state list list" where
  "lifecycle_paths = [[BlCandidate], [BlCandidate, BlQualified], [BlCandidate, BlQualified, BlApproved],
     [BlCandidate, BlRetired], [BlCandidate, BlQualified, BlRetired],
     [BlCandidate, BlQualified, BlApproved, BlRetired]]"

lemma events_paths:
  "events_ok (Some p) es \<Longrightarrow>
    map ev_state es \<in> set (case ev_state p of
        BlCandidate \<Rightarrow> [[], [BlQualified], [BlQualified, BlApproved], [BlRetired], [BlQualified, BlRetired],
          [BlQualified, BlApproved, BlRetired]]
      | BlQualified \<Rightarrow> [[], [BlApproved], [BlRetired], [BlApproved, BlRetired]]
      | BlApproved \<Rightarrow> [[], [BlRetired]]
      | _ \<Rightarrow> [[]])"
proof (induction es arbitrary: p)
  case (Cons e es)
  from Cons.prems have step: "allowedTransition (ev_state p) (ev_state e)" and rest: "events_ok (Some e) es"
    by auto
  from Cons.IH [OF rest] step show ?case
    by (cases "ev_state p") auto
qed (auto split: bl_state.splits)

lemma Record_valid_path:
  assumes "Record_valid r"
  shows "map ev_state (bl_lifecycle r) \<in> set lifecycle_paths"
proof -
  obtain e es where l: "bl_lifecycle r = e # es"
    using assms by (cases "bl_lifecycle r") (auto simp: Record_valid_def)
  have "ev_state e = BlCandidate" "events_ok (Some e) es"
    using assms l by (auto simp: Record_valid_def)
  with events_paths [of e es] l show ?thesis by (auto simp: lifecycle_paths_def)
qed

lemma last_map_state: "xs \<noteq> [] \<Longrightarrow> ev_state (last xs) = last (map ev_state xs)"
  by (simp add: last_map)

text \<open>The final \<open>Validate\<close> of a transition never fires: its guards already imply it.\<close>

lemma Baseline_Transition_next_valid:
  assumes v: "Record_valid r" and "bl_revision r < maximumRevision"
    and al: "allowedTransition (bl_state r) (bch_state ch)"
    and tx: "validAuditText (bch_actor ch) 128" "validAuditText (bch_reason ch) 1024"
    and tm: "validTimestamp now" "ev_at (last (bl_lifecycle r)) \<le> now"
    and q: "changed_qualification r ch = Some q"
  shows "Record_valid (r\<lparr>bl_qualification := q, bl_state := bch_state ch, bl_revision := bl_revision r + 1,
           bl_lifecycle := bl_lifecycle r @ [\<lparr>ev_state = bch_state ch, ev_at = now,
             ev_actor = bch_actor ch, ev_reason = bch_reason ch\<rparr>]\<rparr>)"
proof -
  have q1: "Qualification_valid q"
    using q v by (auto simp: changed_qualification_def Record_valid_def split: bl_state.splits option.splits if_splits)
  have q2: "(bch_state ch = BlQualified \<or> bch_state ch = BlApproved) \<longrightarrow> q_status q = QualificationPassed"
    using q v al
    by (cases "bl_state r")
      (auto simp: changed_qualification_def Record_valid_def split: option.splits if_splits)
  have q3: "bch_state ch \<noteq> BlCandidate" using al by (cases "bl_state r") auto
  have ev: "events_ok None (bl_lifecycle r @ [\<lparr>ev_state = bch_state ch, ev_at = now,
             ev_actor = bch_actor ch, ev_reason = bch_reason ch\<rparr>])"
    using v al tx tm by (auto simp: events_ok_append Record_valid_def event_ok_def)
  show ?thesis
    using v assms(2) q1 q2 q3 ev unfolding Record_valid_def by (auto simp: hd_append)
qed

text \<open>How a stored record may differ later: an appended audit trail, everything else pinned.\<close>

definition baseline_evolves :: "bl_record \<Rightarrow> bl_record \<Rightarrow> bool" where
  "baseline_evolves r r' =
    (\<exists>es. bl_lifecycle r' = bl_lifecycle r @ es \<and> bl_revision r' = bl_revision r + int (length es)
      \<and> (es = [] \<longrightarrow> r' = r)
      \<and> bl_id r' = bl_id r \<and> bl_version r' = bl_version r \<and> bl_testID r' = bl_testID r
      \<and> bl_sourceRunID r' = bl_sourceRunID r \<and> bl_artifact r' = bl_artifact r \<and> bl_software r' = bl_software r
      \<and> bl_workload r' = bl_workload r \<and> bl_environment r' = bl_environment r \<and> bl_dataset r' = bl_dataset r
      \<and> bl_createdAt r' = bl_createdAt r)"

lemma baseline_evolves_refl [simp]: "baseline_evolves r r"
  by (simp add: baseline_evolves_def)

lemma baseline_evolves_trans: "baseline_evolves a b \<Longrightarrow> baseline_evolves b c \<Longrightarrow> baseline_evolves a c"
  unfolding baseline_evolves_def by (elim exE) (rule exI [where x = "es @ es'" for es es'], auto)

lemma Baseline_Transition_evolves:
  assumes "Baseline_Transition r e ch now = Inr r'"
  shows "Record_valid r'" "baseline_evolves r r'"
proof -
  obtain q where v: "Record_valid r'" and r': "r' = r\<lparr>bl_qualification := q, bl_state := bch_state ch,
      bl_revision := bl_revision r + 1, bl_lifecycle := bl_lifecycle r @ [\<lparr>ev_state = bch_state ch, ev_at = now,
        ev_actor = bch_actor ch, ev_reason = bch_reason ch\<rparr>]\<rparr>"
    using assms by (auto simp: Baseline_Transition_def Let_def split: if_splits option.splits)
  show "Record_valid r'" by (rule v)
  show "baseline_evolves r r'" unfolding baseline_evolves_def by (rule exI) (auto simp: r')
qed

end
