(* ===== verification/Baseline_Spec.thy ===== *)
theory Baseline_Spec
  imports Baselines Lifecycle_Spec
begin

text \<open>
  The contract of \<open>baseline.Repository\<close> on top of a Run store: baselines are created as
  candidates backed by registered evidence of a completed Run of the same principal, and
  change only by domain transitions. Two consequences are proved once here: the backing
  never goes away, and the audit trail of a baseline is append-only.
\<close>

lemma Baseline_New_Inr:
  "Baseline_New c now = Inr r \<Longrightarrow> Record_valid r \<and> bl_state r = BlCandidate \<and> bl_revision r = 1"
  by (auto simp: Baseline_New_def Let_def split: if_splits)

lemma Baseline_Transition_keys:
  "Baseline_Transition r e ch now = Inr r' \<Longrightarrow>
    bl_id r' = bl_id r \<and> bl_version r' = bl_version r \<and> bl_sourceRunID r' = bl_sourceRunID r \<and> bl_artifact r' = bl_artifact r"
  by (drule Baseline_Transition_evolves) (auto simp: baseline_evolves_def)

type_synonym baseline_rows = "string \<times> string \<times> string \<rightharpoonup> bl_record"

text \<open>The source Run is completed and owned by the principal; the evidence is registered for it.\<close>

definition backed :: "run_view \<Rightarrow> (string \<rightharpoonup> artifact) \<Rightarrow> string \<Rightarrow> bl_record \<Rightarrow> bool" where
  "backed v arts p r =
    ((\<exists>source. v (bl_sourceRunID r) = Some (p, source) \<and> r_state source = StateCompleted)
     \<and> arts (a_id (bl_artifact r)) = Some (bl_artifact r))"

definition baselines_backed :: "run_view \<Rightarrow> (string \<rightharpoonup> artifact) \<Rightarrow> baseline_rows \<Rightarrow> bool" where
  "baselines_backed v arts rows = (\<forall>p i ver r. rows (p, i, ver) = Some r \<longrightarrow>
     p \<noteq> [] \<and> Record_valid r \<and> bl_id r = i \<and> bl_version r = ver \<and> backed v arts p r)"

lemma backed_kept:
  assumes "backed v arts p r" "life_steps v v'" "arts \<subseteq>\<^sub>m arts'"
  shows "backed v' arts' p r"
proof -
  obtain source where s: "v (bl_sourceRunID r) = Some (p, source)" "r_state source = StateCompleted"
    using assms(1) by (auto simp: backed_def)
  then have "v' (bl_sourceRunID r) = Some (p, source)"
    using life_steps_evolves [OF assms(2) s(1)] by (auto simp: evolves_def Terminal_iff)
  with s assms(1,3) show ?thesis by (force simp: backed_def map_le_def dom_def)
qed

text \<open>The two ways a call may touch one row.\<close>

definition row_change :: "run_view \<Rightarrow> (string \<rightharpoonup> artifact) \<Rightarrow> baseline_rows \<Rightarrow> baseline_rows \<Rightarrow> bool" where
  "row_change v arts rows rows' =
    (rows' = rows
     \<or> (\<exists>p r. rows (p, bl_id r, bl_version r) = None \<and> p \<noteq> [] \<and> Record_valid r \<and> bl_state r = BlCandidate \<and> backed v arts p r
         \<and> rows' = rows((p, bl_id r, bl_version r) \<mapsto> r))
     \<or> (\<exists>k r e ch now r'. rows k = Some r \<and> Baseline_Transition r e ch now = Inr r' \<and> rows' = rows(k \<mapsto> r')))"

lemma row_change_refl [simp]: "row_change v arts rows rows"
  by (simp add: row_change_def)

lemma row_change_created:
  "rows (p, bl_id r, bl_version r) = None \<Longrightarrow> p \<noteq> [] \<Longrightarrow> Record_valid r \<Longrightarrow> bl_state r = BlCandidate \<Longrightarrow> backed v arts p r
    \<Longrightarrow> row_change v arts rows (rows((p, bl_id r, bl_version r) \<mapsto> r))"
  unfolding row_change_def by blast

lemma row_change_transition:
  "rows k = Some r \<Longrightarrow> Baseline_Transition r e ch now = Inr r' \<Longrightarrow> row_change v arts rows (rows(k \<mapsto> r'))"
  unfolding row_change_def by blast

lemma row_change_backed:
  assumes "row_change v arts rows rows'" "baselines_backed v arts rows"
  shows "baselines_backed v arts rows'"
  using assms(1) unfolding row_change_def
proof (elim disjE exE conjE)
  fix p r
  assume "p \<noteq> []" "Record_valid r" "backed v arts p r" "rows' = rows((p, bl_id r, bl_version r) \<mapsto> r)"
  with assms(2) show ?thesis by (auto simp: baselines_backed_def)
next
  fix k r e ch now r'
  assume k: "rows k = Some r" and t: "Baseline_Transition r e ch now = Inr r'" and rows': "rows' = rows(k \<mapsto> r')"
  have "backed v arts p r'" if "backed v arts p r" for p
    using that Baseline_Transition_keys [OF t] by (simp add: backed_def)
  with k rows' assms(2) Baseline_Transition_evolves(1) [OF t] Baseline_Transition_keys [OF t] show ?thesis
    by (auto simp: baselines_backed_def)
qed (use assms(2) in simp)

lemma row_change_evolves:
  assumes "row_change v arts rows rows'" "rows k = Some r"
  shows "\<exists>r'. rows' k = Some r' \<and> baseline_evolves r r'"
  using assms(1) unfolding row_change_def
proof (elim disjE exE conjE)
  fix k' r0 e ch now r'
  assume "rows k' = Some r0" and t: "Baseline_Transition r0 e ch now = Inr r'" and "rows' = rows(k' \<mapsto> r')"
  with assms(2) Baseline_Transition_evolves(2) [OF t] show ?thesis by (cases "k = k'") auto
qed (use assms(2) in auto)

locale baseline_store =
  fixes view :: "'s \<Rightarrow> run_view"
    and stored :: "'s \<Rightarrow> string \<rightharpoonup> artifact"
    and rows :: "'s \<Rightarrow> baseline_rows"
    and step :: "'op \<Rightarrow> 's \<Rightarrow> 's"
  assumes runs_refine: "life_steps (view s) (view (step op s))"
    and artifacts_kept: "stored s \<subseteq>\<^sub>m stored (step op s)"
    and rows_change: "row_change (view (step op s)) (stored (step op s)) (rows s) (rows (step op s))"
begin

lemma step_backed:
  assumes "baselines_backed (view s) (stored s) (rows s)"
  shows "baselines_backed (view (step op s)) (stored (step op s)) (rows (step op s))"
proof (rule row_change_backed [OF rows_change])
  show "baselines_backed (view (step op s)) (stored (step op s)) (rows s)"
    using assms backed_kept [OF _ runs_refine artifacts_kept] unfolding baselines_backed_def by blast
qed

end

sublocale baseline_store \<subseteq> evolving_rows rows step "\<lambda>s. baselines_backed (view s) (stored s) (rows s)" baseline_evolves
  by unfold_locales (auto intro: step_backed baseline_evolves_trans row_change_evolves [OF rows_change])

end
