(* ===== verification/Memory_Store.thy ===== *)
theory Memory_Store
  imports Baseline_Spec
begin

text \<open>
  Package \<open>internal/memory\<close>: the process-local repository. Its mutex makes every method
  atomic, so a method is a function from the repository state to a result and the next
  state. \<open>ctx\<close> is what \<open>ctx.Err()\<close> returns (\<open>None\<close> for \<open>nil\<close>), \<open>now\<close> what the injected
  clock returns, \<open>draws\<close> the outcomes of \<open>rand.Read\<close>.
\<close>

section \<open>State\<close>

record owned_run =
  o_principal :: string
  o_run :: run
  o_target :: execution_target

record binding =
  b_accepted :: accepted
  b_target :: execution_target

record mem =
  m_runs :: "(string, owned_run) table"
  m_bindings :: "(string \<times> string, binding) table"
  m_artifacts :: "(string, artifact) table"
  m_baselines :: "(string \<times> string \<times> string, bl_record) table"

definition mem_New :: mem where
  "mem_New = \<lparr>m_runs = [], m_bindings = [], m_artifacts = [], m_baselines = []\<rparr>"

section \<open>Runs (repository.go)\<close>

text \<open>
  The identifier loop draws until the name is free; \<open>None\<close> means that it is still
  drawing after the given outcomes.
\<close>

fun fresh_id :: "(string, 'r) table \<Rightarrow> time \<Rightarrow> (err + u32) list \<Rightarrow> (err + string) option" where
  "fresh_id runs now [] = None"
| "fresh_id runs now (Inl e # ds) = Some (Inl e)"
| "fresh_id runs now (Inr suffix # ds) =
    (if map_of runs (run_id_of now suffix) = None then Some (Inr (run_id_of now suffix))
     else fresh_id runs now ds)"

text \<open>Lines after the replay check: choose an identifier, store the Run and its binding.\<close>

definition mem_create ::
  "time \<Rightarrow> (err + u32) list \<Rightarrow> string \<Rightarrow> string \<Rightarrow> request \<Rightarrow> execution_target \<Rightarrow> mem
    \<Rightarrow> ((err + accepted) \<times> mem) option" where [store_defs]:
  "mem_create now draws owner key request target m =
    (case fresh_id (m_runs m) now draws of
       None \<Rightarrow> None
     | Some (Inl e) \<Rightarrow> Some (Inl e, m)
     | Some (Inr i) \<Rightarrow>
         (let created = new_run i request now;
              accepted = \<lparr>acc_run = created, acc_expiresAt = now + 24 * minutes 60\<rparr>
          in Some (Inr accepted,
               m\<lparr>m_runs := tput i \<lparr>o_principal = owner, o_run = created, o_target = target\<rparr> (m_runs m),
                 m_bindings := tput (owner, key) \<lparr>b_accepted = accepted, b_target = target\<rparr>
                   (m_bindings m)\<rparr>)))"

definition mem_Accept ::
  "err option \<Rightarrow> time \<Rightarrow> (err + u32) list \<Rightarrow> string \<Rightarrow> string \<Rightarrow> request \<Rightarrow> execution_target \<Rightarrow> mem
    \<Rightarrow> ((err + accepted) \<times> mem) option" where [store_defs]:
  "mem_Accept ctx now draws owner key request target m =
    (if owner = [] \<or> \<not> ValidKey key \<or> \<not> is_ok (Request_Validate request) \<or> \<not> ExecutionTarget_Valid target
     then Some (Inl ErrValidation, m)
     else case ctx of
       Some e \<Rightarrow> Some (Inl e, m)
     | None \<Rightarrow>
       (case map_of (m_bindings m) (owner, key) of
          None \<Rightarrow> mem_create now draws owner key request target m
        | Some existing \<Rightarrow>
            if now < acc_expiresAt (b_accepted existing) then
              (if r_request (acc_run (b_accepted existing)) \<noteq> request \<or> b_target existing \<noteq> target
               then Some (Inl ErrConflict, m) else Some (Inr (b_accepted existing), m))
            else mem_create now draws owner key request target m))"

definition visible :: "string \<Rightarrow> string \<Rightarrow> mem \<Rightarrow> err + run" where [store_defs]:
  "visible owner i m =
    (case map_of (m_runs m) i of
       None \<Rightarrow> Inl ErrNotFound
     | Some rec \<Rightarrow> if owner = [] \<or> o_principal rec \<noteq> owner then Inl ErrNotFound else Inr (o_run rec))"

definition mem_Get :: "err option \<Rightarrow> string \<Rightarrow> string \<Rightarrow> mem \<Rightarrow> err + run" where [store_defs]:
  "mem_Get ctx owner i m = (case ctx of Some e \<Rightarrow> Inl e | None \<Rightarrow> visible owner i m)"

definition set_run :: "string \<Rightarrow> run \<Rightarrow> mem \<Rightarrow> mem" where [store_defs]:
  "set_run i next m =
    (case map_of (m_runs m) i of
       None \<Rightarrow> m
     | Some rec \<Rightarrow> m\<lparr>m_runs := tput i (rec\<lparr>o_run := next\<rparr>) (m_runs m)\<rparr>)"

definition mem_Cancel :: "err option \<Rightarrow> time \<Rightarrow> string \<Rightarrow> string \<Rightarrow> mem \<Rightarrow> (err + run) \<times> mem" where [store_defs]:
  "mem_Cancel ctx now owner i m =
    (case ctx of Some e \<Rightarrow> (Inl e, m)
     | None \<Rightarrow> (case visible owner i m of
         Inl e \<Rightarrow> (Inl e, m)
       | Inr r \<Rightarrow> (case Run_RequestCancellation r now of
           Inl e \<Rightarrow> (Inl e, m)
         | Inr next \<Rightarrow> (Inr next, set_run i next m))))"

definition mem_Advance ::
  "err option \<Rightarrow> time \<Rightarrow> string \<Rightarrow> string \<Rightarrow> int \<Rightarrow> change \<Rightarrow> mem \<Rightarrow> (err + run) \<times> mem" where [store_defs]:
  "mem_Advance ctx now owner i revision ch m =
    (case ctx of Some e \<Rightarrow> (Inl e, m)
     | None \<Rightarrow> (case visible owner i m of
         Inl e \<Rightarrow> (Inl e, m)
       | Inr r \<Rightarrow> (case Run_Transition r revision ch now of
           Inl e \<Rightarrow> (Inl e, m)
         | Inr next \<Rightarrow> (Inr next, set_run i next m))))"

section \<open>Artifacts (artifacts.go)\<close>

definition mem_RegisterArtifact :: "err option \<Rightarrow> string \<Rightarrow> artifact \<Rightarrow> mem \<Rightarrow> (err + unit) \<times> mem" where [store_defs]:
  "mem_RegisterArtifact ctx owner a0 m =
    (let a = canonical a0
     in if \<not> is_ok (Artifact_Validate a) then (Inl ErrValidation, m)
        else case ctx of Some e \<Rightarrow> (Inl e, m)
        | None \<Rightarrow> (case visible owner (a_runID a) m of
            Inl e \<Rightarrow> (Inl e, m)
          | Inr _ \<Rightarrow> (case map_of (m_artifacts m) (a_id a) of
              Some previous \<Rightarrow> if previous \<noteq> a then (Inl ErrArtifactConflict, m) else (Inr (), m)
            | None \<Rightarrow> (Inr (), m\<lparr>m_artifacts := tput (a_id a) a (m_artifacts m)\<rparr>))))"

definition mem_GetArtifact :: "err option \<Rightarrow> string \<Rightarrow> string \<Rightarrow> string \<Rightarrow> mem \<Rightarrow> err + artifact" where [store_defs]:
  "mem_GetArtifact ctx owner runID i m =
    (case ctx of Some e \<Rightarrow> Inl e
     | None \<Rightarrow> (case visible owner runID m of
         Inl e \<Rightarrow> Inl e
       | Inr _ \<Rightarrow> (case map_of (m_artifacts m) (to_lower i) of
           None \<Rightarrow> Inl ErrNotFound
         | Some a \<Rightarrow> if a_runID a \<noteq> runID then Inl ErrNotFound else Inr a)))"

definition mem_ListArtifacts :: "err option \<Rightarrow> string \<Rightarrow> string \<Rightarrow> mem \<Rightarrow> err + artifact list" where [store_defs]:
  "mem_ListArtifacts ctx owner runID m =
    (case ctx of Some e \<Rightarrow> Inl e
     | None \<Rightarrow> (case visible owner runID m of
         Inl e \<Rightarrow> Inl e
       | Inr _ \<Rightarrow> Inr (sort_key a_id (filter (\<lambda>a. a_runID a = runID) (map snd (m_artifacts m))))))"

section \<open>Baselines (baselines.go)\<close>

definition baselineTime :: "time \<Rightarrow> time" where
  "baselineTime now = now - now mod 1000"

definition mem_CreateBaseline ::
  "err option \<Rightarrow> time \<Rightarrow> string \<Rightarrow> bl_create \<Rightarrow> mem \<Rightarrow> (err + bl_record) \<times> mem" where [store_defs]:
  "mem_CreateBaseline ctx now owner input m =
    (case ctx of Some e \<Rightarrow> (Inl e, m)
     | None \<Rightarrow> (case Baseline_New input (baselineTime now) of
         Inl e \<Rightarrow> (Inl e, m)
       | Inr record \<Rightarrow> (case visible owner (bl_sourceRunID record) m of
           Inl e \<Rightarrow> (Inl e, m)
         | Inr source \<Rightarrow>
             if r_state source \<noteq> StateCompleted then (Inl ErrValidation, m)
             else (case map_of (m_artifacts m) (a_id (bl_artifact record)) of
               None \<Rightarrow> (Inl ErrNotFound, m)
             | Some registered \<Rightarrow>
                 if registered \<noteq> bl_artifact record then (Inl ErrValidation, m)
                 else if map_of (m_baselines m) (owner, bl_id record, bl_version record) \<noteq> None
                   then (Inl ErrConflict, m)
                 else (Inr record,
                   m\<lparr>m_baselines := tput (owner, bl_id record, bl_version record) record (m_baselines m)\<rparr>)))))"

definition mem_GetBaseline :: "err option \<Rightarrow> string \<Rightarrow> string \<Rightarrow> string \<Rightarrow> mem \<Rightarrow> err + bl_record" where [store_defs]:
  "mem_GetBaseline ctx owner i version m =
    (case ctx of Some e \<Rightarrow> Inl e
     | None \<Rightarrow> (case map_of (m_baselines m) (owner, i, version) of
         None \<Rightarrow> Inl ErrNotFound
       | Some record \<Rightarrow> if owner = [] then Inl ErrNotFound else Inr record))"

text \<open>The Boolean result is the option: \<open>None\<close> for \<open>false\<close>.\<close>

definition mem_ResolveApprovedBaseline ::
  "err option \<Rightarrow> string \<Rightarrow> bl_selection \<Rightarrow> mem \<Rightarrow> err + bl_record option" where [store_defs]:
  "mem_ResolveApprovedBaseline ctx owner sel m =
    (if owner = [] \<or> \<not> Selection_valid sel then Inl ErrValidation
     else case mem_GetBaseline ctx owner (sel_id sel) (sel_version sel) m of
       Inl e \<Rightarrow> if errors_is e ErrNotFound then Inr None else Inl e
     | Inr record \<Rightarrow> if MatchesSelection record sel then Inr (Some record) else Inr None)"

definition mem_TransitionBaseline ::
  "err option \<Rightarrow> time \<Rightarrow> string \<Rightarrow> string \<Rightarrow> string \<Rightarrow> int \<Rightarrow> bl_change \<Rightarrow> mem \<Rightarrow> (err + bl_record) \<times> mem"
  where [store_defs]:
  "mem_TransitionBaseline ctx now owner i version expected ch m =
    (case ctx of Some e \<Rightarrow> (Inl e, m)
     | None \<Rightarrow> (case map_of (m_baselines m) (owner, i, version) of
         None \<Rightarrow> (Inl ErrNotFound, m)
       | Some current \<Rightarrow>
           if owner = [] then (Inl ErrNotFound, m)
           else (case Baseline_Transition current expected ch (baselineTime now) of
             Inl e \<Rightarrow> (Inl e, m)
           | Inr next \<Rightarrow> (Inr next, m\<lparr>m_baselines := tput (owner, i, version) next (m_baselines m)\<rparr>))))"

section \<open>The repository as a state machine\<close>

type_synonym accept_env = "err option \<times> time \<times> (err + u32) list"

datatype mem_op =
    MAccept accept_env string string request execution_target
  | MCancel "err option" time string string
  | MAdvance "err option" time string string int change
  | MRegisterArtifact "err option" string artifact
  | MCreateBaseline "err option" time string bl_create
  | MTransitionBaseline "err option" time string string string int bl_change

fun mem_accept_call :: "mem_op \<Rightarrow> mem \<Rightarrow> ((err + accepted) \<times> mem) option" where
  "mem_accept_call (MAccept (ctx, now, draws) p k rq t) m = mem_Accept ctx now draws p k rq t m"
| "mem_accept_call _ m = None"

fun mem_step :: "mem_op \<Rightarrow> mem \<Rightarrow> mem" where
  "mem_step (MAccept e p k rq t) m = (case mem_accept_call (MAccept e p k rq t) m of None \<Rightarrow> m | Some (_, m') \<Rightarrow> m')"
| "mem_step (MCancel ctx now p i) m = snd (mem_Cancel ctx now p i m)"
| "mem_step (MAdvance ctx now p i rv ch) m = snd (mem_Advance ctx now p i rv ch m)"
| "mem_step (MRegisterArtifact ctx p a) m = snd (mem_RegisterArtifact ctx p a m)"
| "mem_step (MCreateBaseline ctx now p c) m = snd (mem_CreateBaseline ctx now p c m)"
| "mem_step (MTransitionBaseline ctx now p i v rv ch) m = snd (mem_TransitionBaseline ctx now p i v rv ch m)"

definition mem_view :: "mem \<Rightarrow> run_view" where
  "mem_view m i = map_option (\<lambda>o'. (o_principal o', o_run o')) (map_of (m_runs m) i)"

fun mem_op_time :: "mem_op \<Rightarrow> time" where
  "mem_op_time (MAccept (ctx, now, draws) p k rq t) = now"
| "mem_op_time (MCancel ctx now p i) = now"
| "mem_op_time (MAdvance ctx now p i rv ch) = now"
| "mem_op_time (MCreateBaseline ctx now p c) = now"
| "mem_op_time (MTransitionBaseline ctx now p i v rv ch) = now"
| "mem_op_time (MRegisterArtifact ctx p a) = 0"

definition accept_input_ok :: "string \<Rightarrow> string \<Rightarrow> request \<Rightarrow> execution_target \<Rightarrow> bool" where
  "accept_input_ok p k rq t = (p \<noteq> [] \<and> ValidKey k \<and> is_ok (Request_Validate rq) \<and> ExecutionTarget_Valid t)"

fun mem_healthy :: "mem_op \<Rightarrow> bool" where
  "mem_healthy (MAccept (ctx, now, draws) p k rq t) = (ctx = None \<and> accept_input_ok p k rq t)"
| "mem_healthy _ = False"

definition mem_bound :: "mem \<Rightarrow> string \<Rightarrow> string \<Rightarrow> (accepted \<times> execution_target) option" where
  "mem_bound m p k = map_option (\<lambda>b. (b_accepted b, b_target b)) (map_of (m_bindings m) (p, k))"

definition mem_answer :: "mem_op \<Rightarrow> mem \<Rightarrow> (err + accepted) option" where
  "mem_answer op m = map_option fst (mem_accept_call op m)"

section \<open>Lemmas\<close>

lemma fresh_id_free: "fresh_id runs now ds = Some (Inr i) \<Longrightarrow> map_of runs i = None"
  by (induction runs now ds rule: fresh_id.induct) (auto split: if_splits)

lemma fresh_id_shape: "fresh_id runs now ds = Some (Inr i) \<Longrightarrow> \<exists>w. i = run_id_of now w"
  by (induction runs now ds rule: fresh_id.induct) (auto split: if_splits)

lemma visible_view: "visible p i m = Inr r \<longleftrightarrow> p \<noteq> [] \<and> mem_view m i = Some (p, r)"
  by (auto simp: visible_def mem_view_def split: option.splits)

lemma set_run_view:
  "mem_view m i = Some (p, r) \<Longrightarrow> mem_view (set_run i next m) = (mem_view m)(i \<mapsto> (p, next))"
  by (auto simp: set_run_def mem_view_def fun_eq_iff split: option.splits)

lemma set_run_frame [simp]:
  "m_bindings (set_run i r m) = m_bindings m" "m_artifacts (set_run i r m) = m_artifacts m"
  "m_baselines (set_run i r m) = m_baselines m"
  by (auto simp: set_run_def split: option.splits)

lemma mem_view_cong: "m_runs m = m_runs m' \<Longrightarrow> mem_view m = mem_view m'"
  by (simp add: mem_view_def fun_eq_iff)

lemma mem_create_Some:
  assumes "mem_create now ds p k rq t m = Some (res, m')"
  shows "(\<exists>e. res = Inl e \<and> m' = m) \<or>
    (\<exists>i. fresh_id (m_runs m) now ds = Some (Inr i)
      \<and> res = Inr \<lparr>acc_run = new_run i rq now, acc_expiresAt = now + 24 * minutes 60\<rparr>
      \<and> m' = m\<lparr>m_runs := tput i \<lparr>o_principal = p, o_run = new_run i rq now, o_target = t\<rparr> (m_runs m),
              m_bindings := tput (p, k) \<lparr>b_accepted = \<lparr>acc_run = new_run i rq now,
                acc_expiresAt = now + 24 * minutes 60\<rparr>, b_target = t\<rparr> (m_bindings m)\<rparr>)"
proof (cases "fresh_id (m_runs m) now ds")
  case (Some x)
  with assms show ?thesis by (cases x) (auto simp: mem_create_def Let_def)
qed (use assms in \<open>simp add: mem_create_def\<close>)

text \<open>The outcomes of \<open>Accept\<close>: an error, a live replay, or a new Run.\<close>

lemma mem_Accept_cases:
  assumes "mem_Accept ctx now ds p k rq t m = Some (res, m')"
  obtains (error) e where "res = Inl e" "m' = m"
  | (replay) b where "map_of (m_bindings m) (p, k) = Some b" "now < acc_expiresAt (b_accepted b)"
      "res = Inr (b_accepted b)" "m' = m" "r_request (acc_run (b_accepted b)) = rq" "b_target b = t"
  | (create) i where "p \<noteq> []" "fresh_id (m_runs m) now ds = Some (Inr i)"
      "\<forall>b. map_of (m_bindings m) (p, k) = Some b \<longrightarrow> acc_expiresAt (b_accepted b) \<le> now"
      "res = Inr \<lparr>acc_run = new_run i rq now, acc_expiresAt = now + 24 * minutes 60\<rparr>"
      "m' = m\<lparr>m_runs := tput i \<lparr>o_principal = p, o_run = new_run i rq now, o_target = t\<rparr> (m_runs m),
              m_bindings := tput (p, k) \<lparr>b_accepted = \<lparr>acc_run = new_run i rq now,
                acc_expiresAt = now + 24 * minutes 60\<rparr>, b_target = t\<rparr> (m_bindings m)\<rparr>"
proof -
  note h = assms [unfolded mem_Accept_def]
  have new: thesis if "p \<noteq> []" "mem_create now ds p k rq t m = Some (res, m')"
    "\<forall>b. map_of (m_bindings m) (p, k) = Some b \<longrightarrow> acc_expiresAt (b_accepted b) \<le> now"
    using mem_create_Some [OF that(2)] error create [OF that(1) _ that(3)] by blast
  show thesis
  proof (cases "p = [] \<or> \<not> ValidKey k \<or> \<not> is_ok (Request_Validate rq) \<or> \<not> ExecutionTarget_Valid t")
    case True
    from h error [of ErrValidation] show ?thesis unfolding if_P [OF True] by simp
  next
    case inp: False
    show ?thesis
    proof (cases ctx)
      case (Some e)
      with h inp error [of e] show ?thesis by simp
    next
      case ctx: None
      show ?thesis
      proof (cases "map_of (m_bindings m) (p, k)")
        case None
        with h inp ctx new show ?thesis by simp
      next
        case (Some b)
        show ?thesis
        proof (cases "now < acc_expiresAt (b_accepted b)")
          case True
          with h inp ctx Some error [of ErrConflict] replay [OF Some True] show ?thesis
            by (simp split: if_splits)
        next
          case False
          with h inp ctx Some new show ?thesis by simp
        qed
      qed
    qed
  qed
qed

lemma mem_step_refines: "life_steps (mem_view m) (mem_view (mem_step op m))"
proof (cases op)
  case (MAccept e p k rq t)
  obtain ctx now ds where e: "e = (ctx, now, ds)" by (cases e)
  show ?thesis
  proof (cases "mem_Accept ctx now ds p k rq t m")
    case None
    then show ?thesis by (simp add: MAccept e)
  next
    case (Some x)
    obtain res m' where x: "x = (res, m')" by force
    have st: "mem_step op m = m'" using Some x by (simp add: MAccept e)
    from Some [unfolded x] show ?thesis unfolding st
    proof (cases rule: mem_Accept_cases)
      case (create i)
      have free: "mem_view m i = None" using fresh_id_free [OF create(2)] by (simp add: mem_view_def)
      have "mem_view m' = (mem_view m)(i \<mapsto> (p, new_run i rq now))"
        by (auto simp: create(5) mem_view_def fun_eq_iff)
      with life_step.create [of "mem_view m" i p rq now, OF free create(1)]
      show "life_steps (mem_view m) (mem_view m')" by (simp add: r_into_rtranclp)
    qed simp_all
  qed
next
  case (MCancel ctx now p i)
  then show ?thesis
    by (auto simp: mem_Cancel_def visible_view set_run_view split: option.splits sum.splits)
next
  case (MAdvance ctx now p i rv ch)
  then show ?thesis
    by (auto simp: mem_Advance_def visible_view set_run_view split: option.splits sum.splits)
next
  case (MRegisterArtifact ctx p a)
  have "mem_view (snd (mem_RegisterArtifact ctx p a m)) = mem_view m"
    by (rule mem_view_cong) (auto simp: mem_RegisterArtifact_def Let_def split: option.splits sum.splits)
  then show ?thesis by (simp add: MRegisterArtifact)
next
  case (MCreateBaseline ctx now p c)
  have "mem_view (snd (mem_CreateBaseline ctx now p c m)) = mem_view m"
    by (rule mem_view_cong) (auto simp: mem_CreateBaseline_def split: option.splits sum.splits)
  then show ?thesis by (simp add: MCreateBaseline)
next
  case (MTransitionBaseline ctx now p i v rv ch)
  have "mem_view (snd (mem_TransitionBaseline ctx now p i v rv ch m)) = mem_view m"
    by (rule mem_view_cong) (auto simp: mem_TransitionBaseline_def split: option.splits sum.splits)
  then show ?thesis by (simp add: MTransitionBaseline)
qed

interpretation memory: lifecycle_store mem_view mem_step mem_New
  by unfold_locales (auto simp: mem_view_def mem_New_def mem_step_refines)

lemma mem_step_bindings:
  "case op of MAccept e p k rq t \<Rightarrow> True | _ \<Rightarrow> m_bindings (mem_step op m) = m_bindings m"
  by (cases op)
    (auto simp: mem_Cancel_def mem_Advance_def mem_RegisterArtifact_def mem_CreateBaseline_def
      mem_TransitionBaseline_def Let_def split: option.splits sum.splits)

lemma mem_Accept_binding_kept:
  assumes b: "mem_bound m p k = Some (a, t)" and live: "now < acc_expiresAt a"
    and call: "mem_Accept ctx now ds p' k' rq t' m = Some (res, m')"
  shows "mem_bound m' p k = Some (a, t)"
  using call
proof (cases rule: mem_Accept_cases)
  case (create i)
  have "(p', k') \<noteq> (p, k)" using create(3) b live by (auto simp: mem_bound_def)
  then have "map_of (m_bindings m') (p, k) = map_of (m_bindings m) (p, k)" by (auto simp: create(5))
  then show ?thesis using b by (simp add: mem_bound_def)
qed (simp_all add: b)

lemma mem_binding_kept:
  assumes b: "mem_bound m p k = Some (a, t)" and live: "mem_op_time op < acc_expiresAt a"
  shows "mem_bound (mem_step op m) p k = Some (a, t)"
proof (cases op)
  case (MAccept e p' k' rq t')
  obtain ctx now ds where e: "e = (ctx, now, ds)" by (cases e)
  show ?thesis
    using b live mem_Accept_binding_kept [OF b, of now ctx ds p' k' rq t']
    by (auto simp: MAccept e split: option.split)
qed (use b mem_step_bindings [of op m] in \<open>simp_all add: mem_bound_def\<close>)

interpretation memory_accept: idempotent_store mem_view mem_step mem_New mem_bound mem_op_time mem_healthy MAccept mem_answer
proof unfold_locales
  fix e :: accept_env and p k rq t s a
  obtain ctx now ds where e: "e = (ctx, now, ds)" by (cases e)
  assume "mem_answer (MAccept e p k rq t) s = Some (Inr a)"
  then obtain m' where m': "mem_Accept ctx now ds p k rq t s = Some (Inr a, m')"
    by (auto simp: mem_answer_def e)
  then have "mem_bound m' p k = Some (a, t) \<and> r_request (acc_run a) = rq"
    by (cases rule: mem_Accept_cases) (auto simp: mem_bound_def new_run_def)
  with m' show "mem_bound (mem_step (MAccept e p k rq t) s) p k = Some (a, t)"
    "r_request (acc_run a) = rq"
    by (auto simp: e)
next
  fix s p k a t' and e :: accept_env and rq t
  obtain ctx now ds where e: "e = (ctx, now, ds)" by (cases e)
  assume "mem_bound s p k = Some (a, t')" "mem_healthy (MAccept e p k rq t)"
    "mem_op_time (MAccept e p k rq t) < acc_expiresAt a"
  then show "mem_answer (MAccept e p k rq t) s =
      Some (if r_request (acc_run a) = rq \<and> t' = t then Inr a else Inl ErrConflict)
      \<and> mem_step (MAccept e p k rq t) s = s"
    by (auto simp: mem_answer_def mem_bound_def mem_Accept_def accept_input_ok_def e)
qed (rule mem_binding_kept)

interpretation memory_artifacts: artifact_store "\<lambda>m. map_of (m_artifacts m)" mem_RegisterArtifact
  by unfold_locales
    (auto simp: mem_RegisterArtifact_def Let_def is_ok_iff map_le_def split: if_splits option.splits sum.splits)

section \<open>Baselines are backed and append-only\<close>

lemma mem_step_baselines:
  "case op of MCreateBaseline ctx now p c \<Rightarrow> True | MTransitionBaseline ctx now p i v rv ch \<Rightarrow> True
   | _ \<Rightarrow> m_baselines (mem_step op m) = m_baselines m"
proof (cases op)
  case (MAccept e p k rq t)
  then show ?thesis by (cases e) (auto split: option.split elim!: mem_Accept_cases)
qed (auto simp: mem_Cancel_def mem_Advance_def mem_RegisterArtifact_def Let_def split: option.splits sum.splits)

lemma mem_step_references:
  "case op of MRegisterArtifact ctx p a \<Rightarrow> True | _ \<Rightarrow> m_artifacts (mem_step op m) = m_artifacts m"
proof (cases op)
  case (MAccept e p k rq t)
  then show ?thesis by (cases e) (auto split: option.split elim!: mem_Accept_cases)
qed (auto simp: mem_Cancel_def mem_Advance_def mem_CreateBaseline_def mem_TransitionBaseline_def Let_def
    split: option.splits sum.splits)

lemma mem_step_artifacts: "map_of (m_artifacts m) \<subseteq>\<^sub>m map_of (m_artifacts (mem_step op m))"
proof (cases op)
  case (MRegisterArtifact ctx p a)
  obtain res m' where "mem_RegisterArtifact ctx p a m = (res, m')" by force
  with memory_artifacts.register_keeps [OF this] show ?thesis by (simp add: MRegisterArtifact)
qed (use mem_step_references [of op m] in simp_all)

definition mem_row_change :: "mem \<Rightarrow> mem \<Rightarrow> bool" where
  "mem_row_change m m' =
    (mem_view m' = mem_view m \<and>
     row_change (mem_view m) (map_of (m_artifacts m)) (map_of (m_baselines m)) (map_of (m_baselines m')))"

lemma mem_row_change_refl [simp]: "mem_row_change m m"
  by (simp add: mem_row_change_def)

lemma mem_CreateBaseline_change: "mem_row_change m (snd (mem_CreateBaseline ctx now p c m))"
proof (cases "Baseline_New c (baselineTime now)")
  case (Inr r)
  note new = Baseline_New_Inr [OF Inr]
  have "mem_row_change m (m\<lparr>m_baselines := tput (p, bl_id r, bl_version r) r (m_baselines m)\<rparr>)"
    if "visible p (bl_sourceRunID r) m = Inr source" "r_state source = StateCompleted"
      "map_of (m_artifacts m) (a_id (bl_artifact r)) = Some (bl_artifact r)"
      "map_of (m_baselines m) (p, bl_id r, bl_version r) = None" for source
    using that new
    by (auto simp: mem_row_change_def visible_view backed_def mem_view_def fun_eq_iff intro!: row_change_created)
  with Inr show ?thesis
    by (auto simp: mem_CreateBaseline_def split: option.splits sum.splits if_splits)
qed (auto simp: mem_CreateBaseline_def split: option.splits)

lemma mem_TransitionBaseline_change: "mem_row_change m (snd (mem_TransitionBaseline ctx now p i v rv ch m))"
proof -
  have "mem_row_change m (m\<lparr>m_baselines := tput (p, i, v) r' (m_baselines m)\<rparr>)"
    if "map_of (m_baselines m) (p, i, v) = Some r" "Baseline_Transition r rv ch (baselineTime now) = Inr r'" for r r'
    using row_change_transition [of "map_of (m_baselines m)", OF that]
    by (simp add: mem_row_change_def mem_view_def fun_eq_iff)
  then show ?thesis by (auto simp: mem_TransitionBaseline_def split: option.splits sum.splits if_splits)
qed

lemma mem_step_rows:
  "row_change (mem_view (mem_step op m)) (map_of (m_artifacts (mem_step op m)))
    (map_of (m_baselines m)) (map_of (m_baselines (mem_step op m)))"
proof (cases op)
  case (MCreateBaseline ctx now p c)
  with mem_CreateBaseline_change [of m ctx now p c] mem_step_references [of op m] show ?thesis
    by (simp add: mem_row_change_def)
next
  case (MTransitionBaseline ctx now p i v rv ch)
  with mem_TransitionBaseline_change [of m ctx now p i v rv ch] mem_step_references [of op m] show ?thesis
    by (simp add: mem_row_change_def)
qed (use mem_step_baselines [of op m] in simp_all)

interpretation memory_baselines: baseline_store mem_view "\<lambda>m. map_of (m_artifacts m)" "\<lambda>m. map_of (m_baselines m)" mem_step
  by unfold_locales (auto intro: mem_step_refines mem_step_artifacts mem_step_rows)

end
