(* ===== verification/Samples.thy ===== *)
theory Samples
  imports Worker Memory_Store
begin

text \<open>
  Concrete inputs: a request, a principal, a lease, artifacts and short histories of both
  stores. They show that the hypotheses of the properties can hold.
\<close>

definition s_hash :: string where
  "s_hash = replicate 64 (CHR ''a'')"

definition s_ref :: "string \<Rightarrow> reference" where
  "s_ref i = \<lparr>ref_id = i, ref_version = ''1.0.0'', ref_sha256 = s_hash\<rparr>"

definition s_request :: request where
  "s_request = \<lparr>testSuite = ''checkout'', catalogue = s_ref ''catalogue'', profile = ''smoke'',
     req_candidate = \<lparr>cand_gitSha = replicate 40 (CHR ''b''), cand_image = ''reg/app@sha256:'' @ s_hash\<rparr>,
     environment = s_ref ''environment'', policy = s_ref ''policy''\<rparr>"

definition s_key :: string where
  "s_key = ''idempotency-key-0001''"

definition s_now :: time where
  "s_now = 0"

lemma s_request_valid: "Request_Validate s_request = Inr ()"
  by code_simp

lemma s_key_valid: "ValidKey s_key"
  by code_simp

definition s_id :: string where
  "s_id = run_id_of s_now 0"

lemma s_id_valid: "ValidID s_id"
  unfolding s_id_def
  by (rule run_id_of_valid) (simp add: four_digit_year_def s_now_def div_day_def seconds_def
      civil_from_days_def civil_of_era_def year_day_def Let_def)

section \<open>A Run in both stores\<close>

definition s_run :: run where
  "s_run = new_run s_id s_request s_now"

definition s_accepted :: accepted where
  "s_accepted = \<lparr>acc_run = s_run, acc_expiresAt = s_now + 24 * minutes 60\<rparr>"

definition s_row :: run_row where
  "s_row = \<lparr>rr_principal = ''alice'', rr_target = ExecutionTargetKubernetes, rr_snapshot = s_run\<rparr>"

definition s_db :: db where
  "s_db = db_empty\<lparr>d_runs := [(s_id, s_row)],
     d_bindings := [((''alice'', s_key), \<lparr>bn_runID = s_id, bn_original = s_run, bn_expiresAt = s_now + 24 * minutes 60\<rparr>)]\<rparr>"

lemma s_pg_Accept:
  "pg_Accept TxOk s_now 0 ''alice'' s_key s_request ExecutionTargetKubernetes db_empty = (Inr s_accepted, s_db)"
  using s_id_valid s_request_valid s_key_valid
  by (simp add: pg_Accept_def transact_def select_binding_def pg_create_def Let_def insert_binding_def
      ExecutionTarget_Valid_def db_empty_def s_db_def s_accepted_def s_row_def s_run_def flip: s_id_def)

definition s_mem :: mem where
  "s_mem = mem_New\<lparr>m_runs := [(s_id, \<lparr>o_principal = ''alice'', o_run = s_run, o_target = ExecutionTargetKubernetes\<rparr>)],
     m_bindings := [((''alice'', s_key), \<lparr>b_accepted = s_accepted, b_target = ExecutionTargetKubernetes\<rparr>)]\<rparr>"

lemma s_mem_Accept:
  "mem_Accept None s_now [Inr 0] ''alice'' s_key s_request ExecutionTargetKubernetes mem_New = Some (Inr s_accepted, s_mem)"
  using s_request_valid s_key_valid
  by (simp add: mem_Accept_def mem_create_def Let_def ExecutionTarget_Valid_def mem_New_def s_mem_def
      s_accepted_def s_run_def flip: s_id_def)

section \<open>A claimed Run\<close>

definition s_token :: string where
  "s_token = replicate 32 (CHR ''a'')"

definition s_lease :: lease where
  "s_lease = \<lparr>l_runID = s_id, l_principal = ''alice'', l_workerID = ''worker-1'', l_token = s_token,
     l_expiresAt = s_now + seconds 30\<rparr>"

lemma s_lease_valid: "Lease_Valid s_lease"
proof -
  have "rx_match worker_pattern ''worker-1''" "rx_match token_pattern s_token" by code_simp+
  with s_id_valid show ?thesis by (simp add: Lease_Valid_def s_lease_def)
qed

definition s_env :: claim_env where
  "s_env = \<lparr>ce_snapshot = s_db, ce_query = \<lambda>_. (s_now, s_now), ce_skip = \<lambda>_. False,
     ce_clock = \<lambda>_. s_now, ce_token = \<lambda>_. s_token\<rparr>"

definition s_claim :: claim where
  "s_claim = \<lparr>cl_lease = s_lease, cl_run = s_run\<rparr>"

definition s_lease_row :: lease_row where
  "s_lease_row = \<lparr>lr_worker = ''worker-1'', lr_token = s_token, lr_expiresAt = s_now + seconds 30, lr_availableAt = s_now\<rparr>"

definition s_db1 :: db where
  "s_db1 = s_db\<lparr>d_leases := [(s_id, s_lease_row)]\<rparr>"

lemma s_run_simps [simp]:
  "r_id s_run = s_id" "r_state s_run = StateCreated" "r_revision s_run = 1" "r_request s_run = s_request"
  "run_wf s_run"
  by (simp_all add: s_run_def) (simp_all add: new_run_def)

lemma s_options: "ValidClaimOptions ''worker-1'' 4 (seconds 30)"
proof -
  have "rx_match worker_pattern ''worker-1''" by code_simp
  then show ?thesis by (simp add: ValidClaimOptions_def ValidLeaseTTL_def seconds_def minutes_def)
qed

lemma s_pg_ClaimRuns:
  "pg_ClaimRuns TxOk s_env ''worker-1'' 4 (seconds 30) s_db = (Inr [s_claim], s_db1)"
  by (simp add: pg_ClaimRuns_def s_options transact_def lockClaimCandidates_def s_env_def s_db_def s_row_def
      db_empty_def claim_candidate_def active_state_def List.map_filter_def tryAcquireClaim_def lease_blocked_def
      s_claim_def s_lease_def s_db1_def s_lease_row_def Let_def)

lemma s_owned: "s_now \<le> t \<Longrightarrow> t < s_now + seconds 30 \<Longrightarrow> lockOwnedClaim t s_lease s_db1 = Inr s_run"
  by (simp add: lockOwnedClaim_def lockedRun_def s_lease_def s_db1_def s_db_def s_row_def s_lease_row_def
      Terminal_iff)

section \<open>A benchmark hold\<close>

definition s_uid :: string where
  "s_uid = ''aaaaaaaa-aaaa-aaaa-aaaa-aaaaaaaaaaaa''"

definition s_intent :: benchmark_intent where
  "s_intent = \<lparr>bi_targetID = ''lab'', bi_clusterUID = s_uid, bi_plan = ''plan'', bi_planSHA256 = BenchmarkDigest ''plan''\<rparr>"

lemma s_intent_valid: "BenchmarkIntent_Valid s_intent"
proof -
  have "rx_match resource_id_pattern ''lab''" "ValidBenchmarkUID s_uid" by code_simp+
  then show ?thesis by (simp add: BenchmarkIntent_Valid_def s_intent_def max_bytes_def)
qed

definition s_change :: "run_state \<Rightarrow> int \<Rightarrow> run" where
  "s_change st n = s_run\<lparr>r_state := st, r_revision := n\<rparr>"

definition s_db_at :: "run_state \<Rightarrow> int \<Rightarrow> db" where
  "s_db_at st n = s_db1\<lparr>d_runs := [(s_id, s_row\<lparr>rr_snapshot := s_change st n\<rparr>)]\<rparr>"

lemma s_db_at_created: "s_db_at StateCreated 1 = s_db1"
  by (simp add: s_db_at_def s_change_def s_db1_def s_db_def s_row_def s_run_def new_run_def)

lemma s_ttl [simp]: "0 < seconds 30"
  by (simp add: seconds_def)

lemma s_lease_simps [simp]:
  "l_runID s_lease = s_id" "l_principal s_lease = ''alice''" "l_workerID s_lease = ''worker-1''"
  "l_token s_lease = s_token"
  by (simp_all add: s_lease_def)

lemma s_owned_at:
  "\<not> Terminal st \<Longrightarrow> lockOwnedClaim s_now s_lease (s_db_at st n) = Inr (s_change st n)"
  by (simp add: lockOwnedClaim_def lockedRun_def s_db_at_def s_db1_def s_row_def s_lease_row_def
      s_change_def)

lemma s_advance_at:
  assumes "\<not> Terminal st" "CanTransition st st'" "\<not> Terminal st'" "\<not> requiresFailure st'" "n < 10"
  shows "pg_AdvanceClaim TxOk s_now s_lease n (to_state st') (s_db_at st n)
    = (Inr (s_change st' (n + 1)), s_db_at st' (n + 1))"
proof -
  have "Run_Transition (s_change st n) n (to_state st') s_now = Inr (s_change st' (n + 1))"
    using assms(2-5)
    by (simp add: Run_Transition_def s_change_def to_state_def maxRunRevision_def s_run_def new_run_def)
  moreover have "expire_if_terminal s_now (s_change st' (n + 1)) s_id (put_snapshot s_id (s_change st' (n + 1)) (s_db_at st n))
      = s_db_at st' (n + 1)"
    using assms(3) by (simp add: expire_if_terminal_def put_snapshot_def s_db_at_def s_change_def)
  ultimately show ?thesis
    using assms s_lease_valid by (simp add: pg_AdvanceClaim_def transact_def s_owned_at)
qed

definition s_hold :: reservation_row where
  "s_hold = \<lparr>rv_intent = s_intent, rv_admission = ''ok'', rv_namespaceUID = None, rv_request = None,
     rv_createdAt = s_now, rv_cleanupStartedAt = None, rv_cleanupFencedAt = None, rv_cleanupNotBefore = None,
     rv_cleanupChange = None, rv_cleanupReceipt = None, rv_releasedAt = None\<rparr>"

definition s_db_hold :: db where
  "s_db_hold = (s_db_at StateProvisioning 3)\<lparr>d_reservations := [(s_id, s_hold)]\<rparr>"

lemma s_reserve:
  "snd (pg_ReserveBenchmark TxOk s_now s_now s_lease 3 s_intent ''ok'' (s_db_at StateProvisioning 3)) = s_db_hold"
proof -
  have "lockOwnedClaim s_now s_lease (s_db_at StateProvisioning 3) = Inr (s_change StateProvisioning 3)"
    by (rule s_owned_at) (simp add: Terminal_iff)
  then show ?thesis
    using s_lease_valid s_intent_valid
    by (simp add: pg_ReserveBenchmark_def transact_def benchmarkProvisioning_def s_change_def run_target_def
        insert_reservation_def target_held_def readBenchmarkReservation_def read_cleanup_def
        BenchmarkIntent_Same_iff s_db_hold_def s_db_at_def s_db1_def s_db_def db_empty_def s_row_def s_hold_def max_bytes_def)
qed

text \<open>The calls that lead to the hold.\<close>

definition s_history :: "pg_op list" where
  "s_history = [PAccept (TxOk, s_now, 0) ''alice'' s_key s_request ExecutionTargetKubernetes,
     PClaimRuns TxOk s_env ''worker-1'' 4 (seconds 30),
     PAdvanceClaim TxOk s_now s_lease 1 (to_state StateValidating),
     PAdvanceClaim TxOk s_now s_lease 2 (to_state StateProvisioning),
     PReserve TxOk s_now s_now s_lease 3 s_intent ''ok'']"

lemma s_history_db: "fold pg_step s_history db_empty = s_db_hold"
proof -
  have "pg_AdvanceClaim TxOk s_now s_lease 1 (to_state StateValidating) s_db1 = (Inr (s_change StateValidating 2), s_db_at StateValidating 2)"
    using s_advance_at [of StateCreated StateValidating 1]
    by (simp add: s_db_at_created Terminal_iff CanTransition_def requiresFailure_def)
  moreover have "pg_AdvanceClaim TxOk s_now s_lease 2 (to_state StateProvisioning) (s_db_at StateValidating 2)
      = (Inr (s_change StateProvisioning 3), s_db_at StateProvisioning 3)"
    using s_advance_at [of StateValidating StateProvisioning 2]
    by (simp add: Terminal_iff CanTransition_def requiresFailure_def)
  ultimately show ?thesis
    by (simp add: s_history_def s_pg_Accept s_pg_ClaimRuns s_reserve)
qed

text \<open>The same hold, fenced at \<open>s_now - 120 s\<close> while its Run is being cancelled.\<close>

definition s_fenced :: reservation_row where
  "s_fenced = s_hold\<lparr>rv_cleanupStartedAt := Some (s_now - minutes 2), rv_cleanupFencedAt := Some (s_now - minutes 2),
     rv_cleanupNotBefore := Some s_now, rv_cleanupChange := Some (to_state StateCollecting)\<rparr>"

definition s_db_fenced :: db where
  "s_db_fenced = (s_db_at StateCancelling 4)\<lparr>d_reservations := [(s_id, s_fenced)]\<rparr>"

definition s_proof :: benchmark_cleanup_proof where
  "s_proof = \<lparr>bp_schemaVersion = 1, bp_runID = s_id, bp_planSHA256 = BenchmarkDigest ''plan'', bp_clusterUID = s_uid,
     bp_namespaceUID = [], bp_executorStopped = True, bp_workloadStopped = True, bp_authorityRemoved = True,
     bp_namespaceFenced = True\<rparr>"

lemma s_fenced_ok: "holds_ok (d_reservations s_db_fenced)"
  using s_intent_valid
  by (simp add: holds_ok_def holds_exclusive_def s_db_fenced_def table_ok_def row_ok_def s_fenced_def s_hold_def
      reservation_check_def benchmark_cleanup_shape_def)

lemma s_finish:
  "\<exists>r' d'. pg_FinishBenchmarkCleanup (\<lambda>_. Some s_proof) TxOk s_now s_now s_lease 4 (BenchmarkDigest ''plan'') ''{}'' s_db_fenced
    = (Inr r', d') \<and> d' \<noteq> s_db_fenced"
proof -
  have own: "lockOwnedClaim s_now s_lease s_db_fenced = Inr (s_change StateCancelling 4)"
    by (simp add: lockOwnedClaim_def lockedRun_def s_db_fenced_def s_db_at_def s_db1_def s_row_def
        s_lease_row_def s_change_def Terminal_iff)
  have rd: "readBenchmarkReservation s_now s_id s_db_fenced = Inr (Some \<lparr>br_runID = s_id, br_intent = s_intent,
      br_admission = ''ok'', br_namespaceUID = [], br_request = [], br_cleanup = Some \<lparr>bc_startedAt = s_now - minutes 2,
      bc_fencedAt = Some (s_now - minutes 2), bc_notBefore = s_now, bc_ready = True, bc_next = to_state StateCollecting,
      bc_receipt = None, bc_releasedAt = None\<rparr>\<rparr>)"
    using s_intent_valid
    by (simp add: readBenchmarkReservation_def read_cleanup_def cleanup_ready_def s_db_fenced_def s_fenced_def s_hold_def
        to_state_def)
  obtain r' where nx: "cleanup_next (s_change StateCancelling 4) 4 (to_state StateCollecting) s_now = Inr r'"
    by (simp add: cleanup_next_def s_change_def Terminal_iff Let_def Run_Transition_def to_state_def maxRunRevision_def
        CanTransition_def requiresFailure_def)
  let ?f = "\<lambda>rv. rv\<lparr>rv_cleanupReceipt := Some ''{}'', rv_releasedAt := Some s_now\<rparr>"
  have res: "d_reservations s_db_fenced = [(s_id, s_fenced)]" by (simp add: s_db_fenced_def)
  have "reservation_check (?f s_fenced)"
    by (simp add: s_fenced_def s_hold_def reservation_check_def benchmark_cleanup_shape_def max_bytes_def)
  then obtain d1 where up: "update_reservation s_id ?f (put_snapshot s_id r' s_db_fenced) = Some d1"
    and d1: "d_reservations d1 = [(s_id, ?f s_fenced)]" by (simp add: update_reservation_def res)
  let ?d' = "expire_if_terminal s_now r' s_id d1"
  have "d_reservations ?d' \<noteq> d_reservations s_db_fenced"
    by (simp add: d1) (simp add: s_db_fenced_def s_fenced_def s_hold_def)
  then have "?d' \<noteq> s_db_fenced" by metis
  moreover have "BenchmarkCleanupProof_Matches s_proof \<lparr>br_runID = s_id, br_intent = s_intent,
      br_admission = ''ok'', br_namespaceUID = [], br_request = [], br_cleanup = Some \<lparr>bc_startedAt = s_now - minutes 2,
      bc_fencedAt = Some (s_now - minutes 2), bc_notBefore = s_now, bc_ready = True, bc_next = to_state StateCollecting,
      bc_receipt = None, bc_releasedAt = None\<rparr>\<rparr>"
    by (simp add: BenchmarkCleanupProof_Matches_def s_proof_def s_intent_def)
  moreover have "r_revision (s_change StateCancelling 4) = 4" "\<not> Terminal (r_state (s_change StateCancelling 4))"
    "bi_planSHA256 s_intent = BenchmarkDigest ''plan''"
    by (simp_all add: s_change_def Terminal_iff s_intent_def)
  ultimately show ?thesis
    using s_lease_valid own rd nx up
    by (simp add: pg_FinishBenchmarkCleanup_def transact_def update_or_abort_def max_bytes_def)
qed

section \<open>Services\<close>

definition s_quiet :: schedule where
  "s_quiet = (\<lambda>_. ([], TxOk, s_now))"

definition s_artifact :: "string \<Rightarrow> string \<Rightarrow> string \<Rightarrow> artifact" where
  "s_artifact d kind fmt = \<lparr>a_id = replicate 8 (hd d) @ ''-aaaa-aaaa-aaaa-aaaaaaaaaaaa'', a_runID = s_id, a_kind = kind,
     a_uri = ''s3://bucket/'' @ d, a_sha256 = s_hash, a_sizeBytes = 1, a_mediaType = ''application/json'', a_format = fmt\<rparr>"

definition s_collected :: raw_artifact_set where
  "s_collected = \<lparr>ra_manifest = s_artifact ''a'' ''raw'' ''raw-result/v1'', ra_artifacts = [s_artifact ''b'' ''raw'' ''k6'']\<rparr>"

definition s_answers :: "unit answers" where
  "s_answers = \<lparr>an_resolve = \<lambda>_ _ _. Inr (Some ()), an_validate = \<lambda>_ _. Inr (), an_ensure = \<lambda>_ _ _. Inl ErrUnavailable,
     an_find = \<lambda>_ _ _. Inr None, an_observe = \<lambda>_ _. Inr \<lparr>ob_phase = JobRunning, ob_deleting = False\<rparr>,
     an_stop = \<lambda>_ _. Inr (), an_confirm = \<lambda>_ _. Inr True, an_collect = \<lambda>_ _ _. Inr s_collected,
     an_normalize = \<lambda>_ _ _ _. Inl ErrAnalysisPending, an_report = \<lambda>_ _ _ _. Inl ErrReportPending,
     an_publish = None, an_ctx = \<lambda>_. Inr (), an_wait = \<lambda>_ _. Inr (), an_dns = \<lambda>_. True\<rparr>"

lemma s_artifact_valid:
  "Artifact_Validate (s_artifact ''a'' ''raw'' ''raw-result/v1'') = Inr ()"
  "Artifact_Validate (s_artifact ''b'' ''raw'' ''k6'') = Inr ()"
proof -
  have "\<And>c. c \<in> {CHR ''a'', CHR ''b''} \<Longrightarrow> rx_match uuid_pattern (replicate 8 c @ ''-aaaa-aaaa-aaaa-aaaaaaaaaaaa'')"
    by (elim insertE emptyE; hypsubst; code_simp)
  moreover have "rx_match hash_pattern s_hash" "rx_match media_pattern ''application/json''"
    "rx_match format_pattern ''raw-result/v1''" "rx_match format_pattern ''k6''"
    "rx_match uri_pattern ''s3://bucket/a''" "rx_match uri_pattern ''s3://bucket/b''" by code_simp+
  moreover have "(case url_Parse (uri_rest ''s3://bucket/a'') of None \<Rightarrow> False | Some u \<Rightarrow> url_Hostname u \<noteq> [] \<and> \<not> u_user u)"
    "(case url_Parse (uri_rest ''s3://bucket/b'') of None \<Rightarrow> False | Some u \<Rightarrow> url_Hostname u \<noteq> [] \<and> \<not> u_user u)"
    by code_simp+
  ultimately show "Artifact_Validate (s_artifact ''a'' ''raw'' ''raw-result/v1'') = Inr ()"
    "Artifact_Validate (s_artifact ''b'' ''raw'' ''k6'') = Inr ()"
    using s_id_valid by (auto simp: Artifact_Validate_def s_artifact_def split: option.splits)
qed

lemma s_collected_valid: "RawArtifactSet_Validate s_collected s_id = Inr ()"
  using s_artifact_valid
  by (simp add: RawArtifactSet_Validate_def s_collected_def validRawManifestFormat_def)
    (simp add: s_artifact_def)

text \<open>A cluster whose Job is gone after three polls, as a countdown.\<close>

definition s_countdown :: "(nat, unit) services" where
  "s_countdown = \<lparr>s_AdvanceClaim = \<lambda>_ _ _ w. (Inl ErrUnavailable, w), s_RenewClaim = \<lambda>_ _ w. (Inl ErrUnavailable, w),
     s_GetExecution = \<lambda>_ w. (Inr None, w), s_BindExecution = \<lambda>_ _ w. (Inr (), w),
     s_RegisterArtifact = \<lambda>_ _ w. (Inr (), w), s_ListArtifacts = \<lambda>_ _ w. (Inr [], w),
     s_ResolveJob = \<lambda>_ _ w. (Inr None, w), s_ValidateJob = \<lambda>_ _. Inr (), s_EnsureJob = \<lambda>_ _ w. (Inl ErrUnavailable, w),
     s_FindJob = \<lambda>_ _ w. (Inr None, w),
     s_ObserveJob = \<lambda>_ w. (Inr \<lparr>ob_phase = (if w = 0 then JobAbsent else JobRunning), ob_deleting = w \<noteq> 0\<rparr>, w),
     s_RequestJobStop = \<lambda>_ w. (Inr (), w), s_ConfirmExecutionStopped = \<lambda>_ w. (Inr True, w),
     s_CollectRawArtifacts = \<lambda>_ _ w. (Inl ErrUnavailable, w), s_Normalize = \<lambda>_ _ _ w. (Inl ErrUnavailable, w),
     s_Report = \<lambda>_ _ _ w. (Inl ErrUnavailable, w), s_PublishReport = None, s_ctxErr = \<lambda>w. (Inr (), w),
     s_wait = \<lambda>_ w. (Inr (), w - 1), s_dns = \<lambda>_. True\<rparr>"

definition s_bound :: bound_execution_config where
  "s_bound = \<lparr>be_retryAfter = seconds 5, be_cancellationPollEvery = seconds 1\<rparr>"

lemma s_countdown_settles: "cluster_settles s_countdown s_bound x id"
  by (simp add: cluster_settles_def s_countdown_def)

lemma s_canonical:
  "canonical (s_artifact ''a'' ''raw'' f) = s_artifact ''a'' ''raw'' f"
  "canonical (s_artifact ''b'' ''raw'' f) = s_artifact ''b'' ''raw'' f"
proof -
  have "to_lower (replicate 8 (CHR ''a'') @ ''-aaaa-aaaa-aaaa-aaaaaaaaaaaa'') = replicate 8 (CHR ''a'') @ ''-aaaa-aaaa-aaaa-aaaaaaaaaaaa''"
    "to_lower (replicate 8 (CHR ''b'') @ ''-aaaa-aaaa-aaaa-aaaaaaaaaaaa'') = replicate 8 (CHR ''b'') @ ''-aaaa-aaaa-aaaa-aaaaaaaaaaaa''"
    by code_simp+
  then show "canonical (s_artifact ''a'' ''raw'' f) = s_artifact ''a'' ''raw'' f"
    "canonical (s_artifact ''b'' ''raw'' f) = s_artifact ''b'' ''raw'' f"
    by (simp_all add: canonical_def s_artifact_def)
qed

lemma s_register:
  assumes "canonical a = a" "Artifact_Validate a = Inr ()" "a_runID a = s_id" "lockedRun ''alice'' s_id d = Inr r"
    "map_of (d_artifacts d) (a_id a) = None"
  shows "pg_RegisterArtifact TxOk ''alice'' a d = (Inr (), d\<lparr>d_artifacts := tput (a_id a) a (d_artifacts d)\<rparr>)"
  using assms by (simp add: pg_RegisterArtifact_def transact_def Let_def)

definition s_collecting :: claim where
  "s_collecting = \<lparr>cl_lease = s_lease, cl_run = s_change StateCollecting 5\<rparr>"

lemma s_collection:
  "\<exists>w'. Collection_Reconcile (pg_services s_quiet s_answers) cfg s_collecting
      \<lparr>pw_db = s_db_at StateCollecting 5, pw_tick = 0, pw_log = []\<rparr> = Some (Inr 0, w')"
proof -
  let ?A = "s_artifact ''a'' ''raw'' ''raw-result/v1''" and ?B = "s_artifact ''b'' ''raw'' ''k6''"
  let ?d0 = "s_db_at StateCollecting 5"
  let ?d1 = "?d0\<lparr>d_artifacts := [(a_id ?B, ?B)]\<rparr>"
  let ?d2 = "?d0\<lparr>d_artifacts := [(a_id ?B, ?B), (a_id ?A, ?A)]\<rparr>"
  have v: "validOwnedClaim s_collecting"
    using s_lease_valid by (simp add: validOwnedClaim_def s_collecting_def s_change_def)
  have ids: "a_id ?A \<noteq> a_id ?B" by (simp add: s_artifact_def)
  have run: "a_runID ?A = s_id" "a_runID ?B = s_id" by (simp_all add: s_artifact_def)
  have lk: "lockedRun ''alice'' s_id (?d0\<lparr>d_artifacts := as\<rparr>) = Inr (s_change StateCollecting 5)" for as
    by (simp add: lockedRun_def s_db_at_def s_row_def)
  have e: "d_artifacts ?d0 = []" by (simp add: s_db_at_def s_db1_def s_db_def db_empty_def)
  have lk0: "lockedRun ''alice'' s_id ?d0 = Inr (s_change StateCollecting 5)"
    by (simp add: lockedRun_def s_db_at_def s_row_def)
  have r1: "pg_RegisterArtifact TxOk ''alice'' ?B ?d0 = (Inr (), ?d1)"
    using s_register [OF s_canonical(2) s_artifact_valid(2) run(2) lk0] by (simp add: e)
  have r2: "pg_RegisterArtifact TxOk ''alice'' ?A ?d1 = (Inr (), ?d2)"
    using s_register [OF s_canonical(1) s_artifact_valid(1) run(1) lk] ids by simp
  have own: "lockOwnedClaim s_now s_lease ?d2 = Inr (s_change StateCollecting 5)"
    by (simp add: lockOwnedClaim_def lk s_db_at_def s_db1_def s_lease_row_def Terminal_iff)
      (simp add: lockedRun_def s_row_def s_change_def Terminal_iff)
  have "\<exists>r d. pg_AdvanceClaim TxOk s_now s_lease 5 (to_state StateAnalyzing) ?d2 = (Inr r, d)"
    using s_lease_valid own
    by (simp add: pg_AdvanceClaim_def transact_def s_change_def Run_Transition_def to_state_def maxRunRevision_def
        CanTransition_def requiresFailure_def Let_def)
  then obtain r d where adv: "pg_AdvanceClaim TxOk s_now s_lease 5 (to_state StateAnalyzing) ?d2 = (Inr r, d)" by blast
  have st: "r_state (cl_run s_collecting) = StateCollecting" "r_revision (cl_run s_collecting) = 5"
    "cl_lease s_collecting = s_lease" "r_id (cl_run s_collecting) = s_id"
    by (simp_all add: s_collecting_def s_change_def)
  have an: "an_collect s_answers p q w = Inr s_collected" for p q w by (simp add: s_answers_def)
  show ?thesis
    using v st an r1 r2 adv s_collected_valid
    by (simp add: Collection_Reconcile_def prog_defs pg_services_def ext_call_def db_call_def s_quiet_def
        s_collected_def advanceOwnedClaim_def)
qed

end
