(* ===== verification/Pg_Baselines.thy ===== *)
theory Pg_Baselines
  imports Baseline_Spec Pg_Holds
begin

text \<open>
  Package \<open>internal/postgres\<close>, \<open>baselines.go\<close> with the table of migration 0004. The table
  extends the core schema as one more column of the database record; its constraints tie
  every indexed column to the snapshot, so a row is its decoded snapshot. \<open>now\<close> is
  \<open>clock_timestamp()\<close> as each method reads it.
\<close>

record baseline_db =
  bd_core :: db
  bd_baselines :: "(string \<times> string \<times> string, bl_record) table"

section \<open>Operations\<close>

definition decodeBaseline :: "bl_record \<Rightarrow> err + bl_record" where [store_defs]:
  "decodeBaseline r = (if Record_valid r then Inr r else Inl (ErrOther ''invalid stored baseline snapshot''))"

definition verifyBaselineEvidence :: "string \<Rightarrow> bl_record \<Rightarrow> db \<Rightarrow> err + unit" where [store_defs]:
  "verifyBaselineEvidence p record d =
    (case lockedRun p (bl_sourceRunID record) d of
       Inl e \<Rightarrow> Inl e
     | Inr source \<Rightarrow>
         if r_state source \<noteq> StateCompleted then Inl ErrValidation
         else (case map_of (d_artifacts d) (a_id (bl_artifact record)) of
            None \<Rightarrow> Inl (storageError NoRows)
          | Some reference \<Rightarrow>
              if a_runID reference \<noteq> bl_sourceRunID record then Inl (storageError NoRows)
              else if \<not> is_ok (Artifact_Validate reference) \<or> reference \<noteq> bl_artifact record then Inl ErrValidation
              else Inr ()))"

definition pg_CreateBaseline ::
  "tx_fault \<Rightarrow> time \<Rightarrow> string \<Rightarrow> bl_create \<Rightarrow> 'x baseline_db_scheme \<Rightarrow> (err + bl_record) \<times> 'x baseline_db_scheme"
  where [store_defs]:
  "pg_CreateBaseline fault now p input d =
    (if p = [] then (Inl ErrValidation, d)
     else transact fault (\<lambda>d.
       (case Baseline_New input now of
          Inl e \<Rightarrow> Abort e
        | Inr record \<Rightarrow>
            (case verifyBaselineEvidence p record (bd_core d) of
               Inl e \<Rightarrow> Abort e
             | Inr _ \<Rightarrow>
                 if map_of (bd_baselines d) (p, bl_id record, bl_version record) \<noteq> None then Abort ErrConflict
                 else Commit record (d\<lparr>bd_baselines := tput (p, bl_id record, bl_version record) record (bd_baselines d)\<rparr>)))) d)"

definition pg_GetBaseline :: "db_error option \<Rightarrow> string \<Rightarrow> string \<Rightarrow> string \<Rightarrow> 'x baseline_db_scheme \<Rightarrow> err + bl_record"
  where [store_defs]:
  "pg_GetBaseline fault p i version d =
    (case fault of Some x \<Rightarrow> Inl (storageError x)
     | None \<Rightarrow> (case map_of (bd_baselines d) (p, i, version) of
         None \<Rightarrow> Inl (storageError NoRows)
       | Some record \<Rightarrow> decodeBaseline record))"

definition pg_ResolveApprovedBaseline ::
  "db_error option \<Rightarrow> string \<Rightarrow> bl_selection \<Rightarrow> 'x baseline_db_scheme \<Rightarrow> err + bl_record option" where [store_defs]:
  "pg_ResolveApprovedBaseline fault p sel d =
    (if p = [] \<or> \<not> Selection_valid sel then Inl ErrValidation
     else case fault of
       Some x \<Rightarrow> if x = NoRows then Inr None else Inl (storageError x)
     | None \<Rightarrow> (case map_of (bd_baselines d) (p, sel_id sel, sel_version sel) of
         None \<Rightarrow> Inr None
       | Some stored \<Rightarrow>
           if bl_state stored \<noteq> BlApproved then Inr None
           else (case decodeBaseline stored of
              Inl e \<Rightarrow> Inl e
            | Inr record \<Rightarrow> if MatchesSelection record sel then Inr (Some record) else Inr None)))"

definition lockedBaseline :: "string \<Rightarrow> string \<Rightarrow> string \<Rightarrow> 'x baseline_db_scheme \<Rightarrow> err + bl_record" where [store_defs]:
  "lockedBaseline p i version d =
    (case map_of (bd_baselines d) (p, i, version) of
       None \<Rightarrow> Inl (storageError NoRows)
     | Some record \<Rightarrow> decodeBaseline record)"

definition pg_TransitionBaseline ::
  "tx_fault \<Rightarrow> time \<Rightarrow> string \<Rightarrow> string \<Rightarrow> string \<Rightarrow> int \<Rightarrow> bl_change \<Rightarrow> 'x baseline_db_scheme
    \<Rightarrow> (err + bl_record) \<times> 'x baseline_db_scheme" where [store_defs]:
  "pg_TransitionBaseline fault now p i version expected ch d =
    transact fault (\<lambda>d.
      (case lockedBaseline p i version d of
         Inl e \<Rightarrow> Abort e
       | Inr current \<Rightarrow>
           (case Baseline_Transition current expected ch now of
              Inl e \<Rightarrow> Abort e
            | Inr next \<Rightarrow> Commit next (d\<lparr>bd_baselines := tput (p, i, version) next (bd_baselines d)\<rparr>)))) d"

section \<open>The state machine\<close>

datatype baseline_op =
    BCore pg_op
  | BCreate tx_fault time string bl_create
  | BTransition tx_fault time string string string int bl_change

fun baseline_step :: "baseline_op \<Rightarrow> baseline_db \<Rightarrow> baseline_db" where
  "baseline_step (BCore op) d = d\<lparr>bd_core := pg_step op (bd_core d)\<rparr>"
| "baseline_step (BCreate f now p c) d = snd (pg_CreateBaseline f now p c d)"
| "baseline_step (BTransition f now p i v rv ch) d = snd (pg_TransitionBaseline f now p i v rv ch d)"

definition baseline_empty :: baseline_db where
  "baseline_empty = \<lparr>bd_core = db_empty, bd_baselines = []\<rparr>"

section \<open>Lemmas\<close>

lemma verifyBaselineEvidence_backed:
  "verifyBaselineEvidence p r d = Inr u \<Longrightarrow> backed (pg_view d) (map_of (d_artifacts d)) p r"
  by (auto simp: verifyBaselineEvidence_def backed_def lockedRun_view split: sum.splits option.splits if_splits)

definition pg_row_change :: "'x baseline_db_scheme \<Rightarrow> 'x baseline_db_scheme \<Rightarrow> bool" where
  "pg_row_change d d' =
    (bd_core d' = bd_core d \<and>
     row_change (pg_view (bd_core d)) (map_of (d_artifacts (bd_core d))) (map_of (bd_baselines d)) (map_of (bd_baselines d')))"

lemma pg_row_change_refl [simp]: "pg_row_change d d"
  by (simp add: pg_row_change_def)

lemma pg_CreateBaseline_change: "pg_row_change d (snd (pg_CreateBaseline f now p c d))"
proof -
  have "pg_row_change d (d\<lparr>bd_baselines := tput (p, bl_id r, bl_version r) r (bd_baselines d)\<rparr>)"
    if "Baseline_New c now = Inr r" "verifyBaselineEvidence p r (bd_core d) = Inr ()" "p \<noteq> []"
      "map_of (bd_baselines d) (p, bl_id r, bl_version r) = None" for r and d :: "'a baseline_db_scheme"
    using that(3,4) Baseline_New_Inr [OF that(1)] verifyBaselineEvidence_backed [OF that(2)]
    by (auto simp: pg_row_change_def intro!: row_change_created)
  then show ?thesis
    unfolding pg_CreateBaseline_def
    by (auto intro!: transact_rel [where R = pg_row_change] split: sum.splits if_splits)
qed

lemma pg_TransitionBaseline_change: "pg_row_change d (snd (pg_TransitionBaseline f now p i v rv ch d))"
proof -
  have "pg_row_change d (d\<lparr>bd_baselines := tput (p, i, v) r' (bd_baselines d)\<rparr>)"
    if "lockedBaseline p i v d = Inr r" "Baseline_Transition r rv ch now = Inr r'" for r r' and d :: "'a baseline_db_scheme"
  proof -
    have "map_of (bd_baselines d) (p, i, v) = Some r"
      using that(1) by (auto simp: lockedBaseline_def decodeBaseline_def split: option.splits if_splits)
    from row_change_transition [of "map_of (bd_baselines d)", OF this that(2)] show ?thesis by (simp add: pg_row_change_def)
  qed
  then show ?thesis
    unfolding pg_TransitionBaseline_def
    by (auto intro!: transact_rel [where R = pg_row_change] split: sum.splits)
qed

interpretation pg_baselines: baseline_store "\<lambda>d. pg_view (bd_core d)" "\<lambda>d. map_of (d_artifacts (bd_core d))"
  "\<lambda>d. map_of (bd_baselines d)" baseline_step
proof unfold_locales
  fix op s
  show "life_steps (pg_view (bd_core s)) (pg_view (bd_core (baseline_step op s)))"
    using pg_CreateBaseline_change [of s] pg_TransitionBaseline_change [of s] pg_step_refines
    by (cases op) (auto simp: pg_row_change_def)
  show "map_of (d_artifacts (bd_core s)) \<subseteq>\<^sub>m map_of (d_artifacts (bd_core (baseline_step op s)))"
    using pg_CreateBaseline_change [of s] pg_TransitionBaseline_change [of s] pg_step_artifacts
    by (cases op) (auto simp: pg_row_change_def)
  show "row_change (pg_view (bd_core (baseline_step op s))) (map_of (d_artifacts (bd_core (baseline_step op s))))
      (map_of (bd_baselines s)) (map_of (bd_baselines (baseline_step op s)))"
    using pg_CreateBaseline_change [of s] pg_TransitionBaseline_change [of s]
    by (cases op) (auto simp: pg_row_change_def)
qed

text \<open>What a resolved baseline rests on.\<close>

lemma resolved_backed:
  assumes "pg_ResolveApprovedBaseline f p sel (fold baseline_step ops baseline_empty) = Inr (Some r)"
  defines "d \<equiv> fold baseline_step ops baseline_empty"
  shows "MatchesSelection r sel \<and> map_of (bd_baselines d) (p, sel_id sel, sel_version sel) = Some r
    \<and> map ev_state (bl_lifecycle r) = [BlCandidate, BlQualified, BlApproved]
    \<and> q_status (bl_qualification r) = QualificationPassed
    \<and> (\<exists>source. pg_view (bd_core d) (bl_sourceRunID r) = Some (p, source) \<and> r_state source = StateCompleted)
    \<and> map_of (d_artifacts (bd_core d)) (a_id (bl_artifact r)) = Some (bl_artifact r)"
proof -
  have inv: "baselines_backed (pg_view (bd_core d)) (map_of (d_artifacts (bd_core d))) (map_of (bd_baselines d))"
    unfolding d_def by (rule pg_baselines.calls_inv) (simp add: baselines_backed_def baseline_empty_def)
  have r: "map_of (bd_baselines d) (p, sel_id sel, sel_version sel) = Some r" "bl_state r = BlApproved"
    "Record_valid r" "MatchesSelection r sel"
    using assms(1)
    by (auto simp: d_def pg_ResolveApprovedBaseline_def decodeBaseline_def split: option.splits if_splits sum.splits)
  then have "last (map ev_state (bl_lifecycle r)) = BlApproved" "q_status (bl_qualification r) = QualificationPassed"
    by (auto simp: Record_valid_def last_map)
  with Record_valid_path [OF r(3)] have "map ev_state (bl_lifecycle r) = [BlCandidate, BlQualified, BlApproved]"
    by (auto simp: lifecycle_paths_def)
  moreover have "backed (pg_view (bd_core d)) (map_of (d_artifacts (bd_core d))) p r"
    using inv r(1) by (auto simp: baselines_backed_def)
  ultimately show ?thesis
    using r \<open>q_status (bl_qualification r) = QualificationPassed\<close> by (auto simp: backed_def)
qed

end
