(* ===== verification/Baseline_Samples.thy ===== *)
theory Baseline_Samples
  imports Samples Pg_Baselines
begin

text \<open>
  A concrete baseline: a Run driven to \<open>COMPLETED\<close>, its normalized evidence, the candidate
  created from it and the two transitions that approve it.
\<close>

section \<open>A completed Run with normalized evidence\<close>

definition s_stage_db :: "run \<Rightarrow> db" where
  "s_stage_db r = s_db\<lparr>d_runs := [(s_id, s_row\<lparr>rr_snapshot := r\<rparr>)]\<rparr>"

definition s_completed :: run where
  "s_completed = (s_change StateCompleted 9)\<lparr>r_finishedAt := Some s_now\<rparr>"

definition s_to :: "int \<Rightarrow> run_state \<Rightarrow> pg_op" where
  "s_to n st = PAdvance TxOk s_now ''alice'' s_id n (to_state st)"

lemma s_to_step:
  assumes "CanTransition st st'" "\<not> requiresFailure st'" "n < 10"
  shows "pg_step (s_to n st') (s_stage_db (s_change st n)) =
    s_stage_db ((s_change st' (n + 1))\<lparr>r_finishedAt := (if Terminal st' then Some s_now else None)\<rparr>)"
  using assms
  by (simp add: s_to_def pg_Advance_def mutate_def transact_def lockedRun_def s_stage_db_def s_row_def put_snapshot_def
      Run_Transition_def s_change_def to_state_def maxRunRevision_def s_run_def new_run_def Let_def)

lemma s_to_active:
  assumes "CanTransition st st'" "\<not> requiresFailure st'" "\<not> Terminal st'" "n < 10"
  shows "pg_step (s_to n st') (s_stage_db (s_change st n)) = s_stage_db (s_change st' (n + 1))"
  using s_to_step [OF assms(1,2,4)] assms(3) by (simp add: s_change_def s_run_def new_run_def)

definition s_pipeline :: "pg_op list" where
  "s_pipeline = [PAccept (TxOk, s_now, 0) ''alice'' s_key s_request ExecutionTargetKubernetes, s_to 1 StateValidating,
     s_to 2 StateProvisioning, s_to 3 StateWarmingUp, s_to 4 StateRunning, s_to 5 StateCollecting,
     s_to 6 StateAnalyzing, s_to 7 StateReporting, s_to 8 StateCompleted]"

lemma s_pipeline_db: "fold pg_step s_pipeline db_empty = s_stage_db s_completed"
proof -
  have start: "s_db = s_stage_db (s_change StateCreated 1)"
    by (simp add: s_stage_db_def s_change_def s_db_def s_row_def s_run_def new_run_def)
  note step = s_to_active [where n = 1] s_to_active [where n = 2] s_to_active [where n = 3] s_to_active [where n = 4]
    s_to_active [where n = 5] s_to_active [where n = 6] s_to_active [where n = 7] s_to_step [where n = 8]
  show ?thesis
    by (simp add: s_pipeline_def s_pg_Accept start step CanTransition_def requiresFailure_def Terminal_iff s_completed_def)
qed

definition s_normalized :: artifact where
  "s_normalized = s_artifact ''a'' ''normalized'' ''normalized-result/v1''"

lemma s_normalized_valid: "Artifact_Validate s_normalized = Inr ()"
proof -
  have "rx_match format_pattern ''normalized-result/v1''" by code_simp
  then show ?thesis
    using s_artifact_valid(1)
    by (auto simp: Artifact_Validate_def s_normalized_def s_artifact_def split: option.splits if_splits)
qed

lemma s_normalized_canonical: "canonical s_normalized = s_normalized"
  using s_canonical by (simp add: s_normalized_def canonical_def s_artifact_def)

definition s_evidence_db :: db where
  "s_evidence_db = (s_stage_db s_completed)\<lparr>d_artifacts := [(a_id s_normalized, s_normalized)]\<rparr>"

lemma s_register_normalized: "pg_RegisterArtifact TxOk ''alice'' s_normalized (s_stage_db s_completed) = (Inr (), s_evidence_db)"
  using s_normalized_valid
  by (simp add: pg_RegisterArtifact_def s_normalized_canonical transact_def lockedRun_def s_stage_db_def s_row_def s_evidence_db_def
      s_db_def db_empty_def) (simp add: s_normalized_def s_artifact_def)

section \<open>The baseline\<close>

definition s_identity :: "string \<Rightarrow> identity" where
  "s_identity i = \<lparr>id_id = i, id_version = ''1.0.0'', id_sha256 = s_hash\<rparr>"

definition s_software :: software where
  "s_software = \<lparr>sw_gitSHA = replicate 40 (CHR ''b''), sw_image = ''reg/app@sha256:'' @ s_hash, sw_version = []\<rparr>"

definition s_dataset :: dataset where
  "s_dataset = \<lparr>ds_kind = ''none'', ds_id = [], ds_version = [], ds_sha256 = [], ds_seed = None\<rparr>"

definition s_environment :: bl_environment where
  "s_environment = \<lparr>env_identity = s_identity ''lab'', env_fingerprint = s_hash\<rparr>"

definition s_create :: bl_create where
  "s_create = \<lparr>bcr_id = ''checkout'', bcr_version = ''1.0.0'', bcr_testID = ''checkout'', bcr_sourceRunID = s_id,
     bcr_artifact = s_normalized, bcr_software = s_software,
     bcr_workload = s_identity ''workload'', bcr_environment = s_environment,
     bcr_dataset = s_dataset,
     bcr_actor = ''alice'', bcr_reason = ''first''\<rparr>"

definition s_passed :: qualification where
  "s_passed = \<lparr>q_status = QualificationPassed, q_reasons = [], q_sampleCount = Some 5, q_maximumCV = Some (Fin 0)\<rparr>"

definition s_event :: "bl_state \<Rightarrow> bl_event" where
  "s_event st = \<lparr>ev_state = st, ev_at = s_now, ev_actor = ''alice'', ev_reason = ''first''\<rparr>"

definition s_baseline :: "bl_state \<Rightarrow> qualification \<Rightarrow> bl_event list \<Rightarrow> bl_record" where
  "s_baseline st q es = \<lparr>bl_schemaVersion = 1, bl_kind = ''PerformanceBaseline'', bl_id = ''checkout'',
     bl_version = ''1.0.0'', bl_revision = int (length es), bl_state = st, bl_testID = ''checkout'', bl_sourceRunID = s_id,
     bl_artifact = s_normalized, bl_software = s_software, bl_workload = s_identity ''workload'',
     bl_environment = s_environment, bl_dataset = s_dataset,
     bl_qualification = q, bl_createdAt = s_now, bl_lifecycle = es\<rparr>"

definition s_candidate :: bl_record where
  "s_candidate = s_baseline BlCandidate \<lparr>q_status = QualificationPending, q_reasons = [], q_sampleCount = None, q_maximumCV = None\<rparr>
     [s_event BlCandidate]"

definition s_approved :: bl_record where
  "s_approved = s_baseline BlApproved s_passed [s_event BlCandidate, s_event BlQualified, s_event BlApproved]"

lemma s_identities: "Identity_valid (s_identity ''workload'')" "Identity_valid (s_identity ''lab'')"
  by code_simp+

lemma s_names:
  "rx_match resource_id_pattern ''checkout''" "rx_match version_pattern ''1.0.0''" "rx_match hash_pattern s_hash"
  "Software_valid s_software" "validAuditText ''alice'' 128" "validAuditText ''first'' 1024"
  "Dataset_valid s_dataset" "Environment_valid s_environment"
  by code_simp+

lemma s_times: "validTimestamp s_now"
  by (simp add: validTimestamp_def s_now_def seconds_def)

lemma s_evidence_ok: "validArtifact s_normalized s_id"
  using s_normalized_valid by (simp add: validArtifact_def s_normalized_def s_artifact_def)

lemma s_candidate_valid: "Record_valid s_candidate"
  using s_identities s_names s_times s_evidence_ok s_id_valid
  by (simp add: Record_valid_def s_candidate_def s_baseline_def Qualification_valid_def s_event_def
      event_ok_def maximumRevision_def)

lemma s_New: "Baseline_New s_create s_now = Inr s_candidate"
  using s_candidate_valid
  by (simp add: Baseline_New_def s_candidate_def s_baseline_def s_event_def s_create_def)

definition s_to_baseline :: "bl_state \<Rightarrow> qualification option \<Rightarrow> bl_change" where
  "s_to_baseline st q = \<lparr>bch_state = st, bch_qualification = q, bch_actor = ''alice'', bch_reason = ''first''\<rparr>"

lemma s_qualify:
  "Baseline_Transition s_candidate 1 (s_to_baseline BlQualified (Some s_passed)) s_now
    = Inr (s_baseline BlQualified s_passed [s_event BlCandidate, s_event BlQualified])"
  using s_candidate_valid Baseline_Transition_next_valid [of s_candidate "s_to_baseline BlQualified (Some s_passed)" s_now s_passed]
    s_names s_times
  by (simp add: Baseline_Transition_def s_to_baseline_def changed_qualification_def Qualification_valid_def s_passed_def cv_ok_def
      s_candidate_def s_baseline_def s_event_def maximumRevision_def)

lemma s_approve:
  "Baseline_Transition (s_baseline BlQualified s_passed [s_event BlCandidate, s_event BlQualified]) 2
     (s_to_baseline BlApproved None) s_now = Inr s_approved"
proof -
  let ?r = "s_baseline BlQualified s_passed [s_event BlCandidate, s_event BlQualified]"
  have "Record_valid ?r" using Baseline_Transition_evolves(1) [OF s_qualify] .
  then show ?thesis
    using Baseline_Transition_next_valid [of ?r "s_to_baseline BlApproved None" s_now s_passed] s_names s_times
    by (simp add: Baseline_Transition_def s_to_baseline_def changed_qualification_def s_approved_def s_baseline_def s_event_def
        maximumRevision_def)
qed

definition s_baseline_history :: "baseline_op list" where
  "s_baseline_history = map BCore s_pipeline @ [BCore (PRegisterArtifact TxOk ''alice'' s_normalized),
     BCreate TxOk s_now ''alice'' s_create,
     BTransition TxOk s_now ''alice'' ''checkout'' ''1.0.0'' 1 (s_to_baseline BlQualified (Some s_passed)),
     BTransition TxOk s_now ''alice'' ''checkout'' ''1.0.0'' 2 (s_to_baseline BlApproved None)]"

definition s_baseline_db :: "bl_record \<Rightarrow> baseline_db" where
  "s_baseline_db r = \<lparr>bd_core = s_evidence_db, bd_baselines = [((''alice'', ''checkout'', ''1.0.0''), r)]\<rparr>"

lemma fold_BCore: "fold baseline_step (map BCore ops) d = d\<lparr>bd_core := fold pg_step ops (bd_core d)\<rparr>"
  by (induction ops arbitrary: d) simp_all

lemma s_create_step:
  "baseline_step (BCreate TxOk s_now ''alice'' s_create) \<lparr>bd_core = s_evidence_db, bd_baselines = []\<rparr> = s_baseline_db s_candidate"
proof -
  have "verifyBaselineEvidence ''alice'' s_candidate s_evidence_db = Inr ()"
    using s_normalized_valid
    by (simp add: verifyBaselineEvidence_def lockedRun_def s_evidence_db_def s_stage_db_def s_candidate_def s_baseline_def
        s_row_def s_completed_def s_change_def) (simp add: s_normalized_def s_artifact_def)
  then show ?thesis
    by (simp add: pg_CreateBaseline_def transact_def s_New s_baseline_db_def)
      (simp add: s_candidate_def s_baseline_def)
qed

lemma s_transition_step:
  assumes "Baseline_Transition r n ch s_now = Inr r'"
  shows "baseline_step (BTransition TxOk s_now ''alice'' ''checkout'' ''1.0.0'' n ch) (s_baseline_db r) = s_baseline_db r'"
proof -
  have "r_valid" if "r_valid = Record_valid r" for r_valid
    using assms that by (auto simp: Baseline_Transition_def split: if_splits)
  with assms show ?thesis
    by (simp add: pg_TransitionBaseline_def transact_def lockedBaseline_def decodeBaseline_def s_baseline_db_def)
qed

lemma s_baseline_history_db: "fold baseline_step s_baseline_history baseline_empty = s_baseline_db s_approved"
proof -
  have "fold baseline_step (map BCore s_pipeline) baseline_empty = \<lparr>bd_core = s_stage_db s_completed, bd_baselines = []\<rparr>"
    by (simp add: fold_BCore baseline_empty_def s_pipeline_db)
  then show ?thesis
    by (simp add: s_baseline_history_def s_register_normalized s_create_step s_transition_step [OF s_qualify]
        s_transition_step [OF s_approve] del: baseline_step.simps(2,3))
qed

definition s_selection :: bl_selection where
  "s_selection = \<lparr>sel_id = ''checkout'', sel_version = ''1.0.0'', sel_testID = ''checkout'',
     sel_workload = s_identity ''workload'', sel_environment = s_environment, sel_dataset = s_dataset\<rparr>"

lemma s_resolve: "pg_ResolveApprovedBaseline None ''alice'' s_selection (s_baseline_db s_approved) = Inr (Some s_approved)"
proof -
  have "Record_valid s_approved" using Baseline_Transition_evolves(1) [OF s_approve] .
  moreover have "Selection_valid s_selection"
    using s_names s_identities by (simp add: Selection_valid_def s_selection_def)
  ultimately have "MatchesSelection s_approved s_selection"
    by (simp add: MatchesSelection_def s_approved_def s_baseline_def s_selection_def Dataset_equal_def s_dataset_def)
  with \<open>Record_valid s_approved\<close> \<open>Selection_valid s_selection\<close> show ?thesis
    by (simp add: pg_ResolveApprovedBaseline_def decodeBaseline_def s_baseline_db_def)
      (simp add: s_selection_def s_approved_def s_baseline_def)
qed

end
