(* ===== verification/Raw_Result.thy ===== *)
theory Raw_Result
  imports Baselines Calendar
begin

text \<open>
  Package \<open>internal/rawresult\<close> (\<open>manifest.go\<close>): the raw-result manifest, its producer and
  execution artifact identities, and the timestamps of the contracts. \<open>Identity\<close> and
  \<open>ValidImage\<close> are in \<open>Baselines\<close>.
\<close>

section \<open>Timestamps\<close>

text \<open>\<open>^\d{4}-\d{2}-\d{2}T\d{2}:\d{2}:[0-5]\d(?:\.\d{1,6})?(?:Z|[+-]\d{2}:\d{2})$\<close>\<close>

definition timestamp_pattern :: rx where
  "timestamp_pattern = Seqs [Rep is_digit 4 4, Lit ''-'', Rep is_digit 2 2, Lit ''-'', Rep is_digit 2 2, Lit ''T'',
     Rep is_digit 2 2, Lit '':'', Rep is_digit 2 2, Lit '':'', Cls (\<lambda>c. c \<in> set ''012345''), Cls is_digit,
     Opt (Seq (Lit ''.'') (Rep is_digit 1 6)),
     Alt (Lit ''Z'') (Seqs [Cls (\<lambda>c. c \<in> set ''+-''), Rep is_digit 2 2, Lit '':'', Rep is_digit 2 2])]"

definition is_leap :: "int \<Rightarrow> bool" where
  "is_leap y = (y mod 4 = 0 \<and> (y mod 100 \<noteq> 0 \<or> y mod 400 = 0))"

definition days_in :: "int \<Rightarrow> int \<Rightarrow> int" where
  "days_in m y = (if m = 2 then (if is_leap y then 29 else 28) else if m \<in> {4, 6, 9, 11} then 30 else 31)"

definition days_from_civil :: "int \<Rightarrow> int \<Rightarrow> int \<Rightarrow> int" where
  "days_from_civil y m d =
    (let y' = (if m \<le> 2 then y - 1 else y); yoe = y' mod 400; mp = (m + 9) mod 12
     in (y' div 400) * 146097 + (365 * yoe + yoe div 4 - yoe div 100 + (153 * mp + 2) div 5 + d - 1) - 719468)"

definition field :: "nat \<Rightarrow> nat \<Rightarrow> string \<Rightarrow> int" where
  "field i n s = int (decimal 0 (take n (drop i s)))"

text \<open>Nanoseconds of a fraction of at most nine digits.\<close>

definition fraction :: "string \<Rightarrow> int" where
  "fraction ds = int (decimal 0 (take 9 (ds @ replicate 9 (CHR ''0''))))"

text \<open>
  \<open>time.Parse(time.RFC3339Nano, s)\<close> on a string of the pattern: the fields are in range, a
  zone offset is at most 24 hours and 60 minutes.
\<close>

definition parse_rfc3339 :: "string \<Rightarrow> time option" where
  "parse_rfc3339 s =
    (let y = field 0 4 s; mo = field 5 2 s; d = field 8 2 s; h = field 11 2 s; mi = field 14 2 s; sec = field 17 2 s;
         frac = takeWhile is_digit (tl (drop 19 s)); ns = (if take 1 (drop 19 s) = ''.'' then fraction frac else 0);
         zone = dropWhile (\<lambda>c. is_digit c \<or> c = CHR ''.'') (drop 19 s);
         zh = field 1 2 zone; zm = field 4 2 zone;
         offset = (if zone = ''Z'' then 0 else (if hd zone = CHR ''-'' then - 1 else 1) * (zh * 3600 + zm * 60))
     in if 1 \<le> mo \<and> mo \<le> 12 \<and> 1 \<le> d \<and> d \<le> days_in mo y \<and> h \<le> 23 \<and> mi \<le> 59 \<and> sec \<le> 59
           \<and> (zone = ''Z'' \<or> (zh \<le> 24 \<and> zm \<le> 60))
        then Some (seconds (days_from_civil y mo d * 86400 + h * 3600 + mi * 60 + sec - offset) + ns)
        else None)"

definition raw_timestamp :: "string \<Rightarrow> time option" where
  "raw_timestamp s = (if rx_match timestamp_pattern s then parse_rfc3339 s else None)"

definition ValidTimestamp :: "string \<Rightarrow> bool" where
  "ValidTimestamp s = (raw_timestamp s \<noteq> None)"

section \<open>Producers\<close>

record dependency_lock =
  dl_path :: string
  dl_sha256 :: string

record execution_artifact =
  xa_kind :: string
  xa_image :: string
  xa_repository :: string
  xa_gitSHA :: string
  xa_dependencyLock :: "dependency_lock option"
  xa_url :: string
  xa_archiveSHA256 :: string
  xa_executableSHA256 :: string

record producer =
  pd_name :: string
  pd_version :: string
  pd_image :: string
  pd_artifact :: "execution_artifact option"

definition ExecutionArtifact_equal :: "execution_artifact \<Rightarrow> execution_artifact \<Rightarrow> bool" where
  "ExecutionArtifact_equal a b =
    (xa_kind a = xa_kind b \<and> xa_image a = xa_image b \<and> xa_repository a = xa_repository b \<and> xa_gitSHA a = xa_gitSHA b
     \<and> xa_url a = xa_url b \<and> xa_archiveSHA256 a = xa_archiveSHA256 b \<and> xa_executableSHA256 a = xa_executableSHA256 b
     \<and> (case (xa_dependencyLock a, xa_dependencyLock b) of
          (Some l, Some m) \<Rightarrow> l = m | (None, None) \<Rightarrow> True | _ \<Rightarrow> False))"

definition Producer_Equal :: "producer \<Rightarrow> producer \<Rightarrow> bool" where
  "Producer_Equal p q =
    (pd_name p = pd_name q \<and> pd_version p = pd_version q \<and> pd_image p = pd_image q
     \<and> (case (pd_artifact p, pd_artifact q) of
          (Some a, Some b) \<Rightarrow> ExecutionArtifact_equal a b | (None, None) \<Rightarrow> True | _ \<Rightarrow> False))"

text \<open>\<open>^[A-Za-z0-9_./-]+$\<close>, relative and without dot segments.\<close>

definition validRelativePath :: "string \<Rightarrow> bool" where
  "validRelativePath p =
    (take 1 p \<noteq> ''/'' \<and> rx_match (Many1 (\<lambda>c. is_alnum c \<or> c \<in> set ''_./-'')) p
     \<and> list_all (\<lambda>part. part \<noteq> ''.'' \<and> part \<noteq> ''..'') (split_on (CHR ''/'') p))"

definition DependencyLock_valid :: "dependency_lock \<Rightarrow> bool" where
  "DependencyLock_valid l = (validRelativePath (dl_path l) \<and> rx_match hash_pattern (dl_sha256 l))"

definition validRepository :: "string \<Rightarrow> bool" where
  "validRepository s = (case ParseRequestURI s of None \<Rightarrow> False | Some u \<Rightarrow> ru_scheme u = ''https'' \<and> ru_host u \<noteq> [])"

text \<open>\<open>^https://[^\s@?#]+$\<close>\<close>

definition release_url_pattern :: rx where
  "release_url_pattern = Seq (Lit ''https://'') (Many1 (\<lambda>c. \<not> is_re_space c \<and> c \<notin> set ''@?#''))"

definition validReleaseURL :: "string \<Rightarrow> bool" where
  "validReleaseURL s =
    (rx_match release_url_pattern s \<and>
     (case ParseRequestURI s of None \<Rightarrow> False
      | Some u \<Rightarrow> ru_scheme u = ''https'' \<and> ru_host u \<noteq> [] \<and> \<not> ru_user u \<and> ru_rawQuery u = []))"

definition hasReleaseArchiveFields :: "execution_artifact \<Rightarrow> bool" where
  "hasReleaseArchiveFields a = (xa_url a \<noteq> [] \<or> xa_archiveSHA256 a \<noteq> [] \<or> xa_executableSHA256 a \<noteq> [])"

definition ExecutionArtifact_valid :: "execution_artifact \<Rightarrow> bool" where
  "ExecutionArtifact_valid a =
    (if xa_kind a = ''oci-image'' then
       ValidImage (xa_image a) \<and> xa_repository a = [] \<and> xa_gitSHA a = [] \<and> xa_dependencyLock a = None
       \<and> \<not> hasReleaseArchiveFields a
     else if xa_kind a = ''source-checkout'' then
       xa_image a = [] \<and> validRepository (xa_repository a) \<and> rx_match (Rep is_lower_hex 40 40) (xa_gitSHA a)
       \<and> (case xa_dependencyLock a of None \<Rightarrow> False | Some l \<Rightarrow> DependencyLock_valid l) \<and> \<not> hasReleaseArchiveFields a
     else if xa_kind a = ''release-archive'' then
       xa_image a = [] \<and> xa_repository a = [] \<and> xa_gitSHA a = [] \<and> xa_dependencyLock a = None
       \<and> validReleaseURL (xa_url a) \<and> rx_match hash_pattern (xa_archiveSHA256 a)
       \<and> rx_match hash_pattern (xa_executableSHA256 a)
     else False)"

definition Producer_valid :: "producer \<Rightarrow> bool" where
  "Producer_valid p =
    (rx_match resource_id_pattern (pd_name p) \<and> rx_match version_pattern (pd_version p) \<and> ValidImage (pd_image p)
     \<and> pd_artifact p = None)"

definition ValidateExecution :: "producer \<Rightarrow> bool" where
  "ValidateExecution p =
    (rx_match resource_id_pattern (pd_name p) \<and> rx_match version_pattern (pd_version p) \<and> pd_image p = []
     \<and> (case pd_artifact p of None \<Rightarrow> False | Some a \<Rightarrow> ExecutionArtifact_valid a))"

section \<open>Manifests\<close>

record raw_manifest =
  rm_schemaVersion :: int
  rm_kind :: string
  rm_contractsVersion :: string
  rm_runID :: string
  rm_testID :: string
  rm_workload :: identity
  rm_producer :: producer
  rm_windowStart :: string
  rm_windowEnd :: string
  rm_createdAt :: string
  rm_artifacts :: "artifact list"

definition validProducer :: "raw_manifest \<Rightarrow> bool" where
  "validProducer m =
    (if rm_schemaVersion m = 1 then Producer_valid (rm_producer m)
     else if rm_schemaVersion m = 2 then ValidateExecution (rm_producer m)
     else False)"

text \<open>The artifact loop with the identifiers and locations seen so far.\<close>

fun manifest_artifacts_ok :: "string \<Rightarrow> string list \<Rightarrow> string list \<Rightarrow> artifact list \<Rightarrow> bool" where
  "manifest_artifacts_ok runID ids uris [] = True"
| "manifest_artifacts_ok runID ids uris (a # as) =
    (a_runID a = runID \<and> a_kind a = ''raw'' \<and> Artifact_Validate a = Inr () \<and> a_id a \<notin> set ids \<and> a_uri a \<notin> set uris
     \<and> manifest_artifacts_ok runID (a_id a # ids) (a_uri a # uris) as)"

definition RawManifest_Validate :: "raw_manifest \<Rightarrow> string \<Rightarrow> string \<Rightarrow> bool" where
  "RawManifest_Validate m expectedRunID expectedVersion =
    (rm_kind m = ''RawResult'' \<and> rm_contractsVersion m = expectedVersion \<and> rm_runID m = expectedRunID
     \<and> rx_match version_pattern (rm_contractsVersion m) \<and> ValidID (rm_runID m) \<and> rx_match resource_id_pattern (rm_testID m)
     \<and> Identity_valid (rm_workload m) \<and> validProducer m \<and> rm_artifacts m \<noteq> []
     \<and> (case (raw_timestamp (rm_windowStart m), raw_timestamp (rm_windowEnd m), raw_timestamp (rm_createdAt m)) of
          (Some start, Some stop, Some created) \<Rightarrow> start < stop \<and> \<not> created < stop
        | _ \<Rightarrow> False)
     \<and> manifest_artifacts_ok (rm_runID m) [] [] (rm_artifacts m))"

section \<open>Lemmas\<close>

lemma Producer_Equal_iff: "Producer_Equal p q \<longleftrightarrow> p = q"
  by (cases p; cases q)
    (auto simp: Producer_Equal_def ExecutionArtifact_equal_def split: option.splits intro!: execution_artifact.equality)

text \<open>The loop accepts exactly the raw artifacts of the Run with distinct identifiers and locations.\<close>

lemma manifest_artifacts_iff:
  "manifest_artifacts_ok runID ids uris as \<longleftrightarrow>
    (\<forall>a\<in>set as. a_runID a = runID \<and> a_kind a = ''raw'' \<and> Artifact_Validate a = Inr ()
      \<and> a_id a \<notin> set ids \<and> a_uri a \<notin> set uris) \<and> distinct (map a_id as) \<and> distinct (map a_uri as)"
proof (induction as arbitrary: ids uris)
  case (Cons a as)
  have img: "f a \<notin> f ` set as \<longleftrightarrow> (\<forall>x\<in>set as. f x \<noteq> f a)" for f :: "artifact \<Rightarrow> string"
    by (metis image_iff)
  show ?case by (simp add: Cons.IH img) blast
qed simp

end
