(* ===== verification/Native_Domain.thy ===== *)
theory Native_Domain
  imports Raw_Result
begin

text \<open>
  Package \<open>internal/nativeworker\<close>: the values and decisions of native (non-Kubernetes)
  execution. \<open>assignment.go\<close>, \<open>baseline_recipe.go\<close>, \<open>baseline_eligibility.go\<close>,
  \<open>capabilities.go\<close>, \<open>leasing.go\<close>, \<open>renewal.go\<close>, \<open>release.go\<close>, \<open>upload_grant.go\<close>,
  \<open>artifact_registration.go\<close>, \<open>terminal.go\<close>, \<open>inspection.go\<close>, \<open>discovery.go\<close>. A presence
  document is represented by the values it decodes to. The diagnostic formatters
  (\<open>String\<close>, \<open>GoString\<close>) are left out; instants carry no location.
\<close>

section \<open>Identifiers and capabilities (leasing.go)\<close>

text \<open>\<open>^[a-z][a-z0-9-]{1,62}$\<close>, the \<open>Identifier\<close> schema of the Native Worker API.\<close>

definition worker_identifier_pattern :: rx where
  "worker_identifier_pattern = Seq (Cls is_lower) (Rep (\<lambda>c. is_lower_alnum c \<or> c = CHR ''-'') 1 62)"

definition ValidNativeWorkerIdentifier :: "string \<Rightarrow> bool" where
  "ValidNativeWorkerIdentifier s = rx_match worker_identifier_pattern s"

text \<open>\<open>^[a-z0-9][a-z0-9._/-]*$\<close>, the \<open>ArtifactFormat\<close> schema.\<close>

definition ValidNativeArtifactFormat :: "string \<Rightarrow> bool" where
  "ValidNativeArtifactFormat s =
    rx_match (Seq (Cls is_lower_alnum) (Star (Cls (\<lambda>c. is_lower_alnum c \<or> c \<in> set ''._/-'')))) s"

text \<open>\<open>^[a-f0-9]{8}-[a-f0-9]{4}-4[a-f0-9]{3}-[89ab][a-f0-9]{3}-[a-f0-9]{12}$\<close>\<close>

definition native_uuid_pattern :: rx where
  "native_uuid_pattern = Seqs [Rep is_lower_hex 8 8, Lit ''-'', Rep is_lower_hex 4 4, Lit ''-4'', Rep is_lower_hex 3 3,
     Lit ''-'', Cls (\<lambda>c. c \<in> set ''89ab''), Rep is_lower_hex 3 3, Lit ''-'', Rep is_lower_hex 12 12]"

definition ValidLeaseIdentifier :: "string \<Rightarrow> bool" where
  "ValidLeaseIdentifier s = rx_match native_uuid_pattern s"

definition ValidLeaseCapability :: "string \<Rightarrow> bool" where
  "ValidLeaseCapability s =
    (32 \<le> length s \<and> length s \<le> 4096 \<and> list_all (\<lambda>c. 33 \<le> byte c \<and> byte c \<le> 126 \<and> c \<noteq> CHR '','') s)"

definition ValidPresenceMaximumAge :: "duration \<Rightarrow> bool" where
  "ValidPresenceMaximumAge v = (seconds 5 \<le> v \<and> v \<le> minutes 5 \<and> v mod seconds 1 = 0)"

definition ValidLeasePolicy :: "duration \<Rightarrow> duration \<Rightarrow> bool" where
  "ValidLeasePolicy ttl renewAfter =
    (ValidLeaseTTL ttl \<and> seconds 5 \<le> renewAfter \<and> renewAfter \<le> ttl div 2 \<and> renewAfter mod seconds 1 = 0)"

definition maximumCandidateBatch :: int where
  "maximumCandidateBatch = 100"

definition ValidCandidateLimit :: "int \<Rightarrow> bool" where
  "ValidCandidateLimit n = (1 \<le> n \<and> n \<le> maximumCandidateBatch)"

text \<open>\<open>time.Time.IsZero\<close>: 1 January of year 1.\<close>

definition zero_time :: time where
  "zero_time = - seconds 62135596800"

section \<open>Assignments (assignment.go)\<close>

record native_target =
  nt_environmentID :: string
  nt_baseURL :: string

record artifact_slot =
  as_slot :: string
  as_kind :: string
  as_mediaType :: string
  as_format :: string
  as_maximumBytes :: int
  as_required :: bool

text \<open>The transport identity of a producer (\<open>nativeworker.ExecutionArtifact\<close>).\<close>

record native_artifact =
  na_kind :: string
  na_repository :: string
  na_revision :: string
  na_lockfile :: string
  na_lockfileSHA256 :: string
  na_url :: string
  na_archiveSHA256 :: string
  na_executableSHA256 :: string

definition maximumArtifactBytes :: int where
  "maximumArtifactBytes = 512 * 1024 * 1024"

text \<open>\<open>^[a-z0-9.+-]+/[a-z0-9.+-]+$\<close>\<close>

definition media_type_pattern :: rx where
  "media_type_pattern = Seqs [Many1 (\<lambda>c. is_lower_alnum c \<or> c \<in> set ''.+-''), Lit ''/'',
     Many1 (\<lambda>c. is_lower_alnum c \<or> c \<in> set ''.+-'')]"

definition validBaseURL :: "string \<Rightarrow> bool" where
  "validBaseURL s =
    (case ParseRequestURI s of None \<Rightarrow> False
     | Some u \<Rightarrow> ru_scheme u = ''https'' \<and> ru_host u \<noteq> [] \<and> \<not> ru_user u \<and> ru_rawQuery u = [] \<and> \<not> ru_forceQuery u)"

definition validBrowser :: "string \<Rightarrow> bool" where
  "validBrowser s = (s \<in> {''chromium'', ''chrome'', ''edge''})"

definition validDiagnosticMode :: "string \<Rightarrow> bool" where
  "validDiagnosticMode s = (s \<in> {''lightweight'', ''trace'', ''heap'', ''cpu-profile''})"

definition validArtifactSlotFormat :: "string \<Rightarrow> string \<Rightarrow> bool" where
  "validArtifactSlotFormat slot fmt =
    (ValidNativeArtifactFormat fmt \<and>
     (if slot = ''measurements'' then fmt = ''playwright-measurements/v2''
      else if slot = ''manifest'' then fmt = ''raw-result/v2''
      else True))"

fun slots_ok :: "string list \<Rightarrow> artifact_slot list \<Rightarrow> bool" where
  "slots_ok seen [] = True"
| "slots_ok seen (s # ss) =
    (rx_match resource_id_pattern (as_slot s) \<and> rx_match resource_id_pattern (as_kind s)
     \<and> rx_match media_type_pattern (as_mediaType s) \<and> validArtifactSlotFormat (as_slot s) (as_format s)
     \<and> 1 \<le> as_maximumBytes s \<and> as_maximumBytes s \<le> maximumArtifactBytes
     \<and> as_slot s \<notin> set seen \<and> slots_ok (as_slot s # seen) ss)"

definition validArtifactPlan :: "artifact_slot list \<Rightarrow> bool" where
  "validArtifactPlan plan = (plan \<noteq> [] \<and> length plan \<le> 16 \<and> slots_ok [] plan)"

definition executionArtifact :: "execution_artifact \<Rightarrow> native_artifact" where
  "executionArtifact a =
    (let base = \<lparr>na_kind = xa_kind a, na_repository = [], na_revision = [], na_lockfile = [], na_lockfileSHA256 = [],
           na_url = xa_url a, na_archiveSHA256 = xa_archiveSHA256 a, na_executableSHA256 = xa_executableSHA256 a\<rparr>
     in case xa_dependencyLock a of None \<Rightarrow> base
        | Some l \<Rightarrow> base\<lparr>na_repository := xa_repository a, na_revision := xa_gitSHA a, na_lockfile := dl_path l,
            na_lockfileSHA256 := dl_sha256 l\<rparr>)"

definition validExecutionArtifact :: "native_artifact \<Rightarrow> bool" where
  "validExecutionArtifact a =
    (if na_kind a = ''source-checkout'' then
       na_url a = [] \<and> na_archiveSHA256 a = [] \<and> na_executableSHA256 a = [] \<and>
       ExecutionArtifact_valid \<lparr>xa_kind = na_kind a, xa_image = [], xa_repository = na_repository a, xa_gitSHA = na_revision a,
         xa_dependencyLock = Some \<lparr>dl_path = na_lockfile a, dl_sha256 = na_lockfileSHA256 a\<rparr>, xa_url = [],
         xa_archiveSHA256 = [], xa_executableSHA256 = []\<rparr>
     else if na_kind a = ''release-archive'' then
       na_repository a = [] \<and> na_revision a = [] \<and> na_lockfile a = [] \<and> na_lockfileSHA256 a = [] \<and>
       ExecutionArtifact_valid \<lparr>xa_kind = na_kind a, xa_image = [], xa_repository = [], xa_gitSHA = [],
         xa_dependencyLock = None, xa_url = na_url a, xa_archiveSHA256 = na_archiveSHA256 a,
         xa_executableSHA256 = na_executableSHA256 a\<rparr>
     else False)"

section \<open>Baseline plans (baseline_recipe.go)\<close>

record bl_scenario =
  sc_cacheProfile :: string
  sc_pageReuse :: string
  sc_warmupIterations :: int
  sc_measurementIterations :: int

record host_profile =
  hp_profileID :: string
  hp_profileVersion :: string
  hp_fingerprint :: string
  hp_evidenceSHA256 :: string

record browser_settings =
  bs_headless :: bool
  bs_width :: int
  bs_height :: int
  bs_deviceScaleFactor :: float64

record bl_template =
  tp_hostOperatingSystem :: string
  tp_baseURL :: string
  tp_scenario :: bl_scenario
  tp_hostProfile :: host_profile
  tp_browserSettings :: browser_settings
  tp_measurementsMaximumBytes :: int
  tp_manifestMaximumBytes :: int

record bl_recipe =
  rp_journeyID :: string
  rp_workloadVersion :: string
  rp_workloadSHA256 :: string
  rp_scenario :: bl_scenario
  rp_environment :: host_profile
  rp_browserSettings :: browser_settings

record bl_assignment =
  ba_catalogueTestID :: string
  ba_workloadID :: string
  ba_profile :: string
  ba_target :: native_target
  ba_browser :: string
  ba_diagnosticMode :: string
  ba_executionArtifact :: native_artifact
  ba_recipe :: bl_recipe

text \<open>\<open>ArtifactPlan [2]ArtifactSlot\<close> is a pair.\<close>

record bl_plan =
  pl_assignment :: bl_assignment
  pl_artifactPlan :: "artifact_slot \<times> artifact_slot"

definition Scenario_valid :: "bl_scenario \<Rightarrow> bool" where
  "Scenario_valid s =
    ((sc_cacheProfile s = ''cold'' \<or> sc_cacheProfile s = ''warm'')
     \<and> (sc_pageReuse s = ''per-iteration'' \<or> sc_pageReuse s = ''per-run'')
     \<and> (sc_cacheProfile s \<noteq> ''cold'' \<or> sc_pageReuse s = ''per-iteration'')
     \<and> 0 \<le> sc_warmupIterations s \<and> sc_warmupIterations s \<le> 100
     \<and> 1 \<le> sc_measurementIterations s \<and> sc_measurementIterations s \<le> 1000)"

text \<open>\<open>^(0|[1-9][0-9]*)\.(0|[1-9][0-9]*)\.(0|[1-9][0-9]*)(?:-[0-9A-Za-z.-]+)?$\<close>\<close>

definition baseline_version_pattern :: rx where
  "baseline_version_pattern = Seq version_pattern
     (Opt (Seq (Lit ''-'') (Many1 (\<lambda>c. is_alnum c \<or> c \<in> set ''.-''))))"

definition HostProfile_valid :: "host_profile \<Rightarrow> bool" where
  "HostProfile_valid p =
    (rx_match resource_id_pattern (hp_profileID p) \<and> rx_match baseline_version_pattern (hp_profileVersion p)
     \<and> rx_match hash_pattern (hp_fingerprint p) \<and> rx_match hash_pattern (hp_evidenceSHA256 p))"

definition scale_ok :: "float64 \<Rightarrow> bool" where
  "scale_ok x = (case x of Fin q \<Rightarrow> 1 / 2 \<le> q \<and> q \<le> 4 | _ \<Rightarrow> False)"

definition BrowserSettings_valid :: "browser_settings \<Rightarrow> bool" where
  "BrowserSettings_valid b =
    (320 \<le> bs_width b \<and> bs_width b \<le> 3840 \<and> 240 \<le> bs_height b \<and> bs_height b \<le> 2160 \<and> scale_ok (bs_deviceScaleFactor b))"

definition validBaselineArtifactSize :: "int \<Rightarrow> bool" where
  "validBaselineArtifactSize n = (1 \<le> n \<and> n \<le> maximumArtifactBytes)"

definition validBaselineProfile :: "string \<Rightarrow> bool" where
  "validBaselineProfile s = (s \<in> {''smoke'', ''average'', ''regression'', ''stress'', ''capacity'', ''soak''})"

definition Template_valid :: "bl_template \<Rightarrow> bool" where
  "Template_valid t =
    (tp_hostOperatingSystem t = ''linux'' \<and> validBaseURL (tp_baseURL t) \<and> Scenario_valid (tp_scenario t)
     \<and> HostProfile_valid (tp_hostProfile t) \<and> BrowserSettings_valid (tp_browserSettings t)
     \<and> validBaselineArtifactSize (tp_measurementsMaximumBytes t) \<and> validBaselineArtifactSize (tp_manifestMaximumBytes t))"

definition baseline_slot_ok :: "string \<Rightarrow> string \<Rightarrow> artifact_slot \<Rightarrow> bool" where
  "baseline_slot_ok name fmt s =
    (as_slot s = name \<and> as_kind s = name \<and> as_mediaType s = ''application/json'' \<and> as_format s = fmt \<and> as_required s
     \<and> validBaselineArtifactSize (as_maximumBytes s))"

definition validBaselineSlots :: "artifact_slot \<times> artifact_slot \<Rightarrow> bool" where
  "validBaselineSlots p =
    (baseline_slot_ok ''measurements'' ''playwright-measurements/v2'' (fst p)
     \<and> baseline_slot_ok ''manifest'' ''raw-result/v2'' (snd p))"

definition Plan_valid :: "bl_plan \<Rightarrow> bool" where
  "Plan_valid p =
    (let a = pl_assignment p
     in rx_match resource_id_pattern (ba_catalogueTestID a) \<and> validBaselineProfile (ba_profile a)
        \<and> rx_match resource_id_pattern (nt_environmentID (ba_target a)) \<and> validBaseURL (nt_baseURL (ba_target a))
        \<and> ba_browser a = ''chromium'' \<and> ba_diagnosticMode a = ''baseline''
        \<and> na_kind (ba_executionArtifact a) = ''source-checkout'' \<and> validExecutionArtifact (ba_executionArtifact a)
        \<and> rp_journeyID (ba_recipe a) = ''search''
        \<and> Identity_valid \<lparr>id_id = ba_workloadID a, id_version = rp_workloadVersion (ba_recipe a),
            id_sha256 = rp_workloadSHA256 (ba_recipe a)\<rparr>
        \<and> Scenario_valid (rp_scenario (ba_recipe a)) \<and> HostProfile_valid (rp_environment (ba_recipe a))
        \<and> BrowserSettings_valid (rp_browserSettings (ba_recipe a)) \<and> validBaselineSlots (pl_artifactPlan p))"

definition Template_Resolve ::
  "bl_template \<Rightarrow> string \<Rightarrow> identity \<Rightarrow> string \<Rightarrow> string \<Rightarrow> execution_artifact \<Rightarrow> err + bl_plan" where
  "Template_Resolve t testID workload prof environmentID a =
    (if \<not> Template_valid t \<or> \<not> Identity_valid workload \<or> \<not> rx_match resource_id_pattern testID
        \<or> \<not> validBaselineProfile prof \<or> \<not> rx_match resource_id_pattern environmentID \<or> xa_kind a \<noteq> ''source-checkout''
     then Inl ErrValidation
     else
       (let plan = \<lparr>pl_assignment = \<lparr>ba_catalogueTestID = testID, ba_workloadID = id_id workload, ba_profile = prof,
              ba_target = \<lparr>nt_environmentID = environmentID, nt_baseURL = tp_baseURL t\<rparr>, ba_browser = ''chromium'',
              ba_diagnosticMode = ''baseline'', ba_executionArtifact = executionArtifact a,
              ba_recipe = \<lparr>rp_journeyID = ''search'', rp_workloadVersion = id_version workload,
                rp_workloadSHA256 = id_sha256 workload, rp_scenario = tp_scenario t, rp_environment = tp_hostProfile t,
                rp_browserSettings = tp_browserSettings t\<rparr>\<rparr>,
              pl_artifactPlan =
                (\<lparr>as_slot = ''measurements'', as_kind = ''measurements'', as_mediaType = ''application/json'',
                   as_format = ''playwright-measurements/v2'', as_maximumBytes = tp_measurementsMaximumBytes t, as_required = True\<rparr>,
                 \<lparr>as_slot = ''manifest'', as_kind = ''manifest'', as_mediaType = ''application/json'',
                   as_format = ''raw-result/v2'', as_maximumBytes = tp_manifestMaximumBytes t, as_required = True\<rparr>)\<rparr>
        in if Plan_valid plan then Inr plan else Inl ErrValidation))"

text \<open>\<open>None\<close> where the method reports \<open>false\<close>.\<close>

definition MatchArtifactSlot :: "bl_plan \<Rightarrow> string \<Rightarrow> string \<Rightarrow> int \<Rightarrow> artifact_slot option" where
  "MatchArtifactSlot p name mediaType bytes_n =
    (if \<not> Plan_valid p \<or> bytes_n < 1 then None
     else find (\<lambda>s. as_slot s = name \<and> as_mediaType s = mediaType \<and> bytes_n \<le> as_maximumBytes s)
       [fst (pl_artifactPlan p), snd (pl_artifactPlan p)])"

section \<open>Presence and eligibility (capabilities.go, baseline_eligibility.go)\<close>

record capabilities =
  cp_capacity :: int
  cp_tool :: string
  cp_operatingSystem :: string
  cp_architecture :: string
  cp_browsers :: "string list"
  cp_runnerContract :: int
  cp_executionArtifacts :: "string list"
  cp_artifactKinds :: "string list"
  cp_diagnosticModes :: "string list"

record qualification_evidence =
  qe_environmentID :: string
  qe_environmentSHA256 :: string
  qe_runner :: native_artifact

text \<open>\<open>pr_evidence\<close> is \<open>None\<close> where the evidence does not decode.\<close>

record presence =
  pr_protocolVersion :: int
  pr_agentVersion :: string
  pr_availability :: string
  pr_capabilities :: capabilities
  pr_evidence :: "qualification_evidence option"

fun set_loop :: "(string \<Rightarrow> bool) \<Rightarrow> string list \<Rightarrow> string list \<Rightarrow> bool" where
  "set_loop valid' seen [] = True"
| "set_loop valid' seen (v # vs) = (valid' v \<and> v \<notin> set seen \<and> set_loop valid' (v # seen) vs)"

definition validSet :: "string list \<Rightarrow> nat \<Rightarrow> nat \<Rightarrow> (string \<Rightarrow> bool) \<Rightarrow> bool" where
  "validSet vs lo hi valid' = (lo \<le> length vs \<and> length vs \<le> hi \<and> set_loop valid' [] vs)"

definition validNativeArtifactKind :: "string \<Rightarrow> bool" where
  "validNativeArtifactKind s = (s = ''source-checkout'' \<or> s = ''release-archive'')"

definition validForRunnerContract :: "capabilities \<Rightarrow> int \<Rightarrow> bool" where
  "validForRunnerContract c version =
    (cp_capacity c = 1 \<and> cp_tool c = ''playwright'' \<and> cp_operatingSystem c = ''linux''
     \<and> (cp_architecture c = ''x64'' \<or> cp_architecture c = ''arm64'') \<and> cp_runnerContract c = version
     \<and> validSet (cp_browsers c) 1 4 validBrowser
     \<and> validSet (cp_executionArtifacts c) 1 2 validNativeArtifactKind
     \<and> validSet (cp_artifactKinds c) 1 16 (rx_match resource_id_pattern)
     \<and> validSet (cp_diagnosticModes c) 1 8 (if version = 2 then (\<lambda>v. v = ''baseline'') else validDiagnosticMode))"

definition SupportsBaseline :: "presence \<Rightarrow> bl_plan \<Rightarrow> bool" where
  "SupportsBaseline p plan =
    (if pr_protocolVersion p \<noteq> 2 \<or> pr_availability p \<noteq> ''AVAILABLE'' \<or> \<not> validForRunnerContract (pr_capabilities p) 2
        \<or> \<not> Plan_valid plan then False
     else
       (let c = pr_capabilities p; a = pl_assignment plan
        in ba_browser a \<in> set (cp_browsers c) \<and> ba_diagnosticMode a \<in> set (cp_diagnosticModes c)
           \<and> na_kind (ba_executionArtifact a) \<in> set (cp_executionArtifacts c)
           \<and> as_kind (fst (pl_artifactPlan plan)) \<in> set (cp_artifactKinds c)
           \<and> as_kind (snd (pl_artifactPlan plan)) \<in> set (cp_artifactKinds c)
           \<and> (case pr_evidence p of None \<Rightarrow> False
              | Some e \<Rightarrow> qe_environmentID e = hp_profileID (rp_environment (ba_recipe a))
                  \<and> qe_environmentSHA256 e = hp_evidenceSHA256 (rp_environment (ba_recipe a))
                  \<and> qe_runner e = ba_executionArtifact a)))"

record native_candidate =
  nc_principal :: string
  nc_run :: run

text \<open>The candidate loop; \<open>resolve\<close> is the registry's plan resolver.\<close>

fun select_loop ::
  "nat \<Rightarrow> presence \<Rightarrow> (string \<Rightarrow> run \<Rightarrow> err + bl_plan) \<Rightarrow> native_candidate list
    \<Rightarrow> err + (nat \<times> native_candidate \<times> bl_plan) option" where
  "select_loop i p resolve [] = Inr None"
| "select_loop i p resolve (c # cs) =
    (if nc_principal c = [] \<or> r_state (nc_run c) \<noteq> StateCreated then Inl ErrValidation
     else (case resolve (nc_principal c) (nc_run c) of
        Inl e \<Rightarrow> if errors_is e ErrForbidden then select_loop (Suc i) p resolve cs else Inl e
      | Inr plan \<Rightarrow> if SupportsBaseline p plan then Inr (Some (i, c, plan)) else select_loop (Suc i) p resolve cs))"

definition SelectBaselineCandidate ::
  "err option \<Rightarrow> presence \<Rightarrow> native_candidate list \<Rightarrow> (string \<Rightarrow> run \<Rightarrow> err + bl_plan)
    \<Rightarrow> err + (nat \<times> native_candidate \<times> bl_plan) option" where
  "SelectBaselineCandidate ctx p cs resolve =
    (if pr_protocolVersion p \<noteq> 2 \<or> maximumCandidateBatch < int (length cs) then Inl ErrValidation
     else case ctx of Some e \<Rightarrow> Inl e | None \<Rightarrow> select_loop 0 p resolve cs)"

section \<open>Leases and phases (baseline_leasing.go, renewal.go)\<close>

record native_lease =
  nl_leaseID :: string
  nl_attemptID :: string
  nl_runID :: string
  nl_runRevision :: int
  nl_issuedAt :: time
  nl_expiresAt :: time
  nl_renewAfterSeconds :: int
  nl_plan :: bl_plan
  nl_capability :: string

definition NativeLease_Valid :: "native_lease \<Rightarrow> bool" where
  "NativeLease_Valid l =
    (ValidLeaseIdentifier (nl_leaseID l) \<and> ValidLeaseIdentifier (nl_attemptID l) \<and> ValidID (nl_runID l)
     \<and> 1 \<le> nl_runRevision l \<and> nl_issuedAt l \<noteq> zero_time \<and> nl_expiresAt l \<noteq> zero_time
     \<and> ValidLeasePolicy (nl_expiresAt l - nl_issuedAt l) (seconds (nl_renewAfterSeconds l))
     \<and> Plan_valid (nl_plan l) \<and> ValidLeaseCapability (nl_capability l))"

datatype native_phase = PhasePreparing | PhaseRunning | PhaseUploading | PhaseFinalizing | PhaseUnknown string

fun Phase_Valid :: "native_phase \<Rightarrow> bool" where
  "Phase_Valid (PhaseUnknown _) = False"
| "Phase_Valid _ = True"

record renewal_request =
  rq_leaseID :: string
  rq_attemptID :: string
  rq_revision :: int
  rq_phase :: native_phase
  rq_capability :: string

definition RenewalRequest_Valid :: "renewal_request \<Rightarrow> bool" where
  "RenewalRequest_Valid r =
    (ValidLeaseIdentifier (rq_leaseID r) \<and> ValidLeaseIdentifier (rq_attemptID r) \<and> 1 \<le> rq_revision r
     \<and> Phase_Valid (rq_phase r) \<and> ValidLeaseCapability (rq_capability r))"

record renewal =
  rn_leaseID :: string
  rn_attemptID :: string
  rn_runRevision :: int
  rn_serverTime :: time
  rn_expiresAt :: time
  rn_renewAfterSeconds :: int
  rn_cancellationRequested :: bool
  rn_stopBy :: "time option"

definition Renewal_Valid :: "renewal \<Rightarrow> bool" where
  "Renewal_Valid r =
    (if \<not> ValidLeaseIdentifier (rn_leaseID r) \<or> \<not> ValidLeaseIdentifier (rn_attemptID r) \<or> rn_runRevision r < 1
        \<or> rn_serverTime r = zero_time \<or> rn_expiresAt r = zero_time
        \<or> \<not> ValidLeasePolicy (rn_expiresAt r - rn_serverTime r) (seconds (rn_renewAfterSeconds r)) then False
     else if \<not> rn_cancellationRequested r then rn_stopBy r = None
     else (case rn_stopBy r of None \<Rightarrow> False | Some t \<Rightarrow> rn_serverTime r < t \<and> \<not> rn_expiresAt r < t))"

definition ValidCancellationGrace :: "duration \<Rightarrow> duration \<Rightarrow> bool" where
  "ValidCancellationGrace grace ttl = (seconds 5 \<le> grace \<and> grace \<le> ttl \<and> grace mod seconds 1 = 0)"

definition nativePhaseStates :: "run_state list" where
  "nativePhaseStates = [StateCreated, StateValidating, StateProvisioning, StateWarmingUp, StateRunning, StateCollecting]"

fun phaseTarget :: "native_phase \<Rightarrow> run_state option" where
  "phaseTarget PhasePreparing = Some StateWarmingUp"
| "phaseTarget PhaseRunning = Some StateRunning"
| "phaseTarget PhaseUploading = Some StateCollecting"
| "phaseTarget PhaseFinalizing = Some StateCollecting"
| "phaseTarget (PhaseUnknown _) = None"

text \<open>\<open>-1\<close> is \<open>None\<close>.\<close>

fun index_of :: "'a \<Rightarrow> 'a list \<Rightarrow> nat option" where
  "index_of x [] = None"
| "index_of x (y # ys) = (if x = y then Some 0 else map_option Suc (index_of x ys))"

definition phaseStateIndex :: "run_state \<Rightarrow> nat option" where
  "phaseStateIndex s = index_of s nativePhaseStates"

text \<open>The loop of \<open>AdvancePhase\<close> over the crossed states.\<close>

fun advance_through :: "run_state list \<Rightarrow> time \<Rightarrow> run \<Rightarrow> err + run" where
  "advance_through [] now r = Inr r"
| "advance_through (s # ss) now r =
    (case Run_Transition r (r_revision r) (to_state s) now of Inl e \<Rightarrow> Inl e | Inr r' \<Rightarrow> advance_through ss now r')"

definition AdvancePhase :: "run \<Rightarrow> int \<Rightarrow> native_phase \<Rightarrow> time \<Rightarrow> err + run" where
  "AdvancePhase current expected phase now =
    (if r_revision current \<noteq> expected then Inl ErrRevision
     else if \<not> Phase_Valid phase then Inl ErrValidation
     else (case phaseTarget phase of
        None \<Rightarrow> Inl ErrValidation
      | Some target \<Rightarrow>
          (case (phaseStateIndex (r_state current), phaseStateIndex target) of
             (Some i, Some j) \<Rightarrow>
               if j < i then Inl ErrConflict
               else advance_through (drop (Suc i) (take (Suc j) nativePhaseStates)) now current
           | _ \<Rightarrow> Inl ErrConflict)))"

section \<open>Releases (release.go)\<close>

datatype release_reason = ReleaseCancellationRequested | ReleaseLeaseLost | ReleaseWorkerShutdown
  | ReleasePreparationFailed | ReleaseUnknown string

fun ReleaseReason_Valid :: "release_reason \<Rightarrow> bool" where
  "ReleaseReason_Valid (ReleaseUnknown _) = False"
| "ReleaseReason_Valid _ = True"

record release_request =
  rl_leaseID :: string
  rl_attemptID :: string
  rl_revision :: int
  rl_reason :: release_reason
  rl_message :: string
  rl_capability :: string

definition validReleaseMessage :: "string \<Rightarrow> bool" where
  "validReleaseMessage m = (m = [] \<or> (utf8_ValidString m \<and> utf8_RuneCountInString m \<le> 512))"

definition ReleaseRequest_Valid :: "release_request \<Rightarrow> bool" where
  "ReleaseRequest_Valid r =
    (ValidLeaseIdentifier (rl_leaseID r) \<and> ValidLeaseIdentifier (rl_attemptID r) \<and> 1 \<le> rl_revision r
     \<and> ReleaseReason_Valid (rl_reason r) \<and> validReleaseMessage (rl_message r) \<and> ValidLeaseCapability (rl_capability r))"

section \<open>Uploads and registrations (upload_grant.go, artifact_registration.go)\<close>

record upload_request =
  ur_leaseID :: string
  ur_attemptID :: string
  ur_revision :: int
  ur_slot :: string
  ur_size :: int
  ur_sha256 :: string
  ur_mediaType :: string
  ur_capability :: string

definition UploadRequest_Valid :: "upload_request \<Rightarrow> bool" where
  "UploadRequest_Valid r =
    (ValidLeaseIdentifier (ur_leaseID r) \<and> ValidLeaseIdentifier (ur_attemptID r) \<and> 1 \<le> ur_revision r
     \<and> rx_match resource_id_pattern (ur_slot r) \<and> 1 \<le> ur_size r \<and> ur_size r \<le> maximumArtifactBytes
     \<and> rx_match hash_pattern (ur_sha256 r) \<and> rx_match media_type_pattern (ur_mediaType r)
     \<and> ValidLeaseCapability (ur_capability r))"

record upload_reservation =
  up_grantID :: string
  up_leaseID :: string
  up_attemptID :: string
  up_runID :: string
  up_slot :: string
  up_objectKey :: string
  up_size :: int
  up_maximumBytes :: int
  up_sha256 :: string
  up_mediaType :: string
  up_issuedAt :: time
  up_expiresAt :: time

definition object_key :: "string \<Rightarrow> string \<Rightarrow> string \<Rightarrow> string" where
  "object_key runID attemptID slot = ''runs/'' @ runID @ ''/attempts/'' @ attemptID @ ''/'' @ slot"

definition maximumUploadGrantTTL :: duration where
  "maximumUploadGrantTTL = minutes 5"

definition UploadReservation_Valid :: "upload_reservation \<Rightarrow> bool" where
  "UploadReservation_Valid r =
    (ValidLeaseIdentifier (up_grantID r) \<and> ValidLeaseIdentifier (up_leaseID r) \<and> ValidLeaseIdentifier (up_attemptID r)
     \<and> ValidID (up_runID r) \<and> rx_match resource_id_pattern (up_slot r)
     \<and> up_objectKey r = object_key (up_runID r) (up_attemptID r) (up_slot r)
     \<and> 1 \<le> up_size r \<and> up_size r \<le> up_maximumBytes r \<and> up_maximumBytes r \<le> maximumArtifactBytes
     \<and> rx_match hash_pattern (up_sha256 r) \<and> rx_match media_type_pattern (up_mediaType r)
     \<and> up_issuedAt r \<noteq> zero_time \<and> up_expiresAt r \<noteq> zero_time
     \<and> 0 < up_expiresAt r - up_issuedAt r \<and> up_expiresAt r - up_issuedAt r \<le> maximumUploadGrantTTL)"

definition ValidUploadGrantTTL :: "duration \<Rightarrow> bool" where
  "ValidUploadGrantTTL v = (seconds 1 \<le> v \<and> v \<le> maximumUploadGrantTTL \<and> v mod seconds 1 = 0)"

record registration_request =
  rg_leaseID :: string
  rg_attemptID :: string
  rg_revision :: int
  rg_grantID :: string
  rg_slot :: string
  rg_size :: int
  rg_sha256 :: string
  rg_capability :: string

definition RegistrationRequest_Valid :: "registration_request \<Rightarrow> bool" where
  "RegistrationRequest_Valid r =
    (ValidLeaseIdentifier (rg_leaseID r) \<and> ValidLeaseIdentifier (rg_attemptID r) \<and> 1 \<le> rg_revision r
     \<and> ValidLeaseIdentifier (rg_grantID r) \<and> rx_match resource_id_pattern (rg_slot r)
     \<and> 1 \<le> rg_size r \<and> rg_size r \<le> maximumArtifactBytes \<and> rx_match hash_pattern (rg_sha256 r)
     \<and> ValidLeaseCapability (rg_capability r))"

record artifact_candidate =
  ac_reservation :: upload_reservation
  ac_kind :: string
  ac_format :: string

definition ArtifactCandidate_Valid :: "artifact_candidate \<Rightarrow> bool" where
  "ArtifactCandidate_Valid c =
    (UploadReservation_Valid (ac_reservation c) \<and> rx_match resource_id_pattern (ac_kind c)
     \<and> validArtifactSlotFormat (up_slot (ac_reservation c)) (ac_format c))"

definition trim_slash :: "string \<Rightarrow> string" where
  "trim_slash s = (if take 1 s = ''/'' then tl s else s)"

definition validNativeArtifactURI :: "string \<Rightarrow> string \<Rightarrow> bool" where
  "validNativeArtifactURI s key =
    (case ParseRequestURI s of None \<Rightarrow> False
     | Some u \<Rightarrow> ru_scheme u = ''s3'' \<and> ru_host u \<noteq> [] \<and> plain_host (ru_host u) \<and> \<not> ru_user u \<and> ru_rawPath u = []
         \<and> ru_rawQuery u = [] \<and> \<not> ru_forceQuery u \<and> trim_slash (ru_path u) = key)"

record verified_artifact =
  va_candidate :: artifact_candidate
  va_uri :: string

definition VerifiedArtifact_Valid :: "verified_artifact \<Rightarrow> bool" where
  "VerifiedArtifact_Valid v =
    (ArtifactCandidate_Valid (va_candidate v)
     \<and> validNativeArtifactURI (va_uri v) (up_objectKey (ac_reservation (va_candidate v))))"

record artifact_reference =
  ar_artifactID :: string
  ar_runID :: string
  ar_attemptID :: string
  ar_slot :: string
  ar_kind :: string
  ar_uri :: string
  ar_size :: int
  ar_sha256 :: string
  ar_mediaType :: string
  ar_registeredAt :: time
  ar_format :: string

definition ArtifactReference_Valid :: "artifact_reference \<Rightarrow> bool" where
  "ArtifactReference_Valid r =
    (ValidLeaseIdentifier (ar_artifactID r) \<and> ValidID (ar_runID r) \<and> ValidLeaseIdentifier (ar_attemptID r)
     \<and> rx_match resource_id_pattern (ar_slot r) \<and> rx_match resource_id_pattern (ar_kind r)
     \<and> validArtifactSlotFormat (ar_slot r) (ar_format r)
     \<and> validNativeArtifactURI (ar_uri r) (object_key (ar_runID r) (ar_attemptID r) (ar_slot r))
     \<and> 1 \<le> ar_size r \<and> ar_size r \<le> maximumArtifactBytes \<and> rx_match hash_pattern (ar_sha256 r)
     \<and> rx_match media_type_pattern (ar_mediaType r) \<and> ar_registeredAt r \<noteq> zero_time)"

section \<open>Terminal reports, inspection and discovery (terminal.go, inspection.go, discovery.go)\<close>

datatype terminal_kind = TerminalCompleted | TerminalFailed | TerminalUnknown string

definition TerminalKind_Valid :: "terminal_kind \<Rightarrow> bool" where
  "TerminalKind_Valid k = (k = TerminalCompleted \<or> k = TerminalFailed)"

datatype terminal_failure_code = TerminalFailurePreparation | TerminalFailureTool | TerminalFailureCapture
  | TerminalFailureUpload | TerminalFailureHostUnqualified | TerminalFailureUnknown string

fun TerminalFailureCode_Valid :: "terminal_failure_code \<Rightarrow> bool" where
  "TerminalFailureCode_Valid (TerminalFailureUnknown _) = False"
| "TerminalFailureCode_Valid _ = True"

record terminal_failure =
  tf_code :: terminal_failure_code
  tf_message :: string
  tf_retryable :: bool

definition TerminalFailure_Valid :: "terminal_failure \<Rightarrow> bool" where
  "TerminalFailure_Valid f =
    (TerminalFailureCode_Valid (tf_code f) \<and> utf8_ValidString (tf_message f)
     \<and> 1 \<le> utf8_RuneCountInString (tf_message f) \<and> utf8_RuneCountInString (tf_message f) \<le> 1024)"

record terminal_request =
  tr_kind :: terminal_kind
  tr_leaseID :: string
  tr_attemptID :: string
  tr_revision :: int
  tr_manifestArtifactID :: string
  tr_failure :: "terminal_failure option"
  tr_capability :: string

definition TerminalRequest_Valid :: "terminal_request \<Rightarrow> bool" where
  "TerminalRequest_Valid r =
    (if \<not> TerminalKind_Valid (tr_kind r) \<or> \<not> ValidLeaseIdentifier (tr_leaseID r) \<or> \<not> ValidLeaseIdentifier (tr_attemptID r)
        \<or> tr_revision r < 1 \<or> \<not> ValidLeaseCapability (tr_capability r) then False
     else if tr_kind r = TerminalCompleted then ValidLeaseIdentifier (tr_manifestArtifactID r) \<and> tr_failure r = None
     else tr_manifestArtifactID r = [] \<and> (case tr_failure r of None \<Rightarrow> False | Some f \<Rightarrow> TerminalFailure_Valid f))"

datatype terminal_disposition = TerminalAccepted | TerminalAlreadyAccepted

record terminal_ack =
  ta_attemptID :: string
  ta_runRevision :: int
  ta_disposition :: terminal_disposition

datatype inspection_state = InspectionActive | InspectionInactive | InspectionTerminal

record inspection =
  in_runID :: string
  in_attemptID :: string
  in_state :: inspection_state
  in_serverTime :: time
  in_leaseID :: string
  in_expiresAt :: "time option"
  in_runRevision :: int
  in_terminalKind :: "terminal_kind option"
  in_acceptedAt :: "time option"

definition Inspection_Valid :: "inspection \<Rightarrow> bool" where
  "Inspection_Valid i =
    (ValidID (in_runID i) \<and> ValidLeaseIdentifier (in_attemptID i) \<and> in_serverTime i \<noteq> zero_time
     \<and> (case in_state i of
          InspectionActive \<Rightarrow> ValidLeaseIdentifier (in_leaseID i)
            \<and> (case in_expiresAt i of None \<Rightarrow> False | Some t \<Rightarrow> in_serverTime i < t)
            \<and> 1 \<le> in_runRevision i \<and> in_terminalKind i = None \<and> in_acceptedAt i = None
        | InspectionInactive \<Rightarrow> in_leaseID i = [] \<and> in_expiresAt i = None \<and> in_runRevision i = 0
            \<and> in_terminalKind i = None \<and> in_acceptedAt i = None
        | InspectionTerminal \<Rightarrow> in_leaseID i = [] \<and> in_expiresAt i = None \<and> 1 \<le> in_runRevision i
            \<and> (case in_terminalKind i of None \<Rightarrow> False | Some k \<Rightarrow> TerminalKind_Valid k)
            \<and> (case in_acceptedAt i of None \<Rightarrow> False | Some t \<Rightarrow> t \<noteq> zero_time \<and> \<not> in_serverTime i < t)))"

text \<open>\<open>DiscoveryNone\<close> is a discovery without an attempt.\<close>

record discovery =
  di_serverTime :: time
  di_availability :: string
  di_slot :: "(time \<times> inspection) option"

definition Discovery_Valid :: "discovery \<Rightarrow> bool" where
  "Discovery_Valid d =
    (di_serverTime d \<noteq> zero_time
     \<and> di_availability d \<in> {''UNREPORTED'', ''AVAILABLE'', ''DRAINING'', ''UNAVAILABLE''}
     \<and> (case di_slot d of
          None \<Rightarrow> True
        | Some (expiry, i) \<Rightarrow> di_availability d \<noteq> ''UNREPORTED'' \<and> di_serverTime d < expiry \<and> Inspection_Valid i
            \<and> in_serverTime i = di_serverTime d
            \<and> (in_state i = InspectionTerminal \<or> in_state i = InspectionActive \<and> in_expiresAt i = Some expiry)))"

end
