(* ===== verification/Pg_Native.thy ===== *)
theory Pg_Native
  imports Native_Domain Pg_Baselines
begin

text \<open>
  Package \<open>internal/postgres\<close>, native execution authority: \<open>native_workers.go\<close>,
  \<open>native_leases.go\<close>, \<open>native_baseline_leases.go\<close>, \<open>native_renewals.go\<close> and
  \<open>native_releases.go\<close>, with the tables of migrations 0007 to 0016 and 0024. JSON columns are
  represented by the values they decode to; a \<open>bytea\<close> column by its hexadecimal text. The
  table constraints that a statement can violate are checked where the statement runs.

  Every method takes the worker's identity lock, then the Run row, then the lease row, and
  reads the clock under them, so it is atomic; only the search of a lease by its identifier
  runs before the locks, on an older snapshot \<open>old\<close> of the lease table.
\<close>

section \<open>Tables\<close>

record presence_row =
  pw_observedAt :: time
  pw_availability :: string
  pw_qualified :: bool
  pw_authorized :: bool
  pw_presence :: presence

record native_lease_row =
  lx_leaseID :: string
  lx_attemptID :: string
  lx_workerID :: string
  lx_protocolVersion :: int
  lx_capabilitySHA256 :: string
  lx_issuedAt :: time
  lx_expiresAt :: time
  lx_renewAfterSeconds :: int
  lx_plan :: bl_plan
  lx_release :: "(time \<times> release_reason \<times> string option) option"

record native_artifact_row =
  nr_grantID :: string
  nr_uri :: string
  nr_kind :: string
  nr_format :: string
  nr_registeredAt :: time

record terminal_row =
  tt_workerID :: string
  tt_protocolVersion :: int
  tt_request :: terminal_request
  tt_resultingRevision :: int
  tt_acceptedAt :: time

record native_db = baseline_db +
  nd_presence :: "(string, presence_row) table"
  nd_leases :: "(string, native_lease_row) table"
  nd_grants :: "(string, upload_reservation) table"
  nd_artifacts :: "(string, native_artifact_row) table"
  nd_terminals :: "(string, terminal_row) table"

definition native_empty :: native_db where
  "native_empty = baseline_db.extend baseline_empty
     \<lparr>nd_presence = [], nd_leases = [], nd_grants = [], nd_artifacts = [], nd_terminals = []\<rparr>"

text \<open>SQLSTATE of a violated check, of a violated key, and of a NUL in a text value.\<close>

definition check_violation :: err where
  "check_violation = storageError (PgError ''23514'')"

definition unique_violation :: err where
  "unique_violation = storageError (PgError ''23505'')"

definition nul_rejected :: err where
  "nul_rejected = storageError (PgError ''22021'')"

definition text_value :: "string \<Rightarrow> bool" where
  "text_value s = (CHR 0x00 \<notin> set s)"

section \<open>Random identifiers (native_leases.go)\<close>

definition hex_byte :: "8 word \<Rightarrow> string" where
  "hex_byte b = [hex_digit (unat b div 16), hex_digit (unat b mod 16)]"

definition hex_bytes :: "8 word list \<Rightarrow> string" where
  "hex_bytes bs = concat (map hex_byte bs)"

text \<open>The sixteen (or thirty-two) bytes are what \<open>rand.Read\<close> filled in.\<close>

definition newUUID :: "8 word list \<Rightarrow> string" where
  "newUUID v =
    (let v = v[6 := (v ! 6 AND 0x0f) OR 0x40]; v = v[8 := (v ! 8 AND 0x3f) OR 0x80]
     in hex_bytes (take 4 v) @ ''-'' @ hex_bytes (take 2 (drop 4 v)) @ ''-'' @ hex_bytes (take 2 (drop 6 v)) @ ''-''
        @ hex_bytes (take 2 (drop 8 v)) @ ''-'' @ hex_bytes (drop 10 v))"

definition newNativeLeaseCapability :: "8 word list \<Rightarrow> string \<times> string" where
  "newNativeLeaseCapability v = (let capability = hex_bytes v in (capability, sha256_hex capability))"

text \<open>What one acquisition draws: lease, attempt and capability.\<close>

record native_random =
  rd_lease :: "8 word list"
  rd_attempt :: "8 word list"
  rd_capability :: "8 word list"

section \<open>Presence (native_workers.go)\<close>

text \<open>\<open>ObservedDocument\<close> is \<open>Some\<close> of what it decodes to where it is a v2 presence document.\<close>

record presence_record =
  pc_workerID :: string
  pc_availability :: string
  pc_qualified :: bool
  pc_authorized :: bool
  pc_document :: "presence option"

definition validNativeWorkerPresenceRecord :: "presence_record \<Rightarrow> bool" where
  "validNativeWorkerPresenceRecord r =
    (ValidNativeWorkerIdentifier (pc_workerID r)
     \<and> (case pc_document r of None \<Rightarrow> False | Some doc \<Rightarrow> pr_availability doc = pc_availability r))"

definition presence_row_ok :: "presence_row \<Rightarrow> bool" where
  "presence_row_ok r =
    (pw_availability r \<in> {''AVAILABLE'', ''DRAINING'', ''UNAVAILABLE''} \<and> pr_protocolVersion (pw_presence r) = 2
     \<and> pr_availability (pw_presence r) = pw_availability r)"

definition pg_RecordNativeWorkerV2Presence ::
  "tx_fault \<Rightarrow> time \<Rightarrow> presence_record \<Rightarrow> 'x native_db_scheme \<Rightarrow> (err + time) \<times> 'x native_db_scheme" where [store_defs]:
  "pg_RecordNativeWorkerV2Presence fault now r d =
    (if \<not> validNativeWorkerPresenceRecord r then (Inl ErrValidation, d)
     else transact fault (\<lambda>d.
       (case pc_document r of
          None \<Rightarrow> Abort ErrValidation
        | Some doc \<Rightarrow>
            (let row = \<lparr>pw_observedAt = now, pw_availability = pc_availability r, pw_qualified = pc_qualified r,
                   pw_authorized = pc_authorized r, pw_presence = doc\<rparr>
             in if \<not> presence_row_ok row then Abort check_violation
                else Commit now (d\<lparr>nd_presence := tput (pc_workerID r) row (nd_presence d)\<rparr>)))) d)"

section \<open>Candidates and acquisition (native_leases.go, native_baseline_leases.go)\<close>

definition live_row :: "time \<Rightarrow> native_lease_row \<Rightarrow> bool" where
  "live_row now l = (lx_release l = None \<and> now < lx_expiresAt l)"

text \<open>\<open>q i\<close> is the clock the row of Run \<open>i\<close> is tested with.\<close>

definition pg_NativeCandidates ::
  "db_error option \<Rightarrow> (string \<Rightarrow> time) \<Rightarrow> int \<Rightarrow> 'x native_db_scheme \<Rightarrow> err + native_candidate list" where [store_defs]:
  "pg_NativeCandidates fault q limit d =
    (if \<not> ValidCandidateLimit limit then Inl ErrValidation
     else case fault of Some x \<Rightarrow> Inl (storageError x)
     | None \<Rightarrow>
       Inr (map (\<lambda>row. \<lparr>nc_principal = rr_principal (snd row), nc_run = rr_snapshot (snd row)\<rparr>)
         (take (nat limit) (sort_key fst (filter (\<lambda>row.
            rr_target (snd row) = ExecutionTargetNativeLinux \<and> r_state (rr_snapshot (snd row)) = StateCreated
            \<and> (case map_of (nd_leases d) (fst row) of None \<Rightarrow> True | Some l \<Rightarrow> \<not> live_row (q (fst row)) l))
          (d_runs (bd_core d)))))))"

text \<open>\<open>None\<close> is the empty snapshot of a Run that is not there.\<close>

definition lockNativeRun :: "string \<Rightarrow> 'x native_db_scheme \<Rightarrow> run_row option" where
  "lockNativeRun i d = map_of (d_runs (bd_core d)) i"

definition nativeWorkerOccupied :: "string \<Rightarrow> time \<Rightarrow> 'x native_db_scheme \<Rightarrow> bool" where
  "nativeWorkerOccupied workerID now d =
    list_ex (\<lambda>row. lx_workerID (snd row) = workerID \<and> live_row now (snd row)) (nd_leases d)"

definition nativeRunLeased :: "string \<Rightarrow> time \<Rightarrow> 'x native_db_scheme \<Rightarrow> bool" where
  "nativeRunLeased i now d = (case map_of (nd_leases d) i of None \<Rightarrow> False | Some l \<Rightarrow> live_row now l)"

definition lease_row_ok :: "native_lease_row \<Rightarrow> bool" where
  "lease_row_ok l =
    (5 \<le> lx_renewAfterSeconds l \<and> lx_renewAfterSeconds l \<le> 300 \<and> lx_issuedAt l < lx_expiresAt l
     \<and> (case lx_release l of None \<Rightarrow> True | Some (t, _, _) \<Rightarrow> lx_issuedAt l \<le> t \<and> lx_expiresAt l \<le> t))"

text \<open>\<open>None\<close> where the conditional upsert writes no row.\<close>

definition persistNativeLease ::
  "native_random \<Rightarrow> string \<Rightarrow> string \<Rightarrow> bl_plan \<Rightarrow> time \<Rightarrow> duration \<Rightarrow> duration \<Rightarrow> 'x native_db_scheme
    \<Rightarrow> err + ((string \<times> string \<times> string) \<times> 'x native_db_scheme) option" where
  "persistNativeLease rd workerID runID plan now ttl renewAfter d =
    (let leaseID = newUUID (rd_lease rd); attemptID = newUUID (rd_attempt rd);
         (capability, digest) = newNativeLeaseCapability (rd_capability rd);
         row = \<lparr>lx_leaseID = leaseID, lx_attemptID = attemptID, lx_workerID = workerID, lx_protocolVersion = 2,
           lx_capabilitySHA256 = digest, lx_issuedAt = now, lx_expiresAt = now + ttl,
           lx_renewAfterSeconds = renewAfter div seconds 1, lx_plan = plan, lx_release = None\<rparr>
     in if \<not> lease_row_ok row then Inl check_violation
        else if \<exists>r\<in>set (nd_leases d). fst r \<noteq> runID \<and> (lx_leaseID (snd r) = leaseID \<or> lx_attemptID (snd r) = attemptID)
          then Inl unique_violation
        else (case map_of (nd_leases d) runID of
           None \<Rightarrow> Inr (Some ((leaseID, attemptID, capability), d\<lparr>nd_leases := tput runID row (nd_leases d)\<rparr>))
         | Some l \<Rightarrow>
             if lx_release l \<noteq> None \<or> lx_expiresAt l \<le> now
             then Inr (Some ((leaseID, attemptID, capability), d\<lparr>nd_leases := tput runID row (nd_leases d)\<rparr>))
             else Inr None))"

record presence_observation =
  po_workerID :: string
  po_observedAt :: time
  po_presence :: presence

definition invalid_presence :: err where
  "invalid_presence = ErrOther ''invalid stored v2 native worker presence''"

definition pg_EligibleNativeWorkerV2 ::
  "db_error option \<Rightarrow> time \<Rightarrow> string \<Rightarrow> duration \<Rightarrow> 'x native_db_scheme \<Rightarrow> err + presence_observation" where [store_defs]:
  "pg_EligibleNativeWorkerV2 fault now workerID maximumAge d =
    (if \<not> ValidNativeWorkerIdentifier workerID \<or> \<not> ValidPresenceMaximumAge maximumAge then Inl ErrValidation
     else case fault of Some x \<Rightarrow> Inl (storageError x)
     | None \<Rightarrow> (case map_of (nd_presence d) workerID of
         None \<Rightarrow> Inl (storageError NoRows)
       | Some row \<Rightarrow>
           if \<not> (pw_availability row = ''AVAILABLE'' \<and> pw_qualified row \<and> pw_authorized row
                  \<and> now - seconds (maximumAge div seconds 1) < pw_observedAt row) then Inl (storageError NoRows)
           else if pr_availability (pw_presence row) \<noteq> ''AVAILABLE'' then Inl invalid_presence
           else Inr \<lparr>po_workerID = workerID, po_observedAt = pw_observedAt row, po_presence = pw_presence row\<rparr>))"

text \<open>\<open>None\<close> where no row is found; the flag is the eligibility.\<close>

definition lockNativeWorkerV2Presence :: "string \<Rightarrow> 'x native_db_scheme \<Rightarrow> err + (time \<times> presence \<times> bool) option" where
  "lockNativeWorkerV2Presence workerID d =
    (case map_of (nd_presence d) workerID of
       None \<Rightarrow> Inr None
     | Some row \<Rightarrow>
         if pr_availability (pw_presence row) \<noteq> pw_availability row then Inl invalid_presence
         else Inr (Some (pw_observedAt row, pw_presence row,
           pw_availability row = ''AVAILABLE'' \<and> pw_qualified row \<and> pw_authorized row)))"

definition baselinePlanMatchesRun :: "bl_plan \<Rightarrow> run \<Rightarrow> bool" where
  "baselinePlanMatchesRun plan r =
    (ba_catalogueTestID (pl_assignment plan) = testSuite (r_request r)
     \<and> ba_profile (pl_assignment plan) = profile (r_request r)
     \<and> nt_environmentID (ba_target (pl_assignment plan)) = ref_id (environment (r_request r)))"

definition validNativeBaselineLeaseRequest ::
  "string \<Rightarrow> time \<Rightarrow> native_candidate \<Rightarrow> bl_plan \<Rightarrow> duration \<Rightarrow> duration \<Rightarrow> duration \<Rightarrow> bool" where
  "validNativeBaselineLeaseRequest workerID expectedAt cand plan maximumAge ttl renewAfter =
    (ValidNativeWorkerIdentifier workerID \<and> expectedAt \<noteq> zero_time \<and> nc_principal cand \<noteq> []
     \<and> ValidID (r_id (nc_run cand)) \<and> 1 \<le> r_revision (nc_run cand) \<and> r_state (nc_run cand) = StateCreated
     \<and> is_ok (Request_Validate (r_request (nc_run cand))) \<and> Plan_valid plan
     \<and> ValidPresenceMaximumAge maximumAge \<and> ValidLeasePolicy ttl renewAfter)"

text \<open>The checks under the locks, after the presence was found eligible.\<close>

definition acquirable :: "time \<Rightarrow> time \<Rightarrow> native_candidate \<Rightarrow> bl_plan \<Rightarrow> duration \<Rightarrow> run_row \<Rightarrow> bool" where
  "acquirable now observedAt cand plan maximumAge row =
    (\<not> maximumAge \<le> now - observedAt \<and> rr_principal row = nc_principal cand
     \<and> rr_target row = ExecutionTargetNativeLinux \<and> r_state (rr_snapshot row) = StateCreated
     \<and> r_revision (rr_snapshot row) = r_revision (nc_run cand) \<and> r_request (rr_snapshot row) = r_request (nc_run cand)
     \<and> baselinePlanMatchesRun plan (rr_snapshot row))"

definition acquire_body ::
  "native_random \<Rightarrow> time \<Rightarrow> string \<Rightarrow> time \<Rightarrow> native_candidate \<Rightarrow> bl_plan \<Rightarrow> duration \<Rightarrow> duration \<Rightarrow> duration
    \<Rightarrow> 'x native_db_scheme \<Rightarrow> (native_lease option, 'x native_db_scheme) tx_result" where [store_defs]:
  "acquire_body rd now workerID expectedAt cand plan maximumAge ttl renewAfter d =
    (case lockNativeWorkerV2Presence workerID d of
       Inl e \<Rightarrow> Abort e
     | Inr None \<Rightarrow> Rollback None
     | Inr (Some (observedAt, presence, eligible)) \<Rightarrow>
         if \<not> eligible \<or> observedAt \<noteq> expectedAt \<or> \<not> SupportsBaseline presence plan then Rollback None
         else (case lockNativeRun (r_id (nc_run cand)) d of
            None \<Rightarrow> Rollback None
          | Some row \<Rightarrow>
              if \<not> acquirable now observedAt cand plan maximumAge row then Rollback None
              else if nativeWorkerOccupied workerID now d then Rollback None
              else if nativeRunLeased (r_id (rr_snapshot row)) now d then Rollback None
              else (case persistNativeLease rd workerID (r_id (rr_snapshot row)) plan now ttl renewAfter d of
                 Inl e \<Rightarrow> Abort e
               | Inr None \<Rightarrow> Rollback None
               | Inr (Some ((leaseID, attemptID, capability), d')) \<Rightarrow>
                   Commit (Some \<lparr>nl_leaseID = leaseID, nl_attemptID = attemptID, nl_runID = r_id (rr_snapshot row),
                     nl_runRevision = r_revision (rr_snapshot row), nl_issuedAt = now, nl_expiresAt = now + ttl,
                     nl_renewAfterSeconds = renewAfter div seconds 1, nl_plan = plan, nl_capability = capability\<rparr>) d')))"

text \<open>\<open>None\<close> where the method reports \<open>acquired = false\<close>.\<close>

definition pg_AcquireNativeBaselineLease ::
  "tx_fault \<Rightarrow> native_random \<Rightarrow> time \<Rightarrow> string \<Rightarrow> time \<Rightarrow> native_candidate \<Rightarrow> bl_plan \<Rightarrow> duration \<Rightarrow> duration \<Rightarrow> duration
    \<Rightarrow> 'x native_db_scheme \<Rightarrow> (err + native_lease option) \<times> 'x native_db_scheme" where [store_defs]:
  "pg_AcquireNativeBaselineLease fault rd now workerID expectedAt cand plan maximumAge ttl renewAfter d =
    (if \<not> validNativeBaselineLeaseRequest workerID expectedAt cand plan maximumAge ttl renewAfter
     then (Inl ErrValidation, d)
     else transact fault (acquire_body rd now workerID expectedAt cand plan maximumAge ttl renewAfter) d)"

section \<open>Lease scopes and renewal (native_renewals.go)\<close>

record native_scope =
  ns_runID :: string
  ns_current :: run
  ns_stored :: native_lease_row
  ns_now :: time

definition nativeLeaseLocation :: "string \<Rightarrow> int \<Rightarrow> (string, native_lease_row) table \<Rightarrow> err + string \<times> string" where
  "nativeLeaseLocation leaseID version old =
    (case find (\<lambda>row. lx_leaseID (snd row) = leaseID \<and> lx_protocolVersion (snd row) = version) old of
       None \<Rightarrow> Inl ErrLeaseGone
     | Some row \<Rightarrow> Inr (fst row, lx_workerID (snd row)))"

definition lockNativeWorker :: "string \<Rightarrow> int \<Rightarrow> 'x native_db_scheme \<Rightarrow> err + unit" where
  "lockNativeWorker workerID version d =
    (if version \<noteq> 2 then Inl ErrValidation
     else if map_of (nd_presence d) workerID = None then Inl ErrLeaseGone
     else Inr ())"

definition lockedNativeLease :: "string \<Rightarrow> int \<Rightarrow> 'x native_db_scheme \<Rightarrow> err + native_lease_row" where
  "lockedNativeLease i version d =
    (case map_of (nd_leases d) i of
       None \<Rightarrow> Inl ErrLeaseGone
     | Some l \<Rightarrow> if lx_protocolVersion l = version then Inr l else Inl ErrLeaseGone)"

definition lockNativeRenewalScopeVersion ::
  "(string, native_lease_row) table \<Rightarrow> time \<Rightarrow> string \<Rightarrow> string \<Rightarrow> int \<Rightarrow> 'x native_db_scheme \<Rightarrow> err + native_scope" where
  "lockNativeRenewalScopeVersion old now workerID leaseID version d =
    (case nativeLeaseLocation leaseID version old of
       Inl e \<Rightarrow> Inl e
     | Inr (runID, leasedWorker) \<Rightarrow>
         if leasedWorker \<noteq> workerID then Inl ErrLeaseGone
         else (case lockNativeWorker workerID version d of
            Inl e \<Rightarrow> Inl e
          | Inr _ \<Rightarrow>
              (case lockNativeRun runID d of
                 None \<Rightarrow> Inl ErrLeaseGone
               | Some row \<Rightarrow>
                   if r_id (rr_snapshot row) = [] then Inl ErrLeaseGone
                   else if r_id (rr_snapshot row) \<noteq> runID \<or> rr_target row \<noteq> ExecutionTargetNativeLinux
                     then Inl (ErrOther ''invalid stored native execution target'')
                   else (case lockedNativeLease runID version d of
                      Inl e \<Rightarrow> Inl e
                    | Inr stored \<Rightarrow>
                        Inr \<lparr>ns_runID = runID, ns_current = rr_snapshot row, ns_stored = stored, ns_now = now\<rparr>))))"

definition matchingNativeLeaseAuthority :: "native_lease_row \<Rightarrow> string \<Rightarrow> string \<Rightarrow> string \<Rightarrow> string \<Rightarrow> bool" where
  "matchingNativeLeaseAuthority stored workerID leaseID attemptID capability =
    (lx_leaseID stored = leaseID \<and> lx_attemptID stored = attemptID \<and> lx_workerID stored = workerID
     \<and> lx_capabilitySHA256 stored = sha256_hex capability)"

definition currentNativeLease :: "native_lease_row \<Rightarrow> string \<Rightarrow> renewal_request \<Rightarrow> time \<Rightarrow> bool" where
  "currentNativeLease stored workerID rq now =
    (matchingNativeLeaseAuthority stored workerID (rq_leaseID rq) (rq_attemptID rq) (rq_capability rq)
     \<and> lx_release stored = None \<and> now < lx_expiresAt stored)"

definition updateNativeRun :: "run \<Rightarrow> 'x native_db_scheme \<Rightarrow> 'x native_db_scheme" where
  "updateNativeRun r d = d\<lparr>bd_core := put_snapshot (r_id r) r (bd_core d)\<rparr>"

text \<open>\<open>UPDATE native_execution_leases ... WHERE run_id = i\<close>, under the table's checks.\<close>

definition update_native_lease ::
  "string \<Rightarrow> (native_lease_row \<Rightarrow> native_lease_row) \<Rightarrow> 'x native_db_scheme \<Rightarrow> err + 'x native_db_scheme" where
  "update_native_lease i f d =
    (case map_of (nd_leases d) i of
       None \<Rightarrow> Inr d
     | Some l \<Rightarrow> if lease_row_ok (f l) then Inr (d\<lparr>nd_leases := tput i (f l) (nd_leases d)\<rparr>) else Inl check_violation)"

text \<open>The Run snapshot is written only where the revision moved.\<close>

definition write_run :: "run \<Rightarrow> run \<Rightarrow> 'x native_db_scheme \<Rightarrow> 'x native_db_scheme" where
  "write_run current next d = (if r_revision next \<noteq> r_revision current then updateNativeRun next d else d)"

definition renewal_next :: "native_scope \<Rightarrow> renewal_request \<Rightarrow> err + run" where
  "renewal_next scope rq =
    (if r_state (ns_current scope) = StateCancelling then Inr (ns_current scope)
     else AdvancePhase (ns_current scope) (r_revision (ns_current scope)) (rq_phase rq) (ns_now scope))"

definition renewal_of :: "native_scope \<Rightarrow> renewal_request \<Rightarrow> run \<Rightarrow> duration \<Rightarrow> duration \<Rightarrow> renewal" where
  "renewal_of scope rq next ttl grace =
    \<lparr>rn_leaseID = rq_leaseID rq, rn_attemptID = rq_attemptID rq, rn_runRevision = r_revision next,
     rn_serverTime = ns_now scope, rn_expiresAt = ns_now scope + ttl,
     rn_renewAfterSeconds = lx_renewAfterSeconds (ns_stored scope),
     rn_cancellationRequested = (r_state (ns_current scope) = StateCancelling),
     rn_stopBy = (if r_state (ns_current scope) = StateCancelling then Some (ns_now scope + grace) else None)\<rparr>"

definition renew_scope ::
  "native_scope \<Rightarrow> string \<Rightarrow> renewal_request \<Rightarrow> duration \<Rightarrow> duration \<Rightarrow> 'x native_db_scheme \<Rightarrow> (renewal, 'x native_db_scheme) tx_result"
  where [store_defs]:
  "renew_scope scope workerID rq ttl grace d =
    (if \<not> currentNativeLease (ns_stored scope) workerID rq (ns_now scope) then Abort ErrLeaseGone
     else if r_revision (ns_current scope) \<noteq> rq_revision rq then Abort ErrRevision
     else if Terminal (r_state (ns_current scope)) then Abort ErrLeaseGone
     else if \<not> ValidLeasePolicy ttl (seconds (lx_renewAfterSeconds (ns_stored scope)))
       then Abort (ErrOther ''invalid stored native lease policy'')
     else (case renewal_next scope rq of
        Inl e \<Rightarrow> Abort e
      | Inr next \<Rightarrow>
          (case update_native_lease (ns_runID scope) (\<lambda>l. l\<lparr>lx_expiresAt := ns_now scope + ttl\<rparr>)
                  (write_run (ns_current scope) next d) of
             Inl e \<Rightarrow> Abort e
           | Inr d' \<Rightarrow>
               if \<not> Renewal_Valid (renewal_of scope rq next ttl grace) then Abort (ErrOther ''invalid native lease renewal'')
               else Commit (renewal_of scope rq next ttl grace) d')))"

definition renewNativeLease ::
  "tx_fault \<Rightarrow> (string, native_lease_row) table \<Rightarrow> time \<Rightarrow> string \<Rightarrow> renewal_request \<Rightarrow> duration \<Rightarrow> duration \<Rightarrow> int
    \<Rightarrow> 'x native_db_scheme \<Rightarrow> (err + renewal) \<times> 'x native_db_scheme" where [store_defs]:
  "renewNativeLease fault old now workerID rq ttl grace version d =
    (if \<not> ValidNativeWorkerIdentifier workerID \<or> \<not> RenewalRequest_Valid rq \<or> \<not> ValidLeaseTTL ttl
        \<or> \<not> ValidCancellationGrace grace ttl then (Inl ErrValidation, d)
     else transact fault (\<lambda>d.
       (case lockNativeRenewalScopeVersion old now workerID (rq_leaseID rq) version d of
          Inl e \<Rightarrow> Abort e
        | Inr scope \<Rightarrow> renew_scope scope workerID rq ttl grace d)) d)"

definition pg_RenewNativeBaselineLease ::
  "tx_fault \<Rightarrow> (string, native_lease_row) table \<Rightarrow> time \<Rightarrow> string \<Rightarrow> renewal_request \<Rightarrow> duration \<Rightarrow> duration
    \<Rightarrow> 'x native_db_scheme \<Rightarrow> (err + renewal) \<times> 'x native_db_scheme" where [store_defs]:
  "pg_RenewNativeBaselineLease fault old now workerID rq ttl grace d =
    renewNativeLease fault old now workerID rq ttl grace 2 d"

section \<open>Release (native_releases.go)\<close>

definition releasedNativeRun :: "run \<Rightarrow> release_reason \<Rightarrow> time \<Rightarrow> err + run" where
  "releasedNativeRun current reason now =
    (if reason = ReleaseCancellationRequested then
       (if r_state current \<noteq> StateCancelling then Inl ErrConflict
        else Run_Transition current (r_revision current) (to_state StateAborted) now)
     else if r_state current = StateCancelling then Inl ErrConflict
     else Inr current)"

definition release_scope ::
  "native_scope \<Rightarrow> string \<Rightarrow> release_request \<Rightarrow> 'x native_db_scheme \<Rightarrow> (unit, 'x native_db_scheme) tx_result" where [store_defs]:
  "release_scope scope workerID rq d =
    (if \<not> matchingNativeLeaseAuthority (ns_stored scope) workerID (rl_leaseID rq) (rl_attemptID rq) (rl_capability rq)
     then Abort ErrLeaseGone
     else (case lx_release (ns_stored scope) of
        Some (_, reason, _) \<Rightarrow> if reason = rl_reason rq then Rollback () else Abort ErrConflict
      | None \<Rightarrow>
          if \<not> ns_now scope < lx_expiresAt (ns_stored scope) \<or> Terminal (r_state (ns_current scope)) then Abort ErrLeaseGone
          else if r_revision (ns_current scope) \<noteq> rl_revision rq then Abort ErrRevision
          else (case releasedNativeRun (ns_current scope) (rl_reason rq) (ns_now scope) of
             Inl e \<Rightarrow> Abort e
           | Inr next \<Rightarrow>
               if \<not> text_value (rl_message rq) then Abort nul_rejected
               else (case update_native_lease (ns_runID scope) (\<lambda>l. l\<lparr>lx_expiresAt := ns_now scope,
                       lx_release := Some (ns_now scope, rl_reason rq, if rl_message rq = [] then None else Some (rl_message rq))\<rparr>)
                       (write_run (ns_current scope) next d) of
                  Inl e \<Rightarrow> Abort e
                | Inr d' \<Rightarrow> Commit () d'))))"

definition releaseNativeLease ::
  "tx_fault \<Rightarrow> (string, native_lease_row) table \<Rightarrow> time \<Rightarrow> string \<Rightarrow> release_request \<Rightarrow> int
    \<Rightarrow> 'x native_db_scheme \<Rightarrow> (err + unit) \<times> 'x native_db_scheme" where [store_defs]:
  "releaseNativeLease fault old now workerID rq version d =
    (if \<not> ValidNativeWorkerIdentifier workerID \<or> \<not> ReleaseRequest_Valid rq then (Inl ErrValidation, d)
     else transact fault (\<lambda>d.
       (case lockNativeRenewalScopeVersion old now workerID (rl_leaseID rq) version d of
          Inl e \<Rightarrow> Abort e
        | Inr scope \<Rightarrow> release_scope scope workerID rq d)) d)"

definition pg_ReleaseNativeBaselineLease ::
  "tx_fault \<Rightarrow> (string, native_lease_row) table \<Rightarrow> time \<Rightarrow> string \<Rightarrow> release_request
    \<Rightarrow> 'x native_db_scheme \<Rightarrow> (err + unit) \<times> 'x native_db_scheme" where [store_defs]:
  "pg_ReleaseNativeBaselineLease fault old now workerID rq d = releaseNativeLease fault old now workerID rq 2 d"

end
