(* ===== verification/Pg_Native_Evidence.thy ===== *)
theory Pg_Native_Evidence
  imports Pg_Native
begin

text \<open>
  Package \<open>internal/postgres\<close>, what a native attempt leaves behind: upload grants
  (\<open>native_upload_grants.go\<close>), registered artifacts (\<open>native_artifacts.go\<close>), the terminal
  report (\<open>native_terminal.go\<close>) and the two observations of an attempt
  (\<open>native_inspection.go\<close>, \<open>native_discovery.go\<close>).
\<close>

section \<open>Upload grants (native_upload_grants.go)\<close>

definition nativePlannedArtifactSlot :: "bl_plan \<Rightarrow> int \<Rightarrow> string \<Rightarrow> string \<Rightarrow> int \<Rightarrow> err + artifact_slot" where
  "nativePlannedArtifactSlot plan version name mediaType n =
    (if version \<noteq> 2 then Inl ErrValidation
     else if \<not> Plan_valid plan then Inl (ErrOther ''invalid stored native baseline plan'')
     else case MatchArtifactSlot plan name mediaType n of None \<Rightarrow> Inl ErrArtifactPlan | Some slot \<Rightarrow> Inr slot)"

text \<open>The lease of the scope still carries the caller's authority over an unfinished Run.\<close>

definition live_authority :: "native_scope \<Rightarrow> string \<Rightarrow> string \<Rightarrow> string \<Rightarrow> string \<Rightarrow> bool" where
  "live_authority scope workerID leaseID attemptID capability =
    (matchingNativeLeaseAuthority (ns_stored scope) workerID leaseID attemptID capability
     \<and> lx_release (ns_stored scope) = None \<and> ns_now scope < lx_expiresAt (ns_stored scope)
     \<and> \<not> Terminal (r_state (ns_current scope)))"

definition nativeUploadReservation ::
  "native_scope \<Rightarrow> string \<Rightarrow> upload_request \<Rightarrow> duration \<Rightarrow> int \<Rightarrow> err + upload_reservation" where
  "nativeUploadReservation scope workerID rq ttl version =
    (if \<not> live_authority scope workerID (ur_leaseID rq) (ur_attemptID rq) (ur_capability rq) then Inl ErrLeaseGone
     else if r_revision (ns_current scope) \<noteq> ur_revision rq then Inl ErrRevision
     else (case nativePlannedArtifactSlot (lx_plan (ns_stored scope)) version (ur_slot rq) (ur_mediaType rq) (ur_size rq) of
        Inl e \<Rightarrow> Inl e
      | Inr slot \<Rightarrow>
          Inr \<lparr>up_grantID = [], up_leaseID = ur_leaseID rq, up_attemptID = ur_attemptID rq, up_runID = ns_runID scope,
            up_slot = ur_slot rq, up_objectKey = object_key (ns_runID scope) (ur_attemptID rq) (ur_slot rq),
            up_size = ur_size rq, up_maximumBytes = as_maximumBytes slot, up_sha256 = ur_sha256 rq,
            up_mediaType = ur_mediaType rq, up_issuedAt = ns_now scope,
            up_expiresAt = (if lx_expiresAt (ns_stored scope) < ns_now scope + ttl then lx_expiresAt (ns_stored scope)
                            else ns_now scope + ttl)\<rparr>))"

definition stored_reservation :: "upload_reservation option \<Rightarrow> err + upload_reservation option" where
  "stored_reservation r =
    (case r of None \<Rightarrow> Inr None
     | Some g \<Rightarrow> if UploadReservation_Valid g then Inr (Some g) else Inl (ErrOther ''invalid stored native upload reservation''))"

definition lockedNativeUploadReservation :: "string \<Rightarrow> string \<Rightarrow> 'x native_db_scheme \<Rightarrow> err + upload_reservation option" where
  "lockedNativeUploadReservation leaseID slot d =
    stored_reservation (find (\<lambda>g. up_leaseID g = leaseID \<and> up_slot g = slot) (map snd (nd_grants d)))"

definition lockedNativeUploadReservationByGrant :: "string \<Rightarrow> 'x native_db_scheme \<Rightarrow> err + upload_reservation option" where
  "lockedNativeUploadReservationByGrant grantID d = stored_reservation (map_of (nd_grants d) grantID)"

definition sameNativeUploadDeclaration :: "upload_reservation \<Rightarrow> upload_reservation \<Rightarrow> bool" where
  "sameNativeUploadDeclaration s r =
    (up_leaseID s = up_leaseID r \<and> up_attemptID s = up_attemptID r \<and> up_runID s = up_runID r \<and> up_slot s = up_slot r
     \<and> up_objectKey s = up_objectKey r \<and> up_size s = up_size r \<and> up_maximumBytes s = up_maximumBytes r
     \<and> up_sha256 s = up_sha256 r \<and> up_mediaType s = up_mediaType r)"

definition grant_row_ok :: "upload_reservation \<Rightarrow> bool" where
  "grant_row_ok g =
    (rx_match worker_identifier_pattern (up_slot g) \<and> 1 \<le> up_size g \<and> up_size g \<le> 536870912
     \<and> up_size g \<le> up_maximumBytes g \<and> up_maximumBytes g \<le> 536870912 \<and> length (up_sha256 g) = 64
     \<and> rx_match media_type_pattern (up_mediaType g) \<and> up_issuedAt g < up_expiresAt g
     \<and> up_objectKey g = object_key (up_runID g) (up_attemptID g) (up_slot g))"

definition hex_DecodeString_ok :: "string \<Rightarrow> bool" where
  "hex_DecodeString_ok s = (even (length s) \<and> list_all (\<lambda>c. is_lower_hex c \<or> is_upper_hex c) s)"

definition persistNativeUploadReservation ::
  "8 word list \<Rightarrow> upload_reservation \<Rightarrow> 'x native_db_scheme \<Rightarrow> err + upload_reservation \<times> 'x native_db_scheme" where
  "persistNativeUploadReservation rnd r d =
    (case lockedNativeUploadReservation (up_leaseID r) (up_slot r) d of
       Inl e \<Rightarrow> Inl e
     | Inr (Some existing) \<Rightarrow>
         if \<not> sameNativeUploadDeclaration existing r then Inl ErrConflict
         else
           (let row = existing\<lparr>up_issuedAt := up_issuedAt r, up_expiresAt := up_expiresAt r\<rparr>
            in if \<not> grant_row_ok row then Inl check_violation
               else Inr (r\<lparr>up_grantID := up_grantID existing\<rparr>,
                 d\<lparr>nd_grants := tput (up_grantID existing) row (nd_grants d)\<rparr>))
     | Inr None \<Rightarrow>
         (let r = r\<lparr>up_grantID := newUUID rnd\<rparr>; row = r\<lparr>up_sha256 := to_lower (up_sha256 r)\<rparr>
          in if \<not> hex_DecodeString_ok (up_sha256 r) then Inl ErrValidation
             else if \<not> grant_row_ok row then Inl check_violation
             else if map_of (nd_grants d) (up_grantID r) \<noteq> None
                \<or> list_ex (\<lambda>g. up_objectKey (snd g) = up_objectKey r) (nd_grants d) then Inl unique_violation
             else Inr (r, d\<lparr>nd_grants := tput (up_grantID r) row (nd_grants d)\<rparr>)))"

definition reserveNativeUploadGrant ::
  "tx_fault \<Rightarrow> (string, native_lease_row) table \<Rightarrow> 8 word list \<Rightarrow> time \<Rightarrow> string \<Rightarrow> upload_request \<Rightarrow> duration \<Rightarrow> int
    \<Rightarrow> 'x native_db_scheme \<Rightarrow> (err + upload_reservation) \<times> 'x native_db_scheme" where [store_defs]:
  "reserveNativeUploadGrant fault old rnd now workerID rq ttl version d =
    (if \<not> ValidNativeWorkerIdentifier workerID \<or> \<not> UploadRequest_Valid rq \<or> \<not> ValidUploadGrantTTL ttl
     then (Inl ErrValidation, d)
     else transact fault (\<lambda>d.
       (case lockNativeRenewalScopeVersion old now workerID (ur_leaseID rq) version d of
          Inl e \<Rightarrow> Abort e
        | Inr scope \<Rightarrow>
            (case nativeUploadReservation scope workerID rq ttl version of
               Inl e \<Rightarrow> Abort e
             | Inr r \<Rightarrow>
                 (case persistNativeUploadReservation rnd r d of
                    Inl e \<Rightarrow> Abort e
                  | Inr (r', d') \<Rightarrow>
                      if \<not> UploadReservation_Valid r' then Abort (ErrOther ''invalid native upload reservation'')
                      else Commit r' d')))) d)"

definition pg_ReserveNativeBaselineUploadGrant ::
  "tx_fault \<Rightarrow> (string, native_lease_row) table \<Rightarrow> 8 word list \<Rightarrow> time \<Rightarrow> string \<Rightarrow> upload_request \<Rightarrow> duration
    \<Rightarrow> 'x native_db_scheme \<Rightarrow> (err + upload_reservation) \<times> 'x native_db_scheme" where [store_defs]:
  "pg_ReserveNativeBaselineUploadGrant fault old rnd now workerID rq ttl d =
    reserveNativeUploadGrant fault old rnd now workerID rq ttl 2 d"

section \<open>Artifacts (native_artifacts.go)\<close>

definition lockNativeArtifactCandidate ::
  "(string, native_lease_row) table \<Rightarrow> time \<Rightarrow> string \<Rightarrow> registration_request \<Rightarrow> int \<Rightarrow> 'x native_db_scheme
    \<Rightarrow> err + artifact_candidate \<times> native_scope" where
  "lockNativeArtifactCandidate old now workerID rq version d =
    (case lockNativeRenewalScopeVersion old now workerID (rg_leaseID rq) version d of
       Inl e \<Rightarrow> Inl e
     | Inr scope \<Rightarrow>
         if \<not> live_authority scope workerID (rg_leaseID rq) (rg_attemptID rq) (rg_capability rq) then Inl ErrLeaseGone
         else if r_revision (ns_current scope) \<noteq> rg_revision rq then Inl ErrRevision
         else (case lockedNativeUploadReservationByGrant (rg_grantID rq) d of
            Inl e \<Rightarrow> Inl e
          | Inr None \<Rightarrow> Inl ErrUploadGrantMismatch
          | Inr (Some g) \<Rightarrow>
              if up_leaseID g \<noteq> rg_leaseID rq \<or> up_attemptID g \<noteq> rg_attemptID rq \<or> up_runID g \<noteq> ns_runID scope
                 \<or> up_slot g \<noteq> rg_slot rq \<or> up_size g \<noteq> rg_size rq \<or> up_sha256 g \<noteq> rg_sha256 rq
              then Inl ErrUploadGrantMismatch
              else (case nativePlannedArtifactSlot (lx_plan (ns_stored scope)) version (up_slot g) (up_mediaType g) (up_size g) of
                 Inl e \<Rightarrow> Inl e
               | Inr slot \<Rightarrow>
                   (let cand = \<lparr>ac_reservation = g, ac_kind = as_kind slot, ac_format = as_format slot\<rparr>
                    in if ArtifactCandidate_Valid cand then Inr (cand, scope)
                       else Inl (ErrOther ''invalid native artifact candidate'')))))"

definition prepareNativeArtifact ::
  "tx_fault \<Rightarrow> (string, native_lease_row) table \<Rightarrow> time \<Rightarrow> string \<Rightarrow> registration_request \<Rightarrow> int
    \<Rightarrow> 'x native_db_scheme \<Rightarrow> (err + artifact_candidate) \<times> 'x native_db_scheme" where [store_defs]:
  "prepareNativeArtifact fault old now workerID rq version d =
    (if \<not> ValidNativeWorkerIdentifier workerID \<or> \<not> RegistrationRequest_Valid rq then (Inl ErrValidation, d)
     else transact fault (\<lambda>d.
       (case lockNativeArtifactCandidate old now workerID rq version d of Inl e \<Rightarrow> Abort e | Inr (c, _) \<Rightarrow> Rollback c)) d)"

definition pg_PrepareNativeBaselineArtifact ::
  "tx_fault \<Rightarrow> (string, native_lease_row) table \<Rightarrow> time \<Rightarrow> string \<Rightarrow> registration_request
    \<Rightarrow> 'x native_db_scheme \<Rightarrow> (err + artifact_candidate) \<times> 'x native_db_scheme" where [store_defs]:
  "pg_PrepareNativeBaselineArtifact fault old now workerID rq d = prepareNativeArtifact fault old now workerID rq 2 d"

definition artifact_reference_of :: "string \<Rightarrow> native_artifact_row \<Rightarrow> upload_reservation \<Rightarrow> artifact_reference" where
  "artifact_reference_of artifactID a g =
    \<lparr>ar_artifactID = artifactID, ar_runID = up_runID g, ar_attemptID = up_attemptID g, ar_slot = up_slot g,
     ar_kind = nr_kind a, ar_uri = nr_uri a, ar_size = up_size g, ar_sha256 = up_sha256 g,
     ar_mediaType = up_mediaType g, ar_registeredAt = nr_registeredAt a, ar_format = nr_format a\<rparr>"

definition lockedNativeArtifact :: "string \<Rightarrow> 'x native_db_scheme \<Rightarrow> err + artifact_reference option" where
  "lockedNativeArtifact grantID d =
    (case find (\<lambda>row. nr_grantID (snd row) = grantID) (nd_artifacts d) of
       None \<Rightarrow> Inr None
     | Some (artifactID, a) \<Rightarrow>
         (case map_of (nd_grants d) grantID of
            None \<Rightarrow> Inr None
          | Some g \<Rightarrow>
              if ArtifactReference_Valid (artifact_reference_of artifactID a g)
              then Inr (Some (artifact_reference_of artifactID a g))
              else Inl (ErrOther ''invalid stored native artifact reference'')))"

definition nativeArtifactMatches :: "artifact_reference \<Rightarrow> verified_artifact \<Rightarrow> bool" where
  "nativeArtifactMatches r v =
    (let c = va_candidate v; g = ac_reservation c
     in ar_runID r = up_runID g \<and> ar_attemptID r = up_attemptID g \<and> ar_slot r = up_slot g \<and> ar_kind r = ac_kind c
        \<and> ar_uri r = va_uri v \<and> ar_size r = up_size g \<and> ar_sha256 r = up_sha256 g \<and> ar_mediaType r = up_mediaType g
        \<and> ar_format r = ac_format c)"

text \<open>\<open>^s3://[a-z0-9][a-z0-9.-]*/runs/[^?#]+$\<close>, the check of the \<open>uri\<close> column.\<close>

definition stored_uri_pattern :: rx where
  "stored_uri_pattern = Seqs [Lit ''s3://'', Cls is_lower_alnum, Star (Cls (\<lambda>c. is_lower_alnum c \<or> c \<in> set ''.-'')),
     Lit ''/runs/'', Many1 (\<lambda>c. c \<notin> set ''?#'')]"

definition artifact_row_ok :: "native_artifact_row \<Rightarrow> bool" where
  "artifact_row_ok a =
    (rx_match stored_uri_pattern (nr_uri a) \<and> rx_match worker_identifier_pattern (nr_kind a)
     \<and> ValidNativeArtifactFormat (nr_format a))"

definition registerNativeArtifact ::
  "tx_fault \<Rightarrow> (string, native_lease_row) table \<Rightarrow> 8 word list \<Rightarrow> time \<Rightarrow> string \<Rightarrow> registration_request
    \<Rightarrow> verified_artifact \<Rightarrow> int \<Rightarrow> 'x native_db_scheme \<Rightarrow> (err + artifact_reference) \<times> 'x native_db_scheme" where [store_defs]:
  "registerNativeArtifact fault old rnd now workerID rq verified version d =
    (if \<not> ValidNativeWorkerIdentifier workerID \<or> \<not> RegistrationRequest_Valid rq \<or> \<not> VerifiedArtifact_Valid verified
     then (Inl ErrValidation, d)
     else transact fault (\<lambda>d.
       (case lockNativeArtifactCandidate old now workerID rq version d of
          Inl e \<Rightarrow> Abort e
        | Inr (cand, scope) \<Rightarrow>
            if va_candidate verified \<noteq> cand then Abort ErrUploadGrantMismatch
            else (case lockedNativeArtifact (rg_grantID rq) d of
               Inl e \<Rightarrow> Abort e
             | Inr (Some reference) \<Rightarrow>
                 if \<not> nativeArtifactMatches reference verified then Abort ErrUploadGrantMismatch else Commit reference d
             | Inr None \<Rightarrow>
                 (let artifactID = newUUID rnd;
                      row = \<lparr>nr_grantID = rg_grantID rq, nr_uri = va_uri verified, nr_kind = ac_kind cand,
                        nr_format = ac_format cand, nr_registeredAt = ns_now scope\<rparr>;
                      reference = artifact_reference_of artifactID row (ac_reservation cand)
                  in if \<not> ArtifactReference_Valid reference then Abort (ErrOther ''invalid native artifact reference'')
                     else if \<not> artifact_row_ok row then Abort check_violation
                     else if map_of (nd_artifacts d) artifactID \<noteq> None then Abort unique_violation
                     else Commit reference (d\<lparr>nd_artifacts := tput artifactID row (nd_artifacts d)\<rparr>))))) d)"

definition pg_RegisterNativeBaselineArtifact ::
  "tx_fault \<Rightarrow> (string, native_lease_row) table \<Rightarrow> 8 word list \<Rightarrow> time \<Rightarrow> string \<Rightarrow> registration_request
    \<Rightarrow> verified_artifact \<Rightarrow> 'x native_db_scheme \<Rightarrow> (err + artifact_reference) \<times> 'x native_db_scheme" where [store_defs]:
  "pg_RegisterNativeBaselineArtifact fault old rnd now workerID rq verified d =
    registerNativeArtifact fault old rnd now workerID rq verified 2 d"

section \<open>Terminal reports (native_terminal.go)\<close>

definition requestWithoutCapabilityValid :: "terminal_row \<Rightarrow> bool" where
  "requestWithoutCapabilityValid t = TerminalRequest_Valid ((tt_request t)\<lparr>tr_capability := replicate 64 (CHR ''a'')\<rparr>)"

definition lockedNativeTerminal :: "string \<Rightarrow> 'x native_db_scheme \<Rightarrow> err + terminal_row option" where
  "lockedNativeTerminal i d =
    (case map_of (nd_terminals d) i of
       None \<Rightarrow> Inr None
     | Some t \<Rightarrow>
         if \<not> ValidNativeWorkerIdentifier (tt_workerID t) \<or> tt_protocolVersion t \<noteq> 2 \<or> \<not> requestWithoutCapabilityValid t
            \<or> tt_resultingRevision t < 1 \<or> tt_acceptedAt t = zero_time
         then Inl (ErrOther ''invalid stored native terminal report'') else Inr (Some t))"

definition sameNativeTerminal :: "terminal_request \<Rightarrow> terminal_request \<Rightarrow> bool" where
  "sameNativeTerminal s r =
    (tr_leaseID s = tr_leaseID r \<and> tr_attemptID s = tr_attemptID r \<and> tr_revision s = tr_revision r
     \<and> tr_kind s = tr_kind r \<and> tr_manifestArtifactID s = tr_manifestArtifactID r \<and> tr_failure s = tr_failure r)"

record registered_native_artifact =
  ra_artifactID :: string
  ra_slot :: string
  ra_kind :: string
  ra_format :: string
  ra_mediaType :: string
  ra_registeredAt :: time

definition registeredNativeArtifacts :: "string \<Rightarrow> string \<Rightarrow> 'x native_db_scheme \<Rightarrow> registered_native_artifact list" where
  "registeredNativeArtifacts runID attemptID d =
    sort_key (\<lambda>a. (ra_registeredAt a, ra_artifactID a))
      (List.map_filter (\<lambda>(artifactID, a).
         (case map_of (nd_grants d) (nr_grantID a) of
            None \<Rightarrow> None
          | Some g \<Rightarrow>
              if up_runID g = runID \<and> up_attemptID g = attemptID
              then Some \<lparr>ra_artifactID = artifactID, ra_slot = up_slot g, ra_kind = nr_kind a, ra_format = nr_format a,
                ra_mediaType = up_mediaType g, ra_registeredAt = nr_registeredAt a\<rparr>
              else None)) (nd_artifacts d))"

definition nativeTerminalArtifactPlan :: "bl_plan \<Rightarrow> int \<Rightarrow> err + artifact_slot list" where
  "nativeTerminalArtifactPlan plan version =
    (if version \<noteq> 2 then Inl ErrValidation
     else if \<not> Plan_valid plan then Inl (ErrOther ''invalid stored native baseline plan'')
     else Inr [fst (pl_artifactPlan plan), snd (pl_artifactPlan plan)])"

text \<open>The two loops; the maps of the source keep the last artifact of a slot.\<close>

definition slot_evidence_ok :: "registered_native_artifact \<Rightarrow> registered_native_artifact list \<Rightarrow> artifact_slot \<Rightarrow> bool" where
  "slot_evidence_ok manifest artifacts s =
    (case find (\<lambda>a. ra_slot a = as_slot s) (rev artifacts) of
       None \<Rightarrow> \<not> as_required s
     | Some a \<Rightarrow> ra_kind a = as_kind s \<and> ra_format a = as_format s \<and> ra_mediaType a = as_mediaType s
         \<and> \<not> ra_registeredAt manifest < ra_registeredAt a)"

definition validateNativeTerminalEvidence ::
  "native_scope \<Rightarrow> terminal_request \<Rightarrow> int \<Rightarrow> 'x native_db_scheme \<Rightarrow> err + unit" where
  "validateNativeTerminalEvidence scope rq version d =
    (case nativeTerminalArtifactPlan (lx_plan (ns_stored scope)) version of
       Inl e \<Rightarrow> Inl e
     | Inr planned \<Rightarrow>
         (let artifacts = registeredNativeArtifacts (ns_runID scope) (tr_attemptID rq) d
          in case find (\<lambda>a. ra_artifactID a = tr_manifestArtifactID rq) (rev artifacts) of
               None \<Rightarrow> Inl ErrTerminalEvidence
             | Some manifest \<Rightarrow>
                 if ra_artifactID manifest = [] \<or> ra_kind manifest \<noteq> ''manifest'' then Inl ErrTerminalEvidence
                 else if list_all (slot_evidence_ok manifest artifacts) planned then Inr ()
                 else Inl ErrTerminalEvidence))"

fun nativeTerminalFailureMessage :: "terminal_failure_code \<Rightarrow> string" where
  "nativeTerminalFailureMessage TerminalFailurePreparation = ''Native worker preparation failed''"
| "nativeTerminalFailureMessage TerminalFailureCapture = ''Native browser evidence capture failed''"
| "nativeTerminalFailureMessage TerminalFailureUpload = ''Native browser evidence upload failed''"
| "nativeTerminalFailureMessage TerminalFailureHostUnqualified = ''Native worker became unqualified''"
| "nativeTerminalFailureMessage _ = ''Native browser execution failed''"

definition fail_change :: "run_state \<Rightarrow> failure_code \<Rightarrow> string \<Rightarrow> change" where
  "fail_change s code m = \<lparr>c_state = s, c_failure = Some \<lparr>f_code = code, f_message = m\<rparr>, c_toolExitCode = None\<rparr>"

text \<open>A report that is not completed has a failure in every validated request.\<close>

definition applyNativeTerminal :: "run \<Rightarrow> terminal_request \<Rightarrow> time \<Rightarrow> err + run" where
  "applyNativeTerminal current rq now =
    (if tr_kind rq = TerminalCompleted then AdvancePhase current (tr_revision rq) PhaseFinalizing now
     else if r_revision current \<noteq> tr_revision rq then Inl ErrRevision
     else if r_state current = StateCancelling \<or> Terminal (r_state current) then Inl ErrConflict
     else (case tr_failure rq of
        None \<Rightarrow> Inl (ErrOther ''invalid memory address or nil pointer dereference'')
      | Some f \<Rightarrow>
          if tf_code f = TerminalFailureTool then
            (case AdvancePhase current (tr_revision rq) PhaseFinalizing now of
               Inl e \<Rightarrow> Inl e
             | Inr collecting \<Rightarrow> Run_Transition collecting (r_revision collecting)
                 (fail_change StateTestFailure FailureCodeToolError ''Native browser execution failed'') now)
          else
            (case (if r_state current = StateCreated
                   then Run_Transition current (r_revision current) (to_state StateValidating) now else Inr current) of
               Inl e \<Rightarrow> Inl e
             | Inr current' \<Rightarrow> Run_Transition current' (r_revision current')
                 (fail_change StateInfrastructureFailure FailureCodeInfrastructureError
                   (nativeTerminalFailureMessage (tf_code f))) now)))"

definition terminal_row_ok :: "terminal_row \<Rightarrow> 'x native_db_scheme \<Rightarrow> err option" where
  "terminal_row_ok t d =
    (if (case tr_failure (tt_request t) of None \<Rightarrow> False | Some f \<Rightarrow> \<not> text_value (tf_message f)) then Some nul_rejected
     else if \<not> (1 \<le> tr_revision (tt_request t) \<and> tr_revision (tt_request t) \<le> 9007199254740991
                \<and> 1 \<le> tt_resultingRevision t \<and> tt_resultingRevision t \<le> 9007199254740991) then Some check_violation
     else if list_ex (\<lambda>row. tr_leaseID (tt_request (snd row)) = tr_leaseID (tt_request t)
                \<or> tr_attemptID (tt_request (snd row)) = tr_attemptID (tt_request t)) (nd_terminals d) then Some unique_violation
     else None)"

definition insertNativeTerminal ::
  "string \<Rightarrow> string \<Rightarrow> terminal_request \<Rightarrow> int \<Rightarrow> time \<Rightarrow> int \<Rightarrow> 'x native_db_scheme \<Rightarrow> err + 'x native_db_scheme" where
  "insertNativeTerminal runID workerID rq revision acceptedAt version d =
    (let row = \<lparr>tt_workerID = workerID, tt_protocolVersion = version, tt_request = rq\<lparr>tr_capability := []\<rparr>,
           tt_resultingRevision = revision, tt_acceptedAt = acceptedAt\<rparr>
     in case terminal_row_ok row d of
          Some e \<Rightarrow> Inl e
        | None \<Rightarrow> Inr (d\<lparr>nd_terminals := tput runID row (nd_terminals d)\<rparr>))"

definition accept_terminal ::
  "native_scope \<Rightarrow> string \<Rightarrow> terminal_request \<Rightarrow> int \<Rightarrow> 'x native_db_scheme \<Rightarrow> (terminal_ack, 'x native_db_scheme) tx_result" where
  "accept_terminal scope workerID rq version d =
    (case (if tr_kind rq = TerminalCompleted then validateNativeTerminalEvidence scope rq version d else Inr ()) of
       Inl e \<Rightarrow> Abort e
     | Inr _ \<Rightarrow>
         (case applyNativeTerminal (ns_current scope) rq (ns_now scope) of
            Inl e \<Rightarrow> Abort e
          | Inr next \<Rightarrow>
              (case insertNativeTerminal (ns_runID scope) workerID rq (r_revision next) (ns_now scope) version
                      (write_run (ns_current scope) next d) of
                 Inl e \<Rightarrow> Abort e
               | Inr d1 \<Rightarrow>
                   (case update_native_lease (ns_runID scope) (\<lambda>l. l\<lparr>lx_expiresAt := ns_now scope\<rparr>) d1 of
                      Inl e \<Rightarrow> Abort e
                    | Inr d2 \<Rightarrow> Commit \<lparr>ta_attemptID = tr_attemptID rq, ta_runRevision = r_revision next,
                        ta_disposition = TerminalAccepted\<rparr> d2))))"

definition terminal_scope ::
  "native_scope \<Rightarrow> string \<Rightarrow> terminal_request \<Rightarrow> int \<Rightarrow> 'x native_db_scheme \<Rightarrow> (terminal_ack, 'x native_db_scheme) tx_result"
  where [store_defs]:
  "terminal_scope scope workerID rq version d =
    (if \<not> matchingNativeLeaseAuthority (ns_stored scope) workerID (tr_leaseID rq) (tr_attemptID rq) (tr_capability rq)
     then Abort ErrLeaseGone
     else (case lockedNativeTerminal (ns_runID scope) d of
        Inl e \<Rightarrow> Abort e
      | Inr (Some stored) \<Rightarrow>
          if tt_workerID stored \<noteq> workerID \<or> tt_protocolVersion stored \<noteq> version \<or> \<not> sameNativeTerminal (tt_request stored) rq
          then Abort ErrTerminalConflict
          else Rollback \<lparr>ta_attemptID = tr_attemptID rq, ta_runRevision = tt_resultingRevision stored,
            ta_disposition = TerminalAlreadyAccepted\<rparr>
      | Inr None \<Rightarrow>
          if lx_release (ns_stored scope) \<noteq> None \<or> \<not> ns_now scope < lx_expiresAt (ns_stored scope)
             \<or> Terminal (r_state (ns_current scope)) then Abort ErrLeaseGone
          else if r_revision (ns_current scope) \<noteq> tr_revision rq then Abort ErrRevision
          else accept_terminal scope workerID rq version d))"

definition reportNativeTerminal ::
  "tx_fault \<Rightarrow> (string, native_lease_row) table \<Rightarrow> time \<Rightarrow> string \<Rightarrow> terminal_request \<Rightarrow> int
    \<Rightarrow> 'x native_db_scheme \<Rightarrow> (err + terminal_ack) \<times> 'x native_db_scheme" where [store_defs]:
  "reportNativeTerminal fault old now workerID rq version d =
    (if \<not> ValidNativeWorkerIdentifier workerID \<or> \<not> TerminalRequest_Valid rq then (Inl ErrValidation, d)
     else transact fault (\<lambda>d.
       (case lockNativeRenewalScopeVersion old now workerID (tr_leaseID rq) version d of
          Inl e \<Rightarrow> Abort e
        | Inr scope \<Rightarrow> terminal_scope scope workerID rq version d)) d)"

definition pg_ReportNativeBaselineTerminal ::
  "tx_fault \<Rightarrow> (string, native_lease_row) table \<Rightarrow> time \<Rightarrow> string \<Rightarrow> terminal_request
    \<Rightarrow> 'x native_db_scheme \<Rightarrow> (err + terminal_ack) \<times> 'x native_db_scheme" where [store_defs]:
  "pg_ReportNativeBaselineTerminal fault old now workerID rq d = reportNativeTerminal fault old now workerID rq 2 d"

section \<open>Observation (native_inspection.go, native_discovery.go)\<close>

definition terminal_inspection :: "string \<Rightarrow> string \<Rightarrow> time \<Rightarrow> terminal_row \<Rightarrow> inspection" where
  "terminal_inspection runID attemptID now t =
    \<lparr>in_runID = runID, in_attemptID = attemptID, in_state = InspectionTerminal, in_serverTime = now, in_leaseID = [],
     in_expiresAt = None, in_runRevision = tt_resultingRevision t, in_terminalKind = Some (tr_kind (tt_request t)),
     in_acceptedAt = Some (tt_acceptedAt t)\<rparr>"

definition active_inspection :: "string \<Rightarrow> string \<Rightarrow> time \<Rightarrow> native_lease_row \<Rightarrow> run \<Rightarrow> inspection" where
  "active_inspection runID attemptID now l r =
    \<lparr>in_runID = runID, in_attemptID = attemptID, in_state = InspectionActive, in_serverTime = now,
     in_leaseID = lx_leaseID l, in_expiresAt = Some (lx_expiresAt l), in_runRevision = r_revision r,
     in_terminalKind = None, in_acceptedAt = None\<rparr>"

definition inactive_inspection :: "string \<Rightarrow> string \<Rightarrow> time \<Rightarrow> inspection" where
  "inactive_inspection runID attemptID now =
    \<lparr>in_runID = runID, in_attemptID = attemptID, in_state = InspectionInactive, in_serverTime = now, in_leaseID = [],
     in_expiresAt = None, in_runRevision = 0, in_terminalKind = None, in_acceptedAt = None\<rparr>"

text \<open>The join conditions on the report and the lease; \<open>worker_v2_id\<close> is null for version 1.\<close>

definition joined_terminal :: "string \<Rightarrow> string \<Rightarrow> string \<Rightarrow> 'x native_db_scheme \<Rightarrow> terminal_row option" where
  "joined_terminal runID attemptID workerID d =
    (case map_of (nd_terminals d) runID of
       None \<Rightarrow> None
     | Some t \<Rightarrow> if tr_attemptID (tt_request t) = attemptID \<and> tt_protocolVersion t = 2 \<and> tt_workerID t = workerID
         then Some t else None)"

definition joined_lease :: "string \<Rightarrow> string \<Rightarrow> string \<Rightarrow> 'x native_db_scheme \<Rightarrow> native_lease_row option" where
  "joined_lease runID attemptID workerID d =
    (case map_of (nd_leases d) runID of
       None \<Rightarrow> None
     | Some l \<Rightarrow> if lx_attemptID l = attemptID \<and> lx_protocolVersion l = 2 \<and> lx_workerID l = workerID then Some l else None)"

definition observed_run :: "string \<Rightarrow> 'x native_db_scheme \<Rightarrow> err + run" where
  "observed_run runID d =
    (case lockNativeRun runID d of
       None \<Rightarrow> Inl (ErrOther ''invalid stored native Run snapshot'')
     | Some row \<Rightarrow> if r_id (rr_snapshot row) = runID then Inr (rr_snapshot row)
         else Inl (ErrOther ''invalid stored native Run snapshot''))"

definition pg_InspectNativeBaselineAttempt ::
  "db_error option \<Rightarrow> time \<Rightarrow> string \<Rightarrow> string \<Rightarrow> string \<Rightarrow> 'x native_db_scheme \<Rightarrow> err + inspection" where [store_defs]:
  "pg_InspectNativeBaselineAttempt fault now workerID runID attemptID d =
    (if \<not> ValidNativeWorkerIdentifier workerID \<or> \<not> ValidID runID \<or> \<not> ValidLeaseIdentifier attemptID then Inl ErrValidation
     else case fault of Some x \<Rightarrow> Inl (storageError x)
     | None \<Rightarrow>
       (case
         (case joined_terminal runID attemptID workerID d of
            Some t \<Rightarrow> Inr (terminal_inspection runID attemptID now t)
          | None \<Rightarrow>
              (case joined_lease runID attemptID workerID d of
                 None \<Rightarrow> Inl ErrAttemptNotFound
               | Some l \<Rightarrow>
                   if \<not> live_row now l then Inr (inactive_inspection runID attemptID now)
                   else map_sum id (active_inspection runID attemptID now l) (observed_run runID d))) of
          Inl e \<Rightarrow> Inl e
        | Inr i \<Rightarrow> if Inspection_Valid i then Inr i else Inl (ErrOther ''invalid stored native attempt inspection'')))"

text \<open>The current slots of a worker, with the Run they are for.\<close>

definition current_slots :: "string \<Rightarrow> time \<Rightarrow> 'x native_db_scheme \<Rightarrow> (string \<times> native_lease_row) list" where
  "current_slots workerID now d =
    filter (\<lambda>row. lx_workerID (snd row) = workerID \<and> lx_protocolVersion (snd row) = 2 \<and> live_row now (snd row)) (nd_leases d)"

definition scanNativeDiscovery ::
  "string \<Rightarrow> time \<Rightarrow> (string \<times> native_lease_row) option \<Rightarrow> 'x native_db_scheme \<Rightarrow> err + discovery" where
  "scanNativeDiscovery workerID now slot d =
    (let availability = map_option pw_availability (map_of (nd_presence d) workerID);
         base = \<lparr>di_serverTime = now, di_availability = (case availability of None \<Rightarrow> ''UNREPORTED'' | Some a \<Rightarrow> a), di_slot = None\<rparr>
     in case slot of
          None \<Rightarrow> Inr base
        | Some (runID, l) \<Rightarrow>
            if availability = None \<or> (case lockNativeRun runID d of None \<Rightarrow> True
                 | Some row \<Rightarrow> rr_target row \<noteq> ExecutionTargetNativeLinux)
            then Inl (ErrOther ''inconsistent stored native worker slot'')
            else (case joined_terminal runID (lx_attemptID l) workerID d of
               Some t \<Rightarrow> Inr (base\<lparr>di_slot := Some (lx_expiresAt l, terminal_inspection runID (lx_attemptID l) now t)\<rparr>)
             | None \<Rightarrow>
                 map_sum id (\<lambda>r. base\<lparr>di_slot := Some (lx_expiresAt l, active_inspection runID (lx_attemptID l) now l r)\<rparr>)
                   (observed_run runID d)))"

text \<open>\<open>LIMIT 2\<close>, and the row loop that rejects a second row.\<close>

definition discover_body :: "string \<Rightarrow> time \<Rightarrow> 'x native_db_scheme \<Rightarrow> err + discovery" where
  "discover_body workerID now d =
    (case take 2 (current_slots workerID now d) of
       [] \<Rightarrow> scanNativeDiscovery workerID now None d
     | slot # others \<Rightarrow>
         (case scanNativeDiscovery workerID now (Some slot) d of
            Inl e \<Rightarrow> Inl e
          | Inr found \<Rightarrow> if others = [] then Inr found else Inl (ErrOther ''multiple current native worker slots'')))"

definition pg_DiscoverNativeBaselineAttempt ::
  "tx_fault \<Rightarrow> time \<Rightarrow> string \<Rightarrow> 'x native_db_scheme \<Rightarrow> (err + discovery) \<times> 'x native_db_scheme" where [store_defs]:
  "pg_DiscoverNativeBaselineAttempt fault now workerID d =
    (if \<not> ValidNativeWorkerIdentifier workerID then (Inl ErrValidation, d)
     else transact fault (\<lambda>d.
       (case discover_body workerID now d of
          Inl e \<Rightarrow> Abort e
        | Inr found \<Rightarrow> if Discovery_Valid found then Commit found d else Abort (ErrOther ''invalid stored native discovery''))) d)"

end
