(* ===== verification/Native_Effects.thy ===== *)
theory Native_Effects
  imports Pg_Native_Evidence
begin

text \<open>
  What the writing calls of native execution do to the database, whatever fault they meet:
  nothing, or one explicit update under a lease scope that the call has authority over.
  Every such update moves at most one Run, along the lifecycle.
\<close>

section \<open>Phases\<close>

lemma advance_through_life:
  "v i = Some (p, r) \<Longrightarrow> advance_through ss now r = Inr r' \<Longrightarrow> life_steps v (v(i \<mapsto> (p, r')))"
proof (induction ss arbitrary: v r)
  case (Cons s ss)
  from Cons.prems(2) obtain r1 where t: "Run_Transition r (r_revision r) (to_state s) now = Inr r1"
    and a: "advance_through ss now r1 = Inr r'" by (auto split: sum.splits)
  have "life_steps v (v(i \<mapsto> (p, r1)))" using Cons.prems(1) t by blast
  also have "life_steps (v(i \<mapsto> (p, r1))) (v(i \<mapsto> (p, r1), i \<mapsto> (p, r')))"
    by (rule Cons.IH [OF _ a]) simp
  finally show ?case by (simp only: fun_upd_upd)
qed (simp add: fun_upd_idem)

lemma AdvancePhase_life:
  "v i = Some (p, r) \<Longrightarrow> AdvancePhase r e ph now = Inr r' \<Longrightarrow> life_steps v (v(i \<mapsto> (p, r')))"
  by (auto simp: AdvancePhase_def split: if_splits option.splits intro: advance_through_life)

lemma life_steps_twice:
  "life_steps v (v(i \<mapsto> (p, r1))) \<Longrightarrow> Run_Transition r1 e ch now = Inr r2 \<Longrightarrow> life_steps v (v(i \<mapsto> (p, r2)))"
  using life_steps_advance [of "v(i \<mapsto> (p, r1))" i p r1 e ch now r2] by fastforce

lemma applyNativeTerminal_life:
  assumes "v i = Some (p, r)" "applyNativeTerminal r rq now = Inr r'"
  shows "life_steps v (v(i \<mapsto> (p, r')))"
proof (cases "tr_kind rq = TerminalCompleted")
  case True
  with assms show ?thesis by (auto simp: applyNativeTerminal_def intro: AdvancePhase_life)
next
  case False
  with assms(2) obtain f where f: "tr_failure rq = Some f"
    by (auto simp: applyNativeTerminal_def split: if_splits option.splits)
  show ?thesis
  proof (cases "tf_code f = TerminalFailureTool")
    case True
    with False f assms(2) obtain c where "AdvancePhase r (tr_revision rq) PhaseFinalizing now = Inr c"
      "Run_Transition c (r_revision c)
        (fail_change StateTestFailure FailureCodeToolError ''Native browser execution failed'') now = Inr r'"
      by (auto simp: applyNativeTerminal_def split: if_splits sum.splits)
    with assms(1) show ?thesis by (blast intro: life_steps_twice AdvancePhase_life)
  next
    case other: False
    with False f assms(2) obtain c where
      c: "(if r_state r = StateCreated then Run_Transition r (r_revision r) (to_state StateValidating) now else Inr r) = Inr c"
      and t: "Run_Transition c (r_revision c) (fail_change StateInfrastructureFailure FailureCodeInfrastructureError
          (nativeTerminalFailureMessage (tf_code f))) now = Inr r'"
      by (auto simp: applyNativeTerminal_def split: if_splits sum.splits)
    have "life_steps v (v(i \<mapsto> (p, c)))"
      using c assms(1) by (cases "r_state r = StateCreated") (auto simp: fun_upd_idem)
    then show ?thesis using t by (rule life_steps_twice)
  qed
qed

lemma releasedNativeRun_life:
  "v i = Some (p, r) \<Longrightarrow> releasedNativeRun r reason now = Inr r' \<Longrightarrow> life_steps v (v(i \<mapsto> (p, r')))"
  by (auto simp: releasedNativeRun_def fun_upd_idem split: if_splits)

lemma renewal_next_life:
  "v i = Some (p, ns_current scope) \<Longrightarrow> renewal_next scope rq = Inr r' \<Longrightarrow> life_steps v (v(i \<mapsto> (p, r')))"
  by (auto simp: renewal_next_def fun_upd_idem split: if_splits intro: AdvancePhase_life)

section \<open>Scopes\<close>

definition in_scope :: "native_scope \<Rightarrow> time \<Rightarrow> int \<Rightarrow> 'x native_db_scheme \<Rightarrow> bool" where
  "in_scope scope now version d =
    (\<exists>row. map_of (d_runs (bd_core d)) (ns_runID scope) = Some row \<and> rr_snapshot row = ns_current scope
       \<and> rr_target row = ExecutionTargetNativeLinux \<and> r_id (ns_current scope) = ns_runID scope \<and> ns_runID scope \<noteq> []
       \<and> map_of (nd_leases d) (ns_runID scope) = Some (ns_stored scope)
       \<and> lx_protocolVersion (ns_stored scope) = version \<and> ns_now scope = now)"

lemma scope_Inr:
  assumes "lockNativeRenewalScopeVersion old now w l version d = Inr scope"
  shows "in_scope scope now version d"
  using assms
  by (auto simp: lockNativeRenewalScopeVersion_def in_scope_def lockedNativeLease_def lockNativeRun_def
      split: sum.splits option.splits if_splits prod.splits)

lemma in_scope_view: "in_scope scope now version d \<Longrightarrow> \<exists>p. pg_view (bd_core d) (ns_runID scope) = Some (p, ns_current scope)"
  by (auto simp: in_scope_def pg_view_def)

section \<open>What a committed call changes\<close>

lemma write_run_frame [simp]:
  "nd_presence (write_run c r d) = nd_presence d" "nd_leases (write_run c r d) = nd_leases d"
  "nd_grants (write_run c r d) = nd_grants d" "nd_artifacts (write_run c r d) = nd_artifacts d"
  "nd_terminals (write_run c r d) = nd_terminals d" "bd_baselines (write_run c r d) = bd_baselines d"
  "d_artifacts (bd_core (write_run c r d)) = d_artifacts (bd_core d)"
  by (simp_all add: write_run_def updateNativeRun_def)

text \<open>One Run moved along its lifecycle; nothing else of the core and baseline tables changed.\<close>

definition run_moved :: "'x native_db_scheme \<Rightarrow> 'x native_db_scheme \<Rightarrow> bool" where
  "run_moved d d' =
    (life_steps (pg_view (bd_core d)) (pg_view (bd_core d')) \<and> (\<exists>rs. bd_core d' = (bd_core d)\<lparr>d_runs := rs\<rparr>)
     \<and> rows_kept (bd_core d) (bd_core d') \<and> bd_baselines d' = bd_baselines d)"

lemma run_moved_same: "bd_core d' = bd_core d \<Longrightarrow> bd_baselines d' = bd_baselines d \<Longrightarrow> run_moved d d'"
  by (auto simp: run_moved_def rows_kept_same intro: exI [of _ "d_runs (bd_core d)"])

lemma run_moved_then:
  "run_moved d d1 \<Longrightarrow> bd_core d' = bd_core d1 \<Longrightarrow> bd_baselines d' = bd_baselines d1 \<Longrightarrow> run_moved d d'"
  by (simp add: run_moved_def)

lemma put_snapshot_runs: "\<exists>rs. put_snapshot i r d = d\<lparr>d_runs := rs\<rparr>"
  by (cases "map_of (d_runs d) i") (auto simp: put_snapshot_def intro: exI [of _ "d_runs d"])

lemma life_steps_revision:
  assumes "v i = Some (p, r)" "life_steps v (v(i \<mapsto> (p, r')))"
  shows "evolves r r'"
  using life_steps_evolves [OF assms(2,1)] by auto

lemma write_run_moved:
  assumes scope: "in_scope scope now version d"
    and life: "\<And>p v. v (ns_runID scope) = Some (p, ns_current scope) \<Longrightarrow> life_steps v (v(ns_runID scope \<mapsto> (p, next)))"
  shows "run_moved d (write_run (ns_current scope) next d)"
proof (cases "r_revision next = r_revision (ns_current scope)")
  case True
  then show ?thesis by (simp add: write_run_def run_moved_same)
next
  case False
  obtain p where p: "pg_view (bd_core d) (ns_runID scope) = Some (p, ns_current scope)"
    using in_scope_view [OF scope] by blast
  have l: "life_steps (pg_view (bd_core d)) ((pg_view (bd_core d))(ns_runID scope \<mapsto> (p, next)))"
    by (rule life [of "pg_view (bd_core d)", OF p])
  have "r_id next = ns_runID scope"
    using life_steps_revision [OF p l] scope by (auto simp: evolves_def in_scope_def)
  with False have w: "write_run (ns_current scope) next d = d\<lparr>bd_core := put_snapshot (ns_runID scope) next (bd_core d)\<rparr>"
    by (simp add: write_run_def updateNativeRun_def)
  show ?thesis
    using put_snapshot_runs [of "ns_runID scope" "next" "bd_core d"] l put_snapshot_view [OF p, of "next"]
    by (simp add: run_moved_def w)
qed

lemma update_native_lease_Inr:
  assumes "in_scope scope now version d" "nd_leases d1 = nd_leases d" "update_native_lease (ns_runID scope) f d1 = Inr d'"
  shows "lease_row_ok (f (ns_stored scope)) \<and> d' = d1\<lparr>nd_leases := tput (ns_runID scope) (f (ns_stored scope)) (nd_leases d)\<rparr>"
  using assms by (auto simp: update_native_lease_def in_scope_def split: if_splits)

lemma scoped_transact:
  assumes "R d d" "\<And>scope a d'. in_scope scope now version d \<Longrightarrow> body scope d = Commit a d' \<Longrightarrow> R d d'"
  shows "R d (snd (transact f (\<lambda>d. case lockNativeRenewalScopeVersion old now w l version d of
            Inl e \<Rightarrow> Abort e | Inr scope \<Rightarrow> body scope d) d))"
  by (rule transact_rel [where R = R]) (auto intro: assms scope_Inr split: sum.splits)

text \<open>A committed call under a scope: the Run may move, the lease row is replaced.\<close>

definition scoped_write :: "native_scope \<Rightarrow> run \<Rightarrow> native_lease_row \<Rightarrow> 'x native_db_scheme \<Rightarrow> 'x native_db_scheme" where
  "scoped_write scope next l d = (write_run (ns_current scope) next d)\<lparr>nd_leases := tput (ns_runID scope) l (nd_leases d)\<rparr>"

lemma scoped_write_frame [simp]:
  "nd_presence (scoped_write scope r l d) = nd_presence d"
  "nd_leases (scoped_write scope r l d) = tput (ns_runID scope) l (nd_leases d)"
  "nd_grants (scoped_write scope r l d) = nd_grants d" "nd_artifacts (scoped_write scope r l d) = nd_artifacts d"
  "nd_terminals (scoped_write scope r l d) = nd_terminals d"
  by (simp_all add: scoped_write_def)

lemma scoped_write_moved:
  assumes "in_scope scope now version d"
    and "\<And>p v. v (ns_runID scope) = Some (p, ns_current scope) \<Longrightarrow> life_steps v (v(ns_runID scope \<mapsto> (p, next)))"
  shows "run_moved d (scoped_write scope next l d)"
  by (rule run_moved_then [OF write_run_moved [OF assms]]) (simp_all add: scoped_write_def)

definition renewed :: "time \<Rightarrow> string \<Rightarrow> renewal_request \<Rightarrow> duration \<Rightarrow> 'x native_db_scheme \<Rightarrow> 'x native_db_scheme \<Rightarrow> bool" where
  "renewed now w rq ttl d d' =
    (d' = d \<or> (\<exists>scope next. in_scope scope now 2 d \<and> currentNativeLease (ns_stored scope) w rq now
       \<and> \<not> Terminal (r_state (ns_current scope)) \<and> r_revision (ns_current scope) = rq_revision rq
       \<and> renewal_next scope rq = Inr next
       \<and> d' = scoped_write scope next ((ns_stored scope)\<lparr>lx_expiresAt := now + ttl\<rparr>) d))"

lemma renewed_refl [simp]: "renewed now w rq ttl d d"
  by (simp add: renewed_def)

lemma renew_scope_Commit:
  assumes s: "in_scope scope now 2 d" and c: "renew_scope scope w rq ttl grace d = Commit a d'"
  shows "renewed now w rq ttl d d'"
proof -
  have now: "ns_now scope = now" using s by (auto simp: in_scope_def)
  obtain "next" where n: "renewal_next scope rq = Inr next"
    and u: "update_native_lease (ns_runID scope) (\<lambda>l. l\<lparr>lx_expiresAt := ns_now scope + ttl\<rparr>)
      (write_run (ns_current scope) next d) = Inr d'"
    and "currentNativeLease (ns_stored scope) w rq now" "\<not> Terminal (r_state (ns_current scope))"
      "r_revision (ns_current scope) = rq_revision rq"
    using c by (auto simp: renew_scope_def now split: if_splits sum.splits)
  moreover from update_native_lease_Inr [OF s _ u]
  have "d' = scoped_write scope next ((ns_stored scope)\<lparr>lx_expiresAt := now + ttl\<rparr>) d"
    by (simp add: scoped_write_def now)
  ultimately show ?thesis using s unfolding renewed_def by blast
qed

lemma Renew_effect: "renewed now w rq ttl d (snd (pg_RenewNativeBaselineLease f old now w rq ttl grace d))"
  unfolding pg_RenewNativeBaselineLease_def renewNativeLease_def
  by (auto intro!: scoped_transact [where R = "renewed now w rq ttl"] intro: renew_scope_Commit)

definition let_go :: "time \<Rightarrow> string \<Rightarrow> release_request \<Rightarrow> 'x native_db_scheme \<Rightarrow> 'x native_db_scheme \<Rightarrow> bool" where
  "let_go now w rq d d' =
    (d' = d \<or> (\<exists>scope next msg. in_scope scope now 2 d
       \<and> matchingNativeLeaseAuthority (ns_stored scope) w (rl_leaseID rq) (rl_attemptID rq) (rl_capability rq)
       \<and> live_row now (ns_stored scope) \<and> \<not> Terminal (r_state (ns_current scope))
       \<and> releasedNativeRun (ns_current scope) (rl_reason rq) now = Inr next
       \<and> d' = scoped_write scope next ((ns_stored scope)\<lparr>lx_expiresAt := now, lx_release := Some (now, rl_reason rq, msg)\<rparr>) d))"

lemma let_go_refl [simp]: "let_go now w rq d d"
  by (simp add: let_go_def)

lemma release_scope_Commit:
  assumes s: "in_scope scope now 2 d" and c: "release_scope scope w rq d = Commit a d'"
  shows "let_go now w rq d d'"
proof -
  have now: "ns_now scope = now" using s by (auto simp: in_scope_def)
  let ?msg = "if rl_message rq = [] then None else Some (rl_message rq)"
  obtain "next" where n: "releasedNativeRun (ns_current scope) (rl_reason rq) now = Inr next"
    and u: "update_native_lease (ns_runID scope) (\<lambda>l. l\<lparr>lx_expiresAt := now, lx_release := Some (now, rl_reason rq, ?msg)\<rparr>)
      (write_run (ns_current scope) next d) = Inr d'"
    and "matchingNativeLeaseAuthority (ns_stored scope) w (rl_leaseID rq) (rl_attemptID rq) (rl_capability rq)"
      "live_row now (ns_stored scope)" "\<not> Terminal (r_state (ns_current scope))"
    using c by (auto simp: release_scope_def now live_row_def split: if_splits sum.splits option.splits prod.splits)
  moreover from update_native_lease_Inr [OF s _ u]
  have "d' = scoped_write scope next ((ns_stored scope)\<lparr>lx_expiresAt := now, lx_release := Some (now, rl_reason rq, ?msg)\<rparr>) d"
    by (simp add: scoped_write_def)
  ultimately show ?thesis using s unfolding let_go_def by blast
qed

lemma Release_effect: "let_go now w rq d (snd (pg_ReleaseNativeBaselineLease f old now w rq d))"
  unfolding pg_ReleaseNativeBaselineLease_def releaseNativeLease_def
  by (auto intro!: scoped_transact [where R = "let_go now w rq"] intro: release_scope_Commit)

lemma live_authority_live: "live_authority scope w l a c \<Longrightarrow> ns_now scope = now \<Longrightarrow> live_row now (ns_stored scope)"
  by (auto simp: live_authority_def live_row_def)

text \<open>A grant is new for its lease and slot, or an existing one with another validity period.\<close>

definition grant_change :: "upload_reservation \<Rightarrow> (string, upload_reservation) table \<Rightarrow> bool" where
  "grant_change g gs =
    (map_of gs (up_grantID g) = None \<and> (\<forall>g0\<in>snd ` set gs. up_leaseID g0 = up_leaseID g \<longrightarrow> up_slot g0 \<noteq> up_slot g)
     \<or> (\<exists>g0\<in>snd ` set gs. \<exists>t e. g = g0\<lparr>up_issuedAt := t, up_expiresAt := e\<rparr>))"

definition granted :: "time \<Rightarrow> string \<Rightarrow> upload_request \<Rightarrow> 'x native_db_scheme \<Rightarrow> 'x native_db_scheme \<Rightarrow> bool" where
  "granted now w rq d d' =
    (d' = d \<or> (\<exists>scope g. in_scope scope now 2 d
       \<and> live_authority scope w (ur_leaseID rq) (ur_attemptID rq) (ur_capability rq)
       \<and> up_leaseID g = ur_leaseID rq \<and> up_attemptID g = ur_attemptID rq \<and> up_runID g = ns_runID scope \<and> up_slot g = ur_slot rq
       \<and> up_issuedAt g = now \<and> up_expiresAt g \<le> lx_expiresAt (ns_stored scope)
       \<and> grant_change g (nd_grants d)
       \<and> d' = d\<lparr>nd_grants := tput (up_grantID g) g (nd_grants d)\<rparr>))"

lemma granted_refl [simp]: "granted now w rq d d"
  by (simp add: granted_def)

lemma nativeUploadReservation_Inr:
  assumes "nativeUploadReservation scope w rq ttl version = Inr r"
  shows "live_authority scope w (ur_leaseID rq) (ur_attemptID rq) (ur_capability rq)
    \<and> up_leaseID r = ur_leaseID rq \<and> up_attemptID r = ur_attemptID rq \<and> up_runID r = ns_runID scope \<and> up_slot r = ur_slot rq
    \<and> up_issuedAt r = ns_now scope \<and> up_expiresAt r \<le> lx_expiresAt (ns_stored scope)"
  using assms by (auto simp: nativeUploadReservation_def split: if_splits sum.splits)

lemma lockedNativeUploadReservation_Inr:
  assumes "lockedNativeUploadReservation l slot d = Inr r"
  shows "case r of
      None \<Rightarrow> \<forall>g\<in>snd ` set (nd_grants d). up_leaseID g = l \<longrightarrow> up_slot g \<noteq> slot
    | Some g \<Rightarrow> g \<in> snd ` set (nd_grants d) \<and> up_leaseID g = l \<and> up_slot g = slot \<and> UploadReservation_Valid g"
proof (cases "find (\<lambda>g. up_leaseID g = l \<and> up_slot g = slot) (map snd (nd_grants d))")
  case None
  with assms show ?thesis
    by (auto simp: lockedNativeUploadReservation_def stored_reservation_def find_None_iff)
next
  case (Some g)
  then have "g \<in> snd ` set (nd_grants d)" "up_leaseID g = l" "up_slot g = slot"
    by (auto simp: find_Some_iff)
  moreover have "r = Some g" "UploadReservation_Valid g"
    using assms Some by (simp_all add: lockedNativeUploadReservation_def stored_reservation_def split: if_splits)
  ultimately show ?thesis by simp
qed

lemma persist_Inr:
  assumes "persistNativeUploadReservation rnd r d = Inr (r', d')"
  obtains g where "up_leaseID g = up_leaseID r" "up_attemptID g = up_attemptID r" "up_runID g = up_runID r"
    "up_slot g = up_slot r" "up_issuedAt g = up_issuedAt r" "up_expiresAt g = up_expiresAt r" "up_grantID r' = up_grantID g"
    "grant_change g (nd_grants d)"
    "d' = d\<lparr>nd_grants := tput (up_grantID g) g (nd_grants d)\<rparr>"
proof (cases "lockedNativeUploadReservation (up_leaseID r) (up_slot r) d")
  case (Inl e)
  with assms show ?thesis by (simp add: persistNativeUploadReservation_def)
next
  case (Inr found)
  note l = lockedNativeUploadReservation_Inr [OF Inr]
  show ?thesis
  proof (cases found)
    case None
    let ?g = "r\<lparr>up_grantID := newUUID rnd, up_sha256 := to_lower (up_sha256 r)\<rparr>"
    have "map_of (nd_grants d) (newUUID rnd) = None" "d' = d\<lparr>nd_grants := tput (newUUID rnd) ?g (nd_grants d)\<rparr>"
      "up_grantID r' = newUUID rnd"
      using assms Inr None by (auto simp: persistNativeUploadReservation_def Let_def split: if_splits)
    moreover from this l None have "grant_change ?g (nd_grants d)" by (simp add: grant_change_def)
    ultimately show ?thesis by (intro that [of ?g]) simp_all
  next
    case (Some g0)
    let ?g = "g0\<lparr>up_issuedAt := up_issuedAt r, up_expiresAt := up_expiresAt r\<rparr>"
    have "sameNativeUploadDeclaration g0 r" "d' = d\<lparr>nd_grants := tput (up_grantID g0) ?g (nd_grants d)\<rparr>"
      "up_grantID r' = up_grantID g0"
      using assms Inr Some by (auto simp: persistNativeUploadReservation_def Let_def split: if_splits)
    moreover from l Some have "grant_change ?g (nd_grants d)" unfolding grant_change_def by auto
    ultimately show ?thesis by (intro that [of ?g]) (simp_all add: sameNativeUploadDeclaration_def)
  qed
qed

lemma Reserve_upload_effect: "granted now w rq d (snd (pg_ReserveNativeBaselineUploadGrant f old rnd now w rq ttl d))"
proof -
  have "granted now w rq d d'" if s: "in_scope scope now 2 d"
    and r: "nativeUploadReservation scope w rq ttl 2 = Inr r" "persistNativeUploadReservation rnd r d = Inr (r', d')"
    for scope r r' and d' :: "'a native_db_scheme"
  proof -
    note u = nativeUploadReservation_Inr [OF r(1)]
    have now: "ns_now scope = now" using s by (auto simp: in_scope_def)
    from persist_Inr [OF r(2)] obtain g where g: "up_leaseID g = up_leaseID r" "up_attemptID g = up_attemptID r"
      "up_runID g = up_runID r" "up_slot g = up_slot r" "up_issuedAt g = up_issuedAt r" "up_expiresAt g = up_expiresAt r"
      and fresh: "grant_change g (nd_grants d)"
      and d': "d' = d\<lparr>nd_grants := tput (up_grantID g) g (nd_grants d)\<rparr>"
      by blast
    show ?thesis
      unfolding granted_def
      by (intro disjI2 exI [of _ scope] exI [of _ g] conjI; (rule s fresh d')?) (use u g now in simp_all)
  qed
  then show ?thesis
    unfolding pg_ReserveNativeBaselineUploadGrant_def reserveNativeUploadGrant_def
    by (auto intro!: scoped_transact [where R = "granted now w rq"] split: sum.splits prod.splits if_splits)
qed

definition filed :: "time \<Rightarrow> string \<Rightarrow> registration_request \<Rightarrow> 'x native_db_scheme \<Rightarrow> 'x native_db_scheme \<Rightarrow> bool" where
  "filed now w rq d d' =
    (d' = d \<or> (\<exists>scope i a. in_scope scope now 2 d
       \<and> live_authority scope w (rg_leaseID rq) (rg_attemptID rq) (rg_capability rq)
       \<and> map_of (nd_grants d) (nr_grantID a) \<noteq> None \<and> map_of (nd_artifacts d) i = None \<and> nr_registeredAt a = now
       \<and> (\<forall>b\<in>snd ` set (nd_artifacts d). nr_grantID b \<noteq> nr_grantID a)
       \<and> d' = d\<lparr>nd_artifacts := tput i a (nd_artifacts d)\<rparr>))"

lemma filed_refl [simp]: "filed now w rq d d"
  by (simp add: filed_def)

lemma stored_reservation_Inr: "stored_reservation x = Inr y \<Longrightarrow> y = x"
  by (auto simp: stored_reservation_def split: option.splits if_splits)

lemma lockNativeArtifactCandidate_Inr:
  assumes "lockNativeArtifactCandidate old now w rq version d = Inr (c, scope)"
  shows "in_scope scope now version d \<and> live_authority scope w (rg_leaseID rq) (rg_attemptID rq) (rg_capability rq)
    \<and> map_of (nd_grants d) (rg_grantID rq) = Some (ac_reservation c)"
  using assms
  by (auto simp: lockNativeArtifactCandidate_def lockedNativeUploadReservationByGrant_def Let_def
      split: sum.splits option.splits if_splits dest: scope_Inr stored_reservation_Inr)

lemma lockedNativeArtifact_None:
  assumes "lockedNativeArtifact g d = Inr None" "map_of (nd_grants d) g \<noteq> None"
  shows "\<forall>b\<in>snd ` set (nd_artifacts d). nr_grantID b \<noteq> g"
  using assms by (fastforce simp: lockedNativeArtifact_def find_None_iff split: option.splits if_splits)

lemma Register_effect: "filed now w rq d (snd (pg_RegisterNativeBaselineArtifact f old rnd now w rq v d))"
proof -
  have "filed now w rq d (d\<lparr>nd_artifacts := tput i a (nd_artifacts d)\<rparr>)"
    if c: "lockNativeArtifactCandidate old now w rq 2 d = Inr (c, scope)" and n: "lockedNativeArtifact (rg_grantID rq) d = Inr None"
      and a: "nr_grantID a = rg_grantID rq" "nr_registeredAt a = ns_now scope" "map_of (nd_artifacts d) i = None"
    for c scope i a
  proof -
    note l = lockNativeArtifactCandidate_Inr [OF c]
    then have now: "ns_now scope = now" by (auto simp: in_scope_def)
    have "\<forall>b\<in>snd ` set (nd_artifacts d). nr_grantID b \<noteq> nr_grantID a"
      unfolding a(1) by (rule lockedNativeArtifact_None [OF n]) (use l in simp)
    with l a now show ?thesis
      unfolding filed_def by (intro disjI2 exI [of _ scope] exI [of _ i] exI [of _ a]) simp
  qed
  then show ?thesis
    unfolding pg_RegisterNativeBaselineArtifact_def registerNativeArtifact_def
    by (auto simp: Let_def intro!: transact_rel [where R = "filed now w rq"] split: sum.splits prod.splits if_splits option.splits)
qed

definition reported :: "time \<Rightarrow> string \<Rightarrow> terminal_request \<Rightarrow> 'x native_db_scheme \<Rightarrow> 'x native_db_scheme \<Rightarrow> bool" where
  "reported now w rq d d' =
    (d' = d \<or> (\<exists>scope next t. in_scope scope now 2 d
       \<and> live_authority scope w (tr_leaseID rq) (tr_attemptID rq) (tr_capability rq)
       \<and> r_revision (ns_current scope) = tr_revision rq
       \<and> (tr_kind rq = TerminalCompleted \<longrightarrow> validateNativeTerminalEvidence scope rq 2 d = Inr ())
       \<and> applyNativeTerminal (ns_current scope) rq now = Inr next \<and> map_of (nd_terminals d) (ns_runID scope) = None
       \<and> t = \<lparr>tt_workerID = w, tt_protocolVersion = 2, tt_request = rq\<lparr>tr_capability := []\<rparr>,
           tt_resultingRevision = r_revision next, tt_acceptedAt = now\<rparr>
       \<and> d' = (scoped_write scope next ((ns_stored scope)\<lparr>lx_expiresAt := now\<rparr>) d)
                \<lparr>nd_terminals := tput (ns_runID scope) t (nd_terminals d)\<rparr>))"

lemma reported_refl [simp]: "reported now w rq d d"
  by (simp add: reported_def)

lemma lockedNativeTerminal_None: "lockedNativeTerminal i d = Inr None \<Longrightarrow> map_of (nd_terminals d) i = None"
  by (auto simp: lockedNativeTerminal_def split: option.splits if_splits)

lemma accept_terminal_Commit:
  assumes s: "in_scope scope now 2 d" and c: "accept_terminal scope w rq 2 d = Commit a d'"
    and live: "live_authority scope w (tr_leaseID rq) (tr_attemptID rq) (tr_capability rq)"
    and r: "r_revision (ns_current scope) = tr_revision rq" and n: "map_of (nd_terminals d) (ns_runID scope) = None"
  shows "reported now w rq d d'"
proof -
  have now: "ns_now scope = now" using s by (auto simp: in_scope_def)
  obtain u "next" d1 where e: "(if tr_kind rq = TerminalCompleted then validateNativeTerminalEvidence scope rq 2 d else Inr ()) = Inr u"
    and t: "applyNativeTerminal (ns_current scope) rq now = Inr next"
    and i: "insertNativeTerminal (ns_runID scope) w rq (r_revision next) now 2 (write_run (ns_current scope) next d) = Inr d1"
    and l: "update_native_lease (ns_runID scope) (\<lambda>l. l\<lparr>lx_expiresAt := now\<rparr>) d1 = Inr d'"
    using c by (auto simp: accept_terminal_def now split: sum.splits)
  let ?t = "\<lparr>tt_workerID = w, tt_protocolVersion = 2, tt_request = rq\<lparr>tr_capability := []\<rparr>,
     tt_resultingRevision = r_revision next, tt_acceptedAt = now\<rparr>"
  have d1: "d1 = (write_run (ns_current scope) next d)\<lparr>nd_terminals := tput (ns_runID scope) ?t (nd_terminals d)\<rparr>"
    using i by (auto simp: insertNativeTerminal_def Let_def split: option.splits)
  have "d' = (scoped_write scope next ((ns_stored scope)\<lparr>lx_expiresAt := now\<rparr>) d)\<lparr>nd_terminals := tput (ns_runID scope) ?t (nd_terminals d)\<rparr>"
    using update_native_lease_Inr [OF s _ l] by (simp add: d1 scoped_write_def)
  moreover have "tr_kind rq = TerminalCompleted \<longrightarrow> validateNativeTerminalEvidence scope rq 2 d = Inr ()" using e by auto
  ultimately show ?thesis
    using s live r n t unfolding reported_def by (intro disjI2 exI [of _ scope] exI [of _ "next"] exI [of _ ?t]) simp
qed

lemma terminal_scope_Commit:
  assumes s: "in_scope scope now 2 d" and c: "terminal_scope scope w rq 2 d = Commit a d'"
  shows "reported now w rq d d'"
proof (rule accept_terminal_Commit [OF s])
  show "accept_terminal scope w rq 2 d = Commit a d'" "r_revision (ns_current scope) = tr_revision rq"
    using c by (auto simp: terminal_scope_def split: if_splits sum.splits option.splits)
  show "live_authority scope w (tr_leaseID rq) (tr_attemptID rq) (tr_capability rq)"
    using c by (cases "lx_release (ns_stored scope)")
      (auto simp: terminal_scope_def live_authority_def split: if_splits sum.splits option.splits)
  show "map_of (nd_terminals d) (ns_runID scope) = None"
    using c by (auto simp: terminal_scope_def split: if_splits sum.splits option.splits intro: lockedNativeTerminal_None)
qed

lemma Terminal_effect: "reported now w rq d (snd (pg_ReportNativeBaselineTerminal f old now w rq d))"
  unfolding pg_ReportNativeBaselineTerminal_def reportNativeTerminal_def
  by (auto intro!: scoped_transact [where R = "reported now w rq"] intro: terminal_scope_Commit)

definition acquired :: "time \<Rightarrow> string \<Rightarrow> 'x native_db_scheme \<Rightarrow> 'x native_db_scheme \<Rightarrow> bool" where
  "acquired now w d d' =
    (d' = d \<or> (\<exists>i row l. map_of (d_runs (bd_core d)) i = Some row \<and> rr_target row = ExecutionTargetNativeLinux
       \<and> r_state (rr_snapshot row) = StateCreated \<and> \<not> nativeWorkerOccupied w now d \<and> \<not> nativeRunLeased (r_id (rr_snapshot row)) now d
       \<and> lx_workerID l = w \<and> live_row now l \<and> lx_protocolVersion l = 2 \<and> Plan_valid (lx_plan l) \<and> lx_issuedAt l = now
       \<and> map_of (nd_presence d) w \<noteq> None
       \<and> (\<forall>x\<in>set (nd_leases d). fst x \<noteq> r_id (rr_snapshot row) \<longrightarrow> lx_leaseID (snd x) \<noteq> lx_leaseID l)
       \<and> d' = d\<lparr>nd_leases := tput (r_id (rr_snapshot row)) l (nd_leases d)\<rparr>))"

lemma acquired_refl [simp]: "acquired now w d d"
  by (simp add: acquired_def)

lemma persistNativeLease_Inr:
  assumes "persistNativeLease rd w i plan now ttl ra d = Inr (Some (auth, d'))"
  obtains l where "lx_workerID l = w" "lx_issuedAt l = now" "lx_expiresAt l = now + ttl" "lx_release l = None"
    "lx_protocolVersion l = 2" "lx_plan l = plan" "lease_row_ok l" "d' = d\<lparr>nd_leases := tput i l (nd_leases d)\<rparr>"
    "auth = (lx_leaseID l, lx_attemptID l, fst (newNativeLeaseCapability (rd_capability rd)))"
    "lx_leaseID l = newUUID (rd_lease rd)" "lx_attemptID l = newUUID (rd_attempt rd)"
    "lx_capabilitySHA256 l = snd (newNativeLeaseCapability (rd_capability rd))" "lx_renewAfterSeconds l = ra div seconds 1"
    "\<forall>x\<in>set (nd_leases d). fst x \<noteq> i \<longrightarrow> lx_leaseID (snd x) \<noteq> lx_leaseID l"
proof -
  let ?l = "\<lparr>lx_leaseID = newUUID (rd_lease rd), lx_attemptID = newUUID (rd_attempt rd), lx_workerID = w, lx_protocolVersion = 2,
           lx_capabilitySHA256 = snd (newNativeLeaseCapability (rd_capability rd)), lx_issuedAt = now, lx_expiresAt = now + ttl,
           lx_renewAfterSeconds = ra div seconds 1, lx_plan = plan, lx_release = None\<rparr>"
  have "lease_row_ok ?l" "d' = d\<lparr>nd_leases := tput i ?l (nd_leases d)\<rparr>"
    "auth = (newUUID (rd_lease rd), newUUID (rd_attempt rd), fst (newNativeLeaseCapability (rd_capability rd)))"
    using assms by (auto simp: persistNativeLease_def Let_def newNativeLeaseCapability_def split: if_splits option.splits)
  moreover have "\<forall>x\<in>set (nd_leases d). fst x \<noteq> i \<longrightarrow> lx_leaseID (snd x) \<noteq> newUUID (rd_lease rd)"
    using assms by (auto simp: persistNativeLease_def Let_def newNativeLeaseCapability_def split: if_splits)
  ultimately show ?thesis by (intro that [of ?l]) simp_all
qed

lemma acquire_body_Commit:
  assumes c: "acquire_body rd now w seen cand plan age ttl ra d = Commit a d'" and plan: "Plan_valid plan"
    and ttl: "0 < ttl"
  shows "acquired now w d d'"
proof -
  obtain row auth where r: "map_of (d_runs (bd_core d)) (r_id (nc_run cand)) = Some row"
    and q: "acquirable now seen cand plan age row" "\<not> nativeWorkerOccupied w now d" "\<not> nativeRunLeased (r_id (rr_snapshot row)) now d"
    and p: "persistNativeLease rd w (r_id (rr_snapshot row)) plan now ttl ra d = Inr (Some (auth, d'))"
    and w: "map_of (nd_presence d) w \<noteq> None"
    using c by (auto simp: acquire_body_def lockNativeRun_def lockNativeWorkerV2Presence_def
        split: sum.splits option.splits if_splits prod.splits)
  from p obtain l where l: "lx_workerID l = w" "lx_issuedAt l = now" "lx_expiresAt l = now + ttl" "lx_release l = None"
    "lx_protocolVersion l = 2" "lx_plan l = plan" "d' = d\<lparr>nd_leases := tput (r_id (rr_snapshot row)) l (nd_leases d)\<rparr>"
    "\<forall>x\<in>set (nd_leases d). fst x \<noteq> r_id (rr_snapshot row) \<longrightarrow> lx_leaseID (snd x) \<noteq> lx_leaseID l"
    by (rule persistNativeLease_Inr) blast
  show ?thesis
    unfolding acquired_def
    using r q w l plan ttl
    by (intro disjI2 exI [of _ "r_id (nc_run cand)"] exI [of _ row] exI [of _ l]) (simp add: acquirable_def live_row_def)
qed

lemma Acquire_effect: "acquired now w d (snd (pg_AcquireNativeBaselineLease f rd now w seen cand plan age ttl ra d))"
proof -
  have "0 < ttl" if "ValidLeasePolicy ttl ra"
    using that ValidLeaseTTL_pos by (simp add: ValidLeasePolicy_def)
  then show ?thesis
    unfolding pg_AcquireNativeBaselineLease_def
    by (auto intro!: transact_rel [where R = "acquired now w"] intro: acquire_body_Commit simp: validNativeBaselineLeaseRequest_def)
qed

definition announced :: "string \<Rightarrow> 'x native_db_scheme \<Rightarrow> 'x native_db_scheme \<Rightarrow> bool" where
  "announced w d d' = (d' = d \<or> (\<exists>row. d' = d\<lparr>nd_presence := tput w row (nd_presence d)\<rparr>))"

lemma announced_refl [simp]: "announced w d d"
  by (simp add: announced_def)

lemma announced_put [simp]: "announced w d (d\<lparr>nd_presence := tput w row (nd_presence d)\<rparr>)"
  by (auto simp: announced_def)

lemma Presence_effect: "announced (pc_workerID r) d (snd (pg_RecordNativeWorkerV2Presence f now r d))"
  unfolding pg_RecordNativeWorkerV2Presence_def
  by (auto simp: Let_def intro!: transact_rel [where R = "announced (pc_workerID r)"] split: option.splits if_splits)

lemmas native_effects = Renew_effect Release_effect Reserve_upload_effect Register_effect Terminal_effect Acquire_effect Presence_effect

end
