(* ===== verification/Native_Machine.thy ===== *)
theory Native_Machine
  imports Native_Effects
begin

text \<open>
  The whole Postgres repository as one state machine: the core and baseline calls of the
  earlier theories and every writing call of native execution, with the contracts of native
  authority as locales. \<open>worker_slots\<close>: under a clock that does not go back, a worker holds
  at most one live lease. \<open>authority_store\<close>: a live lease is changed only by a call that
  presents its authority, and a call without live authority changes nothing.
\<close>

section \<open>Calls\<close>

type_synonym lease_table = "(string, native_lease_row) table"

datatype native_op =
    NBaseline baseline_op
  | NPresence tx_fault time presence_record
  | NAcquire tx_fault native_random time string time native_candidate bl_plan duration duration duration
  | NRenew tx_fault lease_table time string renewal_request duration duration
  | NRelease tx_fault lease_table time string release_request
  | NReserve tx_fault lease_table "8 word list" time string upload_request duration
  | NRegister tx_fault lease_table "8 word list" time string registration_request verified_artifact
  | NTerminal tx_fault lease_table time string terminal_request

definition baseline_part :: "native_db \<Rightarrow> baseline_db" where
  "baseline_part d = baseline_db.truncate d"

definition with_baseline :: "baseline_db \<Rightarrow> native_db \<Rightarrow> native_db" where
  "with_baseline b d = d\<lparr>bd_core := bd_core b, bd_baselines := bd_baselines b\<rparr>"

fun native_step :: "native_op \<Rightarrow> native_db \<Rightarrow> native_db" where
  "native_step (NBaseline op) d = with_baseline (baseline_step op (baseline_part d)) d"
| "native_step (NPresence f now r) d = snd (pg_RecordNativeWorkerV2Presence f now r d)"
| "native_step (NAcquire f rd now w seen c pl age ttl ra) d = snd (pg_AcquireNativeBaselineLease f rd now w seen c pl age ttl ra d)"
| "native_step (NRenew f old now w rq ttl g) d = snd (pg_RenewNativeBaselineLease f old now w rq ttl g d)"
| "native_step (NRelease f old now w rq) d = snd (pg_ReleaseNativeBaselineLease f old now w rq d)"
| "native_step (NReserve f old rnd now w rq ttl) d = snd (pg_ReserveNativeBaselineUploadGrant f old rnd now w rq ttl d)"
| "native_step (NRegister f old rnd now w rq v) d = snd (pg_RegisterNativeBaselineArtifact f old rnd now w rq v d)"
| "native_step (NTerminal f old now w rq) d = snd (pg_ReportNativeBaselineTerminal f old now w rq d)"

text \<open>The instant of a call that may write a lease row.\<close>

fun lease_clock :: "native_op \<Rightarrow> time option" where
  "lease_clock (NAcquire f rd now w seen c pl age ttl ra) = Some now"
| "lease_clock (NRenew f old now w rq ttl g) = Some now"
| "lease_clock (NRelease f old now w rq) = Some now"
| "lease_clock (NTerminal f old now w rq) = Some now"
| "lease_clock _ = None"

section \<open>Runs, baselines and artifacts\<close>

lemma with_baseline_frame [simp]:
  "bd_core (with_baseline b d) = bd_core b" "bd_baselines (with_baseline b d) = bd_baselines b"
  "nd_presence (with_baseline b d) = nd_presence d" "nd_leases (with_baseline b d) = nd_leases d"
  "nd_grants (with_baseline b d) = nd_grants d" "nd_artifacts (with_baseline b d) = nd_artifacts d"
  "nd_terminals (with_baseline b d) = nd_terminals d"
  by (simp_all add: with_baseline_def)

lemma baseline_part_simps [simp]: "bd_core (baseline_part d) = bd_core d" "bd_baselines (baseline_part d) = bd_baselines d"
  by (simp_all add: baseline_part_def baseline_db.truncate_def)

lemma renewed_moved: "renewed now w rq ttl d d' \<Longrightarrow> run_moved d d'"
  by (auto simp: renewed_def run_moved_same intro: scoped_write_moved renewal_next_life)

lemma let_go_moved: "let_go now w rq d d' \<Longrightarrow> run_moved d d'"
  by (auto simp: let_go_def run_moved_same intro: scoped_write_moved releasedNativeRun_life)

lemma reported_moved: "reported now w rq d d' \<Longrightarrow> run_moved d d'"
  unfolding reported_def
proof (elim disjE exE conjE)
  fix scope r t
  assume s: "in_scope scope now 2 d" and a: "applyNativeTerminal (ns_current scope) rq now = Inr r"
    and d': "d' = (scoped_write scope r ((ns_stored scope)\<lparr>lx_expiresAt := now\<rparr>) d)\<lparr>nd_terminals := tput (ns_runID scope) t (nd_terminals d)\<rparr>"
  show ?thesis
    by (rule run_moved_then [OF scoped_write_moved [OF s applyNativeTerminal_life [OF _ a]]]) (simp_all add: d')
qed (simp add: run_moved_same)

lemma native_call_moved:
  assumes "\<And>b. op \<noteq> NBaseline b"
  shows "run_moved d (native_step op d)"
proof (cases op)
  case (NPresence f now r)
  with Presence_effect [of r d f now] show ?thesis by (auto simp: announced_def run_moved_same)
next
  case (NAcquire f rd now w seen c pl age ttl ra)
  with Acquire_effect [of now w d f rd seen c pl age ttl ra] show ?thesis by (auto simp: acquired_def run_moved_same)
next
  case (NReserve f old rnd now w rq ttl)
  with Reserve_upload_effect [of now w rq d f old rnd ttl] show ?thesis by (auto simp: granted_def run_moved_same)
next
  case (NRegister f old rnd now w rq v)
  with Register_effect [of now w rq d f old rnd v] show ?thesis by (auto simp: filed_def run_moved_same)
qed (use assms in \<open>auto intro: renewed_moved [OF Renew_effect] let_go_moved [OF Release_effect] reported_moved [OF Terminal_effect]\<close>)

lemma run_moved_artifacts: "run_moved d d' \<Longrightarrow> d_artifacts (bd_core d') = d_artifacts (bd_core d)"
  by (auto simp: run_moved_def)

interpretation native_baselines: baseline_store "\<lambda>d. pg_view (bd_core d)" "\<lambda>d. map_of (d_artifacts (bd_core d))"
  "\<lambda>d. map_of (bd_baselines d)" native_step
proof unfold_locales
  fix op :: native_op and s :: native_db
  show "life_steps (pg_view (bd_core s)) (pg_view (bd_core (native_step op s)))"
  proof (cases op)
    case (NBaseline b)
    then show ?thesis using pg_baselines.runs_refine [where s = "baseline_part s" and op = b] by simp
  qed (use native_call_moved [of op s] in \<open>simp_all add: run_moved_def\<close>)
  show "map_of (d_artifacts (bd_core s)) \<subseteq>\<^sub>m map_of (d_artifacts (bd_core (native_step op s)))"
  proof (cases op)
    case (NBaseline b)
    then show ?thesis using pg_baselines.artifacts_kept [where s = "baseline_part s" and op = b] by simp
  qed (use run_moved_artifacts [OF native_call_moved [of op s]] in simp_all)
  show "row_change (pg_view (bd_core (native_step op s))) (map_of (d_artifacts (bd_core (native_step op s))))
      (map_of (bd_baselines s)) (map_of (bd_baselines (native_step op s)))"
  proof (cases op)
    case (NBaseline b)
    then show ?thesis using pg_baselines.rows_change [where s = "baseline_part s" and op = b] by simp
  qed (use native_call_moved [of op s] in \<open>simp_all add: run_moved_def\<close>)
qed

interpretation native: lifecycle_store "\<lambda>d. pg_view (bd_core d)" native_step native_empty
  by unfold_locales
    (simp_all add: native_baselines.runs_refine native_empty_def baseline_empty_def baseline_db.defs db_empty_def pg_view_def fun_eq_iff)

section \<open>One slot per worker\<close>

text \<open>At an instant, no worker has two live rows; the table has one row per Run.\<close>

definition one_slot :: "time \<Rightarrow> lease_table \<Rightarrow> bool" where
  "one_slot now t =
    (table_ok t \<and> (\<forall>(i, l)\<in>set t. \<forall>(j, m)\<in>set t. lx_workerID l = lx_workerID m \<and> live_row now l \<and> live_row now m \<longrightarrow> i = j))"

lemma one_slotD:
  "one_slot now t \<Longrightarrow> x \<in> set t \<Longrightarrow> y \<in> set t \<Longrightarrow> lx_workerID (snd x) = lx_workerID (snd y) \<Longrightarrow>
    live_row now (snd x) \<Longrightarrow> live_row now (snd y) \<Longrightarrow> fst x = fst y"
  by (cases x; cases y) (auto simp: one_slot_def)

text \<open>A row is given to a worker without live rows, or replaced by one that is not longer live at this instant than before.\<close>

definition slot_change :: "time \<Rightarrow> lease_table \<Rightarrow> lease_table \<Rightarrow> bool" where
  "slot_change now t t' =
    (t' = t \<or> (\<exists>i l'. t' = tput i l' t
       \<and> ((\<forall>l\<in>snd ` set t. lx_workerID l = lx_workerID l' \<longrightarrow> \<not> live_row now l)
          \<or> (\<exists>l. map_of t i = Some l \<and> lx_workerID l = lx_workerID l' \<and> live_row now l))))"

lemma set_tput: "x \<in> set (tput k v t) \<Longrightarrow> x = (k, v) \<or> x \<in> set t"
  by (induction t) (auto split: if_splits)

lemma set_tput_other: "table_ok t \<Longrightarrow> (j, m) \<in> set (tput k v t) \<Longrightarrow> j = k \<and> m = v \<or> j \<noteq> k \<and> (j, m) \<in> set t"
  using set_tput [of "(j, m)" k v t] by (auto simp: table_ok_iff dest: table_ok_tput [of t k v])

lemma one_slot_later: "one_slot now t \<Longrightarrow> now \<le> later \<Longrightarrow> one_slot later t"
  by (fastforce simp: one_slot_def live_row_def)

lemma one_slot_change:
  assumes "one_slot now t" "slot_change now t t'"
  shows "one_slot now t'"
proof -
  have ok: "table_ok t" using assms(1) by (simp add: one_slot_def)
  have main: "one_slot now (tput i l' t)"
    if q: "(\<forall>l\<in>snd ` set t. lx_workerID l = lx_workerID l' \<longrightarrow> \<not> live_row now l)
          \<or> (\<exists>l. map_of t i = Some l \<and> lx_workerID l = lx_workerID l' \<and> live_row now l)" for i l'
  proof -
    have other: "\<not> live_row now m" if "(j, m) \<in> set t" "j \<noteq> i" "lx_workerID m = lx_workerID l'" for j m
    proof
      assume live: "live_row now m"
      with q that(1,3) obtain l where l: "map_of t i = Some l" "lx_workerID l = lx_workerID l'" "live_row now l" by force
      then have "(i, l) \<in> set t" by (simp add: map_of_SomeD)
      with assms(1) that live l show False by (force simp: one_slot_def)
    qed
    show ?thesis
      unfolding one_slot_def
    proof (intro conjI ballI, goal_cases)
      case 1
      then show ?case using ok by simp
    next
      case (2 x)
      obtain j m where x: "x = (j, m)" by force
      with 2 ok have jm: "j = i \<and> m = l' \<or> j \<noteq> i \<and> (j, m) \<in> set t" by (blast dest: set_tput_other)
      have "j = k" if "(k, n) \<in> set (tput i l' t)" "lx_workerID m = lx_workerID n" "live_row now m" "live_row now n" for k n
      proof -
        have kn: "k = i \<and> n = l' \<or> k \<noteq> i \<and> (k, n) \<in> set t" using that(1) ok by (blast dest: set_tput_other)
        show ?thesis using jm kn that(2-4) other [of j m] other [of k n] assms(1) by (force simp: one_slot_def)
      qed
      then show ?case by (auto simp: x)
    qed
  qed
  from assms(2) consider "t' = t"
    | i l' where "t' = tput i l' t" "(\<forall>l\<in>snd ` set t. lx_workerID l = lx_workerID l' \<longrightarrow> \<not> live_row now l)
          \<or> (\<exists>l. map_of t i = Some l \<and> lx_workerID l = lx_workerID l' \<and> live_row now l)"
    by (auto simp: slot_change_def)
  then show ?thesis using assms(1) main by cases auto
qed

locale worker_slots =
  fixes leases :: "'s \<Rightarrow> lease_table" and step :: "'op \<Rightarrow> 's \<Rightarrow> 's" and clock :: "'op \<Rightarrow> time option"
  assumes untouched: "clock op = None \<Longrightarrow> leases (step op s) = leases s"
    and touched: "clock op = Some now \<Longrightarrow> slot_change now (leases s) (leases (step op s))"
begin

lemma calls_one_slot:
  "one_slot t (leases s) \<Longrightarrow> sorted (t # List.map_filter clock ops @ [now]) \<Longrightarrow> one_slot now (leases (fold step ops s))"
proof (induction ops arbitrary: t s)
  case Nil
  then show ?case by (simp add: one_slot_later)
next
  case (Cons op ops)
  show ?case
  proof (cases "clock op")
    case None
    with Cons.prems Cons.IH [of t "step op s"] untouched [OF None, of s] show ?thesis by (simp add: List.map_filter_simps)
  next
    case (Some u)
    have "one_slot u (leases (step op s))"
      using Cons.prems Some by (intro one_slot_change [OF one_slot_later touched [OF Some]]) (auto simp: List.map_filter_simps)
    with Cons.prems Cons.IH [of u "step op s"] Some show ?thesis by (simp add: List.map_filter_simps)
  qed
qed

end

lemma slot_change_refl [simp]: "slot_change now t t"
  by (simp add: slot_change_def)

lemma slot_change_replace:
  "map_of t i = Some l \<Longrightarrow> lx_workerID l' = lx_workerID l \<Longrightarrow> live_row now l \<Longrightarrow> slot_change now t (tput i l' t)"
  by (auto simp: slot_change_def)

lemma in_scope_lease: "in_scope scope now version d \<Longrightarrow> map_of (nd_leases d) (ns_runID scope) = Some (ns_stored scope)"
  by (auto simp: in_scope_def)

lemma in_scope_now: "in_scope scope now version d \<Longrightarrow> ns_now scope = now"
  by (auto simp: in_scope_def)

text \<open>What stays the same while a lease is renewed, released or expired by a report.\<close>

definition lease_identity :: "native_lease_row \<Rightarrow> string \<times> string \<times> string \<times> int \<times> string \<times> bl_plan" where
  "lease_identity l = (lx_leaseID l, lx_attemptID l, lx_workerID l, lx_protocolVersion l, lx_capabilitySHA256 l, lx_plan l)"

text \<open>
  A call with authority leaves the database alone or replaces the lease row of the Run, which
  its authority proves and which is live.
\<close>

definition under_authority :: "time \<Rightarrow> string \<Rightarrow> string \<Rightarrow> string \<Rightarrow> string \<Rightarrow> 'x native_db_scheme \<Rightarrow> 'x native_db_scheme \<Rightarrow> bool" where
  "under_authority now w l a c d d' =
    (d' = d \<or> (\<exists>i row row'. map_of (nd_leases d) i = Some row \<and> live_row now row \<and> matchingNativeLeaseAuthority row w l a c
       \<and> lease_identity row' = lease_identity row \<and> nd_leases d' = tput i row' (nd_leases d)))"

lemma under_authorityI:
  assumes "in_scope scope now version d" "live_row now (ns_stored scope)" "matchingNativeLeaseAuthority (ns_stored scope) w l a c"
    "lease_identity row' = lease_identity (ns_stored scope)" "nd_leases d' = tput (ns_runID scope) row' (nd_leases d)"
  shows "under_authority now w l a c d d'"
  unfolding under_authority_def using in_scope_lease [OF assms(1)] assms(2-) by blast

lemma renewed_authority: "renewed now w rq ttl d d' \<Longrightarrow> under_authority now w (rq_leaseID rq) (rq_attemptID rq) (rq_capability rq) d d'"
  unfolding renewed_def
proof (elim disjE exE conjE)
  fix scope r
  assume s: "in_scope scope now 2 d" and c: "currentNativeLease (ns_stored scope) w rq now"
    and d': "d' = scoped_write scope r ((ns_stored scope)\<lparr>lx_expiresAt := now + ttl\<rparr>) d"
  show ?thesis by (rule under_authorityI [OF s]) (use c in \<open>auto simp: d' currentNativeLease_def live_row_def lease_identity_def\<close>)
qed (simp add: under_authority_def)

lemma let_go_authority: "let_go now w rq d d' \<Longrightarrow> under_authority now w (rl_leaseID rq) (rl_attemptID rq) (rl_capability rq) d d'"
  unfolding let_go_def
proof (elim disjE exE conjE)
  fix scope r msg
  assume s: "in_scope scope now 2 d" and c: "live_row now (ns_stored scope)"
      "matchingNativeLeaseAuthority (ns_stored scope) w (rl_leaseID rq) (rl_attemptID rq) (rl_capability rq)"
    and d': "d' = scoped_write scope r ((ns_stored scope)\<lparr>lx_expiresAt := now, lx_release := Some (now, rl_reason rq, msg)\<rparr>) d"
  show ?thesis by (rule under_authorityI [OF s c]) (auto simp: d' lease_identity_def)
qed (simp add: under_authority_def)

lemma reported_authority: "reported now w rq d d' \<Longrightarrow> under_authority now w (tr_leaseID rq) (tr_attemptID rq) (tr_capability rq) d d'"
  unfolding reported_def
proof (elim disjE exE conjE)
  fix scope r t
  assume s: "in_scope scope now 2 d" and a: "live_authority scope w (tr_leaseID rq) (tr_attemptID rq) (tr_capability rq)"
    and d': "d' = (scoped_write scope r ((ns_stored scope)\<lparr>lx_expiresAt := now\<rparr>) d)\<lparr>nd_terminals := tput (ns_runID scope) t (nd_terminals d)\<rparr>"
  show ?thesis
    by (rule under_authorityI [OF s live_authority_live [OF a in_scope_now [OF s]]]) (use a in \<open>auto simp: d' live_authority_def lease_identity_def\<close>)
qed (simp add: under_authority_def)

lemma under_authority_slot: "under_authority now w l a c d d' \<Longrightarrow> slot_change now (nd_leases d) (nd_leases d')"
  by (auto simp: under_authority_def lease_identity_def intro!: slot_change_replace)

lemmas call_authorities = renewed_authority [OF Renew_effect] let_go_authority [OF Release_effect] reported_authority [OF Terminal_effect]

lemma acquired_slot: "acquired now w d d' \<Longrightarrow> slot_change now (nd_leases d) (nd_leases d')"
  by (fastforce simp: acquired_def slot_change_def nativeWorkerOccupied_def list_ex_iff)

interpretation native_slots: worker_slots nd_leases native_step lease_clock
proof unfold_locales
  fix op :: native_op and s :: native_db and now
  show "lease_clock op = None \<Longrightarrow> nd_leases (native_step op s) = nd_leases s"
  proof (cases op)
    case (NPresence f now r)
    with Presence_effect [of r s f now] show ?thesis by (auto simp: announced_def)
  next
    case (NReserve f old rnd now w rq ttl)
    with Reserve_upload_effect [of now w rq s f old rnd ttl] show ?thesis by (auto simp: granted_def)
  next
    case (NRegister f old rnd now w rq v)
    with Register_effect [of now w rq s f old rnd v] show ?thesis by (auto simp: filed_def)
  qed simp_all
  show "lease_clock op = Some now \<Longrightarrow> slot_change now (nd_leases s) (nd_leases (native_step op s))"
    by (cases op) (auto intro: under_authority_slot [OF call_authorities(1)] under_authority_slot [OF call_authorities(2)]
      under_authority_slot [OF call_authorities(3)] acquired_slot [OF Acquire_effect])
qed

lemma current_slots_one:
  assumes "one_slot now (nd_leases d)"
  shows "length (current_slots w now d) \<le> 1"
proof (rule ccontr)
  assume "\<not> length (current_slots w now d) \<le> 1"
  then obtain x y zs where c: "current_slots w now d = x # y # zs" by (cases "current_slots w now d"; cases "tl (current_slots w now d)") auto
  have "distinct (map fst (current_slots w now d))"
    using assms by (auto simp: one_slot_def current_slots_def table_ok_def distinct_map_filter)
  moreover have "x \<in> set (current_slots w now d)" "y \<in> set (current_slots w now d)" by (simp_all add: c)
  then have "x \<in> set (nd_leases d)" "y \<in> set (nd_leases d)" "lx_workerID (snd x) = lx_workerID (snd y)"
    "live_row now (snd x)" "live_row now (snd y)" by (auto simp: current_slots_def)
  then have "fst x = fst y" by (rule one_slotD [OF assms])
  ultimately show False by (simp add: c)
qed

section \<open>Authority\<close>

record authority =
  au_worker :: string
  au_lease :: string
  au_attempt :: string
  au_capability :: string

definition proves :: "authority \<Rightarrow> native_lease_row \<Rightarrow> bool" where
  "proves a l = matchingNativeLeaseAuthority l (au_worker a) (au_lease a) (au_attempt a) (au_capability a)"

text \<open>The authority a call presents and the instant it reads.\<close>

fun call_authority :: "native_op \<Rightarrow> authority option" where
  "call_authority (NRenew f old now w rq ttl g) = Some \<lparr>au_worker = w, au_lease = rq_leaseID rq, au_attempt = rq_attemptID rq, au_capability = rq_capability rq\<rparr>"
| "call_authority (NRelease f old now w rq) = Some \<lparr>au_worker = w, au_lease = rl_leaseID rq, au_attempt = rl_attemptID rq, au_capability = rl_capability rq\<rparr>"
| "call_authority (NReserve f old rnd now w rq ttl) = Some \<lparr>au_worker = w, au_lease = ur_leaseID rq, au_attempt = ur_attemptID rq, au_capability = ur_capability rq\<rparr>"
| "call_authority (NRegister f old rnd now w rq v) = Some \<lparr>au_worker = w, au_lease = rg_leaseID rq, au_attempt = rg_attemptID rq, au_capability = rg_capability rq\<rparr>"
| "call_authority (NTerminal f old now w rq) = Some \<lparr>au_worker = w, au_lease = tr_leaseID rq, au_attempt = tr_attemptID rq, au_capability = tr_capability rq\<rparr>"
| "call_authority _ = None"

fun call_clock :: "native_op \<Rightarrow> time" where
  "call_clock (NPresence f now r) = now"
| "call_clock (NAcquire f rd now w seen c pl age ttl ra) = now"
| "call_clock (NRenew f old now w rq ttl g) = now"
| "call_clock (NRelease f old now w rq) = now"
| "call_clock (NReserve f old rnd now w rq ttl) = now"
| "call_clock (NRegister f old rnd now w rq v) = now"
| "call_clock (NTerminal f old now w rq) = now"
| "call_clock (NBaseline b) = 0"

locale authority_store =
  fixes step :: "'op \<Rightarrow> 's \<Rightarrow> 's" and row :: "'s \<Rightarrow> string \<rightharpoonup> native_lease_row"
    and auth :: "'op \<Rightarrow> authority option" and clock :: "'op \<Rightarrow> time"
  assumes live_kept: "row s i = Some l \<Longrightarrow> live_row (clock op) l \<Longrightarrow> (\<forall>a. auth op = Some a \<longrightarrow> \<not> proves a l) \<Longrightarrow> row (step op s) i = Some l"
    and fenced: "auth op = Some a \<Longrightarrow> (\<forall>i l. row s i = Some l \<longrightarrow> proves a l \<longrightarrow> \<not> live_row (clock op) l) \<Longrightarrow> step op s = s"
begin

text \<open>Until it expires, a lease survives every call of others.\<close>

lemma survives:
  "row s i = Some l \<Longrightarrow> \<forall>op\<in>set ops. live_row (clock op) l \<and> (\<forall>a. auth op = Some a \<longrightarrow> \<not> proves a l) \<Longrightarrow>
    row (fold step ops s) i = Some l"
  by (induction ops arbitrary: s) (auto dest: live_kept)

text \<open>Calls of authorities that no live lease bears out are without effect.\<close>

lemma no_authority_no_effect:
  assumes "\<forall>op\<in>set ops. \<exists>a. auth op = Some a \<and> (\<forall>i l. row s i = Some l \<longrightarrow> proves a l \<longrightarrow> \<not> live_row (clock op) l)"
  shows "fold step ops s = s"
  using assms
proof (induction ops)
  case (Cons op ops)
  then obtain a where "auth op = Some a" "\<forall>i l. row s i = Some l \<longrightarrow> proves a l \<longrightarrow> \<not> live_row (clock op) l" by auto
  from fenced [OF this] Cons show ?case by simp
qed simp

end

lemma live_authority_row:
  "in_scope scope now version d \<Longrightarrow> live_authority scope w l a c \<Longrightarrow>
    \<exists>i r. map_of (nd_leases d) i = Some r \<and> live_row now r \<and> matchingNativeLeaseAuthority r w l a c"
  by (metis in_scope_lease in_scope_now live_authority_def live_authority_live)

lemma granted_authority:
  "granted now w rq d d' \<Longrightarrow> nd_leases d' = nd_leases d \<and> (d' = d \<or> (\<exists>i r. map_of (nd_leases d) i = Some r \<and> live_row now r
    \<and> matchingNativeLeaseAuthority r w (ur_leaseID rq) (ur_attemptID rq) (ur_capability rq)))"
  by (auto simp: granted_def dest: live_authority_row)

lemma filed_authority:
  "filed now w rq d d' \<Longrightarrow> nd_leases d' = nd_leases d \<and> (d' = d \<or> (\<exists>i r. map_of (nd_leases d) i = Some r \<and> live_row now r
    \<and> matchingNativeLeaseAuthority r w (rg_leaseID rq) (rg_attemptID rq) (rg_capability rq)))"
  by (auto simp: filed_def dest: live_authority_row)

lemma acquired_keeps:
  assumes "acquired now w d d'" "map_of (nd_leases d) i = Some l" "live_row now l"
  shows "map_of (nd_leases d') i = Some l"
  using assms by (auto simp: acquired_def nativeRunLeased_def)

lemma under_authority_keeps:
  assumes "under_authority now w l a c d d'" "map_of (nd_leases d) i = Some r" "\<not> matchingNativeLeaseAuthority r w l a c"
  shows "map_of (nd_leases d') i = Some r"
  using assms by (auto simp: under_authority_def)

lemma under_authority_fenced:
  assumes "under_authority now w l a c d d'" "\<forall>i r. map_of (nd_leases d) i = Some r \<longrightarrow> matchingNativeLeaseAuthority r w l a c \<longrightarrow> \<not> live_row now r"
  shows "d' = d"
  using assms unfolding under_authority_def by blast

interpretation native_authority: authority_store native_step "\<lambda>d. map_of (nd_leases d)" call_authority call_clock
proof unfold_locales
  fix s :: native_db and i l op
  assume r: "map_of (nd_leases s) i = Some l" "live_row (call_clock op) l" "\<forall>a. call_authority op = Some a \<longrightarrow> \<not> proves a l"
  show "map_of (nd_leases (native_step op s)) i = Some l"
  proof (cases op)
    case (NAcquire f rd now w seen c pl age ttl ra)
    with r acquired_keeps [OF Acquire_effect] show ?thesis by simp
  next
    case (NRenew f old now w rq ttl g)
    with r under_authority_keeps [OF call_authorities(1)] show ?thesis by (simp add: proves_def)
  next
    case (NRelease f old now w rq)
    with r under_authority_keeps [OF call_authorities(2)] show ?thesis by (simp add: proves_def)
  next
    case (NTerminal f old now w rq)
    with r under_authority_keeps [OF call_authorities(3)] show ?thesis by (simp add: proves_def)
  qed (use r native_slots.untouched [of op s] in simp_all)
next
  fix op a and s :: native_db
  assume a: "call_authority op = Some a" and n: "\<forall>i l. map_of (nd_leases s) i = Some l \<longrightarrow> proves a l \<longrightarrow> \<not> live_row (call_clock op) l"
  show "native_step op s = s"
  proof (cases op)
    case (NRenew f old now w rq ttl g)
    with a n under_authority_fenced [OF call_authorities(1)] show ?thesis by (auto simp: proves_def)
  next
    case (NRelease f old now w rq)
    with a n under_authority_fenced [OF call_authorities(2)] show ?thesis by (auto simp: proves_def)
  next
    case (NTerminal f old now w rq)
    with a n under_authority_fenced [OF call_authorities(3)] show ?thesis by (auto simp: proves_def)
  next
    case (NReserve f old rnd now w rq ttl)
    with a n granted_authority [OF Reserve_upload_effect [of now w rq s f old rnd ttl]] show ?thesis by (auto simp: proves_def)
  next
    case (NRegister f old rnd now w rq v)
    with a n filed_authority [OF Register_effect [of now w rq s f old rnd v]] show ?thesis by (auto simp: proves_def)
  qed (use a in simp_all)
qed

section \<open>Durable rows\<close>

text \<open>The first accepted terminal report of a Run and every registered artifact are final.\<close>

lemma scoped_frames:
  "renewed now w rq ttl d d' \<Longrightarrow> nd_terminals d' = nd_terminals d \<and> nd_artifacts d' = nd_artifacts d \<and> nd_grants d' = nd_grants d"
  "let_go now w rl d d' \<Longrightarrow> nd_terminals d' = nd_terminals d \<and> nd_artifacts d' = nd_artifacts d \<and> nd_grants d' = nd_grants d"
  "reported now w tr d d' \<Longrightarrow> nd_artifacts d' = nd_artifacts d \<and> nd_grants d' = nd_grants d"
  "acquired now w d d' \<Longrightarrow> nd_terminals d' = nd_terminals d \<and> nd_artifacts d' = nd_artifacts d \<and> nd_grants d' = nd_grants d"
  "announced w d d' \<Longrightarrow> nd_terminals d' = nd_terminals d \<and> nd_artifacts d' = nd_artifacts d \<and> nd_grants d' = nd_grants d"
  "granted now w ur d d' \<Longrightarrow> nd_terminals d' = nd_terminals d \<and> nd_artifacts d' = nd_artifacts d"
  "filed now w rg d d' \<Longrightarrow> nd_terminals d' = nd_terminals d \<and> nd_grants d' = nd_grants d"
  by (auto simp: renewed_def let_go_def reported_def acquired_def announced_def granted_def filed_def)

lemmas native_frames = scoped_frames(1) [OF Renew_effect] scoped_frames(2) [OF Release_effect] scoped_frames(3) [OF Terminal_effect]
  scoped_frames(4) [OF Acquire_effect] scoped_frames(5) [OF Presence_effect] scoped_frames(6) [OF Reserve_upload_effect]
  scoped_frames(7) [OF Register_effect]

lemma reported_terminals: "reported now w rq d d' \<Longrightarrow> map_of (nd_terminals d) \<subseteq>\<^sub>m map_of (nd_terminals d')"
  by (auto simp: reported_def map_le_def)

lemma filed_artifacts: "filed now w rq d d' \<Longrightarrow> map_of (nd_artifacts d) \<subseteq>\<^sub>m map_of (nd_artifacts d')"
  by (auto simp: filed_def map_le_def)

lemma step_terminals: "map_of (nd_terminals d) \<subseteq>\<^sub>m map_of (nd_terminals (native_step op d))"
  by (cases op) (auto simp: native_frames intro: reported_terminals [OF Terminal_effect])

lemma step_artifacts: "map_of (nd_artifacts d) \<subseteq>\<^sub>m map_of (nd_artifacts (native_step op d))"
  by (cases op) (auto simp: native_frames intro: filed_artifacts [OF Register_effect])

interpretation native_terminals: evolving_rows "\<lambda>d. map_of (nd_terminals d)" native_step "\<lambda>d. True" "(=)"
  by unfold_locales (use step_terminals in \<open>force simp: map_le_def dom_def\<close>)+

interpretation native_artifacts: evolving_rows "\<lambda>d. map_of (nd_artifacts d)" native_step "\<lambda>d. True" "(=)"
  by unfold_locales (use step_artifacts in \<open>force simp: map_le_def dom_def\<close>)+

text \<open>A grant keeps its identity and its declaration; only its validity period is renewed.\<close>

definition grants_keyed :: "(string, upload_reservation) table \<Rightarrow> bool" where
  "grants_keyed gs = (table_ok gs \<and> (\<forall>(k, g)\<in>set gs. up_grantID g = k))"

definition same_declaration :: "upload_reservation \<Rightarrow> upload_reservation \<Rightarrow> bool" where
  "same_declaration g g' = (g' = g\<lparr>up_issuedAt := up_issuedAt g', up_expiresAt := up_expiresAt g'\<rparr>)"

lemma same_declaration_trans: "same_declaration a b \<Longrightarrow> same_declaration b c \<Longrightarrow> same_declaration a c"
  by (cases a; cases b; cases c) (auto simp: same_declaration_def)

lemma granted_keyed:
  assumes "granted now w rq d d'" "grants_keyed (nd_grants d)"
  shows "grants_keyed (nd_grants d')"
    and "map_of (nd_grants d) k = Some g \<Longrightarrow> \<exists>g'. map_of (nd_grants d') k = Some g' \<and> same_declaration g g'"
proof -
  from assms(1) consider "d' = d"
    | g where "grant_change g (nd_grants d)" "d' = d\<lparr>nd_grants := tput (up_grantID g) g (nd_grants d)\<rparr>"
    by (auto simp: granted_def)
  then have "grants_keyed (nd_grants d') \<and>
    (map_of (nd_grants d) k = Some g \<longrightarrow> (\<exists>g'. map_of (nd_grants d') k = Some g' \<and> same_declaration g g'))"
  proof cases
    case 1
    then show ?thesis using assms(2) by (auto simp: same_declaration_def)
  next
    case (2 h)
    have "grants_keyed (nd_grants d')"
      using assms(2) 2(2) by (auto simp: grants_keyed_def dest!: set_tput)
    moreover have "same_declaration g h" if "map_of (nd_grants d) (up_grantID h) = Some g"
    proof -
      from 2(1) that obtain g0 t e where g0: "g0 \<in> snd ` set (nd_grants d)" "h = g0\<lparr>up_issuedAt := t, up_expiresAt := e\<rparr>"
        by (auto simp: grant_change_def)
      then obtain k0 where "(k0, g0) \<in> set (nd_grants d)" by auto
      with assms(2) have "(up_grantID g0, g0) \<in> set (nd_grants d)" "table_ok (nd_grants d)" by (auto simp: grants_keyed_def)
      then have "map_of (nd_grants d) (up_grantID g0) = Some g0" by (simp add: table_ok_iff)
      moreover have "up_grantID h = up_grantID g0" by (simp add: g0(2))
      ultimately have "g0 = g" using that by simp
      with g0(2) show ?thesis by (simp add: same_declaration_def)
    qed
    ultimately show ?thesis using 2(2) by (auto simp: same_declaration_def [of g g])
  qed
  then show "grants_keyed (nd_grants d')"
    "map_of (nd_grants d) k = Some g \<Longrightarrow> \<exists>g'. map_of (nd_grants d') k = Some g' \<and> same_declaration g g'" by auto
qed

interpretation native_grants: evolving_rows "\<lambda>d. map_of (nd_grants d)" native_step "\<lambda>d. grants_keyed (nd_grants d)" same_declaration
proof unfold_locales
  show "same_declaration g g" for g by (simp add: same_declaration_def)
  show "same_declaration a b \<Longrightarrow> same_declaration b c \<Longrightarrow> same_declaration a c" for a b c by (rule same_declaration_trans)
  fix s :: native_db and op k g
  assume k: "grants_keyed (nd_grants s)"
  have "grants_keyed (nd_grants (native_step op s)) \<and>
    (map_of (nd_grants s) k = Some g \<longrightarrow> (\<exists>g'. map_of (nd_grants (native_step op s)) k = Some g' \<and> same_declaration g g'))"
  proof (cases op)
    case (NReserve f old rnd now w rq ttl)
    with granted_keyed [OF Reserve_upload_effect k] show ?thesis by auto
  qed (use k in \<open>auto simp: native_frames same_declaration_def\<close>)
  then show "grants_keyed (nd_grants (native_step op s))"
    "map_of (nd_grants s) k = Some g \<Longrightarrow> \<exists>g'. map_of (nd_grants (native_step op s)) k = Some g' \<and> same_declaration g g'" by auto
qed

section \<open>Identities of leases, grants and Runs\<close>

definition unique_leases :: "lease_table \<Rightarrow> bool" where
  "unique_leases t = (table_ok t \<and> (\<forall>x\<in>set t. \<forall>y\<in>set t. lx_leaseID (snd x) = lx_leaseID (snd y) \<longrightarrow> fst x = fst y))"

definition unique_grants :: "(string, upload_reservation) table \<Rightarrow> bool" where
  "unique_grants gs = (\<forall>g\<in>snd ` set gs. \<forall>h\<in>snd ` set gs. up_leaseID g = up_leaseID h \<and> up_slot g = up_slot h \<longrightarrow> up_grantID g = up_grantID h)"

definition native_ok :: "native_db \<Rightarrow> bool" where
  "native_ok d = (view_ok (pg_view (bd_core d)) \<and> unique_leases (nd_leases d) \<and> grants_keyed (nd_grants d) \<and> unique_grants (nd_grants d))"

lemma unique_leases_put:
  assumes "unique_leases t" "\<forall>x\<in>set t. fst x \<noteq> i \<longrightarrow> lx_leaseID (snd x) \<noteq> lx_leaseID l"
  shows "unique_leases (tput i l t)"
proof -
  have ok: "table_ok t" using assms(1) by (simp add: unique_leases_def)
  have "fst x = fst y" if "x \<in> set (tput i l t)" "y \<in> set (tput i l t)" "lx_leaseID (snd x) = lx_leaseID (snd y)" for x y
  proof -
    have c: "fst z = i \<and> snd z = l \<or> fst z \<noteq> i \<and> z \<in> set t" if "z \<in> set (tput i l t)" for z
      using set_tput_other [OF ok, of "fst z" "snd z" i l] that by simp
    from c [OF that(1)] c [OF that(2)] show ?thesis
    proof (elim disjE conjE)
      assume "snd x = l" "fst y \<noteq> i" "y \<in> set t"
      with bspec [OF assms(2), of y] that(3) show ?thesis by simp
    next
      assume "fst x \<noteq> i" "x \<in> set t" "snd y = l"
      with bspec [OF assms(2), of x] that(3) show ?thesis by simp
    next
      assume "x \<in> set t" "y \<in> set t"
      with assms(1) that(3) show ?thesis unfolding unique_leases_def by blast
    qed simp
  qed
  with ok table_ok_tput [OF ok] show ?thesis unfolding unique_leases_def by blast
qed

lemma under_authority_unique:
  assumes "under_authority now w l a c d d'" "unique_leases (nd_leases d)"
  shows "unique_leases (nd_leases d')"
proof -
  have "unique_leases (tput i r' (nd_leases d))" if "map_of (nd_leases d) i = Some r" "lease_identity r' = lease_identity r" for i r r'
  proof (rule unique_leases_put [OF assms(2)])
    have "(i, r) \<in> set (nd_leases d)" using that(1) by (rule map_of_SomeD)
    moreover have "lx_leaseID r' = lx_leaseID r" using that(2) by (simp add: lease_identity_def)
    ultimately show "\<forall>x\<in>set (nd_leases d). fst x \<noteq> i \<longrightarrow> lx_leaseID (snd x) \<noteq> lx_leaseID r'"
      using assms(2) unfolding unique_leases_def by (metis fst_conv snd_conv)
  qed
  with assms show ?thesis by (auto simp: under_authority_def)
qed

lemma acquired_unique: "acquired now w d d' \<Longrightarrow> unique_leases (nd_leases d) \<Longrightarrow> unique_leases (nd_leases d')"
  by (auto simp: acquired_def intro!: unique_leases_put)

lemma lease_step_cases:
  obtains (same) "nd_leases (native_step op d) = nd_leases d"
  | (taken) now w where "acquired now w d (native_step op d)"
  | (used) now w l a c where "under_authority now w l a c d (native_step op d)"
proof (cases op)
  case (NAcquire f rd now w seen c pl age ttl ra)
  then show ?thesis by (intro taken [of now w]) (simp add: Acquire_effect)
next
  case (NRenew f old now w rq ttl g)
  then show ?thesis by (intro used) (simp, rule call_authorities(1))
next
  case (NRelease f old now w rq)
  then show ?thesis by (intro used) (simp, rule call_authorities(2))
next
  case (NTerminal f old now w rq)
  then show ?thesis by (intro used) (simp, rule call_authorities(3))
qed (use native_slots.untouched [of op d] in \<open>auto intro: same\<close>)

lemma step_unique_leases: "unique_leases (nd_leases d) \<Longrightarrow> unique_leases (nd_leases (native_step op d))"
  by (cases rule: lease_step_cases [of op d]) (auto intro: acquired_unique under_authority_unique)

lemma unique_grants_step:
  assumes "granted now w rq d d'" "grants_keyed (nd_grants d)" "unique_grants (nd_grants d)"
  shows "unique_grants (nd_grants d')"
proof -
  have main: "unique_grants (tput (up_grantID g) g (nd_grants d))" if ch: "grant_change g (nd_grants d)" for g
  proof -
    have same: "up_grantID x = up_grantID g" if "x \<in> snd ` set (nd_grants d)" "up_leaseID x = up_leaseID g" "up_slot x = up_slot g" for x
      using ch unfolding grant_change_def
    proof (elim disjE bexE exE conjE)
      assume "\<forall>g0\<in>snd ` set (nd_grants d). up_leaseID g0 = up_leaseID g \<longrightarrow> up_slot g0 \<noteq> up_slot g"
      with that show ?thesis by blast
    next
      fix g0 t e assume g0: "g0 \<in> snd ` set (nd_grants d)" and g: "g = g0\<lparr>up_issuedAt := t, up_expiresAt := e\<rparr>"
      have "up_leaseID x = up_leaseID g0" "up_slot x = up_slot g0" using that(2,3) by (simp_all add: g)
      with assms(3) g0 that(1) have "up_grantID x = up_grantID g0" unfolding unique_grants_def by blast
      then show ?thesis by (simp add: g)
    qed
    have "x = g \<or> x \<in> snd ` set (nd_grants d)" if "x \<in> snd ` set (tput (up_grantID g) g (nd_grants d))" for x
      using that by (auto dest!: set_tput)
    with same assms(3) show ?thesis unfolding unique_grants_def by metis
  qed
  from assms(1) consider "d' = d"
    | g where "grant_change g (nd_grants d)" "d' = d\<lparr>nd_grants := tput (up_grantID g) g (nd_grants d)\<rparr>"
    by (auto simp: granted_def)
  then show ?thesis by cases (use assms(3) main in auto)
qed

lemma step_unique_grants:
  "grants_keyed (nd_grants d) \<Longrightarrow> unique_grants (nd_grants d) \<Longrightarrow> unique_grants (nd_grants (native_step op d))"
  by (cases op) (auto simp: native_frames intro: unique_grants_step [OF Reserve_upload_effect])

lemma native_ok_step: "native_ok d \<Longrightarrow> native_ok (native_step op d)"
  using native_grants.step_inv life_steps_ok [OF native.step_refines]
  by (auto simp: native_ok_def step_unique_leases step_unique_grants)

lemma native_ok_calls: "native_ok d \<Longrightarrow> native_ok (fold native_step ops d)"
  by (induction ops arbitrary: d) (simp_all add: native_ok_step)

lemma native_ok_empty [simp]: "native_ok native_empty"
  using native.view_init by (simp add: native_ok_def unique_leases_def grants_keyed_def unique_grants_def)
    (simp add: native_empty_def baseline_db.defs table_ok_def)

section \<open>Run rows and presence\<close>

lemma rows_kept_refl [simp]: "rows_kept d d"
  by (simp add: rows_kept_def)

lemma rows_kept_trans: "rows_kept a b \<Longrightarrow> rows_kept b c \<Longrightarrow> rows_kept a c"
  unfolding rows_kept_def by metis

lemma Accept_rows: "rows_kept d (snd (pg_Accept f now w p k rq t d))"
proof -
  obtain res d' where c: "pg_Accept f now w p k rq t d = (res, d')" by force
  then have "rows_kept d d'"
  proof (cases rule: pg_Accept_cases)
    case (created x)
    with pg_create_Commit [OF created(3)] show ?thesis
      by (auto simp: created_db_def insert_binding_def rows_kept_def)
  qed simp
  with c show ?thesis by simp
qed

lemma pg_step_rows: "rows_kept d (pg_step op d)"
proof (cases "pg_lease op")
  case (Some l)
  with fenced_rows [OF fenced_call [OF Some, of d]] show ?thesis by simp
next
  case None
  then show ?thesis
  proof (cases op)
    case (PAccept e p' k' rq t')
    then show ?thesis by (cases e) (simp add: Accept_rows)
  next
    case (PRegisterArtifact f p a)
    then show ?thesis using RegisterArtifact_frame [of f p a d] by (auto simp: rows_kept_same)
  next
    case (PClaimRuns f env w n ttl)
    then show ?thesis using ClaimRuns_frame [of f env w n ttl d] by (auto simp: rows_kept_same)
  next
    case (PCancel f now p i)
    then show ?thesis by (simp add: pg_Cancel_def mutate_rows)
  next
    case (PAdvance f now p i rv ch)
    then show ?thesis by (simp add: pg_Advance_def mutate_rows)
  qed simp_all
qed

lemma native_step_rows: "rows_kept (bd_core d) (bd_core (native_step op d))"
proof (cases op)
  case (NBaseline b)
  then show ?thesis
  proof (cases b)
    case (BCreate f now p c)
    with NBaseline pg_CreateBaseline_change [of "baseline_part d" f now p c] show ?thesis by (simp add: pg_row_change_def)
  next
    case (BTransition f now p i v rv ch)
    with NBaseline pg_TransitionBaseline_change [of "baseline_part d" f now p i v rv ch] show ?thesis by (simp add: pg_row_change_def)
  qed (simp add: NBaseline pg_step_rows)
qed (use native_call_moved [of op d] in \<open>simp_all add: run_moved_def\<close>)

lemma native_calls_rows: "rows_kept (bd_core d) (bd_core (fold native_step ops d))"
proof (induction ops arbitrary: d)
  case (Cons op ops)
  from rows_kept_trans [OF native_step_rows [of d op] Cons.IH [of "native_step op d"]] show ?case by simp
qed simp

lemma presence_frame:
  "\<lbrakk>renewed now w rq ttl d d'\<rbrakk> \<Longrightarrow> nd_presence d' = nd_presence d"
  "\<lbrakk>let_go now w rl d d'\<rbrakk> \<Longrightarrow> nd_presence d' = nd_presence d"
  "\<lbrakk>reported now w tr d d'\<rbrakk> \<Longrightarrow> nd_presence d' = nd_presence d"
  "\<lbrakk>acquired now w d d'\<rbrakk> \<Longrightarrow> nd_presence d' = nd_presence d"
  "\<lbrakk>granted now w ur d d'\<rbrakk> \<Longrightarrow> nd_presence d' = nd_presence d"
  "\<lbrakk>filed now w rg d d'\<rbrakk> \<Longrightarrow> nd_presence d' = nd_presence d"
  by (auto simp: renewed_def let_go_def reported_def acquired_def granted_def filed_def)

lemma presence_kept: "dom (map_of (nd_presence d)) \<subseteq> dom (map_of (nd_presence (native_step op d)))"
proof (cases op)
  case (NPresence f now r)
  with Presence_effect [of r d f now] show ?thesis by (auto simp: announced_def)
qed (simp_all add: presence_frame(1) [OF Renew_effect] presence_frame(2) [OF Release_effect] presence_frame(3) [OF Terminal_effect]
  presence_frame(4) [OF Acquire_effect] presence_frame(5) [OF Reserve_upload_effect] presence_frame(6) [OF Register_effect])

lemma presence_kept_calls: "dom (map_of (nd_presence d)) \<subseteq> dom (map_of (nd_presence (fold native_step ops d)))"
proof (induction ops arbitrary: d)
  case (Cons op ops)
  from presence_kept [of d op] Cons.IH [of "native_step op d"] show ?case by simp
qed simp

end
