(* ===== verification/Native_Reports.thy ===== *)
theory Native_Reports
  imports Native_Machine
begin

text \<open>
  What the clients of native execution rely on across calls: once a Run has left
  \<open>CREATED\<close> its lease keeps its identity, so an accepted terminal report is acknowledged
  again for every repetition; a repeated upload declaration gets the same grant; a report
  of completion rests on registered evidence for every planned slot; phases move a Run
  exactly to the state they stand for; identifiers and leases handed out are well formed.
\<close>

section \<open>Leases of Runs that have started\<close>

definition started :: "native_db \<Rightarrow> string \<Rightarrow> bool" where
  "started d i = (case pg_view (bd_core d) i of None \<Rightarrow> False | Some (p, r) \<Rightarrow> r_state r \<noteq> StateCreated)"

lemma stage_zero: "stage s = 0 \<longleftrightarrow> s = StateCreated \<or> (\<exists>x. s = StateUnknown x)"
  by (cases s) auto

lemma evolves_not_created:
  assumes "evolves r r'" "run_wf r" "r_state r \<noteq> StateCreated" "run_wf r'"
  shows "r_state r' \<noteq> StateCreated"
proof -
  have "stage (r_state r) \<noteq> 0" using assms(2,3) by (auto simp: stage_zero run_wf_def)
  moreover have "stage (r_state r) \<le> stage (r_state r')" using assms(1) by (auto simp: evolves_def)
  ultimately show ?thesis by (auto simp: stage_zero)
qed

lemma native_okD:
  "native_ok d \<Longrightarrow> pg_view (bd_core d) i = Some (p, r) \<Longrightarrow> r_id r = i \<and> p \<noteq> [] \<and> run_wf r"
  using view_okD [of "pg_view (bd_core d)" i p r] by (simp add: native_ok_def)

lemma started_step:
  assumes "native_ok d" "started d i"
  shows "started (native_step op d) i"
proof -
  obtain p r where r: "pg_view (bd_core d) i = Some (p, r)" "r_state r \<noteq> StateCreated"
    using assms(2) by (auto simp: started_def split: option.splits)
  obtain r' where r': "pg_view (bd_core (native_step op d)) i = Some (p, r')" "evolves r r'"
    using life_steps_evolves [OF native.step_refines r(1)] by blast
  have "run_wf r" "run_wf r'"
    using native_okD [OF assms(1) r(1)] native_okD [OF native_ok_step [OF assms(1)] r'(1)] by auto
  with r r' evolves_not_created show ?thesis by (auto simp: started_def)
qed

text \<open>The lease identity of a started Run is final.\<close>

definition settled_lease :: "native_db \<Rightarrow> string \<rightharpoonup> string \<times> string \<times> string \<times> int \<times> string \<times> bl_plan" where
  "settled_lease d i = (if started d i then map_option lease_identity (map_of (nd_leases d) i) else None)"

lemma acquired_settled:
  assumes "acquired now w d d'" "native_ok d" "started d i" "map_of (nd_leases d) i = Some l"
  shows "map_of (nd_leases d') i = Some l"
proof -
  have no: "r_id (rr_snapshot row) \<noteq> i" if row: "map_of (d_runs (bd_core d)) j = Some row" "r_state (rr_snapshot row) = StateCreated" for j row
  proof
    assume eq: "r_id (rr_snapshot row) = i"
    have v: "pg_view (bd_core d) j = Some (rr_principal row, rr_snapshot row)" using row(1) by (simp add: pg_view_def)
    have "j = i" using native_okD [OF assms(2) v] eq by simp
    with v row(2) assms(3) show False by (simp add: started_def)
  qed
  from assms(1) consider "d' = d" | j row l' where "map_of (d_runs (bd_core d)) j = Some row" "r_state (rr_snapshot row) = StateCreated"
      "d' = d\<lparr>nd_leases := tput (r_id (rr_snapshot row)) l' (nd_leases d)\<rparr>"
    unfolding acquired_def by blast
  then show ?thesis
  proof cases
    case (2 j row l')
    with no [OF 2(1,2)] assms(4) show ?thesis by simp
  qed (use assms(4) in simp)
qed

lemma settled_step:
  assumes ok: "native_ok d" and s: "settled_lease d i = Some x"
  shows "settled_lease (native_step op d) i = Some x"
proof -
  obtain l where l: "map_of (nd_leases d) i = Some l" "x = lease_identity l" and st: "started d i"
    using s by (auto simp: settled_lease_def split: if_splits)
  have "\<exists>l'. map_of (nd_leases (native_step op d)) i = Some l' \<and> lease_identity l' = lease_identity l"
  proof (cases rule: lease_step_cases [of op d])
    case same
    with l show ?thesis by simp
  next
    case (taken now w)
    with acquired_settled [OF taken ok st l(1)] show ?thesis by simp
  next
    case (used now w k a c)
    with l(1) show ?thesis by (auto simp: under_authority_def)
  qed
  with l started_step [OF ok st, of op] show ?thesis by (auto simp: settled_lease_def)
qed

interpretation settled: evolving_rows settled_lease native_step native_ok "(=)"
  by unfold_locales (auto intro: native_ok_step settled_step)

section \<open>Scopes can be entered again\<close>

lemma find_unique:
  assumes "x \<in> set xs" "P x" "\<And>y. y \<in> set xs \<Longrightarrow> P y \<Longrightarrow> y = x"
  shows "find P xs = Some x"
proof -
  obtain y where y: "find P xs = Some y" using assms(1,2) by (cases "find P xs") (auto simp: find_None_iff)
  then have "y \<in> set xs" "P y" by (auto simp: find_Some_iff)
  then have "y = x" by (rule assms(3))
  with y show ?thesis by simp
qed

lemma location_current:
  assumes "unique_leases t" "map_of t i = Some l" "lx_protocolVersion l = 2"
  shows "nativeLeaseLocation (lx_leaseID l) 2 t = Inr (i, lx_workerID l)"
proof -
  have m: "(i, l) \<in> set t" using assms(2) by (rule map_of_SomeD)
  have uniq: "y = (i, l)" if y: "y \<in> set t" "lx_leaseID (snd y) = lx_leaseID l" for y
  proof -
    have "fst y = i" using assms(1) m y unfolding unique_leases_def by (metis fst_conv snd_conv)
    moreover have "table_ok t" using assms(1) unfolding unique_leases_def by blast
    then have "map_of t (fst y) = Some (snd y)" using y(1) by (simp add: table_ok_iff [symmetric])
    ultimately show ?thesis using assms(2) by (cases y) simp
  qed
  have "find (\<lambda>row. lx_leaseID (snd row) = lx_leaseID l \<and> lx_protocolVersion (snd row) = 2) t = Some (i, l)"
  proof (rule find_unique [OF m])
    show "lx_leaseID (snd (i, l)) = lx_leaseID l \<and> lx_protocolVersion (snd (i, l)) = 2" by (simp add: assms(3))
  qed (blast intro: uniq)
  then show ?thesis by (simp add: nativeLeaseLocation_def)
qed

lemma scope_again:
  assumes "native_ok d" "map_of (nd_leases d) i = Some l" "lx_protocolVersion l = 2"
    "map_of (nd_presence d) (lx_workerID l) \<noteq> None" "map_of (d_runs (bd_core d)) i = Some row"
    "rr_target row = ExecutionTargetNativeLinux" "i \<noteq> []"
  shows "lockNativeRenewalScopeVersion (nd_leases d) now (lx_workerID l) (lx_leaseID l) 2 d =
    Inr \<lparr>ns_runID = i, ns_current = rr_snapshot row, ns_stored = l, ns_now = now\<rparr>"
proof -
  have "pg_view (bd_core d) i = Some (rr_principal row, rr_snapshot row)" using assms(5) by (simp add: pg_view_def)
  from native_okD [OF assms(1) this] have "r_id (rr_snapshot row) = i" by simp
  moreover have "unique_leases (nd_leases d)" using assms(1) by (simp add: native_ok_def)
  note location_current [OF this assms(2,3)]
  ultimately show ?thesis
    using assms(2-7) by (simp add: lockNativeRenewalScopeVersion_def lockNativeWorker_def lockNativeRun_def lockedNativeLease_def)
qed

text \<open>A scope can be entered again after any later calls, once its Run has started.\<close>

lemma scope_later:
  fixes ops :: "native_op list"
  assumes l0: "map_of (nd_leases d) i = Some l0" "lx_protocolVersion l0 = 2" and st: "started d i" and ok: "native_ok d"
    and w: "map_of (nd_presence d) (lx_workerID l0) \<noteq> None" and i: "i \<noteq> []"
    and row0: "map_of (d_runs (bd_core d)) i = Some row0" "rr_target row0 = ExecutionTargetNativeLinux"
  defines "d' \<equiv> fold native_step ops d"
  shows "\<exists>l r. lease_identity l = lease_identity l0 \<and>
    lockNativeRenewalScopeVersion (nd_leases d') now' (lx_workerID l0) (lx_leaseID l0) 2 d' =
      Inr \<lparr>ns_runID = i, ns_current = r, ns_stored = l, ns_now = now'\<rparr>"
proof -
  have "settled_lease d i = Some (lease_identity l0)" using l0 st by (simp add: settled_lease_def)
  then have "settled_lease d' i = Some (lease_identity l0)"
    using settled.calls_evolve [OF ok] unfolding d'_def by blast
  then obtain l where l: "map_of (nd_leases d') i = Some l" "lease_identity l = lease_identity l0"
    by (auto simp: settled_lease_def split: if_splits)
  obtain row where row: "map_of (d_runs (bd_core d')) i = Some row" "rr_target row = ExecutionTargetNativeLinux"
    using native_calls_rows [of d ops] row0 by (force simp: rows_kept_def d'_def)
  have id: "lx_protocolVersion l = 2" "lx_workerID l = lx_workerID l0" "lx_leaseID l = lx_leaseID l0"
    using l(2) l0(2) by (auto simp: lease_identity_def)
  have "map_of (nd_presence d') (lx_workerID l) \<noteq> None"
    using w presence_kept_calls [of d ops] by (auto simp: id d'_def)
  from scope_again [OF native_ok_calls [OF ok, of ops, folded d'_def] l(1) id(1) this row i, of now']
  show ?thesis using l(2) id by (intro exI [of _ l] exI [of _ "rr_snapshot row"]) simp
qed

section \<open>Phases\<close>

text \<open>A walk through consecutive lifecycle states in closed form.\<close>

definition walked :: "run_state list \<Rightarrow> time \<Rightarrow> run \<Rightarrow> run" where
  "walked ss now r =
    (if ss = [] then r
     else r\<lparr>r_state := last ss, r_revision := r_revision r + int (length ss), r_updatedAt := max (r_updatedAt r) now, r_failure := None\<rparr>)"

lemma Run_Transition_plain:
  assumes "CanTransition (r_state r) s" "\<not> Terminal s" "\<not> requiresFailure s" "r_revision r < maxRunRevision"
  shows "Run_Transition r (r_revision r) (to_state s) now = Inr (walked [s] now r)"
proof -
  have m: "(if now < r_updatedAt r then r_updatedAt r else now) = max (r_updatedAt r) now" by simp
  show ?thesis using assms unfolding Run_Transition_def m by (simp add: to_state_def walked_def Let_def)
qed

lemma advance_through_walk:
  assumes "successively CanTransition (r_state r # ss)" "\<forall>s\<in>set ss. \<not> Terminal s \<and> \<not> requiresFailure s"
    "r_revision r + int (length ss) \<le> maxRunRevision"
  shows "advance_through ss now r = Inr (walked ss now r)"
  using assms
proof (induction ss arbitrary: r)
  case Nil
  then show ?case by (simp add: walked_def)
next
  case (Cons s ss)
  let ?r = "walked [s] now r"
  have r: "r_state ?r = s" "r_revision ?r = r_revision r + 1" by (simp_all add: walked_def)
  have "Run_Transition r (r_revision r) (to_state s) now = Inr ?r"
    using Cons.prems by (intro Run_Transition_plain) simp_all
  moreover have "advance_through ss now ?r = Inr (walked ss now ?r)"
    using Cons.prems by (intro Cons.IH) (simp_all add: r)
  moreover have "walked ss now ?r = walked (s # ss) now r" by (cases ss) (simp_all add: walked_def)
  ultimately show ?case by simp
qed

text \<open>The phases as one decision: the states still to cross, or the error.\<close>

definition phase_path :: "run_state \<Rightarrow> native_phase \<Rightarrow> err + run_state list" where
  "phase_path s ph =
    (case phaseTarget ph of
       None \<Rightarrow> Inl ErrValidation
     | Some target \<Rightarrow>
         if s = target then Inr []
         else if s \<in> set nativePhaseStates \<and> target \<in> set (dropWhile (\<lambda>x. x \<noteq> s) nativePhaseStates)
         then Inr (takeWhile (\<lambda>x. x \<noteq> target) (tl (dropWhile (\<lambda>x. x \<noteq> s) nativePhaseStates)) @ [target])
         else Inl ErrConflict)"

lemma path_walk:
  "phase_path s ph = Inr ss \<Longrightarrow> successively CanTransition (s # ss) \<and> (\<forall>s\<in>set ss. \<not> Terminal s \<and> \<not> requiresFailure s) \<and> length ss \<le> 5"
  by (cases s; cases ph) (auto simp: phase_path_def nativePhaseStates_def CanTransition_def Terminal_iff requiresFailure_def)

lemma AdvancePhase_unfold:
  "AdvancePhase r e ph now =
    (if r_revision r \<noteq> e then Inl ErrRevision
     else case phase_path (r_state r) ph of Inl x \<Rightarrow> Inl x | Inr ss \<Rightarrow> advance_through ss now r)"
  by (cases "r_state r"; cases ph)
    (simp_all add: AdvancePhase_def phase_path_def phaseStateIndex_def nativePhaseStates_def)

lemma AdvancePhase_closed:
  assumes "r_revision r + 5 \<le> maxRunRevision"
  shows "AdvancePhase r e ph now =
    (if r_revision r \<noteq> e then Inl ErrRevision
     else case phase_path (r_state r) ph of Inl x \<Rightarrow> Inl x | Inr ss \<Rightarrow> Inr (walked ss now r))"
proof (cases "phase_path (r_state r) ph")
  case (Inr ss)
  from path_walk [OF this] assms have "advance_through ss now r = Inr (walked ss now r)"
    by (intro advance_through_walk) auto
  with Inr show ?thesis by (simp add: AdvancePhase_unfold)
qed (simp add: AdvancePhase_unfold)

lemma path_target: "phase_path s ph = Inr ss \<Longrightarrow> phaseTarget ph = Some (last (s # ss))"
  by (cases s; cases ph) (auto simp: phase_path_def nativePhaseStates_def)

lemma advance_through_last: "advance_through ss now r = Inr r' \<Longrightarrow> r_state r' = last (r_state r # ss)"
proof (induction ss arbitrary: r)
  case (Cons s ss)
  then obtain r1 where "Run_Transition r (r_revision r) (to_state s) now = Inr r1" "advance_through ss now r1 = Inr r'"
    by (auto split: sum.splits)
  moreover from this(1) have "r_state r1 = s" by (rule Run_Transition_InrE) (simp add: to_state_def)
  ultimately show ?case using Cons.IH [of r1] by simp
qed simp

text \<open>A phase that is accepted leaves the Run in the state it stands for.\<close>

lemma AdvancePhase_target: "AdvancePhase r e ph now = Inr r' \<Longrightarrow> phaseTarget ph = Some (r_state r')"
  by (auto simp: AdvancePhase_unfold path_target advance_through_last simp del: last.simps split: if_splits sum.splits)

lemma applyNativeTerminal_state:
  assumes "applyNativeTerminal r rq now = Inr r'"
  shows "r_state r' \<in> {StateCollecting, StateTestFailure, StateInfrastructureFailure}"
    and "tr_kind rq = TerminalCompleted \<Longrightarrow> r_state r' = StateCollecting"
proof -
  have fin: "r_state x = StateCollecting" if "AdvancePhase r e PhaseFinalizing now = Inr x" for e x
    using AdvancePhase_target [OF that] by simp
  have st: "r_state x = c_state ch" if "Run_Transition y e ch now = Inr x" for x y e ch
    using that by (rule Run_Transition_InrE) simp
  show "r_state r' \<in> {StateCollecting, StateTestFailure, StateInfrastructureFailure}"
    using assms by (auto simp: applyNativeTerminal_def fail_change_def split: if_splits option.splits sum.splits dest!: st fin)
  show "r_state r' = StateCollecting" if "tr_kind rq = TerminalCompleted"
    using assms that by (auto simp: applyNativeTerminal_def intro: fin)
qed

section \<open>Terminal reports\<close>

lemma placeholder_capability: "ValidLeaseCapability (replicate 64 (CHR ''a''))"
  by (simp add: ValidLeaseCapability_def list_all_iff byte_def)

lemma accept_terminal_not_Rollback: "accept_terminal scope w rq version d \<noteq> Rollback a"
  by (simp add: accept_terminal_def split: sum.splits)

lemma terminal_scope_Rollback:
  "terminal_scope scope w rq version d = Rollback a \<Longrightarrow> ta_disposition a = TerminalAlreadyAccepted"
  by (auto simp: terminal_scope_def accept_terminal_not_Rollback split: sum.splits if_splits option.splits)

text \<open>An accepted report, as the state that its transaction left.\<close>

lemma report_accepted:
  assumes c: "pg_ReportNativeBaselineTerminal f old now w rq d = (Inr ack, d1)" and a: "ta_disposition ack = TerminalAccepted"
  obtains scope r1 where "in_scope scope now 2 d" "ValidNativeWorkerIdentifier w" "TerminalRequest_Valid rq"
    "live_authority scope w (tr_leaseID rq) (tr_attemptID rq) (tr_capability rq)"
    "tr_kind rq = TerminalCompleted \<Longrightarrow> validateNativeTerminalEvidence scope rq 2 d = Inr ()"
    "applyNativeTerminal (ns_current scope) rq now = Inr r1" "ta_runRevision ack = r_revision r1"
    "d1 = (scoped_write scope r1 ((ns_stored scope)\<lparr>lx_expiresAt := now\<rparr>) d)\<lparr>nd_terminals := tput (ns_runID scope)
        \<lparr>tt_workerID = w, tt_protocolVersion = 2, tt_request = rq\<lparr>tr_capability := []\<rparr>,
         tt_resultingRevision = r_revision r1, tt_acceptedAt = now\<rparr> (nd_terminals d)\<rparr>"
    "map_of (nd_presence d) w \<noteq> None"
proof -
  have v: "ValidNativeWorkerIdentifier w" "TerminalRequest_Valid rq"
    using c by (auto simp: pg_ReportNativeBaselineTerminal_def reportNativeTerminal_def split: if_splits)
  let ?body = "\<lambda>d. case lockNativeRenewalScopeVersion old now w (tr_leaseID rq) 2 d of
    Inl e \<Rightarrow> Abort e | Inr scope \<Rightarrow> terminal_scope scope w rq 2 d"
  have t: "transact f ?body d = (Inr ack, d1)"
    using c v by (simp add: pg_ReportNativeBaselineTerminal_def reportNativeTerminal_def)
  have "?body d \<noteq> Rollback ack"
    using a by (cases "lockNativeRenewalScopeVersion old now w (tr_leaseID rq) 2 d") (auto dest: terminal_scope_Rollback)
  with transact_Inr [OF t] have "?body d = Commit ack d1" by blast
  then obtain scope where l: "lockNativeRenewalScopeVersion old now w (tr_leaseID rq) 2 d = Inr scope"
    and ts: "terminal_scope scope w rq 2 d = Commit ack d1" by (auto split: sum.splits)
  have s: "in_scope scope now 2 d" by (rule scope_Inr [OF l])
  have now: "ns_now scope = now" by (rule in_scope_now [OF s])
  have p: "map_of (nd_presence d) w \<noteq> None"
    using l by (auto simp: lockNativeRenewalScopeVersion_def lockNativeWorker_def split: sum.splits if_splits prod.splits)
  have ac: "accept_terminal scope w rq 2 d = Commit ack d1"
    and la: "live_authority scope w (tr_leaseID rq) (tr_attemptID rq) (tr_capability rq)"
    using ts by (cases "lx_release (ns_stored scope)";
        auto simp: terminal_scope_def live_authority_def split: if_splits sum.splits option.splits)+
  obtain u r1 d2 where e: "(if tr_kind rq = TerminalCompleted then validateNativeTerminalEvidence scope rq 2 d else Inr ()) = Inr u"
    and n: "applyNativeTerminal (ns_current scope) rq now = Inr r1" "ta_runRevision ack = r_revision r1"
    and i: "insertNativeTerminal (ns_runID scope) w rq (r_revision r1) now 2 (write_run (ns_current scope) r1 d) = Inr d2"
    and l2: "update_native_lease (ns_runID scope) (\<lambda>l. l\<lparr>lx_expiresAt := now\<rparr>) d2 = Inr d1"
    using ac by (auto simp: accept_terminal_def now split: sum.splits)
  have d2: "d2 = (write_run (ns_current scope) r1 d)\<lparr>nd_terminals := tput (ns_runID scope)
      \<lparr>tt_workerID = w, tt_protocolVersion = 2, tt_request = rq\<lparr>tr_capability := []\<rparr>,
       tt_resultingRevision = r_revision r1, tt_acceptedAt = now\<rparr> (nd_terminals d)\<rparr>"
    using i by (auto simp: insertNativeTerminal_def Let_def split: option.splits)
  show ?thesis
  proof (rule that [OF s v la _ n _ p])
    show "tr_kind rq = TerminalCompleted \<Longrightarrow> validateNativeTerminalEvidence scope rq 2 d = Inr ()" using e by auto
    show "d1 = (scoped_write scope r1 ((ns_stored scope)\<lparr>lx_expiresAt := now\<rparr>) d)\<lparr>nd_terminals := tput (ns_runID scope)
        \<lparr>tt_workerID = w, tt_protocolVersion = 2, tt_request = rq\<lparr>tr_capability := []\<rparr>,
         tt_resultingRevision = r_revision r1, tt_acceptedAt = now\<rparr> (nd_terminals d)\<rparr>"
      using update_native_lease_Inr [OF s _ l2] by (simp add: d2 scoped_write_def)
  qed
qed

lemma write_run_view:
  assumes s: "in_scope scope now version d"
    and life: "\<And>p v. v (ns_runID scope) = Some (p, ns_current scope) \<Longrightarrow> life_steps v (v(ns_runID scope \<mapsto> (p, r1)))"
  shows "\<exists>p. pg_view (bd_core (write_run (ns_current scope) r1 d)) (ns_runID scope) = Some (p, r1)"
proof -
  obtain p where p: "pg_view (bd_core d) (ns_runID scope) = Some (p, ns_current scope)" using in_scope_view [OF s] by blast
  have ev: "evolves (ns_current scope) r1" by (rule life_steps_revision [of "pg_view (bd_core d)", OF p life [of "pg_view (bd_core d)", OF p]])
  then have "r_id r1 = ns_runID scope" using s by (auto simp: evolves_def in_scope_def)
  with p ev put_snapshot_view [OF p, of r1] show ?thesis
    by (auto simp: write_run_def updateNativeRun_def evolves_def)
qed

text \<open>Whatever happens later, repeating an accepted report is acknowledged with its original revision, and another report of the attempt is a conflict.\<close>

lemma terminal_retry:
  fixes ops :: "native_op list"
  assumes ok: "native_ok d" and c: "pg_ReportNativeBaselineTerminal f old now w rq d = (Inr ack, d1)"
    and a: "ta_disposition ack = TerminalAccepted" and now: "now \<noteq> zero_time"
    and v: "TerminalRequest_Valid rq'" "tr_leaseID rq' = tr_leaseID rq" "tr_attemptID rq' = tr_attemptID rq" "tr_capability rq' = tr_capability rq"
  defines "d2 \<equiv> fold native_step ops d1"
  shows "pg_ReportNativeBaselineTerminal TxOk (nd_leases d2) now' w rq' d2 =
    ((if sameNativeTerminal rq rq'
      then Inr \<lparr>ta_attemptID = tr_attemptID rq, ta_runRevision = ta_runRevision ack, ta_disposition = TerminalAlreadyAccepted\<rparr>
      else Inl ErrTerminalConflict), d2)"
proof -
  obtain scope r1 where s: "in_scope scope now 2 d" and vw: "ValidNativeWorkerIdentifier w" and vr: "TerminalRequest_Valid rq"
    and la: "live_authority scope w (tr_leaseID rq) (tr_attemptID rq) (tr_capability rq)"
    and n: "applyNativeTerminal (ns_current scope) rq now = Inr r1" "ta_runRevision ack = r_revision r1"
    and d1: "d1 = (scoped_write scope r1 ((ns_stored scope)\<lparr>lx_expiresAt := now\<rparr>) d)\<lparr>nd_terminals := tput (ns_runID scope)
        \<lparr>tt_workerID = w, tt_protocolVersion = 2, tt_request = rq\<lparr>tr_capability := []\<rparr>,
         tt_resultingRevision = r_revision r1, tt_acceptedAt = now\<rparr> (nd_terminals d)\<rparr>"
    and p: "map_of (nd_presence d) w \<noteq> None"
    using c a by (rule report_accepted)
  let ?i = "ns_runID scope" and ?l0 = "(ns_stored scope)\<lparr>lx_expiresAt := now\<rparr>"
  let ?t = "\<lparr>tt_workerID = w, tt_protocolVersion = 2, tt_request = rq\<lparr>tr_capability := []\<rparr>,
         tt_resultingRevision = r_revision r1, tt_acceptedAt = now\<rparr>"
  have step: "d1 = native_step (NTerminal f old now w rq) d" using c by simp
  have ok1: "native_ok d1" unfolding step by (rule native_ok_step [OF ok])
  obtain q where "pg_view (bd_core (write_run (ns_current scope) r1 d)) ?i = Some (q, r1)"
    using write_run_view [OF s applyNativeTerminal_life [OF _ n(1)]] by blast
  then have view: "pg_view (bd_core d1) ?i = Some (q, r1)" by (simp add: d1 scoped_write_def)
  have st: "started d1 ?i" using applyNativeTerminal_state(1) [OF n(1)] view by (auto simp: started_def)
  have m: "lx_leaseID (ns_stored scope) = tr_leaseID rq" "lx_attemptID (ns_stored scope) = tr_attemptID rq"
    "lx_workerID (ns_stored scope) = w" "lx_capabilitySHA256 (ns_stored scope) = sha256_hex (tr_capability rq)"
    using la by (auto simp: live_authority_def matchingNativeLeaseAuthority_def)
  have i: "?i \<noteq> []" using s by (auto simp: in_scope_def)
  have l1: "map_of (nd_leases d1) ?i = Some ?l0" by (simp add: d1)
  obtain row0 where row0: "map_of (d_runs (bd_core d)) ?i = Some row0" "rr_target row0 = ExecutionTargetNativeLinux"
    using s by (auto simp: in_scope_def)
  have "rows_kept (bd_core d) (bd_core d1)" unfolding step by (rule native_step_rows)
  with row0 obtain row1 where row1: "map_of (d_runs (bd_core d1)) ?i = Some row1" "rr_target row1 = ExecutionTargetNativeLinux"
    by (force simp: rows_kept_def)
  have "map_of (nd_presence d1) (lx_workerID ?l0) \<noteq> None" using p by (simp add: d1 m)
  moreover have "lx_protocolVersion ?l0 = 2" using s by (auto simp: in_scope_def)
  ultimately obtain l r where l: "lease_identity l = lease_identity ?l0"
    and scope': "lockNativeRenewalScopeVersion (nd_leases d2) now' w (tr_leaseID rq) 2 d2 =
      Inr \<lparr>ns_runID = ?i, ns_current = r, ns_stored = l, ns_now = now'\<rparr>"
    using scope_later [OF l1 _ st ok1 _ i row1, of ops now'] by (auto simp: m d2_def)
  have match: "matchingNativeLeaseAuthority l w (tr_leaseID rq) (tr_attemptID rq) (tr_capability rq)"
    using l m by (simp add: matchingNativeLeaseAuthority_def lease_identity_def)
  have "map_of (nd_terminals d1) ?i = Some ?t" by (simp add: d1)
  then have t: "map_of (nd_terminals d2) ?i = Some ?t"
    using native_terminals.calls_evolve [of d1 ?i ?t ops] by (simp add: d2_def)
  have "1 \<le> r_revision r1" using native_okD [OF ok1 view] by (simp add: run_wf_def)
  moreover have "TerminalRequest_Valid ((rq\<lparr>tr_capability := []\<rparr>)\<lparr>tr_capability := replicate 64 (CHR ''a'')\<rparr>)"
    using vr placeholder_capability by (auto simp: TerminalRequest_Valid_def split: if_splits)
  ultimately have "lockedNativeTerminal ?i d2 = Inr (Some ?t)"
    using vw now by (simp add: lockedNativeTerminal_def t requestWithoutCapabilityValid_def)
  moreover have "sameNativeTerminal (rq\<lparr>tr_capability := []\<rparr>) rq' = sameNativeTerminal rq rq'"
    by (simp add: sameNativeTerminal_def)
  ultimately show ?thesis
    using vw v scope' match n(2)
    by (simp add: pg_ReportNativeBaselineTerminal_def reportNativeTerminal_def transact_def terminal_scope_def)
qed

section \<open>Evidence of completion\<close>

text \<open>
  A completed report names a registered manifest of the attempt, and every required slot of
  the plan has a registered artifact of the planned kind, format and media type that is not
  younger than the manifest.
\<close>

definition evidence_complete :: "string \<Rightarrow> string \<Rightarrow> bl_plan \<Rightarrow> string \<Rightarrow> 'x native_db_scheme \<Rightarrow> bool" where
  "evidence_complete runID attemptID plan manifestID d =
    (\<exists>m\<in>set (registeredNativeArtifacts runID attemptID d). ra_artifactID m = manifestID \<and> ra_kind m = ''manifest''
       \<and> (\<forall>s\<in>{fst (pl_artifactPlan plan), snd (pl_artifactPlan plan)}. \<exists>a\<in>set (registeredNativeArtifacts runID attemptID d).
            ra_slot a = as_slot s \<and> ra_kind a = as_kind s \<and> ra_format a = as_format s \<and> ra_mediaType a = as_mediaType s
            \<and> ra_registeredAt a \<le> ra_registeredAt m))"

lemma find_rev_mem: "find P (rev xs) = Some x \<Longrightarrow> x \<in> set xs \<and> P x"
  by (auto simp: find_Some_iff) (metis length_rev nth_mem set_rev)

lemma validate_evidence:
  assumes "validateNativeTerminalEvidence scope rq 2 d = Inr u"
  shows "evidence_complete (ns_runID scope) (tr_attemptID rq) (lx_plan (ns_stored scope)) (tr_manifestArtifactID rq) d"
proof -
  let ?as = "registeredNativeArtifacts (ns_runID scope) (tr_attemptID rq) d" and ?p = "lx_plan (ns_stored scope)"
  obtain m where plan: "Plan_valid ?p" and m: "find (\<lambda>a. ra_artifactID a = tr_manifestArtifactID rq) (rev ?as) = Some m"
    "ra_kind m = ''manifest''" and ok: "list_all (slot_evidence_ok m ?as) [fst (pl_artifactPlan ?p), snd (pl_artifactPlan ?p)]"
    using assms
    by (auto simp: validateNativeTerminalEvidence_def nativeTerminalArtifactPlan_def Let_def split: sum.splits option.splits if_splits)
  have "\<exists>a\<in>set ?as. ra_slot a = as_slot s \<and> ra_kind a = as_kind s \<and> ra_format a = as_format s \<and> ra_mediaType a = as_mediaType s
            \<and> ra_registeredAt a \<le> ra_registeredAt m" if "s \<in> {fst (pl_artifactPlan ?p), snd (pl_artifactPlan ?p)}" for s
  proof -
    have "as_required s" using plan that by (auto simp: Plan_valid_def validBaselineSlots_def baseline_slot_ok_def Let_def)
    moreover have "slot_evidence_ok m ?as s" using ok that by auto
    ultimately obtain a where a: "find (\<lambda>a. ra_slot a = as_slot s) (rev ?as) = Some a" "ra_kind a = as_kind s" "ra_format a = as_format s"
      "ra_mediaType a = as_mediaType s" "\<not> ra_registeredAt m < ra_registeredAt a"
      by (auto simp: slot_evidence_ok_def split: option.splits)
    with find_rev_mem [OF a(1)] show ?thesis by auto
  qed
  with find_rev_mem [OF m(1)] m(2) show ?thesis unfolding evidence_complete_def by blast
qed

lemma completed_report:
  assumes ok: "native_ok d" and c: "pg_ReportNativeBaselineTerminal f old now w rq d = (Inr ack, d1)"
    and a: "ta_disposition ack = TerminalAccepted" and k: "tr_kind rq = TerminalCompleted"
  shows "\<exists>i p r l. map_of (nd_leases d) i = Some l \<and> live_row now l
      \<and> matchingNativeLeaseAuthority l w (tr_leaseID rq) (tr_attemptID rq) (tr_capability rq)
      \<and> evidence_complete i (tr_attemptID rq) (lx_plan l) (tr_manifestArtifactID rq) d
      \<and> pg_view (bd_core d1) i = Some (p, r) \<and> r_state r = StateCollecting \<and> r_revision r = ta_runRevision ack
      \<and> \<not> nativeRunLeased i now d1"
proof -
  obtain scope r1 where s: "in_scope scope now 2 d"
    and la: "live_authority scope w (tr_leaseID rq) (tr_attemptID rq) (tr_capability rq)"
    and e: "tr_kind rq = TerminalCompleted \<Longrightarrow> validateNativeTerminalEvidence scope rq 2 d = Inr ()"
    and n: "applyNativeTerminal (ns_current scope) rq now = Inr r1" "ta_runRevision ack = r_revision r1"
    and d1: "d1 = (scoped_write scope r1 ((ns_stored scope)\<lparr>lx_expiresAt := now\<rparr>) d)\<lparr>nd_terminals := tput (ns_runID scope)
        \<lparr>tt_workerID = w, tt_protocolVersion = 2, tt_request = rq\<lparr>tr_capability := []\<rparr>,
         tt_resultingRevision = r_revision r1, tt_acceptedAt = now\<rparr> (nd_terminals d)\<rparr>"
    using c a by (rule report_accepted) blast
  obtain q where "pg_view (bd_core (write_run (ns_current scope) r1 d)) (ns_runID scope) = Some (q, r1)"
    using write_run_view [OF s applyNativeTerminal_life [OF _ n(1)]] by blast
  then have view: "pg_view (bd_core d1) (ns_runID scope) = Some (q, r1)" by (simp add: d1 scoped_write_def)
  show ?thesis
    using in_scope_lease [OF s] live_authority_live [OF la in_scope_now [OF s]] la validate_evidence [OF e [OF k]] view n(2)
      applyNativeTerminal_state(2) [OF n(1) k]
    by (intro exI [of _ "ns_runID scope"] exI [of _ q] exI [of _ r1] exI [of _ "ns_stored scope"])
      (simp add: live_authority_def nativeRunLeased_def live_row_def d1)
qed

section \<open>Upload grants\<close>

lemma to_lower_hex: "rx_match hash_pattern s \<Longrightarrow> to_lower s = s"
  by (auto simp: hash_pattern_def match_Rep to_lower_def list_all_iff is_lower_hex_def byte_classes
      intro!: map_idI to_lower_byte_id)

lemma persist_returns:
  assumes "persistNativeUploadReservation rnd r d = Inr (r', d')" "rx_match hash_pattern (up_sha256 r)"
  shows "map_of (nd_grants d') (up_grantID r') = Some r' \<and> up_leaseID r' = up_leaseID r \<and> up_slot r' = up_slot r
    \<and> up_expiresAt r' = up_expiresAt r"
proof (cases "lockedNativeUploadReservation (up_leaseID r) (up_slot r) d")
  case (Inr found)
  show ?thesis
  proof (cases found)
    case None
    with assms Inr show ?thesis
      by (auto simp: persistNativeUploadReservation_def Let_def to_lower_hex split: if_splits)
  next
    case (Some g0)
    then have same: "sameNativeUploadDeclaration g0 r" and r': "r' = r\<lparr>up_grantID := up_grantID g0\<rparr>"
      and d': "d' = d\<lparr>nd_grants := tput (up_grantID g0) (g0\<lparr>up_issuedAt := up_issuedAt r, up_expiresAt := up_expiresAt r\<rparr>) (nd_grants d)\<rparr>"
      using assms(1) Inr by (auto simp: persistNativeUploadReservation_def Let_def split: if_splits)
    have "g0\<lparr>up_issuedAt := up_issuedAt r, up_expiresAt := up_expiresAt r\<rparr> = r\<lparr>up_grantID := up_grantID g0\<rparr>"
      using same by (cases g0; cases r) (simp add: sameNativeUploadDeclaration_def)
    then show ?thesis by (simp add: d' r')
  qed
qed (use assms in \<open>simp add: persistNativeUploadReservation_def\<close>)

lemma reserve_Inr:
  assumes c: "pg_ReserveNativeBaselineUploadGrant f old rnd now w rq ttl d = (Inr g, d1)"
  obtains scope where "in_scope scope now 2 d" "live_authority scope w (ur_leaseID rq) (ur_attemptID rq) (ur_capability rq)"
    "map_of (nd_grants d1) (up_grantID g) = Some g" "up_leaseID g = ur_leaseID rq" "up_slot g = ur_slot rq"
    "up_expiresAt g \<le> lx_expiresAt (ns_stored scope)" "UploadReservation_Valid g" "nd_leases d1 = nd_leases d"
proof -
  have v: "rx_match hash_pattern (ur_sha256 rq)"
    using c by (auto simp: pg_ReserveNativeBaselineUploadGrant_def reserveNativeUploadGrant_def UploadRequest_Valid_def split: if_splits)
  let ?body = "\<lambda>d. case lockNativeRenewalScopeVersion old now w (ur_leaseID rq) 2 d of
      Inl e \<Rightarrow> Abort e
    | Inr scope \<Rightarrow> (case nativeUploadReservation scope w rq ttl 2 of
        Inl e \<Rightarrow> Abort e
      | Inr r \<Rightarrow> (case persistNativeUploadReservation rnd r d of
          Inl e \<Rightarrow> Abort e
        | Inr (r', d') \<Rightarrow> if \<not> UploadReservation_Valid r' then Abort (ErrOther ''invalid native upload reservation'') else Commit r' d'))"
  have "transact f ?body d = (Inr g, d1)"
    using c by (simp add: pg_ReserveNativeBaselineUploadGrant_def reserveNativeUploadGrant_def split: if_splits)
  from transact_Inr [OF this] obtain scope r where l: "lockNativeRenewalScopeVersion old now w (ur_leaseID rq) 2 d = Inr scope"
    and r: "nativeUploadReservation scope w rq ttl 2 = Inr r" and p: "persistNativeUploadReservation rnd r d = Inr (g, d1)"
    and vg: "UploadReservation_Valid g"
    by (auto split: sum.splits if_splits)
  note u = nativeUploadReservation_Inr [OF r]
  have "up_sha256 r = ur_sha256 rq" using r by (auto simp: nativeUploadReservation_def split: if_splits sum.splits)
  with persist_returns [OF p] v have g: "map_of (nd_grants d1) (up_grantID g) = Some g" "up_leaseID g = up_leaseID r"
    "up_slot g = up_slot r" "up_expiresAt g = up_expiresAt r" by auto
  have leases: "nd_leases d1 = nd_leases d" by (rule persist_Inr [OF p]) simp
  have "in_scope scope now 2 d" by (rule scope_Inr [OF l])
  then show ?thesis
  proof (rule that)
    show "live_authority scope w (ur_leaseID rq) (ur_attemptID rq) (ur_capability rq)" using u by blast
    show "up_leaseID g = ur_leaseID rq" "up_slot g = ur_slot rq" "up_expiresAt g \<le> lx_expiresAt (ns_stored scope)" using u g by simp_all
  qed (rule g vg leases)+
qed

lemma same_declaration_fields:
  assumes "same_declaration g h"
  shows "up_grantID h = up_grantID g" "up_leaseID h = up_leaseID g" "up_attemptID h = up_attemptID g" "up_runID h = up_runID g"
    "up_slot h = up_slot g" "up_objectKey h = up_objectKey g" "up_size h = up_size g" "up_maximumBytes h = up_maximumBytes g"
    "up_sha256 h = up_sha256 g" "up_mediaType h = up_mediaType g"
  using assms by (cases g; cases h; simp add: same_declaration_def)+

lemma grant_stable:
  fixes ops :: "native_op list"
  assumes ok: "native_ok d" and c1: "pg_ReserveNativeBaselineUploadGrant f old rnd now w rq ttl d = (Inr g, d1)"
    and c2: "pg_ReserveNativeBaselineUploadGrant f' old' rnd' now' w' rq' ttl' (fold native_step ops d1) = (Inr g', d3)"
    and same: "ur_leaseID rq' = ur_leaseID rq" "ur_slot rq' = ur_slot rq"
  shows "same_declaration g g'"
proof -
  have ok1: "native_ok d1" using native_ok_step [OF ok, of "NReserve f old rnd now w rq ttl"] c1 by simp
  let ?d2 = "fold native_step ops d1"
  have ok2: "native_ok ?d2" by (rule native_ok_calls [OF ok1])
  have ok3: "native_ok d3" using native_ok_step [OF ok2, of "NReserve f' old' rnd' now' w' rq' ttl'"] c2 by simp
  have g: "map_of (nd_grants d1) (up_grantID g) = Some g" "up_leaseID g = ur_leaseID rq" "up_slot g = ur_slot rq"
    by (rule reserve_Inr [OF c1], assumption)+
  have g': "map_of (nd_grants d3) (up_grantID g') = Some g'" "up_leaseID g' = ur_leaseID rq" "up_slot g' = ur_slot rq"
    by (rule reserve_Inr [OF c2], simp add: same)+
  have "fold native_step (ops @ [NReserve f' old' rnd' now' w' rq' ttl']) d1 = d3" using c2 by simp
  then obtain h where h: "map_of (nd_grants d3) (up_grantID g) = Some h" "same_declaration g h"
    using native_grants.calls_evolve [OF _ g(1), of "ops @ [NReserve f' old' rnd' now' w' rq' ttl']"] ok1 by (auto simp: native_ok_def)
  note id = same_declaration_fields [OF h(2)]
  have "h \<in> snd ` set (nd_grants d3)" "g' \<in> snd ` set (nd_grants d3)"
    using map_of_SomeD [OF h(1)] map_of_SomeD [OF g'(1)] by force+
  moreover have "up_leaseID h = up_leaseID g'" "up_slot h = up_slot g'" using g g' id by simp_all
  moreover have "unique_grants (nd_grants d3)" using ok3 by (simp add: native_ok_def)
  ultimately have "up_grantID h = up_grantID g'" unfolding unique_grants_def by blast
  with h(1) g'(1) id have "h = g'" by simp
  with h(2) show ?thesis by simp
qed

end
