(* ===== verification/Native_Issue.thy ===== *)
theory Native_Issue
  imports Native_Reports
begin

text \<open>
  What an acquisition hands out: identifiers with the version-4 layout, a capability of 64
  hexadecimal digits, and a lease that is valid and that the stored row bears out.
\<close>

section \<open>Identifiers and capabilities\<close>

lemma hex_byte_lower: "list_all is_lower_hex (hex_byte b)"
proof -
  have "unat b < 2 ^ LENGTH(8)" by (rule unsigned_less)
  then show ?thesis by (simp add: hex_byte_def hex_digit_lower)
qed

lemma hex_bytes_lower: "list_all is_lower_hex (hex_bytes bs)"
  using hex_byte_lower by (auto simp: hex_bytes_def list_all_iff)

lemma length_hex_bytes: "length (hex_bytes bs) = 2 * length bs"
  by (induction bs) (simp_all add: hex_bytes_def hex_byte_def)

text \<open>The two masked bytes, by the high digit they show.\<close>

lemma high_digit: "hd (hex_byte b) = hex_digit (unat (drop_bit 4 b))"
  by (simp add: hex_byte_def unat_drop_bit_eq drop_bit_nat_def)

lemma digit_chars: "hex_digit 4 = CHR ''4''" "hex_digit 8 = CHR ''8''" "hex_digit 9 = CHR ''9''" "hex_digit 10 = CHR ''a''" "hex_digit 11 = CHR ''b''"
  by code_simp+

lemma version_digit: "hd (hex_byte ((b AND 0x0f) OR 0x40)) = CHR ''4''"
proof -
  have "drop_bit 4 ((b AND 0x0f) OR 0x40) = (4 :: 8 word)" by (simp add: drop_bit_or drop_bit_and)
  then show ?thesis by (simp add: high_digit digit_chars)
qed

lemma low_two: "x AND 3 \<in> {0, 1, 2, 3 :: 8 word}"
proof -
  have "x AND 3 = take_bit 2 x" by (simp add: take_bit_eq_mask mask_numeral)
  then have "unat (x AND 3) < 4" using take_bit_nat_less_exp [of 2 "unat x"] by (simp add: unsigned_take_bit_eq)
  then have "unat (x AND 3) \<in> {0, 1, 2, 3}" by auto
  then consider "unat (x AND 3) = unat (0 :: 8 word)" | "unat (x AND 3) = unat (1 :: 8 word)"
    | "unat (x AND 3) = unat (2 :: 8 word)" | "unat (x AND 3) = unat (3 :: 8 word)" by fastforce
  then show ?thesis by cases (drule unsigned_word_eqI, simp)+
qed

lemma variant_digit: "hd (hex_byte ((b AND 0x3f) OR 0x80)) \<in> set ''89ab''"
proof -
  have "drop_bit 4 ((b AND 0x3f) OR 0x80) = (drop_bit 4 b AND 3) OR (8 :: 8 word)" by (simp add: drop_bit_or drop_bit_and)
  then show ?thesis using low_two [of "drop_bit 4 b"] by (auto simp: high_digit digit_chars)
qed

lemma hex_rep: "length s = n \<Longrightarrow> list_all is_lower_hex s \<Longrightarrow> rx_match (Rep is_lower_hex n n) s"
  by (simp add: match_Rep)

lemma newUUID_valid:
  assumes "length v = 16"
  shows "ValidLeaseIdentifier (newUUID v)"
proof -
  define u where "u = v[6 := (v ! 6 AND 0x0f) OR 0x40, 8 := (v ! 8 AND 0x3f) OR 0x80]"
  have len: "length u = 16" using assms by (simp add: u_def)
  have six: "take 2 (drop 6 u) = [(v ! 6 AND 0x0f) OR 0x40, u ! 7]" and eight: "take 2 (drop 8 u) = [(v ! 8 AND 0x3f) OR 0x80, u ! 9]"
    using assms by (simp_all add: u_def list_eq_iff_nth_eq less_Suc_eq numeral_2_eq_2 nth_list_update)
  let ?six = "hex_byte ((v ! 6 AND 0x0f) OR 0x40)" and ?eight = "hex_byte ((v ! 8 AND 0x3f) OR 0x80)"
  have s: "hex_bytes (take 2 (drop 6 u)) = ''4'' @ tl ?six @ hex_byte (u ! 7)"
    unfolding six using version_digit [of "v ! 6"] by (simp add: hex_bytes_def hex_byte_def)
  have e: "hex_bytes (take 2 (drop 8 u)) = [hd ?eight] @ tl ?eight @ hex_byte (u ! 9)"
    unfolding eight by (simp add: hex_bytes_def hex_byte_def)
  have tails: "list_all is_lower_hex (tl (hex_byte b))" "length (tl (hex_byte b)) = 1" "length (hex_byte b) = 2" for b
    using hex_byte_lower [of b] by (simp_all add: hex_byte_def)
  have id: "newUUID v = hex_bytes (take 4 u) @ ''-'' @ hex_bytes (take 2 (drop 4 u)) @ ''-4'' @ (tl ?six @ hex_byte (u ! 7)) @ ''-''
      @ [hd ?eight] @ (tl ?eight @ hex_byte (u ! 9)) @ ''-'' @ hex_bytes (drop 10 u) @ []"
    using s e assms by (simp add: newUUID_def Let_def u_def)
  show ?thesis
    unfolding ValidLeaseIdentifier_def native_uuid_pattern_def id
    by (intro match_Seqs_append match_Lit hex_rep)
      (use len variant_digit [of "v ! 8"] in \<open>auto simp: tails hex_bytes_lower hex_byte_lower length_hex_bytes match_Rep\<close>)
qed

lemma capability_valid:
  assumes "length v = 32"
  shows "ValidLeaseCapability (hex_bytes v)"
proof -
  have "33 \<le> byte c \<and> byte c \<le> 126 \<and> c \<noteq> CHR '',''" if "is_lower_hex c" for c
    using that by (auto simp: byte_classes)
  then show ?thesis
    using hex_bytes_lower [of v] assms by (auto simp: ValidLeaseCapability_def length_hex_bytes list_all_iff)
qed

section \<open>Leases\<close>

lemma acquire_Inr:
  assumes c: "pg_AcquireNativeBaselineLease f rd now w seen cand plan age ttl ra d = (Inr (Some l), d1)"
  obtains row where "map_of (d_runs (bd_core d)) (r_id (nc_run cand)) = Some row" "acquirable now seen cand plan age row"
    "\<not> nativeWorkerOccupied w now d" "\<not> nativeRunLeased (r_id (rr_snapshot row)) now d"
    "validNativeBaselineLeaseRequest w seen cand plan age ttl ra"
    "persistNativeLease rd w (r_id (rr_snapshot row)) plan now ttl ra d = Inr (Some ((nl_leaseID l, nl_attemptID l, nl_capability l), d1))"
    "nl_runID l = r_id (rr_snapshot row)" "nl_runRevision l = r_revision (rr_snapshot row)" "nl_issuedAt l = now"
    "nl_expiresAt l = now + ttl" "nl_renewAfterSeconds l = ra div seconds 1" "nl_plan l = plan"
proof -
  have v: "validNativeBaselineLeaseRequest w seen cand plan age ttl ra"
    using c by (auto simp: pg_AcquireNativeBaselineLease_def split: if_splits)
  then have "transact f (acquire_body rd now w seen cand plan age ttl ra) d = (Inr (Some l), d1)"
    using c by (simp add: pg_AcquireNativeBaselineLease_def)
  from transact_Inr [OF this] have b: "acquire_body rd now w seen cand plan age ttl ra d = Commit (Some l) d1"
    by (auto simp: acquire_body_def split: sum.splits option.splits if_splits prod.splits)
  from b obtain row where "map_of (d_runs (bd_core d)) (r_id (nc_run cand)) = Some row" "acquirable now seen cand plan age row"
    "\<not> nativeWorkerOccupied w now d" "\<not> nativeRunLeased (r_id (rr_snapshot row)) now d"
    "persistNativeLease rd w (r_id (rr_snapshot row)) plan now ttl ra d = Inr (Some ((nl_leaseID l, nl_attemptID l, nl_capability l), d1))"
    "nl_runID l = r_id (rr_snapshot row)" "nl_runRevision l = r_revision (rr_snapshot row)" "nl_issuedAt l = now"
    "nl_expiresAt l = now + ttl" "nl_renewAfterSeconds l = ra div seconds 1" "nl_plan l = plan"
    by (auto simp: acquire_body_def lockNativeRun_def split: sum.splits option.splits if_splits prod.splits)
  with v show ?thesis by (intro that)
qed

lemma issued_lease:
  assumes ok: "native_ok d" and c: "pg_AcquireNativeBaselineLease f rd now w seen cand plan age ttl ra d = (Inr (Some l), d1)"
    and rd: "length (rd_lease rd) = 16" "length (rd_attempt rd) = 16" "length (rd_capability rd) = 32"
    and now: "now \<noteq> zero_time" "now + ttl \<noteq> zero_time"
  shows "NativeLease_Valid l"
    and "\<exists>row. map_of (nd_leases d1) (nl_runID l) = Some row \<and> live_row now row \<and> lx_expiresAt row = nl_expiresAt l
      \<and> matchingNativeLeaseAuthority row w (nl_leaseID l) (nl_attemptID l) (nl_capability l) \<and> lx_plan row = nl_plan l"
    and "\<exists>r. pg_view (bd_core d1) (nl_runID l) = Some (nc_principal cand, r) \<and> r_state r = StateCreated
      \<and> r_revision r = nl_runRevision l \<and> baselinePlanMatchesRun (nl_plan l) r"
proof -
  obtain row where row: "map_of (d_runs (bd_core d)) (r_id (nc_run cand)) = Some row" "acquirable now seen cand plan age row"
    and v: "validNativeBaselineLeaseRequest w seen cand plan age ttl ra"
    and p: "persistNativeLease rd w (r_id (rr_snapshot row)) plan now ttl ra d = Inr (Some ((nl_leaseID l, nl_attemptID l, nl_capability l), d1))"
    and l: "nl_runID l = r_id (rr_snapshot row)" "nl_runRevision l = r_revision (rr_snapshot row)" "nl_issuedAt l = now"
      "nl_expiresAt l = now + ttl" "nl_renewAfterSeconds l = ra div seconds 1" "nl_plan l = plan"
    using c by (rule acquire_Inr)
  obtain s where s: "lx_workerID s = w" "lx_expiresAt s = now + ttl" "lx_release s = None" "lx_plan s = plan"
    "d1 = d\<lparr>nd_leases := tput (r_id (rr_snapshot row)) s (nd_leases d)\<rparr>"
    "(nl_leaseID l, nl_attemptID l, nl_capability l) = (lx_leaseID s, lx_attemptID s, fst (newNativeLeaseCapability (rd_capability rd)))"
    "lx_leaseID s = newUUID (rd_lease rd)" "lx_attemptID s = newUUID (rd_attempt rd)"
    "lx_capabilitySHA256 s = snd (newNativeLeaseCapability (rd_capability rd))"
    using p by (rule persistNativeLease_Inr) blast
  have cap: "nl_capability l = hex_bytes (rd_capability rd)" "lx_capabilitySHA256 s = sha256_hex (nl_capability l)"
    using s(6,9) by (simp_all add: newNativeLeaseCapability_def Let_def)
  have view: "pg_view (bd_core d) (r_id (nc_run cand)) = Some (rr_principal row, rr_snapshot row)" using row(1) by (simp add: pg_view_def)
  have id: "r_id (rr_snapshot row) = r_id (nc_run cand)" using native_okD [OF ok view] by simp
  have pol: "ValidLeasePolicy ttl ra" using v by (simp add: validNativeBaselineLeaseRequest_def)
  then have "ra mod seconds 1 = 0" by (simp add: ValidLeasePolicy_def)
  then have ra: "seconds (ra div seconds 1) = ra" by (auto simp: seconds_def)
  have ids: "nl_leaseID l = newUUID (rd_lease rd)" "nl_attemptID l = newUUID (rd_attempt rd)" using s(6-8) by simp_all
  show "NativeLease_Valid l"
    using v rd now ids row(2) pol
    by (simp add: NativeLease_Valid_def l ra id cap newUUID_valid capability_valid validNativeBaselineLeaseRequest_def acquirable_def)
  have "0 < ttl" using pol ValidLeaseTTL_pos by (simp add: ValidLeasePolicy_def)
  then show "\<exists>row. map_of (nd_leases d1) (nl_runID l) = Some row \<and> live_row now row \<and> lx_expiresAt row = nl_expiresAt l
      \<and> matchingNativeLeaseAuthority row w (nl_leaseID l) (nl_attemptID l) (nl_capability l) \<and> lx_plan row = nl_plan l"
    using s cap(2) by (intro exI [of _ s]) (simp add: l live_row_def matchingNativeLeaseAuthority_def)
  show "\<exists>r. pg_view (bd_core d1) (nl_runID l) = Some (nc_principal cand, r) \<and> r_state r = StateCreated
      \<and> r_revision r = nl_runRevision l \<and> baselinePlanMatchesRun (nl_plan l) r"
    using view row(2) s(5) by (intro exI [of _ "rr_snapshot row"]) (simp add: l id acquirable_def)
qed

end
