(* ===== verification/Native_Samples.thy ===== *)
theory Native_Samples
  imports Baseline_Samples Native_Issue
begin

text \<open>
  Concrete native execution: an announced worker, a Run for native Linux, the lease acquired
  for it, an upload grant, the evidence of a finished attempt and two terminal reports.
\<close>

section \<open>A plan, a worker and a Run\<close>

definition n_url :: string where
  "n_url = ''https://app.example.com''"

definition n_runner :: native_artifact where
  "n_runner = \<lparr>na_kind = ''source-checkout'', na_repository = ''https://github.com/org/repo'', na_revision = replicate 40 (CHR ''b''),
     na_lockfile = ''package-lock.json'', na_lockfileSHA256 = s_hash, na_url = [], na_archiveSHA256 = [], na_executableSHA256 = []\<rparr>"

definition n_host :: host_profile where
  "n_host = \<lparr>hp_profileID = ''linux-lab'', hp_profileVersion = ''1.0.0'', hp_fingerprint = s_hash, hp_evidenceSHA256 = s_hash\<rparr>"

definition n_plan :: bl_plan where
  "n_plan = \<lparr>pl_assignment = \<lparr>ba_catalogueTestID = ''checkout'', ba_workloadID = ''workload'', ba_profile = ''smoke'',
       ba_target = \<lparr>nt_environmentID = ''environment'', nt_baseURL = n_url\<rparr>, ba_browser = ''chromium'',
       ba_diagnosticMode = ''baseline'', ba_executionArtifact = n_runner,
       ba_recipe = \<lparr>rp_journeyID = ''search'', rp_workloadVersion = ''1.0.0'', rp_workloadSHA256 = s_hash,
         rp_scenario = \<lparr>sc_cacheProfile = ''cold'', sc_pageReuse = ''per-iteration'', sc_warmupIterations = 0, sc_measurementIterations = 5\<rparr>,
         rp_environment = n_host,
         rp_browserSettings = \<lparr>bs_headless = True, bs_width = 1280, bs_height = 720, bs_deviceScaleFactor = Fin 1\<rparr>\<rparr>\<rparr>,
     pl_artifactPlan =
       (\<lparr>as_slot = ''measurements'', as_kind = ''measurements'', as_mediaType = ''application/json'',
          as_format = ''playwright-measurements/v2'', as_maximumBytes = 1000, as_required = True\<rparr>,
        \<lparr>as_slot = ''manifest'', as_kind = ''manifest'', as_mediaType = ''application/json'',
          as_format = ''raw-result/v2'', as_maximumBytes = 1000, as_required = True\<rparr>)\<rparr>"

lemma n_plan_valid: "Plan_valid n_plan"
  by code_simp

definition n_presence :: presence where
  "n_presence = \<lparr>pr_protocolVersion = 2, pr_agentVersion = ''1.0.0'', pr_availability = ''AVAILABLE'',
     pr_capabilities = \<lparr>cp_capacity = 1, cp_tool = ''playwright'', cp_operatingSystem = ''linux'', cp_architecture = ''x64'',
       cp_browsers = [''chromium''], cp_runnerContract = 2, cp_executionArtifacts = [''source-checkout''],
       cp_artifactKinds = [''measurements'', ''manifest''], cp_diagnosticModes = [''baseline'']\<rparr>,
     pr_evidence = Some \<lparr>qe_environmentID = ''linux-lab'', qe_environmentSHA256 = s_hash, qe_runner = n_runner\<rparr>\<rparr>"

lemma n_supported: "SupportsBaseline n_presence n_plan"
  by code_simp

definition n_worker :: string where
  "n_worker = ''worker-1''"

lemma n_worker_valid: "ValidNativeWorkerIdentifier n_worker"
  by code_simp

definition n_announce :: presence_record where
  "n_announce = \<lparr>pc_workerID = n_worker, pc_availability = ''AVAILABLE'', pc_qualified = True, pc_authorized = True,
     pc_document = Some n_presence\<rparr>"

definition n_core :: "run \<Rightarrow> db" where
  "n_core r = s_db\<lparr>d_runs := [(s_id, s_row\<lparr>rr_target := ExecutionTargetNativeLinux, rr_snapshot := r\<rparr>)]\<rparr>"

definition n_db :: "run \<Rightarrow> lease_table \<Rightarrow> native_db" where
  "n_db r ls = \<lparr>bd_core = n_core r, bd_baselines = [],
     nd_presence = [(n_worker, \<lparr>pw_observedAt = s_now, pw_availability = ''AVAILABLE'', pw_qualified = True, pw_authorized = True,
       pw_presence = n_presence\<rparr>)],
     nd_leases = ls, nd_grants = [], nd_artifacts = [], nd_terminals = []\<rparr>"

definition n_setup :: "native_op list" where
  "n_setup = [NBaseline (BCore (PAccept (TxOk, s_now, 0) ''alice'' s_key s_request ExecutionTargetNativeLinux)),
     NPresence TxOk s_now n_announce]"

lemma n_Accept:
  "pg_Accept TxOk s_now 0 ''alice'' s_key s_request ExecutionTargetNativeLinux db_empty = (Inr s_accepted, n_core s_run)"
  using s_id_valid s_request_valid s_key_valid
  by (simp add: pg_Accept_def transact_def select_binding_def pg_create_def Let_def insert_binding_def
      ExecutionTarget_Valid_def db_empty_def s_db_def s_accepted_def s_row_def s_run_def n_core_def flip: s_id_def)

lemma n_setup_db: "fold native_step n_setup native_empty = n_db s_run []"
proof -
  have p: "validNativeWorkerPresenceRecord n_announce"
    using n_worker_valid by (simp add: validNativeWorkerPresenceRecord_def n_announce_def n_presence_def)
  show ?thesis
    using p n_Accept
    by (simp add: n_setup_def native_empty_def baseline_part_def with_baseline_def baseline_empty_def baseline_db.defs
        pg_RecordNativeWorkerV2Presence_def transact_def n_db_def)
      (simp add: n_announce_def presence_row_ok_def n_presence_def Let_def)
qed

lemma n_start_ok: "native_ok (n_db s_run [])"
  using native_ok_calls [of native_empty n_setup] by (simp add: n_setup_db)

section \<open>The lease\<close>

definition n_random :: native_random where
  "n_random = \<lparr>rd_lease = replicate 16 1, rd_attempt = replicate 16 2, rd_capability = replicate 32 3\<rparr>"

definition n_leaseID :: string where
  "n_leaseID = newUUID (rd_lease n_random)"

definition n_attemptID :: string where
  "n_attemptID = newUUID (rd_attempt n_random)"

definition n_capability :: string where
  "n_capability = hex_bytes (rd_capability n_random)"

lemma n_identifiers: "ValidLeaseIdentifier n_leaseID" "ValidLeaseIdentifier n_attemptID" "ValidLeaseCapability n_capability"
  by (simp_all add: n_leaseID_def n_attemptID_def n_capability_def n_random_def newUUID_valid capability_valid)

definition n_expiry :: time where
  "n_expiry = s_now + minutes 1"

definition n_lease_row :: native_lease_row where
  "n_lease_row = \<lparr>lx_leaseID = n_leaseID, lx_attemptID = n_attemptID, lx_workerID = n_worker, lx_protocolVersion = 2,
     lx_capabilitySHA256 = sha256_hex n_capability, lx_issuedAt = s_now, lx_expiresAt = n_expiry,
     lx_renewAfterSeconds = 20, lx_plan = n_plan, lx_release = None\<rparr>"

definition n_lease :: native_lease where
  "n_lease = \<lparr>nl_leaseID = n_leaseID, nl_attemptID = n_attemptID, nl_runID = s_id, nl_runRevision = 1, nl_issuedAt = s_now,
     nl_expiresAt = n_expiry, nl_renewAfterSeconds = 20, nl_plan = n_plan, nl_capability = n_capability\<rparr>"

definition n_candidate :: native_candidate where
  "n_candidate = \<lparr>nc_principal = ''alice'', nc_run = s_run\<rparr>"

lemma n_clock: "s_now \<noteq> zero_time" "s_now + minutes 1 \<noteq> zero_time" "n_expiry \<noteq> zero_time" "s_now < n_expiry"
  by (simp_all add: n_expiry_def s_now_def zero_time_def seconds_def minutes_def)

lemma n_policy: "ValidLeasePolicy (minutes 1) (seconds 20)" "ValidPresenceMaximumAge (minutes 1)" "ValidUploadGrantTTL (minutes 1)"
  by code_simp+

lemma n_request: "validNativeBaselineLeaseRequest n_worker s_now n_candidate n_plan (minutes 1) (minutes 1) (seconds 20)"
  using n_worker_valid n_clock n_plan_valid n_policy s_id_valid s_request_valid
  by (simp add: validNativeBaselineLeaseRequest_def n_candidate_def)

lemma n_matches_run: "baselinePlanMatchesRun n_plan s_run"
  by (simp add: baselinePlanMatchesRun_def n_plan_def s_request_def s_ref_def)

definition n_acquire :: native_op where
  "n_acquire = NAcquire TxOk n_random s_now n_worker s_now n_candidate n_plan (minutes 1) (minutes 1) (seconds 20)"

lemma n_acquired:
  "pg_AcquireNativeBaselineLease TxOk n_random s_now n_worker s_now n_candidate n_plan (minutes 1) (minutes 1) (seconds 20) (n_db s_run [])
    = (Inr (Some n_lease), n_db s_run [(s_id, n_lease_row)])"
proof -
  have row: "seconds 20 div seconds 1 = 20" "0 < minutes 1" by (simp_all add: seconds_def minutes_def)
  have ok: "lease_row_ok n_lease_row" using n_clock by (simp add: lease_row_ok_def n_lease_row_def)
  show ?thesis
    using n_request n_supported n_matches_run row ok
    by (simp add: pg_AcquireNativeBaselineLease_def transact_def acquire_body_def lockNativeWorkerV2Presence_def n_db_def
        lockNativeRun_def n_core_def acquirable_def nativeWorkerOccupied_def nativeRunLeased_def persistNativeLease_def
        newNativeLeaseCapability_def Let_def n_lease_def n_lease_row_def n_expiry_def n_candidate_def s_row_def
        n_leaseID_def n_attemptID_def n_capability_def)
      (simp add: n_presence_def)
qed

definition n_history :: "native_op list" where
  "n_history = n_setup @ [n_acquire]"

lemma n_history_db: "fold native_step n_history native_empty = n_db s_run [(s_id, n_lease_row)]"
  using n_acquired by (simp add: n_history_def n_setup_db n_acquire_def)

lemma n_leased_ok: "native_ok (n_db s_run [(s_id, n_lease_row)])"
  using native_ok_calls [of native_empty n_history] by (simp add: n_history_db)

lemma n_live: "live_row s_now n_lease_row"
  using n_clock by (simp add: live_row_def n_lease_row_def)

lemma n_authority: "matchingNativeLeaseAuthority n_lease_row n_worker n_leaseID n_attemptID n_capability"
  by (simp add: matchingNativeLeaseAuthority_def n_lease_row_def)

section \<open>Reports and grants\<close>

definition n_leased :: native_db where
  "n_leased = n_db s_run [(s_id, n_lease_row)]"

definition n_later :: time where
  "n_later = s_now + seconds 1"

definition n_scope :: "time \<Rightarrow> native_scope" where
  "n_scope t = \<lparr>ns_runID = s_id, ns_current = s_run, ns_stored = n_lease_row, ns_now = t\<rparr>"

lemma n_id_nonempty: "s_id \<noteq> []"
  using s_id_valid by (auto simp: ValidID_def run_id_pattern_def)

text \<open>The scope of the lease in any database with these Runs, workers and leases.\<close>

lemma n_locked:
  assumes "bd_core d = n_core s_run" "nd_leases d = [(s_id, n_lease_row)]" "nd_presence d = nd_presence (n_db s_run [])"
  shows "lockNativeRenewalScopeVersion [(s_id, n_lease_row)] t n_worker n_leaseID 2 d = Inr (n_scope t)"
  using assms n_id_nonempty
  by (simp add: lockNativeRenewalScopeVersion_def nativeLeaseLocation_def lockNativeWorker_def lockNativeRun_def lockedNativeLease_def
      n_core_def n_scope_def n_db_def s_row_def) (simp add: n_lease_row_def)

definition n_failed :: terminal_request where
  "n_failed = \<lparr>tr_kind = TerminalFailed, tr_leaseID = n_leaseID, tr_attemptID = n_attemptID, tr_revision = 1,
     tr_manifestArtifactID = [], tr_failure = Some \<lparr>tf_code = TerminalFailurePreparation, tf_message = ''disk'', tf_retryable = False\<rparr>,
     tr_capability = n_capability\<rparr>"

lemma n_failed_valid: "TerminalRequest_Valid n_failed"
proof -
  have "TerminalFailure_Valid \<lparr>tf_code = TerminalFailurePreparation, tf_message = ''disk'', tf_retryable = False\<rparr>" by code_simp
  then show ?thesis using n_identifiers by (simp add: TerminalRequest_Valid_def n_failed_def TerminalKind_Valid_def)
qed

lemma n_later_time: "n_later < n_expiry" "s_now < n_later" "n_later \<noteq> zero_time"
  by (simp_all add: n_later_def n_expiry_def s_now_def zero_time_def seconds_def minutes_def)

lemma n_open: "live_authority (n_scope n_later) n_worker n_leaseID n_attemptID n_capability"
  using n_authority n_later_time by (simp add: live_authority_def n_scope_def n_lease_row_def Terminal_iff)

definition n_report :: "terminal_request \<Rightarrow> native_db \<Rightarrow> (err + terminal_ack) \<times> native_db" where
  "n_report rq d = pg_ReportNativeBaselineTerminal TxOk [(s_id, n_lease_row)] n_later n_worker rq d"

text \<open>A report on the leased Run whose evidence and transition are in order is accepted.\<close>

lemma n_accepts:
  assumes d: "bd_core d = n_core s_run" "nd_leases d = [(s_id, n_lease_row)]" "nd_presence d = nd_presence (n_db s_run [])"
      "nd_terminals d = []"
    and rq: "TerminalRequest_Valid rq" "tr_leaseID rq = n_leaseID" "tr_attemptID rq = n_attemptID" "tr_capability rq = n_capability"
      "tr_revision rq = 1" "case tr_failure rq of None \<Rightarrow> True | Some f \<Rightarrow> text_value (tf_message f)"
    and e: "tr_kind rq = TerminalCompleted \<Longrightarrow> validateNativeTerminalEvidence (n_scope n_later) rq 2 d = Inr ()"
    and r: "applyNativeTerminal s_run rq n_later = Inr r" "1 \<le> r_revision r" "r_revision r \<le> 9007199254740991"
  shows "\<exists>d'. n_report rq d = (Inr \<lparr>ta_attemptID = n_attemptID, ta_runRevision = r_revision r, ta_disposition = TerminalAccepted\<rparr>, d')"
proof -
  have frame: "nd_leases (write_run s_run r d) = nd_leases d" "nd_terminals (write_run s_run r d) = nd_terminals d"
    by (simp_all add: write_run_def updateNativeRun_def)
  have ok: "lease_row_ok (n_lease_row\<lparr>lx_expiresAt := n_later\<rparr>)"
    using n_later_time by (simp add: lease_row_ok_def n_lease_row_def)
  have live: "lx_release n_lease_row = None" "n_later < lx_expiresAt n_lease_row" using n_later_time by (simp_all add: n_lease_row_def)
  have row: "terminal_row_ok \<lparr>tt_workerID = n_worker, tt_protocolVersion = 2, tt_request = rq\<lparr>tr_capability := []\<rparr>,
      tt_resultingRevision = r_revision r, tt_acceptedAt = n_later\<rparr> (write_run s_run r d) = None"
    using rq(5,6) r(2,3) d(4) by (auto simp: terminal_row_ok_def frame split: option.splits)
  have "accept_terminal (n_scope n_later) n_worker rq 2 d =
    Commit \<lparr>ta_attemptID = n_attemptID, ta_runRevision = r_revision r, ta_disposition = TerminalAccepted\<rparr>
      ((write_run s_run r d)\<lparr>nd_terminals := tput s_id \<lparr>tt_workerID = n_worker, tt_protocolVersion = 2,
        tt_request = rq\<lparr>tr_capability := []\<rparr>, tt_resultingRevision = r_revision r, tt_acceptedAt = n_later\<rparr> (nd_terminals (write_run s_run r d)),
        nd_leases := tput s_id (n_lease_row\<lparr>lx_expiresAt := n_later\<rparr>) (nd_leases (write_run s_run r d))\<rparr>)"
    using e r(1) row ok d(2) rq(3)
    by (cases "tr_kind rq = TerminalCompleted")
      (simp_all add: accept_terminal_def n_scope_def insertNativeTerminal_def Let_def update_native_lease_def frame)
  with rq n_authority n_worker_valid d live show ?thesis
    by (simp add: n_report_def pg_ReportNativeBaselineTerminal_def reportNativeTerminal_def transact_def n_locked terminal_scope_def
        lockedNativeTerminal_def) (simp add: n_scope_def Terminal_iff)
qed

lemma n_message: "failure_message_ok ''Native worker preparation failed''"
  by code_simp

lemma n_failed_accepted:
  "\<exists>d'. n_report n_failed n_leased = (Inr \<lparr>ta_attemptID = n_attemptID, ta_runRevision = 3, ta_disposition = TerminalAccepted\<rparr>, d')"
proof -
  have "\<exists>r. applyNativeTerminal s_run n_failed n_later = Inr r \<and> r_revision r = 3"
    using n_message
    by (simp add: applyNativeTerminal_def n_failed_def Run_Transition_def to_state_def fail_change_def CanTransition_def requiresFailure_def
        maxRunRevision_def Terminal_iff Let_def)
  then obtain r where r: "applyNativeTerminal s_run n_failed n_later = Inr r" "r_revision r = 3" by blast
  have "\<exists>d'. n_report n_failed n_leased
      = (Inr \<lparr>ta_attemptID = n_attemptID, ta_runRevision = r_revision r, ta_disposition = TerminalAccepted\<rparr>, d')"
    by (rule n_accepts [OF _ _ _ _ n_failed_valid _ _ _ _ _ _ r(1)])
      (simp_all add: n_leased_def n_db_def n_failed_def text_value_def r(2))
  then show ?thesis by (simp add: r(2))
qed

definition n_grant :: "string \<Rightarrow> upload_reservation" where
  "n_grant slot = \<lparr>up_grantID = slot, up_leaseID = n_leaseID, up_attemptID = n_attemptID, up_runID = s_id, up_slot = slot,
     up_objectKey = object_key s_id n_attemptID slot, up_size = 10, up_maximumBytes = 1000, up_sha256 = s_hash,
     up_mediaType = ''application/json'', up_issuedAt = s_now, up_expiresAt = n_expiry\<rparr>"

definition n_artifact :: "string \<Rightarrow> string \<Rightarrow> native_artifact_row" where
  "n_artifact slot fmt = \<lparr>nr_grantID = slot, nr_uri = [], nr_kind = slot, nr_format = fmt, nr_registeredAt = s_now\<rparr>"

text \<open>The leased Run with registered evidence for both slots.\<close>

definition n_evidence :: native_db where
  "n_evidence = n_leased\<lparr>nd_grants := [(''manifest'', n_grant ''manifest''), (''measurements'', n_grant ''measurements'')],
     nd_artifacts := [(n_leaseID, n_artifact ''manifest'' ''raw-result/v2''), (n_attemptID, n_artifact ''measurements'' ''playwright-measurements/v2'')]\<rparr>"

lemma n_evidence_ok: "native_ok n_evidence"
  using n_leased_ok
  by (simp add: native_ok_def n_evidence_def n_leased_def grants_keyed_def unique_grants_def table_ok_def)
    (simp add: n_db_def n_grant_def)

definition n_completed :: terminal_request where
  "n_completed = \<lparr>tr_kind = TerminalCompleted, tr_leaseID = n_leaseID, tr_attemptID = n_attemptID, tr_revision = 1,
     tr_manifestArtifactID = n_leaseID, tr_failure = None, tr_capability = n_capability\<rparr>"

lemma n_completed_valid: "TerminalRequest_Valid n_completed"
  using n_identifiers by (simp add: TerminalRequest_Valid_def n_completed_def TerminalKind_Valid_def)

lemma n_ids_differ: "n_attemptID \<noteq> n_leaseID" "n_leaseID \<noteq> []" "n_leaseID \<le> n_attemptID"
  by code_simp+

definition n_registered :: "string \<Rightarrow> string \<Rightarrow> string \<Rightarrow> registered_native_artifact" where
  "n_registered i slot fmt = \<lparr>ra_artifactID = i, ra_slot = slot, ra_kind = slot, ra_format = fmt,
     ra_mediaType = ''application/json'', ra_registeredAt = s_now\<rparr>"

lemma n_registered_simps [simp]:
  "ra_artifactID (n_registered i slot fmt) = i" "ra_slot (n_registered i slot fmt) = slot" "ra_kind (n_registered i slot fmt) = slot"
  "ra_format (n_registered i slot fmt) = fmt" "ra_mediaType (n_registered i slot fmt) = ''application/json''"
  "ra_registeredAt (n_registered i slot fmt) = s_now"
  by (simp_all add: n_registered_def)

lemma n_slots:
  "slot_evidence_ok m as (fst (pl_artifactPlan n_plan)) =
    (case find (\<lambda>a. ra_slot a = ''measurements'') (rev as) of None \<Rightarrow> False
     | Some a \<Rightarrow> ra_kind a = ''measurements'' \<and> ra_format a = ''playwright-measurements/v2'' \<and> ra_mediaType a = ''application/json''
         \<and> \<not> ra_registeredAt m < ra_registeredAt a)"
  "slot_evidence_ok m as (snd (pl_artifactPlan n_plan)) =
    (case find (\<lambda>a. ra_slot a = ''manifest'') (rev as) of None \<Rightarrow> False
     | Some a \<Rightarrow> ra_kind a = ''manifest'' \<and> ra_format a = ''raw-result/v2'' \<and> ra_mediaType a = ''application/json''
         \<and> \<not> ra_registeredAt m < ra_registeredAt a)"
  by (simp_all add: slot_evidence_ok_def n_plan_def split: option.splits)

lemma n_artifacts:
  "registeredNativeArtifacts s_id n_attemptID n_evidence =
    [n_registered n_leaseID ''manifest'' ''raw-result/v2'', n_registered n_attemptID ''measurements'' ''playwright-measurements/v2'']"
  using n_ids_differ
  by (simp add: registeredNativeArtifacts_def n_evidence_def n_artifact_def n_grant_def n_registered_def List.map_filter_def less_eq_prod_def)

lemma n_validated: "validateNativeTerminalEvidence (n_scope n_later) n_completed 2 n_evidence = Inr ()"
proof -
  have v: "ns_runID (n_scope n_later) = s_id" "lx_plan (ns_stored (n_scope n_later)) = n_plan"
    "tr_attemptID n_completed = n_attemptID" "tr_manifestArtifactID n_completed = n_leaseID"
    by (simp_all add: n_scope_def n_lease_row_def n_completed_def)
  show ?thesis
    using n_plan_valid n_ids_differ
    by (simp add: validateNativeTerminalEvidence_def nativeTerminalArtifactPlan_def v n_artifacts n_slots)
qed

lemma n_completed_accepted:
  "\<exists>d'. n_report n_completed n_evidence = (Inr \<lparr>ta_attemptID = n_attemptID, ta_runRevision = 6, ta_disposition = TerminalAccepted\<rparr>, d')"
proof -
  have "phase_path StateCreated PhaseFinalizing = Inr [StateValidating, StateProvisioning, StateWarmingUp, StateRunning, StateCollecting]"
    by code_simp
  then have r: "applyNativeTerminal s_run n_completed n_later = Inr (walked [StateValidating, StateProvisioning, StateWarmingUp, StateRunning, StateCollecting] n_later s_run)"
    using AdvancePhase_closed [of s_run 1 PhaseFinalizing n_later]
    by (simp add: applyNativeTerminal_def n_completed_def maxRunRevision_def)
  let ?r = "walked [StateValidating, StateProvisioning, StateWarmingUp, StateRunning, StateCollecting] n_later s_run"
  have rev6: "r_revision ?r = 6" by (simp add: walked_def)
  have "\<exists>d'. n_report n_completed n_evidence
      = (Inr \<lparr>ta_attemptID = n_attemptID, ta_runRevision = r_revision ?r, ta_disposition = TerminalAccepted\<rparr>, d')"
    by (rule n_accepts [OF _ _ _ _ n_completed_valid _ _ _ _ _ n_validated r])
      (simp_all add: n_evidence_def n_leased_def n_db_def n_completed_def rev6)
  then show ?thesis by (simp add: rev6)
qed

definition n_upload :: upload_request where
  "n_upload = \<lparr>ur_leaseID = n_leaseID, ur_attemptID = n_attemptID, ur_revision = 1, ur_slot = ''manifest'', ur_size = 10,
     ur_sha256 = s_hash, ur_mediaType = ''application/json'', ur_capability = n_capability\<rparr>"

lemma n_upload_valid: "UploadRequest_Valid n_upload"
proof -
  have "rx_match resource_id_pattern ''manifest''" "rx_match media_type_pattern ''application/json''" by code_simp+
  then show ?thesis using n_identifiers s_names(3) by (simp add: UploadRequest_Valid_def n_upload_def maximumArtifactBytes_def)
qed

definition n_reserve :: "8 word list \<Rightarrow> time \<Rightarrow> native_db \<Rightarrow> (err + upload_reservation) \<times> native_db" where
  "n_reserve rnd t d = pg_ReserveNativeBaselineUploadGrant TxOk [(s_id, n_lease_row)] rnd t n_worker n_upload (minutes 1) d"

definition n_issued :: upload_reservation where
  "n_issued = (n_grant ''manifest'')\<lparr>up_grantID := newUUID (replicate 16 4), up_issuedAt := n_later\<rparr>"

lemma n_issued_valid: "UploadReservation_Valid n_issued" "grant_row_ok n_issued"
proof -
  have m: "rx_match resource_id_pattern ''manifest''" "rx_match worker_identifier_pattern ''manifest''"
    "rx_match media_type_pattern ''application/json''" by code_simp+
  have e: "n_expiry - n_later \<le> maximumUploadGrantTTL"
    by (simp add: n_expiry_def n_later_def s_now_def maximumUploadGrantTTL_def seconds_def minutes_def)
  show "UploadReservation_Valid n_issued"
    using m e n_identifiers n_clock n_later_time s_id_valid s_names(3)
    by (simp add: UploadReservation_Valid_def n_issued_def n_grant_def newUUID_valid maximumArtifactBytes_def)
  show "grant_row_ok n_issued"
    using m n_later_time by (simp add: grant_row_ok_def n_issued_def n_grant_def s_hash_def)
qed

lemma n_slot: "MatchArtifactSlot n_plan ''manifest'' ''application/json'' 10 = Some (snd (pl_artifactPlan n_plan))"
  "as_maximumBytes (snd (pl_artifactPlan n_plan)) = 1000"
  using n_plan_valid by (simp_all add: MatchArtifactSlot_def) (simp_all add: n_plan_def)

lemma n_declared: "nativeUploadReservation (n_scope n_later) n_worker n_upload (minutes 1) 2 = Inr (n_issued\<lparr>up_grantID := []\<rparr>)"
proof -
  have ttl: "n_expiry < n_later + minutes 1" using n_later_time by (simp add: n_expiry_def)
  show ?thesis
    using n_open n_plan_valid ttl n_slot
    by (simp add: nativeUploadReservation_def n_upload_def nativePlannedArtifactSlot_def)
      (simp add: n_scope_def n_lease_row_def n_slot n_issued_def n_grant_def)
qed

lemma n_reserved: "n_reserve (replicate 16 4) n_later n_leased = (Inr n_issued, n_leased\<lparr>nd_grants := [(up_grantID n_issued, n_issued)]\<rparr>)"
proof -
  have hash: "to_lower s_hash = s_hash" "hex_DecodeString_ok s_hash" by code_simp+
  let ?r = "n_issued\<lparr>up_grantID := []\<rparr>"
  have p: "persistNativeUploadReservation (replicate 16 4) ?r n_leased = Inr (n_issued, n_leased\<lparr>nd_grants := [(up_grantID n_issued, n_issued)]\<rparr>)"
    using n_issued_valid(2) hash
    by (simp add: persistNativeUploadReservation_def lockedNativeUploadReservation_def stored_reservation_def n_leased_def n_db_def Let_def)
      (simp add: n_issued_def n_grant_def)
  have l: "lockNativeRenewalScopeVersion [(s_id, n_lease_row)] n_later n_worker n_leaseID 2 n_leased = Inr (n_scope n_later)"
    by (rule n_locked) (simp_all add: n_leased_def n_db_def)
  have "ur_leaseID n_upload = n_leaseID" by (simp add: n_upload_def)
  then show ?thesis
    using n_worker_valid n_upload_valid n_policy(3) n_issued_valid(1) n_declared p l
    by (simp add: n_reserve_def pg_ReserveNativeBaselineUploadGrant_def reserveNativeUploadGrant_def transact_def)
qed

lemma n_reserved_again:
  "\<exists>g'. n_reserve rnd n_later (n_leased\<lparr>nd_grants := [(up_grantID n_issued, n_issued)]\<rparr>)
    = (Inr g', n_leased\<lparr>nd_grants := [(up_grantID n_issued, n_issued)]\<rparr>)"
proof -
  let ?d = "n_leased\<lparr>nd_grants := [(up_grantID n_issued, n_issued)]\<rparr>" and ?r = "n_issued\<lparr>up_grantID := []\<rparr>"
  have p: "persistNativeUploadReservation rnd ?r ?d = Inr (n_issued, ?d)"
    using n_issued_valid
    by (simp add: persistNativeUploadReservation_def lockedNativeUploadReservation_def stored_reservation_def
        sameNativeUploadDeclaration_def Let_def)
  have l: "lockNativeRenewalScopeVersion [(s_id, n_lease_row)] n_later n_worker n_leaseID 2 ?d = Inr (n_scope n_later)"
    by (rule n_locked) (simp_all add: n_leased_def n_db_def)
  have "ur_leaseID n_upload = n_leaseID" by (simp add: n_upload_def)
  then show ?thesis
    using n_worker_valid n_upload_valid n_policy(3) n_issued_valid(1) n_declared p l
    by (simp add: n_reserve_def pg_ReserveNativeBaselineUploadGrant_def reserveNativeUploadGrant_def transact_def)
qed

end
