(* ===== verification/Benchmark_Stage.thy ===== *)
theory Benchmark_Stage
  imports Evidence Pg_Holds
begin

text \<open>
  Package \<open>internal/reconcile\<close>, contained benchmarks: \<open>benchmark_dispatch.go\<close> and
  \<open>benchmark_cleanup.go\<close>. The reconciler holds an exclusive target in the database before it
  creates anything, seals the request before it creates authority or a Job, and releases the
  hold only through a fenced cleanup; every other Run goes to the router. Target methods
  receive the fence as a function they call before each of their writes. Plans are values of
  other packages (\<open>benchmark\<close>, \<open>kubernetes\<close>): their validation, encoding and Job binding are
  functions of the record \<open>bench_services\<close>.
\<close>

section \<open>Interfaces\<close>

record ('spec, 'job) bench_plan =
  pn_selection :: 'spec
  pn_template :: 'job

record ('w, 'spec) bench_target =
  t_Qualify :: "'spec \<Rightarrow> ('w, bytes) op"
  t_EnsureNamespace :: "benchmark_reservation \<Rightarrow> ('w, unit) op \<Rightarrow> ('w, string) op"
  t_CheckNamespace :: "benchmark_reservation \<Rightarrow> ('w, unit) op"
  t_EnsureResources :: "'spec \<Rightarrow> benchmark_reservation \<Rightarrow> ('w, unit) op \<Rightarrow> ('w, unit) op"
  t_InspectCleanupNamespace :: "benchmark_reservation \<Rightarrow> ('w, string \<times> bool) op"
  t_CloseBenchmarkTarget :: "benchmark_reservation \<Rightarrow> ('w, unit) op \<Rightarrow> ('w, unit) op"
  t_CleanupBenchmark :: "'spec \<Rightarrow> benchmark_reservation \<Rightarrow> execution option \<Rightarrow> ('w, unit) op \<Rightarrow> ('w, bool \<times> bytes) op"

record ('w, 'job, 'spec) bench_services = "('w, 'job) services" +
  b_GetReservation :: "lease \<Rightarrow> ('w, benchmark_reservation option) op"
  b_Reserve :: "lease \<Rightarrow> int \<Rightarrow> benchmark_intent \<Rightarrow> bytes \<Rightarrow> ('w, benchmark_reservation) op"
  b_BindNamespace :: "lease \<Rightarrow> int \<Rightarrow> string \<Rightarrow> string \<Rightarrow> ('w, benchmark_reservation) op"
  b_Seal :: "lease \<Rightarrow> int \<Rightarrow> string \<Rightarrow> bytes \<Rightarrow> ('w, benchmark_reservation) op"
  b_BeginCleanup :: "lease \<Rightarrow> int \<Rightarrow> string \<Rightarrow> change \<Rightarrow> ('w, benchmark_reservation) op"
  b_BindCleanupNamespace :: "lease \<Rightarrow> int \<Rightarrow> string \<Rightarrow> string \<Rightarrow> ('w, benchmark_reservation) op"
  b_RecordFence :: "lease \<Rightarrow> int \<Rightarrow> string \<Rightarrow> ('w, benchmark_reservation) op"
  b_Finish :: "lease \<Rightarrow> int \<Rightarrow> string \<Rightarrow> bytes \<Rightarrow> ('w, run) op"
  b_Resolve :: "string \<Rightarrow> run \<Rightarrow> ('w, ('spec, 'job) bench_plan option) op"
  b_target :: "('w, 'spec) bench_target option"
  b_PlanValidate :: "('spec, 'job) bench_plan \<Rightarrow> err + unit"
  b_Intent :: "('spec, 'job) bench_plan \<Rightarrow> err + benchmark_intent"
  b_Restore :: "benchmark_intent \<Rightarrow> err + ('spec, 'job) bench_plan"
  b_RequestBytes :: "'spec \<Rightarrow> string \<Rightarrow> string \<Rightarrow> err + bytes"
  b_BindJob :: "'job \<Rightarrow> 'spec \<Rightarrow> benchmark_reservation \<Rightarrow> err + 'job"

text \<open>Fences are handed to target methods, so they are calls themselves.\<close>

definition op_bind :: "('w, 'a) op \<Rightarrow> ('a \<Rightarrow> ('w, 'b) op) \<Rightarrow> ('w, 'b) op" where
  "op_bind f k w = (case f w of (Inl e, w') \<Rightarrow> (Inl e, w') | (Inr a, w') \<Rightarrow> k a w')"

definition op_result :: "err + 'a \<Rightarrow> ('w, 'a) op" where
  "op_result r w = (r, w)"

section \<open>Dispatch (benchmark_dispatch.go)\<close>

definition bench_fence ::
  "('w, 'job, 'spec) bench_services \<Rightarrow> provisioning_config \<Rightarrow> claim \<Rightarrow> benchmark_reservation \<Rightarrow> ('w, unit) op" where
  "bench_fence sv cfg c expected =
    op_bind (s_RenewClaim sv (cl_lease c) (pc_leaseTTL cfg))
      (\<lambda>current.
         if r_revision (cl_run current) \<noteq> r_revision (cl_run c) then op_result (Inl ErrRevision)
         else if r_state (cl_run current) \<noteq> StateProvisioning then op_result (Inl ErrTransition)
         else op_bind (b_GetReservation sv (cl_lease c))
           (\<lambda>found. op_result
              (case found of
                 None \<Rightarrow> Inl ErrBenchmarkConflict
               | Some stored \<Rightarrow>
                   if br_cleanup stored \<noteq> None \<or> br_runID stored \<noteq> r_id (cl_run c)
                      \<or> \<not> BenchmarkIntent_Same (br_intent stored) (br_intent expected)
                      \<or> br_namespaceUID stored \<noteq> br_namespaceUID expected \<or> br_request stored \<noteq> br_request expected
                   then Inl ErrBenchmarkConflict else Inr ())))"

text \<open>Whether the Job was found and bound.\<close>

definition recoverJob ::
  "('w, 'job, 'spec) bench_services \<Rightarrow> ('w, 'spec) bench_target \<Rightarrow> claim \<Rightarrow> ('spec, 'job) bench_plan \<Rightarrow> benchmark_reservation
    \<Rightarrow> ('w, bool) prog" where
  "recoverJob sv t c plan rv =
    bind_ok (call (t_CheckNamespace t rv))
      (\<lambda>_. bind_ok (of_result (b_BindJob sv (pn_template plan) (pn_selection plan) rv))
        (\<lambda>template. bind_ok (call (s_FindJob sv (r_id (cl_run c)) template))
          (\<lambda>found. case found of
             None \<Rightarrow> ret False
           | Some x \<Rightarrow>
               if \<not> Execution_Valid (s_dns sv) x \<or> x_runID x \<noteq> r_id (cl_run c) then fail ErrValidation
               else bind_ok (call (s_BindExecution sv (cl_lease c) x)) (\<lambda>_. ret True))))"

text \<open>From the sealed hold to the bound Job.\<close>

definition launch ::
  "('w, 'job, 'spec) bench_services \<Rightarrow> ('w, 'spec) bench_target \<Rightarrow> claim \<Rightarrow> ('spec, 'job) bench_plan \<Rightarrow> ('w, unit) op
    \<Rightarrow> benchmark_reservation \<Rightarrow> ('w, unit) prog" where
  "launch sv t c plan fence rv =
    bind_ok (call (t_EnsureResources t (pn_selection plan) rv fence))
      (\<lambda>_. bind_ok (of_result (b_BindJob sv (pn_template plan) (pn_selection plan) rv))
        (\<lambda>template. bind_ok (call (t_Qualify t (pn_selection plan)))
          (\<lambda>_. bind_ok (call fence)
            (\<lambda>_. bind_ok (call (t_CheckNamespace t rv))
              (\<lambda>_. bind_ok (call (s_EnsureJob sv (r_id (cl_run c)) template))
                (\<lambda>x. if \<not> Execution_Valid (s_dns sv) x \<or> x_runID x \<noteq> r_id (cl_run c) then fail ErrValidation
                     else call (s_BindExecution sv (cl_lease c) x)))))))"

text \<open>The closure \<open>fence\<close> of the source reads the variable \<open>reservation\<close>, which is assigned after each write.\<close>

definition bench_dispatch ::
  "('w, 'job, 'spec) bench_services \<Rightarrow> ('w, 'spec) bench_target \<Rightarrow> provisioning_config \<Rightarrow> claim \<Rightarrow> ('spec, 'job) bench_plan
    \<Rightarrow> ('w, unit) prog" where
  "bench_dispatch sv t cfg c plan =
    bind_ok (of_result (b_Intent sv plan))
      (\<lambda>intent. bind_ok (call (t_Qualify t (pn_selection plan)))
        (\<lambda>admission. bind_ok (call (b_Reserve sv (cl_lease c) (r_revision (cl_run c)) intent admission))
          (\<lambda>reserved. bind_ok (call (t_EnsureNamespace t reserved (bench_fence sv cfg c reserved)))
            (\<lambda>uid. bind_ok (call (b_BindNamespace sv (cl_lease c) (r_revision (cl_run c)) (bi_planSHA256 intent) uid))
              (\<lambda>_. bind_ok (of_result (b_RequestBytes sv (pn_selection plan) (r_id (cl_run c)) uid))
                (\<lambda>request. bind_ok (call (b_Seal sv (cl_lease c) (r_revision (cl_run c)) (bi_planSHA256 intent) request))
                  (\<lambda>sealed. launch sv t c plan (bench_fence sv cfg c sealed) sealed)))))))"

section \<open>Cleanup (benchmark_cleanup.go)\<close>

definition cleanup_fence ::
  "('w, 'job, 'spec) bench_services \<Rightarrow> provisioning_config \<Rightarrow> claim \<Rightarrow> benchmark_reservation \<Rightarrow> ('w, unit) op" where
  "cleanup_fence sv cfg c rv =
    op_bind (s_RenewClaim sv (cl_lease c) (pc_leaseTTL cfg))
      (\<lambda>current.
         if r_revision (cl_run current) \<noteq> r_revision (cl_run c) then op_result (Inl ErrRevision)
         else op_bind (b_GetReservation sv (cl_lease c))
           (\<lambda>found. op_result
              (case found of
                 None \<Rightarrow> Inl ErrBenchmarkConflict
               | Some stored \<Rightarrow>
                   (case br_cleanup stored of
                      None \<Rightarrow> Inl ErrBenchmarkConflict
                    | Some cl \<Rightarrow>
                        if \<not> BenchmarkIntent_Same (br_intent stored) (br_intent rv)
                           \<or> br_namespaceUID stored \<noteq> br_namespaceUID rv \<or> bc_releasedAt cl \<noteq> None
                        then Inl ErrBenchmarkConflict else Inr ()))))"

text \<open>After the target is closed: stop the Job, record the fence, and release once the target is empty.\<close>

definition cleanup_drain ::
  "('w, 'job, 'spec) bench_services \<Rightarrow> ('w, 'spec) bench_target \<Rightarrow> provisioning_config \<Rightarrow> claim \<Rightarrow> ('spec, 'job) bench_plan
    \<Rightarrow> benchmark_reservation \<Rightarrow> execution option \<Rightarrow> ('w, duration) prog" where
  "cleanup_drain sv t cfg c plan rv x =
    bind_ok (call (cleanup_fence sv cfg c rv))
      (\<lambda>_. bind_ok (case x of None \<Rightarrow> ret () | Some e \<Rightarrow> call (s_RequestJobStop sv e))
        (\<lambda>_. bind_ok (call (b_RecordFence sv (cl_lease c) (r_revision (cl_run c)) (bi_planSHA256 (br_intent rv))))
          (\<lambda>fenced.
             if br_cleanup fenced = None then fail (ErrOther ''invalid memory address or nil pointer dereference'')
             else if \<not> bc_ready (the (br_cleanup fenced)) then ret (seconds 5)
             else bind_ok (call (t_CleanupBenchmark t (pn_selection plan) fenced x (cleanup_fence sv cfg c fenced)))
               (\<lambda>(complete, receipt).
                  if \<not> complete then ret (seconds 5)
                  else bind_ok (call (cleanup_fence sv cfg c fenced))
                    (\<lambda>_. bind_ok (call (b_Finish sv (cl_lease c) (r_revision (cl_run c))
                            (bi_planSHA256 (br_intent fenced)) receipt)) (\<lambda>_. ret 0))))))"

definition bench_cleanup ::
  "('w, 'job, 'spec) bench_services \<Rightarrow> ('w, 'spec) bench_target \<Rightarrow> provisioning_config \<Rightarrow> claim \<Rightarrow> ('spec, 'job) bench_plan
    \<Rightarrow> benchmark_reservation \<Rightarrow> execution option \<Rightarrow> ('w, duration) prog" where
  "bench_cleanup sv t cfg c plan rv x =
    bind_ok (call (t_InspectCleanupNamespace t rv))
      (\<lambda>(uid, present). bind_ok
         (if present \<and> br_namespaceUID rv = []
          then call (b_BindCleanupNamespace sv (cl_lease c) (r_revision (cl_run c)) (bi_planSHA256 (br_intent rv)) uid)
          else ret rv)
        (\<lambda>rv. bind_ok (if present then call (t_CloseBenchmarkTarget t rv (cleanup_fence sv cfg c rv)) else ret ())
          (\<lambda>_. bind_ok
             (if x = None \<and> br_request rv \<noteq> []
              then bind_ok (recoverJob sv t c plan rv)
                (\<lambda>found. if found then call (s_GetExecution sv (cl_lease c)) else ret None)
              else ret x)
            (\<lambda>x. cleanup_drain sv t cfg c plan rv x))))"

definition beginCleanup ::
  "('w, 'job, 'spec) bench_services \<Rightarrow> ('w, 'spec) bench_target \<Rightarrow> provisioning_config \<Rightarrow> claim \<Rightarrow> ('spec, 'job) bench_plan
    \<Rightarrow> benchmark_reservation \<Rightarrow> change \<Rightarrow> execution option \<Rightarrow> ('w, duration) prog" where
  "beginCleanup sv t cfg c plan rv next x =
    bind_ok (call (b_BeginCleanup sv (cl_lease c) (r_revision (cl_run c)) (bi_planSHA256 (br_intent rv)) next))
      (\<lambda>stored. bench_cleanup sv t cfg c plan stored x)"

section \<open>The reconciler (benchmark_dispatch.go)\<close>

text \<open>Once the plan, the hold and the bound execution of the Run are known.\<close>

definition bench_route ::
  "('w, 'job, 'spec) bench_services \<Rightarrow> ('w, 'spec) bench_target \<Rightarrow> provisioning_config \<Rightarrow> (claim \<Rightarrow> ('w, duration) prog)
    \<Rightarrow> (claim \<Rightarrow> ('w, duration) prog) \<Rightarrow> claim \<Rightarrow> ('spec, 'job) bench_plan \<Rightarrow> benchmark_reservation option \<Rightarrow> execution option
    \<Rightarrow> ('w, duration) prog" where
  "bench_route sv t cfg bound fallback c plan owned x =
    (let st = r_state (cl_run c)
     in case owned of
          Some rv \<Rightarrow>
            if br_cleanup rv \<noteq> None then bench_cleanup sv t cfg c plan rv x
            else if st = StateCollecting then fallback c
            else if st = StateCancelling \<or> Terminal st \<or> st \<noteq> StateProvisioning \<and> st \<noteq> StateWarmingUp \<and> st \<noteq> StateRunning then
              beginCleanup sv t cfg c plan rv (to_state (if st = StateCancelling then StateAborted else st)) x
            else (case x of
               Some e \<Rightarrow>
                 bind_ok (call (s_ObserveJob sv e))
                   (\<lambda>ob. bind_ok (of_result (DecideBoundExecution st ob))
                     (\<lambda>dec. case dec of
                        ActionAdvance ch \<Rightarrow>
                          if Terminal (c_state ch) then beginCleanup sv t cfg c plan rv ch (Some e) else bound c
                      | _ \<Rightarrow> bound c))
             | None \<Rightarrow>
                 if st \<noteq> StateProvisioning then fail ErrExecutionNotBound
                 else bind_ok (if br_request rv \<noteq> [] then recoverJob sv t c plan rv else ret False)
                   (\<lambda>found. if found then ret 0 else bind_ok (bench_dispatch sv t cfg c plan) (\<lambda>_. ret 0)))
        | None \<Rightarrow>
            if st = StateCancelling \<or> Terminal st then advanceOwnedClaim (services.truncate sv) c (to_state StateAborted)
            else if st \<noteq> StateProvisioning then fail ErrExecutionNotBound
            else bind_ok (bench_dispatch sv t cfg c plan) (\<lambda>_. ret 0))"

text \<open>Once the hold is read and the plan selected.\<close>

definition bench_select ::
  "('w, 'job, 'spec) bench_services \<Rightarrow> provisioning_config \<Rightarrow> (claim \<Rightarrow> ('w, duration) prog)
    \<Rightarrow> (claim \<Rightarrow> ('w, duration) prog) \<Rightarrow> claim \<Rightarrow> benchmark_reservation option \<Rightarrow> ('spec, 'job) bench_plan option \<Rightarrow> ('w, duration) prog" where
  "bench_select sv cfg bound fallback c owned selected = (case selected of
     None \<Rightarrow> fallback c
   | Some plan \<Rightarrow>
       if \<not> is_ok (b_PlanValidate sv plan) then fail ErrValidation
       else (case b_target sv of
          None \<Rightarrow> fail ErrUnavailable
        | Some t \<Rightarrow>
            bind_ok (call (s_GetExecution sv (cl_lease c)))
              (\<lambda>x. if (case x of None \<Rightarrow> False
                      | Some e \<Rightarrow> owned = None \<or> \<not> Execution_Valid (s_dns sv) e \<or> x_runID e \<noteq> r_id (cl_run c))
                   then fail ErrBenchmarkConflict
                   else bench_route sv t cfg bound fallback c plan owned x)))"

definition Benchmark_Reconcile ::
  "('w, 'job, 'spec) bench_services \<Rightarrow> provisioning_config \<Rightarrow> (claim \<Rightarrow> ('w, duration) prog)
    \<Rightarrow> (claim \<Rightarrow> ('w, duration) prog) \<Rightarrow> claim \<Rightarrow> ('w, duration) prog" where
  "Benchmark_Reconcile sv cfg bound fallback c =
    (if \<not> validOwnedClaim c then fail ErrValidation
     else bind_ok (call (b_GetReservation sv (cl_lease c)))
       (\<lambda>owned.
          if (case owned of None \<Rightarrow> False | Some rv \<Rightarrow> (case br_cleanup rv of None \<Rightarrow> False | Some cl \<Rightarrow> bc_releasedAt cl \<noteq> None))
          then fallback c
          else if owned = None \<and> r_state (cl_run c) \<noteq> StateProvisioning \<and> r_state (cl_run c) \<noteq> StateCancelling then fallback c
          else bind_ok
            (case owned of
               Some rv \<Rightarrow> bind_ok (of_result (b_Restore sv (br_intent rv))) (\<lambda>plan. ret (Some plan))
             | None \<Rightarrow> call (b_Resolve sv (l_principal (cl_lease c)) (cl_run c)))
            (bench_select sv cfg bound fallback c owned)))"

end
