(* ===== verification/Benchmark_World.thy ===== *)
theory Benchmark_World
  imports Pg_World Benchmark_Stage
begin

text \<open>
  Contained benchmarks on the Postgres repository, with other clients interleaved between the
  calls of an attempt. Target methods call the fence they are given any number of times. What
  an attempt may do now depends on the stored hold of the Run: a Job is created only under a
  hold with a sealed request (or one that was already released), and outside cancellation a
  Job is stopped only under a hold whose cleanup has begun.
\<close>

section \<open>Services\<close>

record ('job, 'spec) bench_answers =
  ba_base :: "'job answers"
  ba_resolve :: "string \<Rightarrow> run \<Rightarrow> world \<Rightarrow> err + ('spec, 'job) bench_plan option"
  ba_hasTarget :: bool
  ba_fences :: "world \<Rightarrow> nat"
  ba_qualify :: "'spec \<Rightarrow> world \<Rightarrow> err + bytes"
  ba_namespace :: "benchmark_reservation \<Rightarrow> world \<Rightarrow> err + string"
  ba_check :: "benchmark_reservation \<Rightarrow> world \<Rightarrow> err + unit"
  ba_resources :: "'spec \<Rightarrow> benchmark_reservation \<Rightarrow> world \<Rightarrow> err + unit"
  ba_inspect :: "benchmark_reservation \<Rightarrow> world \<Rightarrow> err + string \<times> bool"
  ba_close :: "benchmark_reservation \<Rightarrow> world \<Rightarrow> err + unit"
  ba_cleanup :: "'spec \<Rightarrow> benchmark_reservation \<Rightarrow> execution option \<Rightarrow> world \<Rightarrow> err + bool \<times> bytes"
  ba_planValidate :: "('spec, 'job) bench_plan \<Rightarrow> err + unit"
  ba_intent :: "('spec, 'job) bench_plan \<Rightarrow> err + benchmark_intent"
  ba_restore :: "benchmark_intent \<Rightarrow> err + ('spec, 'job) bench_plan"
  ba_requestBytes :: "'spec \<Rightarrow> string \<Rightarrow> string \<Rightarrow> err + bytes"
  ba_bindJob :: "'job \<Rightarrow> 'spec \<Rightarrow> benchmark_reservation \<Rightarrow> err + 'job"
  ba_proof :: "bytes \<Rightarrow> benchmark_cleanup_proof option"
  ba_query :: "world \<Rightarrow> time"

fun fenced_call :: "schedule \<Rightarrow> nat \<Rightarrow> (world, unit) op \<Rightarrow> (world \<Rightarrow> err + 'a) \<Rightarrow> (world, 'a) op" where
  "fenced_call sch 0 fence f w = ext_call sch [] f w"
| "fenced_call sch (Suc n) fence f w =
    op_bind (ext_call sch [] (\<lambda>_. Inr ())) (\<lambda>_. op_bind fence (\<lambda>_. fenced_call sch n fence f)) w"

definition pg_target :: "schedule \<Rightarrow> ('job, 'spec) bench_answers \<Rightarrow> (world, 'spec) bench_target" where
  "pg_target sch an =
    \<lparr>t_Qualify = \<lambda>s. ext_call sch [] (ba_qualify an s),
     t_EnsureNamespace = \<lambda>r fence w. fenced_call sch (ba_fences an w) fence (ba_namespace an r) w,
     t_CheckNamespace = \<lambda>r. ext_call sch [] (ba_check an r),
     t_EnsureResources = \<lambda>s r fence w. fenced_call sch (ba_fences an w) fence (ba_resources an s r) w,
     t_InspectCleanupNamespace = \<lambda>r. ext_call sch [] (ba_inspect an r),
     t_CloseBenchmarkTarget = \<lambda>r fence w. fenced_call sch (ba_fences an w) fence (ba_close an r) w,
     t_CleanupBenchmark = \<lambda>s r x fence w. fenced_call sch (ba_fences an w) fence (ba_cleanup an s r x) w\<rparr>"

definition pg_bench_services :: "schedule \<Rightarrow> ('job, 'spec) bench_answers \<Rightarrow> (world, 'job, 'spec) bench_services" where
  "pg_bench_services sch an = services.extend (pg_services sch (ba_base an))
    \<lparr>b_GetReservation = \<lambda>l w. db_call sch [] (\<lambda>f now. pg_GetBenchmarkReservation f now (ba_query an w) l) w,
     b_Reserve = \<lambda>l rv intent a w. db_call sch [] (\<lambda>f now. pg_ReserveBenchmark f now (ba_query an w) l rv intent a) w,
     b_BindNamespace = \<lambda>l rv sha uid w. db_call sch [] (\<lambda>f now. pg_BindBenchmarkNamespace f now (ba_query an w) l rv sha uid) w,
     b_Seal = \<lambda>l rv sha rq w. db_call sch [] (\<lambda>f now. pg_SealBenchmarkRequest f now (ba_query an w) l rv sha rq) w,
     b_BeginCleanup = \<lambda>l rv sha ch w. db_call sch [] (\<lambda>f now. pg_BeginBenchmarkCleanup f now (ba_query an w) l rv sha ch) w,
     b_BindCleanupNamespace = \<lambda>l rv sha uid w. db_call sch [] (\<lambda>f now. pg_BindBenchmarkCleanupNamespace f now (ba_query an w) l rv sha uid) w,
     b_RecordFence = \<lambda>l rv sha w. db_call sch [] (\<lambda>f now. pg_RecordBenchmarkCleanupFence f now (ba_query an w) l rv sha) w,
     b_Finish = \<lambda>l rv sha rc w. db_call sch [] (\<lambda>f now. pg_FinishBenchmarkCleanup (ba_proof an) f now (ba_query an w) l rv sha rc) w,
     b_Resolve = \<lambda>p r. ext_call sch [] (ba_resolve an p r),
     b_target = (if ba_hasTarget an then Some (pg_target sch an) else None),
     b_PlanValidate = ba_planValidate an, b_Intent = ba_intent an, b_Restore = ba_restore an,
     b_RequestBytes = ba_requestBytes an, b_BindJob = ba_bindJob an\<rparr>"

section \<open>What a hold authorises\<close>

definition job_hold :: "string \<Rightarrow> db \<Rightarrow> bool" where
  "job_hold i d = (\<exists>rv. map_of (d_reservations d) i = Some rv \<and> (rv_request rv \<noteq> None \<or> rv_releasedAt rv \<noteq> None))"

definition closing_hold :: "string \<Rightarrow> db \<Rightarrow> bool" where
  "closing_hold i d = (\<exists>rv. map_of (d_reservations d) i = Some rv \<and> rv_cleanupStartedAt rv \<noteq> None)"

text \<open>Facts about the database that no call of anyone takes back.\<close>

definition lasting :: "(db \<Rightarrow> bool) \<Rightarrow> bool" where
  "lasting K = (\<forall>ops d. holds_ok (d_reservations d) \<longrightarrow> K d \<longrightarrow> K (fold pg_step ops d))"

lemma lasting_True [simp]: "lasting (\<lambda>d. True)"
  by (simp add: lasting_def)

lemma lasting_holds: "lasting (job_hold i)" "lasting (closing_hold i)"
proof -
  have ev: "\<exists>rv'. map_of (d_reservations (fold pg_step ops d)) i = Some rv' \<and> hold_evolves rv rv'"
    if "holds_ok (d_reservations d)" "map_of (d_reservations d) i = Some rv" for ops d rv
    using that by (rule pg_holds.calls_evolve)
  show "lasting (job_hold i)"
    unfolding lasting_def job_hold_def by (fastforce dest!: ev simp: hold_evolves_def keeps_def)
  show "lasting (closing_hold i)"
    unfolding lasting_def closing_hold_def by (fastforce dest!: ev simp: hold_evolves_def keeps_def)
qed

fun bench_event :: "(string \<Rightarrow> bool) \<Rightarrow> claim \<Rightarrow> db \<Rightarrow> event \<Rightarrow> bool" where
  "bench_event dns c d (EvAdvance l rv ch) = authorised dns c (EvAdvance l rv ch)"
| "bench_event dns c d (EvEnsureJob i) = (authorised dns c (EvEnsureJob i) \<and> job_hold i d)"
| "bench_event dns c d (EvStopJob x) = (r_state (cl_run c) = StateCancelling \<or> closing_hold (r_id (cl_run c)) d)"
| "bench_event dns c d (EvBind l x) = authorised dns c (EvBind l x)"

lemma bench_event_lasting:
  assumes "bench_event dns c d e" "holds_ok (d_reservations d)"
  shows "bench_event dns c (fold pg_step ops d) e"
  using assms lasting_holds unfolding lasting_def by (cases e) auto

definition bench_ok :: "(string \<Rightarrow> bool) \<Rightarrow> claim \<Rightarrow> world \<Rightarrow> (db \<Rightarrow> bool) \<Rightarrow> world \<Rightarrow> bool" where
  "bench_ok dns c w0 K w =
    (life_steps (pg_view (pw_db w0)) (pg_view (pw_db w)) \<and> holds_ok (d_reservations (pw_db w)) \<and> K (pw_db w)
     \<and> (\<exists>evs. pw_log w = pw_log w0 @ evs \<and> list_all (bench_event dns c (pw_db w)) evs))"

lemma bench_ok_mono: "bench_ok dns c w0 K w \<Longrightarrow> (\<And>d. K d \<Longrightarrow> K' d) \<Longrightarrow> bench_ok dns c w0 K' w"
  by (auto simp: bench_ok_def)

lemma bench_db_call:
  assumes w: "bench_ok dns c w0 K w" and K: "lasting K"
    and g: "\<And>f now d. \<exists>ops. snd (g f now d) = fold pg_step ops d"
    and evs: "\<And>d. K d \<Longrightarrow> list_all (bench_event dns c d) evs"
  shows "bench_ok dns c w0 K (snd (db_call sch evs g w))"
proof -
  obtain others fault now where t: "sch (pw_tick w) = (others, fault, now)" by (cases "sch (pw_tick w)")
  obtain ops where ops: "snd (g fault now (fold pg_step others (pw_db w))) = fold pg_step ops (fold pg_step others (pw_db w))"
    using g by blast
  define d' where "d' = fold pg_step (others @ ops) (pw_db w)"
  have w': "snd (db_call sch evs g w) = \<lparr>pw_db = d', pw_tick = Suc (pw_tick w), pw_log = pw_log w @ evs\<rparr>"
    using ops by (auto simp: db_call_def t d'_def split: prod.splits)
  from w obtain old where old: "pw_log w = pw_log w0 @ old" "list_all (bench_event dns c (pw_db w)) old"
    and ok: "holds_ok (d_reservations (pw_db w))" "K (pw_db w)" "life_steps (pg_view (pw_db w0)) (pg_view (pw_db w))"
    by (auto simp: bench_ok_def)
  have "holds_ok (d_reservations d')" unfolding d'_def by (rule pg_holds.calls_inv [OF ok(1)])
  moreover have K': "K d'" using K ok unfolding d'_def lasting_def by blast
  moreover have "life_steps (pg_view (pw_db w)) (pg_view d')" unfolding d'_def by (rule pg.calls_refine)
  moreover have "list_all (bench_event dns c d') old"
    using old(2) bench_event_lasting [OF _ ok(1)] unfolding d'_def list_all_iff by blast
  ultimately show ?thesis
    using ok(3) old(1) evs [OF K'] unfolding w' bench_ok_def by (auto intro: rtranclp_trans)
qed

lemma pg_calls:
  "\<exists>ops. snd (pg_AdvanceClaim f now l rv ch d) = fold pg_step ops d"
  "\<exists>ops. snd (pg_RenewClaim f now l ttl d) = fold pg_step ops d"
  "\<exists>ops. snd (pg_BindExecution dns f now l x d) = fold pg_step ops d"
  "\<exists>ops. snd (pg_RegisterArtifact f p a d) = fold pg_step ops d"
  "\<exists>ops. snd (pg_ReserveBenchmark f now q l rv intent adm d) = fold pg_step ops d"
  "\<exists>ops. snd (pg_BindBenchmarkNamespace f now q l rv sha uid d) = fold pg_step ops d"
  "\<exists>ops. snd (pg_SealBenchmarkRequest f now q l rv sha rq d) = fold pg_step ops d"
  "\<exists>ops. snd (pg_BeginBenchmarkCleanup f now q l rv sha ch d) = fold pg_step ops d"
  "\<exists>ops. snd (pg_BindBenchmarkCleanupNamespace f now q l rv sha uid d) = fold pg_step ops d"
  "\<exists>ops. snd (pg_RecordBenchmarkCleanupFence f now q l rv sha d) = fold pg_step ops d"
  "\<exists>ops. snd (pg_FinishBenchmarkCleanup pr f now q l rv sha b d) = fold pg_step ops d"
  "\<exists>ops. snd (y, d) = fold pg_step ops d"
proof -
  have one: "\<exists>ops. pg_step op d = fold pg_step ops d" for op by (rule exI [of _ "[op]"]) simp
  show "\<exists>ops. snd (pg_AdvanceClaim f now l rv ch d) = fold pg_step ops d" using one [of "PAdvanceClaim f now l rv ch"] by simp
  show "\<exists>ops. snd (pg_RenewClaim f now l ttl d) = fold pg_step ops d" using one [of "PRenewClaim f now l ttl"] by simp
  show "\<exists>ops. snd (pg_BindExecution dns f now l x d) = fold pg_step ops d" using one [of "PBindExecution dns f now l x"] by simp
  show "\<exists>ops. snd (pg_RegisterArtifact f p a d) = fold pg_step ops d" using one [of "PRegisterArtifact f p a"] by simp
  show "\<exists>ops. snd (pg_ReserveBenchmark f now q l rv intent adm d) = fold pg_step ops d" using one [of "PReserve f now q l rv intent adm"] by simp
  show "\<exists>ops. snd (pg_BindBenchmarkNamespace f now q l rv sha uid d) = fold pg_step ops d" using one [of "PBindNamespace f now q l rv sha uid"] by simp
  show "\<exists>ops. snd (pg_SealBenchmarkRequest f now q l rv sha rq d) = fold pg_step ops d" using one [of "PSealRequest f now q l rv sha rq"] by simp
  show "\<exists>ops. snd (pg_BeginBenchmarkCleanup f now q l rv sha ch d) = fold pg_step ops d" using one [of "PBeginCleanup f now q l rv sha ch"] by simp
  show "\<exists>ops. snd (pg_BindBenchmarkCleanupNamespace f now q l rv sha uid d) = fold pg_step ops d" using one [of "PBindCleanupNamespace f now q l rv sha uid"] by simp
  show "\<exists>ops. snd (pg_RecordBenchmarkCleanupFence f now q l rv sha d) = fold pg_step ops d" using one [of "PRecordFence f now q l rv sha"] by simp
  show "\<exists>ops. snd (pg_FinishBenchmarkCleanup pr f now q l rv sha b d) = fold pg_step ops d" using one [of "PFinishCleanup pr f now q l rv sha b"] by simp
  show "\<exists>ops. snd (y, d) = fold pg_step ops d" by (rule exI [of _ "[]"]) simp
qed

lemma pg_reads:
  "\<exists>ops. snd (pg_GetExecution dns f now l d) = fold pg_step ops d"
  "\<exists>ops. snd (pg_GetBenchmarkReservation f now q l d) = fold pg_step ops d"
proof -
  have "snd (pg_GetBenchmarkReservation f now q l d) = d"
    unfolding pg_GetBenchmarkReservation_def by (auto intro!: transact_rel [where R = "\<lambda>d d'. d' = d"] split: sum.splits)
  then show "\<exists>ops. snd (pg_GetBenchmarkReservation f now q l d) = fold pg_step ops d" by (intro exI [of _ "[]"]) simp
  show "\<exists>ops. snd (pg_GetExecution dns f now l d) = fold pg_step ops d" by (intro exI [of _ "[]"]) simp
qed

lemma bench_ext_call:
  assumes "bench_ok dns c w0 K w" "lasting K" "\<And>d. K d \<Longrightarrow> list_all (bench_event dns c d) evs"
  shows "bench_ok dns c w0 K (snd (ext_call sch evs f w))"
  unfolding ext_call_def by (rule bench_db_call [OF assms(1,2) pg_calls(12) assms(3)])

text \<open>The router and the stages under a fact \<open>K\<close> that covers Job creation.\<close>

lemma bench_claimed:
  assumes K: "lasting K" and job: "r_state (cl_run c) = StateProvisioning \<Longrightarrow> (\<And>d. K d \<Longrightarrow> job_hold (r_id (cl_run c)) d)"
  shows "claimed_stage (pg_services sch an) c (bench_ok (an_dns an) c w0 K)"
  unfolding claimed_stage_def pg_services_def
  by (auto intro!: bench_db_call [OF _ K] bench_ext_call [OF _ K] pg_calls pg_reads job dest!: db_call_result
      intro: RenewClaim_lease [OF prod_eqI])

end
