(* ===== verification/Benchmark_Safety.thy ===== *)
theory Benchmark_Safety
  imports Benchmark_World
begin

text \<open>
  Every attempt of the benchmark reconciler, with the router behind it, refines the lifecycle
  and makes only requests that the claim and the stored hold authorise.
\<close>

section \<open>What the storage answers establish\<close>

lemma read_cleanup_Inr:
  "read_cleanup q row = Inr (Some cl) \<Longrightarrow> rv_cleanupStartedAt row \<noteq> None \<and> bc_releasedAt cl = rv_releasedAt row"
  by (auto simp: read_cleanup_def split: option.splits if_splits)

lemma readReservation_Inr:
  assumes "readBenchmarkReservation q i d = Inr (Some rv)"
  obtains row where "map_of (d_reservations d) i = Some row" "br_cleanup rv \<noteq> None \<Longrightarrow> rv_cleanupStartedAt row \<noteq> None"
    "br_cleanup rv = Some cl \<Longrightarrow> bc_releasedAt cl = rv_releasedAt row"
proof -
  obtain row where row: "map_of (d_reservations d) i = Some row" "read_cleanup q row = Inr (br_cleanup rv)"
    using assms by (auto simp: readBenchmarkReservation_def split: option.splits sum.splits if_splits)
  with that [of row] show ?thesis by (cases "br_cleanup rv") (auto dest: read_cleanup_Inr)
qed

lemma GetReservation_Inr:
  assumes "pg_GetBenchmarkReservation f now q l d = (Inr (Some rv), d')"
  shows "br_cleanup rv \<noteq> None \<Longrightarrow> closing_hold (l_runID l) d'"
    and "br_cleanup rv = Some cl \<Longrightarrow> bc_releasedAt cl \<noteq> None \<Longrightarrow> job_hold (l_runID l) d'"
proof -
  have r: "readBenchmarkReservation q (l_runID l) d = Inr (Some rv)" "d' = d"
    using assms by (auto simp: pg_GetBenchmarkReservation_def dest!: transact_Inr split: if_splits sum.splits)
  show "br_cleanup rv \<noteq> None \<Longrightarrow> closing_hold (l_runID l) d'"
    by (rule readReservation_Inr [OF r(1)]) (auto simp: closing_hold_def r(2))
  show "br_cleanup rv = Some cl \<Longrightarrow> bc_releasedAt cl \<noteq> None \<Longrightarrow> job_hold (l_runID l) d'"
    by (rule readReservation_Inr [OF r(1), of cl]) (auto simp: job_hold_def r(2))
qed

lemma Seal_Inr:
  assumes "pg_SealBenchmarkRequest f now q l rv sha rq d = (Inr stored, d')"
  shows "job_hold (l_runID l) d'"
proof -
  have "materializeBenchmark f now q l rv sha [] rq d = (Inr stored, d')"
    using assms by (auto simp: pg_SealBenchmarkRequest_def split: if_splits)
  then obtain stored0 where r: "readBenchmarkReservation q (l_runID l) d = Inr (Some stored0)"
    and m: "materialize (l_runID l) [] rq stored0 d = Commit stored d' \<or> materialize (l_runID l) [] rq stored0 d = Rollback stored"
    by (auto simp: materializeBenchmark_def dest!: transact_Inr split: if_splits sum.splits option.splits)
  obtain row where row: "map_of (d_reservations d) (l_runID l) = Some row" using r by (rule readReservation_Inr)
  have "update_reservation (l_runID l) (\<lambda>rv. rv\<lparr>rv_request := Some rq\<rparr>) d = Some d'"
    using m by (auto simp: materialize_def update_or_abort_Commit split: if_splits) (auto simp: update_or_abort_def split: option.splits)
  with row show ?thesis by (auto simp: update_reservation_def job_hold_def split: if_splits)
qed

lemma BeginCleanup_Inr:
  assumes "pg_BeginBenchmarkCleanup f now q l rv sha ch d = (Inr stored, d')"
  shows "closing_hold (l_runID l) d'"
proof -
  obtain stored0 where r: "readBenchmarkReservation q (l_runID l) d = Inr (Some stored0)"
    and c: "br_cleanup stored0 \<noteq> None \<and> d' = d \<or> update_reservation (l_runID l)
        (\<lambda>rv. rv\<lparr>rv_cleanupStartedAt := Some now, rv_cleanupNotBefore := Some (now + BenchmarkCleanupGrace),
           rv_cleanupChange := Some (json_change ch)\<rparr>) d = Some d'"
    using assms
    by (auto simp: pg_BeginBenchmarkCleanup_def update_or_abort_Commit dest!: transact_Inr split: if_splits sum.splits option.splits)
      (auto simp: update_or_abort_def split: option.splits)
  show ?thesis
    using c by (rule_tac readReservation_Inr [OF r]) (auto simp: closing_hold_def update_reservation_def split: if_splits)
qed

section \<open>Rules for the calls of an attempt\<close>

lemma bench_selectors [simp]:
  "services.truncate (pg_bench_services sch an) = pg_services sch (ba_base an)"
  "s_RenewClaim (pg_bench_services sch an) = s_RenewClaim (pg_services sch (ba_base an))"
  "s_GetExecution (pg_bench_services sch an) = s_GetExecution (pg_services sch (ba_base an))"
  "s_BindExecution (pg_bench_services sch an) = s_BindExecution (pg_services sch (ba_base an))"
  "s_EnsureJob (pg_bench_services sch an) = s_EnsureJob (pg_services sch (ba_base an))"
  "s_FindJob (pg_bench_services sch an) = s_FindJob (pg_services sch (ba_base an))"
  "s_ObserveJob (pg_bench_services sch an) = s_ObserveJob (pg_services sch (ba_base an))"
  "s_RequestJobStop (pg_bench_services sch an) = s_RequestJobStop (pg_services sch (ba_base an))"
  "s_dns (pg_bench_services sch an) = an_dns (ba_base an)"
  by (simp_all add: pg_bench_services_def services.defs pg_services_def)

lemma op_bind_keeps:
  fixes P :: "'w \<Rightarrow> bool"
  assumes "\<And>w. P w \<Longrightarrow> P (snd (f w))" "\<And>a w. P w \<Longrightarrow> P (snd (k a w))"
  shows "P w \<Longrightarrow> P (snd (op_bind f k w))"
proof -
  assume "P w"
  obtain r w' where f: "f w = (r, w')" by force
  with assms(1) [OF \<open>P w\<close>] have "P w'" by simp
  with f assms(2) show ?thesis by (cases r) (simp_all add: op_bind_def)
qed

text \<open>An attempt while a fact \<open>K\<close> about the holds is known; nothing it calls takes \<open>K\<close> back.\<close>

locale bench_attempt =
  fixes sch :: schedule and an :: "('job, 'spec) bench_answers" and c :: claim and w0 :: world and K :: "db \<Rightarrow> bool"
  assumes K: "lasting K"
begin

abbreviation B :: "world \<Rightarrow> bool" where
  "B \<equiv> bench_ok (an_dns (ba_base an)) c w0 K"

lemma db_keeps:
  "(\<And>f now d. \<exists>ops. snd (g f now d) = fold pg_step ops d) \<Longrightarrow> B w \<Longrightarrow> B (snd (db_call sch [] g w))"
  by (rule bench_db_call [OF _ K]) auto

lemma ext_keeps: "B w \<Longrightarrow> B (snd (ext_call sch [] f w))"
  by (rule bench_ext_call [OF _ K]) auto

lemma get_keeps: "B w \<Longrightarrow> B (snd (b_GetReservation (pg_bench_services sch an) l w))"
  using db_keeps [OF pg_reads(2)] by (simp add: pg_bench_services_def services.defs)

lemma writes_keep:
  "B w \<Longrightarrow> B (snd (b_Reserve (pg_bench_services sch an) l rv intent adm w))"
  "B w \<Longrightarrow> B (snd (b_BindNamespace (pg_bench_services sch an) l rv sha uid w))"
  "B w \<Longrightarrow> B (snd (b_Seal (pg_bench_services sch an) l rv sha rq w))"
  "B w \<Longrightarrow> B (snd (b_BeginCleanup (pg_bench_services sch an) l rv sha ch w))"
  "B w \<Longrightarrow> B (snd (b_BindCleanupNamespace (pg_bench_services sch an) l rv sha uid w))"
  "B w \<Longrightarrow> B (snd (b_RecordFence (pg_bench_services sch an) l rv sha w))"
  "B w \<Longrightarrow> B (snd (b_Finish (pg_bench_services sch an) l rv sha rc w))"
  "B w \<Longrightarrow> B (snd (b_Resolve (pg_bench_services sch an) p r w))"
  by (simp_all add: pg_bench_services_def services.defs db_keeps pg_calls ext_keeps)

lemma base_keeps:
  "B w \<Longrightarrow> B (snd (s_RenewClaim (pg_services sch (ba_base an)) l ttl w))"
  "B w \<Longrightarrow> B (snd (s_GetExecution (pg_services sch (ba_base an)) l w))"
  "B w \<Longrightarrow> B (snd (s_FindJob (pg_services sch (ba_base an)) i t w))"
  "B w \<Longrightarrow> B (snd (s_ObserveJob (pg_services sch (ba_base an)) x w))"
  unfolding pg_services_def services.select_convs by (intro db_keeps pg_calls pg_reads ext_keeps; assumption)+

lemma bind_keeps:
  assumes "B w" "Execution_Valid (an_dns (ba_base an)) x" "x_runID x = r_id (cl_run c)"
  shows "B (snd (s_BindExecution (pg_services sch (ba_base an)) (cl_lease c) x w))"
  using assms by (auto simp: pg_services_def intro!: bench_db_call [OF _ K] pg_calls)

lemma ensure_keeps:
  assumes "B w" "r_state (cl_run c) = StateProvisioning" "\<And>d. K d \<Longrightarrow> job_hold (r_id (cl_run c)) d"
  shows "B (snd (s_EnsureJob (pg_services sch (ba_base an)) (r_id (cl_run c)) t w))"
  using assms by (auto simp: pg_services_def intro!: bench_ext_call [OF _ K])

lemma stop_keeps:
  assumes "B w" "\<And>d. K d \<Longrightarrow> closing_hold (r_id (cl_run c)) d"
  shows "B (snd (s_RequestJobStop (pg_services sch (ba_base an)) x w))"
  using assms by (auto simp: pg_services_def intro!: bench_ext_call [OF _ K])

lemma bind_rule:
  "Execution_Valid (an_dns (ba_base an)) x \<Longrightarrow> x_runID x = r_id (cl_run c) \<Longrightarrow>
    preserves B (call (s_BindExecution (pg_services sch (ba_base an)) (cl_lease c) x))"
  by (rule preserves_call) (rule bind_keeps)

lemma ensure_rule:
  "r_state (cl_run c) = StateProvisioning \<Longrightarrow> (\<And>d. K d \<Longrightarrow> job_hold (r_id (cl_run c)) d) \<Longrightarrow>
    preserves B (call (s_EnsureJob (pg_services sch (ba_base an)) (r_id (cl_run c)) t))"
  by (rule preserves_call) (rule ensure_keeps)

lemma stop_rule:
  "(\<And>d. K d \<Longrightarrow> closing_hold (r_id (cl_run c)) d) \<Longrightarrow> preserves B (call (s_RequestJobStop (pg_services sch (ba_base an)) x))"
  by (rule preserves_call) (rule stop_keeps)

lemma fence_keeps: "B w \<Longrightarrow> B (snd (bench_fence (pg_bench_services sch an) cfg c rv w))"
  unfolding bench_fence_def
  by (erule op_bind_keeps [where P = B, rotated 2])
    (auto simp: op_result_def intro: base_keeps get_keeps intro!: op_bind_keeps [where P = B and f = "b_GetReservation sv l" for sv l])

lemma cleanup_fence_keeps: "B w \<Longrightarrow> B (snd (cleanup_fence (pg_bench_services sch an) cfg c rv w))"
  unfolding cleanup_fence_def
  by (erule op_bind_keeps [where P = B, rotated 2])
    (auto simp: op_result_def intro: base_keeps get_keeps intro!: op_bind_keeps [where P = B and f = "b_GetReservation sv l" for sv l])

lemma fenced_keeps:
  "(\<And>w. B w \<Longrightarrow> B (snd (fence w))) \<Longrightarrow> B w \<Longrightarrow> B (snd (fenced_call sch n fence f w))"
proof (induction n arbitrary: w)
  case (Suc n)
  have inner: "B (snd (op_bind fence (\<lambda>_. fenced_call sch n fence f) w))" if "B w" for w
    using that by (rule op_bind_keeps [where P = B, rotated 2]) (rule Suc.prems(1) Suc.IH [OF Suc.prems(1)]; assumption)+
  show ?case
    unfolding fenced_call.simps using Suc.prems(2) by (rule op_bind_keeps [where P = B, rotated 2]) (rule ext_keeps inner; assumption)+
qed (simp add: ext_keeps)

lemma target_rules:
  "preserves B (call (t_Qualify (pg_target sch an) s))"
  "preserves B (call (t_CheckNamespace (pg_target sch an) rv))"
  "preserves B (call (t_InspectCleanupNamespace (pg_target sch an) rv))"
  "preserves B (call (t_EnsureNamespace (pg_target sch an) rv (bench_fence (pg_bench_services sch an) cfg c rv')))"
  "preserves B (call (t_EnsureResources (pg_target sch an) s rv (bench_fence (pg_bench_services sch an) cfg c rv')))"
  "preserves B (call (t_CloseBenchmarkTarget (pg_target sch an) rv (cleanup_fence (pg_bench_services sch an) cfg c rv')))"
  "preserves B (call (t_CleanupBenchmark (pg_target sch an) s rv x (cleanup_fence (pg_bench_services sch an) cfg c rv')))"
  by (rule preserves_call, simp add: pg_target_def ext_keeps fenced_keeps fence_keeps cleanup_fence_keeps)+

lemma store_rules:
  "preserves B (call (b_GetReservation (pg_bench_services sch an) l))"
  "preserves B (call (b_Reserve (pg_bench_services sch an) l rv intent adm))"
  "preserves B (call (b_BindNamespace (pg_bench_services sch an) l rv sha uid))"
  "preserves B (call (b_BindCleanupNamespace (pg_bench_services sch an) l rv sha uid))"
  "preserves B (call (b_RecordFence (pg_bench_services sch an) l rv sha))"
  "preserves B (call (b_Finish (pg_bench_services sch an) l rv sha rc))"
  "preserves B (call (b_Resolve (pg_bench_services sch an) p r))"
  "preserves B (call (bench_fence (pg_bench_services sch an) cfg c rv'))"
  "preserves B (call (cleanup_fence (pg_bench_services sch an) cfg c rv'))"
  "preserves B (call (s_GetExecution (pg_services sch (ba_base an)) l))"
  "preserves B (call (s_FindJob (pg_services sch (ba_base an)) i t))"
  "preserves B (call (s_ObserveJob (pg_services sch (ba_base an)) x))"
  by (rule preserves_call, simp add: get_keeps writes_keep fence_keeps cleanup_fence_keeps base_keeps)+

lemma recover_preserves: "preserves B (recoverJob (pg_bench_services sch an) (pg_target sch an) c plan rv)"
  unfolding recoverJob_def bench_selectors
  by (intro prog_intros target_rules store_rules bind_rule) auto

lemma launch_preserves:
  assumes "r_state (cl_run c) = StateProvisioning" "\<And>d. K d \<Longrightarrow> job_hold (r_id (cl_run c)) d"
  shows "preserves B (launch (pg_bench_services sch an) (pg_target sch an) c plan (bench_fence (pg_bench_services sch an) cfg c rv') rv)"
  unfolding launch_def bench_selectors
  by (intro prog_intros target_rules store_rules ensure_rule bind_rule assms) auto

lemma drain_preserves:
  assumes "\<And>d. K d \<Longrightarrow> closing_hold (r_id (cl_run c)) d"
  shows "preserves B (cleanup_drain (pg_bench_services sch an) (pg_target sch an) cfg c plan rv x)"
  unfolding cleanup_drain_def bench_selectors
  by (intro prog_intros target_rules store_rules stop_rule assms)
    (auto split: prod.split intro!: prog_intros store_rules)

lemma cleanup_preserves:
  assumes "\<And>d. K d \<Longrightarrow> closing_hold (r_id (cl_run c)) d"
  shows "preserves B (bench_cleanup (pg_bench_services sch an) (pg_target sch an) cfg c plan rv x)"
  unfolding bench_cleanup_def bench_selectors
  by (intro prog_intros target_rules)
    (auto split: prod.split intro!: prog_intros target_rules store_rules recover_preserves drain_preserves assms)

end

interpretation bench_free: bench_attempt sch an c w0 "\<lambda>d. True" for sch an c w0
  by unfold_locales simp

interpretation bench_job: bench_attempt sch an c w0 "job_hold (r_id (cl_run c))" for sch an c w0
  by unfold_locales (rule lasting_holds)

interpretation bench_closing: bench_attempt sch an c w0 "closing_hold (r_id (cl_run c))" for sch an c w0
  by unfold_locales (rule lasting_holds)

section \<open>The reconciler\<close>

text \<open>A storage answer that establishes a lasting fact.\<close>

lemma db_call_known:
  assumes "db_call sch evs g w = (Inr a, w')" "\<And>f now d d'. g f now d = (Inr a, d') \<Longrightarrow> G d'"
  shows "G (pw_db w')"
  using assms by (auto simp: db_call_def split: prod.splits)

lemma bench_known:
  assumes "bench_ok dns c w0 (\<lambda>d. True) w" "K (pw_db w)"
  shows "bench_ok dns c w0 K w"
  using assms by (auto simp: bench_ok_def)

lemma bind_known:
  assumes keep: "\<And>w. P w \<Longrightarrow> P (snd (f w))" and known: "\<And>w a w'. P w \<Longrightarrow> P w' \<Longrightarrow> f w = (Inr a, w') \<Longrightarrow> Q a w'"
    and k: "\<And>a. valid (Q a) (k a) (\<lambda>_. P)"
  shows "preserves P (bind_ok (call f) k)"
  unfolding bind_ok_def
proof (rule valid_attempt [where Q = "\<lambda>r w. P w \<and> (\<forall>a. r = Inr a \<longrightarrow> Q a w)"])
  show "valid P (call f) (\<lambda>r w. P w \<and> (\<forall>a. r = Inr a \<longrightarrow> Q a w))"
    using keep known by (fastforce simp: valid_def call_def split: prod.splits)
  show "valid (\<lambda>w. P w \<and> (\<forall>a. r = Inr a \<longrightarrow> Q a w)) (case r of Inl e \<Rightarrow> fail e | Inr a \<Rightarrow> k a) (\<lambda>_. P)" for r
    using k by (cases r) (auto simp: valid_def fail_def split: option.splits)
qed

lemma lands: "preserves (bench_ok dns c w0 K) m \<Longrightarrow> valid (bench_ok dns c w0 K) m (\<lambda>_. bench_ok dns c w0 (\<lambda>d. True))"
  by (erule valid_weaken) (erule bench_ok_mono, simp)

lemma Seal_known:
  "b_Seal (pg_bench_services sch an) l n sha rq w = (Inr s, w') \<Longrightarrow> job_hold (l_runID l) (pw_db w')"
  unfolding pg_bench_services_def services.defs bench_services.select_convs by (erule db_call_known) (erule Seal_Inr)

lemma BeginCleanup_known:
  "b_BeginCleanup (pg_bench_services sch an) l n sha ch w = (Inr s, w') \<Longrightarrow> closing_hold (l_runID l) (pw_db w')"
  unfolding pg_bench_services_def services.defs bench_services.select_convs by (erule db_call_known) (erule BeginCleanup_Inr)

lemma Get_known:
  assumes "b_GetReservation (pg_bench_services sch an) l w = (Inr (Some rv), w')"
  shows "br_cleanup rv \<noteq> None \<Longrightarrow> closing_hold (l_runID l) (pw_db w')"
    and "br_cleanup rv = Some cl \<Longrightarrow> bc_releasedAt cl \<noteq> None \<Longrightarrow> job_hold (l_runID l) (pw_db w')"
  using assms unfolding pg_bench_services_def services.defs bench_services.select_convs
  by (erule_tac [!] db_call_known) (erule GetReservation_Inr; assumption)+

lemma dispatch_preserves:
  assumes "r_state (cl_run c) = StateProvisioning" "l_runID (cl_lease c) = r_id (cl_run c)"
  shows "preserves (bench_ok (an_dns (ba_base an)) c w0 (\<lambda>d. True)) (bench_dispatch (pg_bench_services sch an) (pg_target sch an) cfg c plan)"
proof -
  have tail: "preserves (bench_ok (an_dns (ba_base an)) c w0 (\<lambda>d. True)) (bind_ok (call (b_Seal (pg_bench_services sch an) (cl_lease c) rv sha rq))
      (\<lambda>sealed. launch (pg_bench_services sch an) (pg_target sch an) c plan (bench_fence (pg_bench_services sch an) cfg c sealed) sealed))"
    for rv sha rq
  proof (rule bind_known [where Q = "\<lambda>_. bench_ok (an_dns (ba_base an)) c w0 (job_hold (r_id (cl_run c)))"])
    show "bench_ok (an_dns (ba_base an)) c w0 (job_hold (r_id (cl_run c))) w'"
      if "bench_ok (an_dns (ba_base an)) c w0 (\<lambda>d. True) w'" "b_Seal (pg_bench_services sch an) (cl_lease c) rv sha rq w = (Inr s, w')" for w s w'
      using that(1) Seal_known [OF that(2)] unfolding assms(2) by (rule bench_known [where K = "job_hold (r_id (cl_run c))"])
  qed (rule bench_free.writes_keep, assumption, rule lands, rule bench_job.launch_preserves [OF assms(1)])
  show ?thesis
    unfolding bench_dispatch_def by (intro prog_intros bench_free.target_rules bench_free.store_rules tail)
qed

lemma begin_preserves:
  assumes "l_runID (cl_lease c) = r_id (cl_run c)"
  shows "preserves (bench_ok (an_dns (ba_base an)) c w0 (\<lambda>d. True)) (beginCleanup (pg_bench_services sch an) (pg_target sch an) cfg c plan rv ch x)"
  unfolding beginCleanup_def
proof (rule bind_known [where Q = "\<lambda>_. bench_ok (an_dns (ba_base an)) c w0 (closing_hold (r_id (cl_run c)))"])
  show "bench_ok (an_dns (ba_base an)) c w0 (closing_hold (r_id (cl_run c))) w'"
    if "bench_ok (an_dns (ba_base an)) c w0 (\<lambda>d. True) w'"
      "b_BeginCleanup (pg_bench_services sch an) (cl_lease c) (r_revision (cl_run c)) (bi_planSHA256 (br_intent rv)) ch w = (Inr s, w')" for w s w'
    using that(1) BeginCleanup_known [OF that(2)] unfolding assms by (rule bench_known [where K = "closing_hold (r_id (cl_run c))"])
qed (rule bench_free.writes_keep, assumption, rule lands, rule bench_closing.cleanup_preserves)

text \<open>The bound stage never creates a Job, so it needs no hold.\<close>

lemma bound_ignores_ensure: "Bound_Reconcile n (sv\<lparr>s_EnsureJob := f\<rparr>) cfg c = Bound_Reconcile n sv cfg c"
proof -
  have sel: "s_AdvanceClaim (sv\<lparr>s_EnsureJob := f\<rparr>) = s_AdvanceClaim sv" "s_ObserveJob (sv\<lparr>s_EnsureJob := f\<rparr>) = s_ObserveJob sv"
    "s_RequestJobStop (sv\<lparr>s_EnsureJob := f\<rparr>) = s_RequestJobStop sv" "s_GetExecution (sv\<lparr>s_EnsureJob := f\<rparr>) = s_GetExecution sv"
    "s_ConfirmExecutionStopped (sv\<lparr>s_EnsureJob := f\<rparr>) = s_ConfirmExecutionStopped sv"
    "s_wait (sv\<lparr>s_EnsureJob := f\<rparr>) = s_wait sv" "s_dns (sv\<lparr>s_EnsureJob := f\<rparr>) = s_dns sv"
    by simp_all
  have parts: "bound_apply (sv\<lparr>s_EnsureJob := f\<rparr>) cfg c = bound_apply sv cfg c"
    "cancellationAction (sv\<lparr>s_EnsureJob := f\<rparr>) st x = cancellationAction sv st x"
    "continueCancellation (sv\<lparr>s_EnsureJob := f\<rparr>) x a b = continueCancellation sv x a b" for st x a b
    unfolding fun_eq_iff bound_apply_def cancellationAction_def continueCancellation_def advanceOwnedClaim_def sel
    by (rule allI refl)+
  have cancel: "bound_cancel n (sv\<lparr>s_EnsureJob := f\<rparr>) cfg c x b = bound_cancel n sv cfg c x b" for n x b
  proof (induction n arbitrary: b)
    case (Suc n)
    show ?case unfolding bound_cancel.simps parts sel Suc.IH ..
  qed simp
  show ?thesis unfolding Bound_Reconcile_def parts sel cancel ..
qed

lemma bound_lands: "preserves (bench_ok (an_dns an) c w0 (\<lambda>d. True)) (Bound_Reconcile n (pg_services sch an) cfg c)"
proof -
  let ?sv = "(pg_services sch an)\<lparr>s_EnsureJob := \<lambda>i t w. (Inl ErrValidation, w)\<rparr>"
  have "claimed_stage ?sv c (bench_ok (an_dns an) c w0 (\<lambda>d. True))"
    unfolding claimed_stage_def pg_services_def
    by (auto intro!: bench_db_call bench_ext_call pg_calls pg_reads dest!: db_call_result intro: RenewClaim_lease [OF prod_eqI])
  from claimed_stage.bound_preserves [OF this] show ?thesis by (simp add: bound_ignores_ensure)
qed

lemma router_lands:
  assumes "lasting K" "r_state (cl_run c) = StateProvisioning \<Longrightarrow> (\<And>d. K d \<Longrightarrow> job_hold (r_id (cl_run c)) d)"
  shows "valid (bench_ok (an_dns an) c w0 K) (Router_Reconcile n (pg_services sch an) cfg c)
    (\<lambda>_. bench_ok (an_dns an) c w0 (\<lambda>d. True))"
  using claimed_stage.router_preserves [OF bench_claimed [OF assms]] by (rule lands)

lemma route_preserves:
  assumes own: "validOwnedClaim c" and hold: "\<And>rv. owned = Some rv \<Longrightarrow> br_cleanup rv = None"
    and st: "owned = None \<Longrightarrow> r_state (cl_run c) = StateProvisioning \<or> r_state (cl_run c) = StateCancelling"
  shows "preserves (bench_ok (an_dns (ba_base an)) c w0 (\<lambda>d. True))
    (bench_route (pg_bench_services sch an) (pg_target sch an) cfg (Bound_Reconcile n (pg_services sch (ba_base an)) bcfg)
      (Router_Reconcile m (pg_services sch (ba_base an)) rcfg) c plan owned x)"
proof -
  have i: "l_runID (cl_lease c) = r_id (cl_run c)" using own by (simp add: validOwnedClaim_def)
  have adv: "preserves (bench_ok (an_dns (ba_base an)) c w0 (\<lambda>d. True)) (advanceOwnedClaim (pg_services sch (ba_base an)) c (to_state StateAborted))"
    if "r_state (cl_run c) = StateCancelling"
    using that
    by (intro claimed_stage.self_advance [OF bench_claimed] to_state_lawful) (auto simp: CanTransition_def requiresFailure_def)
  have router: "preserves (bench_ok (an_dns (ba_base an)) c w0 (\<lambda>d. True)) (Router_Reconcile m (pg_services sch (ba_base an)) rcfg c)"
    if "r_state (cl_run c) = StateCollecting" using that by (intro router_lands) simp_all
  show ?thesis
  proof (cases owned)
    case None
    with st consider "r_state (cl_run c) = StateProvisioning" | "r_state (cl_run c) = StateCancelling" by blast
    then show ?thesis
      by cases (simp_all add: None bench_route_def Terminal_def adv preserves_bind_ok dispatch_preserves [OF _ i] preserves_ret)
  next
    case (Some rv)
    have decide: "preserves (bench_ok (an_dns (ba_base an)) c w0 (\<lambda>d. True)) (case dec of
         ActionAdvance ch \<Rightarrow> if Terminal (c_state ch) then beginCleanup (pg_bench_services sch an) (pg_target sch an) cfg c plan rv ch (Some e)
           else Bound_Reconcile n (pg_services sch (ba_base an)) bcfg c
       | _ \<Rightarrow> Bound_Reconcile n (pg_services sch (ba_base an)) bcfg c)" for dec e
      by (cases dec) (simp_all add: begin_preserves [OF i] bound_lands)
    show ?thesis
      unfolding Some bench_route_def Let_def option.case bench_selectors
      by (intro prog_intros begin_preserves [OF i] router decide bench_free.store_rules bench_free.recover_preserves)
        (use hold Some dispatch_preserves [OF _ i] in auto)
  qed
qed

text \<open>What the answer of \<open>GetReservation\<close> says about the stored hold.\<close>

definition hold_known :: "string \<Rightarrow> benchmark_reservation option \<Rightarrow> db \<Rightarrow> bool" where
  "hold_known i owned d = (\<forall>rv cl. owned = Some rv \<longrightarrow> br_cleanup rv = Some cl \<longrightarrow>
     closing_hold i d \<and> (bc_releasedAt cl \<noteq> None \<longrightarrow> job_hold i d))"

lemma lasting_known: "lasting (hold_known i owned)"
  using lasting_holds [of i] unfolding lasting_def hold_known_def by blast

interpretation bench_read: bench_attempt sch an c w0 "hold_known (r_id (cl_run c)) owned" for sch an c w0 owned
  by unfold_locales (rule lasting_known)

lemma valid_pre: "valid P m Q \<Longrightarrow> (\<And>w. P' w \<Longrightarrow> P w) \<Longrightarrow> valid P' m Q"
  by (auto simp: valid_def)

context bench_attempt
begin

lemma select_preserves:
  assumes "\<And>plan x. preserves B (bench_route (pg_bench_services sch an) (pg_target sch an) cfg bound fallback c plan owned x)"
    and "selected \<noteq> None"
  shows "preserves B (bench_select (pg_bench_services sch an) cfg bound fallback c owned selected)"
  unfolding bench_select_def bench_selectors
  using assms by (intro prog_intros store_rules) (auto simp: pg_bench_services_def services.defs split: if_splits)

end

lemma Resolve_known:
  assumes "b_Resolve (pg_bench_services sch an) p r w = (Inr selected, w')" "\<And>w. ba_resolve an p r w \<noteq> Inr None"
  shows "selected \<noteq> None"
  using assms unfolding pg_bench_services_def services.defs bench_services.select_convs ext_call_def
  by (cases selected) (force dest!: db_call_result)+

lemma bind_restored: "bind_ok (bind_ok (of_result r) (\<lambda>a. ret (f a))) k = (case r of Inl e \<Rightarrow> fail e | Inr a \<Rightarrow> k (f a))"
  by (cases r) (simp_all add: prog_defs fun_eq_iff)

text \<open>The reconciler on the Postgres repository, with the bound stage and the router behind it.\<close>

abbreviation pg_bound :: "schedule \<Rightarrow> ('job, 'spec) bench_answers \<Rightarrow> nat \<Rightarrow> bound_execution_config \<Rightarrow> claim \<Rightarrow> (world, duration) prog" where
  "pg_bound sch an n bcfg \<equiv> Bound_Reconcile n (pg_services sch (ba_base an)) bcfg"

abbreviation pg_router :: "schedule \<Rightarrow> ('job, 'spec) bench_answers \<Rightarrow> nat \<Rightarrow> router_config \<Rightarrow> claim \<Rightarrow> (world, duration) prog" where
  "pg_router sch an n rcfg \<equiv> Router_Reconcile n (pg_services sch (ba_base an)) rcfg"

lemma hold_read:
  assumes "bench_ok dns c w0 (\<lambda>d. True) w'" "b_GetReservation (pg_bench_services sch an) (cl_lease c) w = (Inr owned, w')"
    and "l_runID (cl_lease c) = r_id (cl_run c)"
  shows "bench_ok dns c w0 (hold_known (r_id (cl_run c)) owned) w'"
  using assms(1)
proof (rule bench_known)
  show "hold_known (r_id (cl_run c)) owned (pw_db w')"
    using assms(2) Get_known unfolding hold_known_def assms(3) [symmetric] by blast
qed

lemma unheld_preserves:
  assumes own: "validOwnedClaim c" and plan: "\<And>w. ba_resolve an (l_principal (cl_lease c)) (cl_run c) w \<noteq> Inr None"
    and st: "r_state (cl_run c) = StateProvisioning \<or> r_state (cl_run c) = StateCancelling"
  shows "preserves (bench_ok (an_dns (ba_base an)) c w0 (\<lambda>d. True))
    (bind_ok (call (b_Resolve (pg_bench_services sch an) (l_principal (cl_lease c)) (cl_run c)))
      (bench_select (pg_bench_services sch an) cfg (pg_bound sch an n bcfg) (pg_router sch an m rcfg) c None))"
proof (rule bind_known [where Q = "\<lambda>a w. bench_ok (an_dns (ba_base an)) c w0 (\<lambda>d. True) w \<and> a \<noteq> None"])
  have sel: "preserves (bench_ok (an_dns (ba_base an)) c w0 (\<lambda>d. True))
      (bench_select (pg_bench_services sch an) cfg (pg_bound sch an n bcfg) (pg_router sch an m rcfg) c None (Some p))" for p
    by (rule bench_free.select_preserves [OF route_preserves [OF own _ st]]) simp_all
  show "valid (\<lambda>w. bench_ok (an_dns (ba_base an)) c w0 (\<lambda>d. True) w \<and> a \<noteq> None)
      (bench_select (pg_bench_services sch an) cfg (pg_bound sch an n bcfg) (pg_router sch an m rcfg) c None a)
      (\<lambda>_. bench_ok (an_dns (ba_base an)) c w0 (\<lambda>d. True))" for a
    by (cases a) (use sel in \<open>auto simp: valid_def\<close>)
qed (use Resolve_known [OF _ plan] in \<open>auto intro: bench_free.writes_keep\<close>)

lemma held_lands:
  assumes own: "validOwnedClaim c"
  shows "valid (bench_ok (an_dns (ba_base an)) c w0 (hold_known (r_id (cl_run c)) (Some rv)))
    (bench_select (pg_bench_services sch an) cfg (pg_bound sch an n bcfg) (pg_router sch an m rcfg) c (Some rv) (Some p))
    (\<lambda>_. bench_ok (an_dns (ba_base an)) c w0 (\<lambda>d. True))"
proof (cases "br_cleanup rv")
  case None
  then show ?thesis
    by (intro valid_pre [OF bench_free.select_preserves [OF route_preserves [OF own]]]) (auto elim: bench_ok_mono)
next
  case (Some cl)
  show ?thesis
  proof (rule lands, rule bench_read.select_preserves)
    show "preserves (bench_ok (an_dns (ba_base an)) c w0 (hold_known (r_id (cl_run c)) (Some rv)))
        (bench_route (pg_bench_services sch an) (pg_target sch an) cfg (pg_bound sch an n bcfg) (pg_router sch an m rcfg) c plan (Some rv) x)" for plan x
      using Some by (simp add: bench_route_def) (intro bench_read.cleanup_preserves, auto simp: hold_known_def)
  qed simp
qed

lemma reconcile_preserves:
  assumes plan: "\<And>w. ba_resolve an (l_principal (cl_lease c)) (cl_run c) w \<noteq> Inr None"
  shows "preserves (bench_ok (an_dns (ba_base an)) c w0 (\<lambda>d. True))
    (Benchmark_Reconcile (pg_bench_services sch an) cfg (pg_bound sch an n bcfg) (pg_router sch an m rcfg) c)"
proof (cases "validOwnedClaim c")
  case own: True
  then have i: "l_runID (cl_lease c) = r_id (cl_run c)" by (simp add: validOwnedClaim_def)
  let ?T = "bench_ok (an_dns (ba_base an)) c w0 (\<lambda>d. True)"
  let ?K = "\<lambda>owned. bench_ok (an_dns (ba_base an)) c w0 (hold_known (r_id (cl_run c)) owned)"
  let ?sv = "pg_bench_services sch an" and ?fallback = "pg_router sch an m rcfg"
  let ?select = "bench_select ?sv cfg (pg_bound sch an n bcfg) ?fallback c"
  have weaken: "?T w" if "?K owned w" for owned w using that by (rule bench_ok_mono) simp
  have router: "valid (?K owned) (?fallback c) (\<lambda>_. ?T)"
    if "r_state (cl_run c) = StateProvisioning \<Longrightarrow> \<exists>rv cl. owned = Some rv \<and> br_cleanup rv = Some cl \<and> bc_releasedAt cl \<noteq> None" for owned
    using that by (intro router_lands lasting_known) (auto simp: hold_known_def)
  have fails: "valid (?K owned) (fail e) (\<lambda>_. ?T)" for e :: err and owned by (rule lands) (rule preserves_fail)
  show ?thesis
    unfolding Benchmark_Reconcile_def using own
  proof (simp only: not_True_eq_False if_False, intro bind_known [where Q = ?K])
    fix owned :: "benchmark_reservation option"
    consider "owned = None" | rv where "owned = Some rv" "br_cleanup rv = None"
      | rv cl where "owned = Some rv" "br_cleanup rv = Some cl" by (cases owned) auto
    then show "valid (?K owned)
      (if case owned of None \<Rightarrow> False | Some rv \<Rightarrow> (case br_cleanup rv of None \<Rightarrow> False | Some cl \<Rightarrow> bc_releasedAt cl \<noteq> None) then ?fallback c
       else if owned = None \<and> r_state (cl_run c) \<noteq> StateProvisioning \<and> r_state (cl_run c) \<noteq> StateCancelling then ?fallback c
       else bind_ok
         (case owned of
            None \<Rightarrow> call (b_Resolve ?sv (l_principal (cl_lease c)) (cl_run c))
          | Some rv \<Rightarrow> bind_ok (of_result (b_Restore ?sv (br_intent rv))) (\<lambda>plan. ret (Some plan))) (?select owned)) (\<lambda>_. ?T)"
      by cases (auto simp: bind_restored intro: held_lands [OF own] fails router valid_pre [OF unheld_preserves [OF own plan]] weaken
          split: sum.split)
  qed (erule bench_free.get_keeps, erule hold_read, assumption, rule i)
qed (simp add: Benchmark_Reconcile_def prog_intros)

end
