(* ===== verification/Benchmark_Samples.thy ===== *)
theory Benchmark_Samples
  imports Samples Benchmark_Safety
begin

text \<open>A contained benchmark whose Job runs while the cleanup of its hold has begun.\<close>

definition b_execution :: execution where
  "b_execution = \<lparr>x_runID = s_id, x_namespace = ''perf'', x_jobName = s_id, x_uid = ''uid-1'', x_specSHA256 = s_hash\<rparr>"

definition b_db :: db where
  "b_db = (s_db_at StateRunning 5)\<lparr>d_reservations := [(s_id, s_fenced)], d_executions := [(s_id, b_execution)]\<rparr>"

definition b_claim :: claim where
  "b_claim = \<lparr>cl_lease = s_lease, cl_run = s_change StateRunning 5\<rparr>"

definition b_answers :: "(unit, unit) bench_answers" where
  "b_answers = \<lparr>ba_base = s_answers, ba_resolve = \<lambda>_ _ _. Inl ErrUnavailable, ba_hasTarget = True, ba_fences = \<lambda>_. 1,
     ba_qualify = \<lambda>_ _. Inr [], ba_namespace = \<lambda>_ _. Inr s_uid, ba_check = \<lambda>_ _. Inr (), ba_resources = \<lambda>_ _ _. Inr (),
     ba_inspect = \<lambda>_ _. Inr ([], False), ba_close = \<lambda>_ _. Inr (), ba_cleanup = \<lambda>_ _ _ _. Inr (False, []),
     ba_planValidate = \<lambda>_. Inr (), ba_intent = \<lambda>_. Inr s_intent, ba_restore = \<lambda>_. Inr \<lparr>pn_selection = (), pn_template = ()\<rparr>,
     ba_requestBytes = \<lambda>_ _ _. Inr ''{}'', ba_bindJob = \<lambda>j _ _. Inr j, ba_proof = \<lambda>_. None, ba_query = \<lambda>_. s_now\<rparr>"

definition b_config :: provisioning_config where
  "b_config = \<lparr>pc_leaseTTL = seconds 30, pc_attemptTimeout = seconds 10\<rparr>"

lemma b_holds: "holds_ok (d_reservations b_db)"
  using s_fenced_ok by (simp add: b_db_def s_db_fenced_def)

definition b_hold :: benchmark_reservation where
  "b_hold = \<lparr>br_runID = s_id, br_intent = s_intent, br_admission = ''ok'', br_namespaceUID = [], br_request = [],
     br_cleanup = Some \<lparr>bc_startedAt = s_now - minutes 2, bc_fencedAt = Some (s_now - minutes 2), bc_notBefore = s_now,
       bc_ready = True, bc_next = to_state StateCollecting, bc_receipt = None, bc_releasedAt = None\<rparr>\<rparr>"

lemma b_owned: "lockOwnedClaim s_now s_lease b_db = Inr (s_change StateRunning 5)"
  by (simp add: lockOwnedClaim_def lockedRun_def b_db_def s_db_at_def s_db1_def s_row_def s_lease_row_def s_change_def Terminal_iff)

lemma b_read: "readBenchmarkReservation s_now s_id b_db = Inr (Some b_hold)"
  using s_intent_valid
  by (simp add: readBenchmarkReservation_def read_cleanup_def cleanup_ready_def b_db_def s_fenced_def s_hold_def b_hold_def to_state_def)

lemma b_execution_valid: "Execution_Valid (\<lambda>_. True) b_execution"
proof -
  have "rx_match worker_pattern ''uid-1''" "rx_match hash_pattern s_hash" by code_simp+
  then show ?thesis using s_id_valid by (simp add: Execution_Valid_def b_execution_def)
qed

lemma b_calls:
  "pg_GetBenchmarkReservation TxOk s_now s_now s_lease b_db = (Inr (Some b_hold), b_db)"
  "pg_GetExecution (\<lambda>_. True) TxOk s_now s_lease b_db = (Inr (Some b_execution), b_db)"
  "pg_RenewClaim TxOk s_now s_lease (seconds 30) b_db = (Inr \<lparr>cl_lease = s_lease\<lparr>l_expiresAt := s_now + seconds 30\<rparr>, cl_run = s_change StateRunning 5\<rparr>, b_db)"
  "pg_RecordBenchmarkCleanupFence TxOk s_now s_now s_lease 5 (BenchmarkDigest ''plan'') b_db = (Inr b_hold, b_db)"
  subgoal using s_lease_valid by (simp add: pg_GetBenchmarkReservation_def transact_def b_owned b_read)
  subgoal using s_lease_valid b_execution_valid
    by (simp add: pg_GetExecution_def transact_def b_owned) (simp add: getExecution_def b_db_def)
  subgoal using s_lease_valid
    by (simp add: pg_RenewClaim_def transact_def b_owned s_options [unfolded ValidClaimOptions_def])
      (simp add: update_lease_def b_db_def s_db_at_def s_db1_def s_lease_row_def)
  subgoal using s_lease_valid
    by (simp add: pg_RecordBenchmarkCleanupFence_def transact_def b_owned b_read)
      (simp add: b_hold_def s_intent_def s_change_def)
  done

lemma b_attempt:
  "\<exists>w'. Benchmark_Reconcile (pg_bench_services s_quiet b_answers) b_config bound fallback b_claim
      \<lparr>pw_db = b_db, pw_tick = 0, pw_log = []\<rparr> = Some (Inr (seconds 5), w') \<and> pw_log w' = [EvStopJob b_execution]"
proof -
  have v: "validOwnedClaim b_claim" using s_lease_valid by (simp add: validOwnedClaim_def b_claim_def s_change_def)
  have c: "cl_lease b_claim = s_lease" "r_state (cl_run b_claim) = StateRunning" "r_revision (cl_run b_claim) = 5" "r_id (cl_run b_claim) = s_id"
    "r_revision (s_change StateRunning 5) = 5"
    by (simp_all add: b_claim_def s_change_def)
  have h: "br_cleanup b_hold = Some \<lparr>bc_startedAt = s_now - minutes 2, bc_fencedAt = Some (s_now - minutes 2), bc_notBefore = s_now,
       bc_ready = True, bc_next = to_state StateCollecting, bc_receipt = None, bc_releasedAt = None\<rparr>"
    "br_request b_hold = []" "BenchmarkIntent_Same (br_intent b_hold) (br_intent b_hold)" "bi_planSHA256 (br_intent b_hold) = BenchmarkDigest ''plan''"
    by (simp_all add: b_hold_def BenchmarkIntent_Same_iff) (simp add: s_intent_def)
  have x: "x_runID b_execution = s_id" by (simp add: b_execution_def)
  note defs = Benchmark_Reconcile_def bench_select_def bench_route_def bench_cleanup_def cleanup_drain_def cleanup_fence_def op_bind_def
    op_result_def prog_defs pg_bench_services_def services.defs pg_target_def pg_services_def ext_call_def db_call_def s_quiet_def b_config_def
  show ?thesis
    using v b_execution_valid
    by (simp add: defs c h x b_calls is_ok_def) (simp add: b_answers_def s_answers_def defs c h x b_calls)
qed

end
