(* ===== verification/Float64.thy ===== *)
theory Float64
  imports Baselines "HOL-Library.Log_Nat"
begin

text \<open>
  The arithmetic of Go's \<open>float64\<close>: every operation returns the double nearest to the exact
  result, ties to the even significand, with gradual underflow and overflow to infinity. A
  finite double is the rational number it denotes; the sign of zero is not represented, because
  the source only compares and divides by absolute values that it has checked not to be zero.
  Rounding is monotone and leaves doubles unchanged.
\<close>

section \<open>Rounding\<close>

text \<open>The binary exponent of a positive rational, \<open>2\<^sup>e \<le> x < 2\<^sup>e\<^sup>+\<^sup>1\<close>.\<close>

definition rat_exponent :: "rat \<Rightarrow> int" where
  "rat_exponent x = (case quotient_of x of (p, q) \<Rightarrow>
    let k = bitlen p - bitlen q in if 2 powi k \<le> x then k else k - 1)"

definition round_even :: "rat \<Rightarrow> int" where
  "round_even x = (let n = \<lfloor>x\<rfloor>; d = x - of_int n in
    if d < 1 / 2 then n else if 1 / 2 < d then n + 1 else if even n then n else n + 1)"

definition ulp_exponent :: "rat \<Rightarrow> int" where
  "ulp_exponent x = max (rat_exponent x - 52) (- 1074)"

definition round_abs :: "rat \<Rightarrow> rat" where
  "round_abs x = (if x = 0 then 0 else of_int (round_even (x / 2 powi ulp_exponent x)) * 2 powi ulp_exponent x)"

definition float_round :: "rat \<Rightarrow> float64" where
  "float_round x = (let v = round_abs \<bar>x\<bar> in
    if 2 ^ 1024 \<le> v then (if 0 < x then PosInf else NegInf) else Fin (if 0 \<le> x then v else - v))"

section \<open>Operations\<close>

fun float_neg :: "float64 \<Rightarrow> float64" where
  "float_neg (Fin a) = Fin (- a)"
| "float_neg PosInf = NegInf"
| "float_neg NegInf = PosInf"
| "float_neg NaN = NaN"

fun float_abs :: "float64 \<Rightarrow> float64" where
  "float_abs (Fin a) = Fin \<bar>a\<bar>"
| "float_abs NaN = NaN"
| "float_abs _ = PosInf"

fun float_add :: "float64 \<Rightarrow> float64 \<Rightarrow> float64" where
  "float_add (Fin a) (Fin b) = float_round (a + b)"
| "float_add NaN _ = NaN"
| "float_add _ NaN = NaN"
| "float_add PosInf NegInf = NaN"
| "float_add NegInf PosInf = NaN"
| "float_add PosInf _ = PosInf"
| "float_add NegInf _ = NegInf"
| "float_add (Fin a) b = b"

definition float_sub :: "float64 \<Rightarrow> float64 \<Rightarrow> float64" where
  "float_sub a b = float_add a (float_neg b)"

definition infinity_of :: "bool \<Rightarrow> float64" where
  "infinity_of positive = (if positive then PosInf else NegInf)"

fun float_mul :: "float64 \<Rightarrow> float64 \<Rightarrow> float64" where
  "float_mul (Fin a) (Fin b) = float_round (a * b)"
| "float_mul NaN _ = NaN"
| "float_mul _ NaN = NaN"
| "float_mul (Fin a) b = (if a = 0 then NaN else infinity_of ((0 < a) = (b = PosInf)))"
| "float_mul a (Fin b) = (if b = 0 then NaN else infinity_of ((a = PosInf) = (0 < b)))"
| "float_mul a b = infinity_of (a = b)"

text \<open>A zero divisor is positive: the source divides by \<open>math.Abs\<close> only.\<close>

fun float_div :: "float64 \<Rightarrow> float64 \<Rightarrow> float64" where
  "float_div NaN _ = NaN"
| "float_div _ NaN = NaN"
| "float_div (Fin a) (Fin b) = (if b = 0 then (if a = 0 then NaN else infinity_of (0 < a)) else float_round (a / b))"
| "float_div (Fin a) _ = Fin 0"
| "float_div a (Fin b) = infinity_of ((a = PosInf) = (0 \<le> b))"
| "float_div _ _ = NaN"

fun float_le :: "float64 \<Rightarrow> float64 \<Rightarrow> bool" where
  "float_le (Fin a) (Fin b) = (a \<le> b)"
| "float_le NaN _ = False"
| "float_le _ NaN = False"
| "float_le NegInf _ = True"
| "float_le _ PosInf = True"
| "float_le _ _ = False"

definition float_less :: "float64 \<Rightarrow> float64 \<Rightarrow> bool" where
  "float_less a b = (float_le a b \<and> \<not> float_le b a)"

text \<open>\<open>math.Max\<close>\<close>

definition float_max :: "float64 \<Rightarrow> float64 \<Rightarrow> float64" where
  "float_max a b = (if a = PosInf \<or> b = PosInf then PosInf else if a = NaN \<or> b = NaN then NaN else if float_le a b then b else a)"

section \<open>Rounding is monotone\<close>

lemma rat_exponent_bounds:
  assumes "0 < x"
  shows "2 powi rat_exponent x \<le> x" "x < 2 powi (rat_exponent x + 1)"
proof -
  obtain p q where pq: "quotient_of x = (p, q)" by force
  have q: "0 < q" using quotient_of_denom_pos [OF pq] .
  have x: "x = of_int p / of_int q" using quotient_of_div [OF pq] .
  have p: "0 < p" using assms q unfolding x by (simp add: zero_less_divide_iff)
  define i where "i = nat (bitlen p) - 1"
  define j where "j = nat (bitlen q) - 1"
  have bp: "bitlen p = int i + 1" "2 ^ i \<le> p" "p < 2 ^ (i + 1)"
    using bitlen_bounds [OF p] bitlen_nonneg [of p] bitlen_eq_zero_iff [of p] p unfolding i_def by (auto simp: nat_diff_distrib Suc_nat_eq_nat_zadd1)
  have bq: "bitlen q = int j + 1" "2 ^ j \<le> q" "q < 2 ^ (j + 1)"
    using bitlen_bounds [OF q] bitlen_nonneg [of q] bitlen_eq_zero_iff [of q] q unfolding j_def by (auto simp: nat_diff_distrib Suc_nat_eq_nat_zadd1)
  have k: "bitlen p - bitlen q = int i - int j" using bp bq by simp
  have rp: "(2::rat) ^ i \<le> of_int p" "(of_int p :: rat) < 2 ^ (i + 1)"
    using bp(2,3) by (metis of_int_le_iff of_int_numeral of_int_power, metis of_int_less_iff of_int_numeral of_int_power)
  have rq: "(2::rat) ^ j \<le> of_int q" "(of_int q :: rat) < 2 ^ (j + 1)"
    using bq(2,3) by (metis of_int_le_iff of_int_numeral of_int_power, metis of_int_less_iff of_int_numeral of_int_power)
  have pow: "(2::rat) powi (int m - int n) = 2 ^ m / 2 ^ n" for m n
    using power_int_diff [of "2::rat" "int m" "int n"] by simp
  have low: "2 powi (int i - int j - 1) < x"
    using frac_less2 [OF _ rp(1) _ rq(2)] pow [of i "j + 1"] q unfolding x by (simp add: algebra_simps)
  have high: "x < 2 powi (int i - int j + 1)"
    using frac_less [OF _ rp(2) _ rq(1)] pow [of "i + 1" j] p unfolding x by (simp add: algebra_simps)
  show "2 powi rat_exponent x \<le> x" "x < 2 powi (rat_exponent x + 1)"
    using low high unfolding rat_exponent_def pq by (auto simp: k Let_def)
qed

lemma round_even_bounds: "\<lfloor>x\<rfloor> \<le> round_even x" "round_even x \<le> \<lfloor>x\<rfloor> + 1"
  by (auto simp: round_even_def Let_def)

lemma round_even_int [simp]: "round_even (of_int n) = n"
  by (simp add: round_even_def)

lemma round_even_mono: "x \<le> y \<Longrightarrow> round_even x \<le> round_even y"
proof (cases "\<lfloor>x\<rfloor> = \<lfloor>y\<rfloor>")
  case True
  then show "x \<le> y \<Longrightarrow> ?thesis" by (auto simp: round_even_def Let_def)
next
  case False
  assume "x \<le> y"
  with False have "\<lfloor>x\<rfloor> + 1 \<le> \<lfloor>y\<rfloor>" using floor_mono [of x y] by linarith
  then show ?thesis using round_even_bounds(2) [of x] round_even_bounds(1) [of y] by linarith
qed

lemma powi_less_imp: "(2::rat) powi a < 2 powi b \<Longrightarrow> a < b"
  using power_int_increasing [of b a "2::rat"] by (cases "a < b") auto

lemma rat_exponent_mono:
  assumes "0 < x" "x \<le> y"
  shows "rat_exponent x \<le> rat_exponent y"
proof -
  have "(2::rat) powi rat_exponent x < 2 powi (rat_exponent y + 1)"
    using rat_exponent_bounds(1) [of x] rat_exponent_bounds(2) [of y] assms by linarith
  then show ?thesis using powi_less_imp by force
qed

text \<open>Rounding respects every bound on the grid of its argument.\<close>

lemma round_abs_grid:
  assumes "0 < x"
  shows "x \<le> of_int n * 2 powi ulp_exponent x \<Longrightarrow> round_abs x \<le> of_int n * 2 powi ulp_exponent x"
    and "of_int n * 2 powi ulp_exponent x \<le> x \<Longrightarrow> of_int n * 2 powi ulp_exponent x \<le> round_abs x"
proof -
  let ?u = "(2::rat) powi ulp_exponent x"
  have u: "0 < ?u" by simp
  have r: "round_abs x = of_int (round_even (x / ?u)) * ?u" using assms by (simp add: round_abs_def)
  show "round_abs x \<le> of_int n * ?u" if "x \<le> of_int n * ?u"
  proof -
    have "x / ?u \<le> of_int n" using that u by (simp add: pos_divide_le_eq)
    from round_even_mono [OF this] show ?thesis unfolding r using u by (simp add: mult_right_mono)
  qed
  show "of_int n * ?u \<le> round_abs x" if "of_int n * ?u \<le> x"
  proof -
    have "of_int n \<le> x / ?u" using that u by (simp add: pos_le_divide_eq)
    from round_even_mono [OF this] show ?thesis unfolding r using u by (simp add: mult_right_mono)
  qed
qed

lemma powi_grid:
  assumes "e \<le> k"
  shows "(2::rat) powi k = of_int (2 ^ nat (k - e)) * 2 powi e"
proof -
  have "(2::rat) powi k = 2 powi (k - e) * 2 powi e" by (simp flip: power_int_add)
  also have "(2::rat) powi (k - e) = of_int (2 ^ nat (k - e))" using assms by (simp add: power_int_def)
  finally show ?thesis .
qed

lemma round_abs_nonneg: "0 \<le> x \<Longrightarrow> 0 \<le> round_abs x"
  using round_abs_grid(2) [of x 0] by (cases "x = 0") (auto simp: round_abs_def)

lemma round_abs_mono:
  assumes "0 \<le> x" "x \<le> y"
  shows "round_abs x \<le> round_abs y"
proof (cases "x = 0")
  case True
  then show ?thesis using assms round_abs_nonneg [of y] by (simp add: round_abs_def)
next
  case False
  then have x: "0 < x" and y: "0 < y" using assms by auto
  have r: "rat_exponent x \<le> rat_exponent y" using rat_exponent_mono [OF x assms(2)] .
  show ?thesis
  proof (cases "ulp_exponent x = ulp_exponent y")
    case True
    have "round_even (x / 2 powi ulp_exponent y) \<le> round_even (y / 2 powi ulp_exponent y)"
      using assms(2) by (intro round_even_mono divide_right_mono) auto
    then show ?thesis using x y True by (simp add: round_abs_def mult_right_mono)
  next
    case False
    then have e: "ulp_exponent y = rat_exponent y - 52" "rat_exponent x < rat_exponent y" "ulp_exponent x \<le> rat_exponent y"
      using r unfolding ulp_exponent_def by auto
    have "x \<le> 2 powi rat_exponent y"
      using rat_exponent_bounds(2) [OF x] power_int_increasing [of "rat_exponent x + 1" "rat_exponent y" "2::rat"] e(2) by simp
    then have "round_abs x \<le> 2 powi rat_exponent y"
      using round_abs_grid(1) [OF x] unfolding powi_grid [OF e(3)] by blast
    moreover have "2 powi rat_exponent y \<le> round_abs y"
    proof -
      have "ulp_exponent y \<le> rat_exponent y" using e(1) by simp
      from rat_exponent_bounds(1) [OF y] show ?thesis
        unfolding powi_grid [OF \<open>ulp_exponent y \<le> rat_exponent y\<close>] by (rule round_abs_grid(2) [OF y])
    qed
    ultimately show ?thesis by linarith
  qed
qed

text \<open>The finite doubles.\<close>

definition is_double :: "rat \<Rightarrow> bool" where
  "is_double r = (\<bar>r\<bar> < 2 ^ 1024 \<and> (\<exists>m e. \<bar>m\<bar> < 2 ^ 53 \<and> - 1074 \<le> e \<and> r = of_int m * 2 powi e))"

lemma round_abs_double:
  assumes "is_double r" "0 \<le> r"
  shows "round_abs r = r"
proof (cases "r = 0")
  case False
  then have r: "0 < r" using assms(2) by simp
  obtain m e where m: "\<bar>m\<bar> < 2 ^ 53" "- 1074 \<le> e" "r = of_int m * 2 powi e" using assms(1) unfolding is_double_def by blast
  have "of_int m < (2::rat) ^ 53" using m(1) by (metis abs_le_D1 linorder_not_le of_int_le_iff of_int_numeral of_int_power order_less_le_trans order_refl)
  then have "r < 2 ^ 53 * 2 powi e" unfolding m(3) by simp
  then have "(2::rat) powi rat_exponent r < 2 powi (53 + e)"
    using rat_exponent_bounds(1) [OF r] by (simp add: power_int_add)
  then have u: "ulp_exponent r \<le> e" using powi_less_imp m(2) unfolding ulp_exponent_def by fastforce
  have "r = of_int (m * 2 ^ nat (e - ulp_exponent r)) * 2 powi ulp_exponent r"
    unfolding m(3) by (subst powi_grid [OF u [unfolded m(3)]]) simp
  then show ?thesis using round_abs_grid [OF r] by (metis order_antisym order_refl)
qed (simp add: round_abs_def)

lemma is_double_minus: "is_double r \<Longrightarrow> is_double (- r)"
proof -
  assume "is_double r"
  then obtain m e where "\<bar>r\<bar> < 2 ^ 1024" "\<bar>m\<bar> < 2 ^ 53" "- 1074 \<le> e" "r = of_int m * 2 powi e" unfolding is_double_def by blast
  then have "\<bar>- r\<bar> < 2 ^ 1024" "\<bar>- m\<bar> < 2 ^ 53" "- 1074 \<le> e" "- r = of_int (- m) * 2 powi e" by auto
  then show ?thesis unfolding is_double_def by blast
qed

lemma float_round_double: "is_double r \<Longrightarrow> float_round r = Fin r"
proof -
  assume d: "is_double r"
  then have "\<bar>r\<bar> < 2 ^ 1024" by (simp add: is_double_def)
  moreover have "round_abs \<bar>r\<bar> = \<bar>r\<bar>" using d is_double_minus [OF d] by (intro round_abs_double) (auto simp: abs_if)
  ultimately show ?thesis by (simp add: float_round_def Let_def)
qed

text \<open>What the rounded result of an operation says about the exact one.\<close>

lemma float_round_ge:
  assumes "is_double v" "0 \<le> v" "v \<le> x" "float_round x = Fin y"
  shows "v \<le> y"
  using round_abs_mono [OF assms(2,3)] round_abs_double [OF assms(1,2)] assms(2-4)
  by (auto simp: float_round_def Let_def split: if_splits)

end
