(* ===== verification/Json_Text.thy ===== *)
theory Json_Text
  imports Float64
begin

text \<open>
  What the source uses of \<open>encoding/json\<close>. The scanner of Go recognises scalars byte by byte;
  a \<open>json.Decoder\<close> hands out tokens under a grammar state, and \<open>json.Unmarshal\<close> reads a whole
  document. A raw message is the value it denotes; numbers keep their text, because the target
  type decides how they are read, and objects keep the order and the repetitions of their keys.
\<close>

datatype json =
    JNull
  | JBool bool
  | JNumber string
  | JString string
  | JArray "json list"
  | JObject "(string \<times> json) list"

section \<open>Scalars\<close>

definition is_json_space :: "char \<Rightarrow> bool" where
  "is_json_space c = (byte c = 9 \<or> byte c = 10 \<or> byte c = 13 \<or> byte c = 32)"

definition skip_space :: "string \<Rightarrow> string" where
  "skip_space s = dropWhile is_json_space s"

definition digits :: "string \<Rightarrow> string" where
  "digits s = takeWhile is_digit s"

definition after_digits :: "string \<Rightarrow> string" where
  "after_digits s = dropWhile is_digit s"

text \<open>\<open>strconv\<close> stops accumulating an exponent at five digits.\<close>

fun exponent_value :: "nat \<Rightarrow> string \<Rightarrow> nat" where
  "exponent_value n [] = n"
| "exponent_value n (c # s) = exponent_value (if n < 10000 then 10 * n + (byte c - 48) else n) s"

text \<open>
  The number states of the scanner: an optional minus, an integer without leading zeros, a
  fraction, an exponent. The parts are the sign, the integer digits, the fraction digits and
  the exponent.
\<close>

record number_parts =
  np_negative :: bool
  np_int :: string
  np_frac :: string
  np_exp :: int

definition scan_int :: "string \<Rightarrow> (string \<times> string) option" where
  "scan_int s = (case s of
     [] \<Rightarrow> None
   | c # r \<Rightarrow> if c = CHR ''0'' then Some ([c], r) else if is_digit c then Some (digits s, after_digits s) else None)"

definition scan_frac :: "string \<Rightarrow> (string \<times> string) option" where
  "scan_frac s = (case s of
     c # r \<Rightarrow> if c = CHR ''.'' then (if digits r = [] then None else Some (digits r, after_digits r)) else Some ([], s)
   | [] \<Rightarrow> Some ([], s))"

definition scan_exp :: "string \<Rightarrow> (int \<times> string) option" where
  "scan_exp s = (case s of
     c # r \<Rightarrow>
       if c = CHR ''e'' \<or> c = CHR ''E'' then
         (let (neg, t) = (case r of d # u \<Rightarrow> if d = CHR ''-'' then (True, u) else if d = CHR ''+'' then (False, u) else (False, r)
                          | [] \<Rightarrow> (False, r))
          in if digits t = [] then None
             else Some ((if neg then - int (exponent_value 0 (digits t)) else int (exponent_value 0 (digits t))), after_digits t))
       else Some (0, s)
   | [] \<Rightarrow> Some (0, s))"

definition split_sign :: "string \<Rightarrow> bool \<times> string" where
  "split_sign s = (case s of c # r \<Rightarrow> if c = CHR ''-'' then (True, r) else (False, s) | [] \<Rightarrow> (False, s))"

definition scan_number :: "string \<Rightarrow> (number_parts \<times> string) option" where
  "scan_number s =
    (let (neg, t) = split_sign s
     in case scan_int t of
          None \<Rightarrow> None
        | Some (i, u) \<Rightarrow>
            (case scan_frac u of
               None \<Rightarrow> None
             | Some (f, v) \<Rightarrow>
                 (case scan_exp v of
                    None \<Rightarrow> None
                  | Some (e, w) \<Rightarrow> Some (\<lparr>np_negative = neg, np_int = i, np_frac = f, np_exp = e\<rparr>, w))))"

text \<open>\<open>strconv.ParseFloat\<close>: the nearest double; a range error is \<open>None\<close>.\<close>

definition number_value :: "number_parts \<Rightarrow> rat" where
  "number_value n = (if np_negative n then - 1 else 1) * of_nat (decimal 0 (np_int n @ np_frac n))
     * 10 powi (np_exp n - int (length (np_frac n)))"

definition ParseFloat :: "string \<Rightarrow> float64 option" where
  "ParseFloat s = (case scan_number s of
     Some (n, []) \<Rightarrow> (case float_round (number_value n) of Fin r \<Rightarrow> Some (Fin r) | _ \<Rightarrow> None)
   | _ \<Rightarrow> None)"

text \<open>\<open>strconv.ParseInt(s, 10, 64)\<close> on the text of a JSON number.\<close>

definition ParseInt :: "string \<Rightarrow> int option" where
  "ParseInt s =
    (let (neg, t) = split_sign s;
         v = (if neg then - int (decimal 0 t) else int (decimal 0 t))
     in if t \<noteq> [] \<and> list_all is_digit t \<and> - (2 ^ 63) \<le> v \<and> v < 2 ^ 63 then Some v else None)"

text \<open>The body of a string literal up to its closing quote, and the bytes it denotes.\<close>

fun scan_string :: "string \<Rightarrow> (string \<times> string) option" where
  "scan_string [] = None"
| "scan_string (c # r) =
    (if c = CHR 0x22 then Some ([], r)
     else if byte c < 32 then None
     else if c = CHR 0x5C then
       (case r of
          [] \<Rightarrow> None
        | d # t \<Rightarrow>
            if d \<in> set [CHR ''b'', CHR ''f'', CHR ''n'', CHR ''r'', CHR ''t'', CHR 0x5C, CHR ''/'', CHR 0x22] then
              map_option (\<lambda>(body, rest). (c # d # body, rest)) (scan_string t)
            else if d = CHR ''u'' then
              (case t of
                 h1 # h2 # h3 # h4 # u \<Rightarrow>
                   if is_hex h1 \<and> is_hex h2 \<and> is_hex h3 \<and> is_hex h4
                   then map_option (\<lambda>(body, rest). (c # d # h1 # h2 # h3 # h4 # body, rest)) (scan_string u) else None
               | _ \<Rightarrow> None)
            else None)
     else map_option (\<lambda>(body, rest). (c # body, rest)) (scan_string r))"

definition hex4 :: "string \<Rightarrow> nat" where
  "hex4 s = foldl (\<lambda>n c. 16 * n + hex_value c) 0 (take 4 s)"

definition utf8_encode :: "nat \<Rightarrow> string" where
  "utf8_encode r =
    (if r < 128 then [char_of r]
     else if r < 2048 then [char_of (192 + r div 64), char_of (128 + r mod 64)]
     else if r < 65536 then [char_of (224 + r div 4096), char_of (128 + r div 64 mod 64), char_of (128 + r mod 64)]
     else [char_of (240 + r div 262144), char_of (128 + r div 4096 mod 64), char_of (128 + r div 64 mod 64), char_of (128 + r mod 64)])"

text \<open>The low surrogate escaped at the head, as \<open>getu4\<close> and \<open>utf16.DecodeRune\<close> read it.\<close>

definition low_surrogate :: "string \<Rightarrow> nat option" where
  "low_surrogate s = (case s of
     b # u # h \<Rightarrow>
       if b = CHR 0x5C \<and> u = CHR ''u'' \<and> 4 \<le> length h \<and> list_all is_hex (take 4 h) \<and> 56320 \<le> hex4 h \<and> hex4 h < 57344
       then Some (hex4 h) else None
   | _ \<Rightarrow> None)"

definition escaped_byte :: "char \<Rightarrow> char" where
  "escaped_byte c =
    (if c = CHR ''b'' then CHR 0x08 else if c = CHR ''f'' then CHR 0x0C else if c = CHR ''n'' then CHR 0x0A
     else if c = CHR ''r'' then CHR 0x0D else if c = CHR ''t'' then CHR 0x09 else c)"

fun unquote :: "string \<Rightarrow> string" where
  "unquote [] = []"
| "unquote (c # r) =
    (if c = CHR 0x5C then
       (case r of
          [] \<Rightarrow> []
        | d # t \<Rightarrow>
            if d = CHR ''u'' then
              (if 55296 \<le> hex4 t \<and> hex4 t < 57344 then
                 (case low_surrogate (drop 4 t) of
                    Some lo \<Rightarrow>
                      if hex4 t < 56320 then utf8_encode (65536 + (hex4 t - 55296) * 1024 + (lo - 56320)) @ unquote (drop 10 t)
                      else utf8_encode 65533 @ unquote (drop 4 t)
                  | None \<Rightarrow> utf8_encode 65533 @ unquote (drop 4 t))
               else utf8_encode (hex4 t) @ unquote (drop 4 t))
            else escaped_byte d # unquote t)
     else if byte c < 128 then c # unquote r
     else (case utf8_head (map byte (c # r)) of
         None \<Rightarrow> utf8_encode 65533 @ unquote r
       | Some (_, w) \<Rightarrow> c # take (w - 1) r @ unquote (drop (w - 1) r)))"

definition scan_literal :: "string \<Rightarrow> json \<Rightarrow> string \<Rightarrow> (json \<times> string) option" where
  "scan_literal w v s = (if take (length w) s = w then Some (v, drop (length w) s) else None)"

definition scan_scalar :: "string \<Rightarrow> (json \<times> string) option" where
  "scan_scalar s = (case s of
     [] \<Rightarrow> None
   | c # r \<Rightarrow>
       if c = CHR 0x22 then map_option (\<lambda>(body, rest). (JString (unquote body), rest)) (scan_string r)
       else if c = CHR ''t'' then scan_literal ''true'' (JBool True) s
       else if c = CHR ''f'' then scan_literal ''false'' (JBool False) s
       else if c = CHR ''n'' then scan_literal ''null'' JNull s
       else map_option (\<lambda>(_, rest). (JNumber (take (length s - length rest) s), rest)) (scan_number s))"

section \<open>Documents\<close>

lemma skip_space_length: "skip_space s = c # r \<Longrightarrow> length r < length s"
  unfolding skip_space_def by (metis dropWhile_eq_Cons_conv length_Cons length_append less_SucI not_less_eq not_less trans_le_add2)

text \<open>
  The value at the head and what follows it. The tests on lengths always succeed
  (\<open>parse_shorter\<close>); they are what the recursion is justified by.
\<close>

function parse_value :: "string \<Rightarrow> (json \<times> string) option"
  and parse_elements :: "string \<Rightarrow> (json list \<times> string) option"
  and parse_members :: "string \<Rightarrow> ((string \<times> json) list \<times> string) option" where
  "parse_value s = (case skip_space s of
     [] \<Rightarrow> None
   | c # r \<Rightarrow>
       if c = CHR ''['' then
         (case skip_space r of
            [] \<Rightarrow> None
          | d # t \<Rightarrow> if d = CHR '']'' then Some (JArray [], t) else map_option (\<lambda>(vs, u). (JArray vs, u)) (parse_elements r))
       else if c = CHR ''{'' then
         (case skip_space r of
            [] \<Rightarrow> None
          | d # t \<Rightarrow> if d = CHR ''}'' then Some (JObject [], t) else map_option (\<lambda>(ms, u). (JObject ms, u)) (parse_members r))
       else scan_scalar (c # r))"
| "parse_elements s = (case parse_value s of
     None \<Rightarrow> None
   | Some (v, r) \<Rightarrow>
       (case skip_space r of
          [] \<Rightarrow> None
        | c # t \<Rightarrow>
            if c = CHR '','' \<and> length t < length s then map_option (\<lambda>(vs, u). (v # vs, u)) (parse_elements t)
            else if c = CHR '']'' then Some ([v], t) else None))"
| "parse_members s = (case skip_space s of
     [] \<Rightarrow> None
   | q # r \<Rightarrow>
       if q \<noteq> CHR 0x22 then None
       else (case scan_string r of
          None \<Rightarrow> None
        | Some (body, r1) \<Rightarrow>
            (case skip_space r1 of
               [] \<Rightarrow> None
             | d # r2 \<Rightarrow>
                 if d \<noteq> CHR '':'' \<or> \<not> length r2 < length s then None
                 else (case parse_value r2 of
                    None \<Rightarrow> None
                  | Some (v, r3) \<Rightarrow>
                      (case skip_space r3 of
                         [] \<Rightarrow> None
                       | c # t \<Rightarrow>
                           if c = CHR '','' \<and> length t < length s then map_option (\<lambda>(ms, u). ((unquote body, v) # ms, u)) (parse_members t)
                           else if c = CHR ''}'' then Some ([(unquote body, v)], t) else None)))))"
  by pat_completeness auto
termination
  by (relation "measure (\<lambda>x. case x of Inl s \<Rightarrow> 2 * length s | Inr (Inl s) \<Rightarrow> 2 * length s + 1 | Inr (Inr s) \<Rightarrow> 2 * length s + 1)")
    (auto dest: skip_space_length)

declare parse_value.simps [simp del] parse_elements.simps [simp del] parse_members.simps [simp del]

section \<open>The parser consumes its input\<close>

lemma after_digits_length: "length (after_digits s) \<le> length s"
  by (simp add: after_digits_def length_dropWhile_le)

lemma scan_int_shorter: "scan_int s = Some (i, r) \<Longrightarrow> length r < length s"
  using after_digits_length [of "tl s"]
  by (cases s) (auto simp: scan_int_def after_digits_def digits_def length_dropWhile_le less_Suc_eq_le split: if_splits)

lemma scan_frac_shorter: "scan_frac s = Some (f, r) \<Longrightarrow> length r \<le> length s"
  by (cases s) (auto simp: scan_frac_def intro: le_SucI after_digits_length split: if_splits)

lemma after_digits_le: "length t \<le> n \<Longrightarrow> length (after_digits t) \<le> n"
  using after_digits_length le_trans by blast

lemma scan_exp_shorter: "scan_exp s = Some (e, r) \<Longrightarrow> length r \<le> length s"
  unfolding scan_exp_def
  by (auto simp: Let_def split: list.splits if_splits prod.splits intro!: after_digits_le)

lemma scan_number_shorter:
  assumes "scan_number s = Some (n, r)"
  shows "length r < length s"
proof -
  obtain neg t where t: "split_sign s = (neg, t)" by force
  obtain i u f v e where "scan_int t = Some (i, u)" "scan_frac u = Some (f, v)" "scan_exp v = Some (e, r)"
    using assms t by (auto simp: scan_number_def split: option.splits prod.splits)
  then have "length r < length t" using scan_int_shorter scan_frac_shorter scan_exp_shorter by (metis le_less_trans le_trans)
  moreover have "length t \<le> length s" using t by (auto simp: split_sign_def split: list.splits if_splits)
  ultimately show ?thesis by simp
qed

lemma rest_of_map: "map_option (\<lambda>(b, rest). (f b, rest)) x = Some (b', r) \<Longrightarrow> \<exists>b. x = Some (b, r)"
  by (cases x) auto

lemma scan_string_shorter: "scan_string s = Some (b, r) \<Longrightarrow> length r < length s"
proof (induction s arbitrary: b rule: scan_string.induct)
  case (2 c s')
  show ?case
  proof (cases "c = CHR 0x22 \<or> byte c < 32 \<or> c \<noteq> CHR 0x5C")
    case True
    show ?thesis
    proof (cases "c = CHR 0x22 \<or> byte c < 32")
      case True
      with "2.prems" show ?thesis by (auto split: if_splits)
    next
      case False
      with True "2.prems" have "map_option (\<lambda>(body, rest). (c # body, rest)) (scan_string s') = Some (b, r)" by simp
      from rest_of_map [OF this] "2.IH"(3) False True show ?thesis by (auto intro: less_SucI)
    qed
  next
    case False
    then have c: "c \<noteq> CHR 0x22" "\<not> byte c < 32" "c = CHR 0x5C" by auto
    then obtain d t where d: "s' = d # t" using "2.prems" by (cases s') auto
    show ?thesis
    proof (cases "d \<in> set [CHR ''b'', CHR ''f'', CHR ''n'', CHR ''r'', CHR ''t'', CHR 0x5C, CHR ''/'', CHR 0x22]")
      case True
      with "2.prems" c d have "map_option (\<lambda>(body, rest). (c # d # body, rest)) (scan_string t) = Some (b, r)" by auto
      from rest_of_map [of "\<lambda>body. c # d # body", OF this] "2.IH"(1) [OF c d True] d show ?thesis by (auto intro: less_SucI)
    next
      case False
      with "2.prems" c d obtain h1 h2 h3 h4 u where u: "d = CHR ''u''" "t = h1 # h2 # h3 # h4 # u"
        "is_hex h1 \<and> is_hex h2 \<and> is_hex h3 \<and> is_hex h4"
        and m: "map_option (\<lambda>(body, rest). (c # d # h1 # h2 # h3 # h4 # body, rest)) (scan_string u) = Some (b, r)"
        by (auto split: list.splits if_splits)
      obtain b' where "scan_string u = Some (b', r)"
        using rest_of_map [of "\<lambda>body. c # d # h1 # h2 # h3 # h4 # body", OF m] by blast
      from "2.IH"(2) [OF c d False u(1,2) refl refl refl u(3) this] d u(2) show ?thesis by simp
    qed
  qed
qed simp

lemma scan_scalar_shorter: "scan_scalar s = Some (v, r) \<Longrightarrow> length r < length s"
  by (auto simp: scan_scalar_def scan_literal_def split: list.splits if_splits
      dest: scan_string_shorter scan_number_shorter intro: less_SucI)

text \<open>A value is not empty, so its rest is shorter; what the recursion of the parser is justified by.\<close>

lemma skip_space_le: "length (skip_space s) \<le> length s"
  by (simp add: skip_space_def length_dropWhile_le)

lemma parse_shorter:
  "parse_value s = Some (v, r) \<Longrightarrow> length r < length s"
  "parse_elements s = Some (vs, r) \<Longrightarrow> length r < length s"
  "parse_members s = Some (ms, r) \<Longrightarrow> length r < length s"
proof (induction s and s and s arbitrary: v r and vs r and ms r rule: parse_value_parse_elements_parse_members.induct)
  case (1 s)
  obtain c s' where s: "skip_space s = c # s'" using "1.prems" by (subst (asm) parse_value.simps) (auto split: list.splits)
  then have lt: "length s' < length s" by (rule skip_space_length)
  show ?case
  proof (cases "c = CHR ''['' \<or> c = CHR ''{''")
    case True
    then obtain d t where d: "skip_space s' = d # t" using "1.prems" s by (subst (asm) parse_value.simps) (auto split: list.splits)
    have "length t < length s'" using d by (rule skip_space_length)
    moreover have "length r < length s'" if "c = CHR ''[''" "d \<noteq> CHR '']''" "parse_elements s' = Some (vs, r)" for vs
      using "1.IH"(1) [OF s that(1) d that(2)] that(3) by blast
    moreover have "length r < length s'" if "c = CHR ''{''" "d \<noteq> CHR ''}''" "parse_members s' = Some (ms, r)" for ms
      using "1.IH"(2) [OF s _ that(1) d that(2)] that(1,3) by auto
    ultimately have "length r < length s'"
      using "1.prems" s d True by (subst (asm) parse_value.simps) (auto split: if_splits)
    then show ?thesis using lt by simp
  next
    case False
    with "1.prems" s have "scan_scalar (c # s') = Some (v, r)" by (subst (asm) parse_value.simps) auto
    from scan_scalar_shorter [OF this] skip_space_le [of s] show ?thesis by (simp add: s)
  qed
next
  case (2 s)
  obtain v s1 where v: "parse_value s = Some (v, s1)" using "2.prems" by (subst (asm) parse_elements.simps) (auto split: option.splits)
  obtain c t where c: "skip_space s1 = c # t" using "2.prems" v by (subst (asm) parse_elements.simps) (auto split: list.splits)
  have "length t < length s" using "2.IH"(1) [OF v] skip_space_length [OF c] by simp
  moreover from this have "length r < length t" if "c = CHR '',''" "parse_elements t = Some (vs, r)" for vs
    using "2.IH"(2) [OF v refl c] that by auto
  ultimately show ?case using "2.prems" v c by (subst (asm) parse_elements.simps) (auto split: if_splits)
next
  case (3 s)
  obtain s1 where q: "skip_space s = CHR 0x22 # s1"
    using "3.prems" by (subst (asm) parse_members.simps) (auto split: list.splits if_splits)
  obtain body s2 where b: "scan_string s1 = Some (body, s2)"
    using "3.prems" q by (subst (asm) parse_members.simps) (auto split: option.splits)
  obtain s3 where d: "skip_space s2 = CHR '':'' # s3" "length s3 < length s"
    using "3.prems" q b by (subst (asm) parse_members.simps) (auto split: list.splits if_splits)
  obtain v s4 where v: "parse_value s3 = Some (v, s4)"
    using "3.prems" q b d by (subst (asm) parse_members.simps) (auto split: option.splits)
  obtain c t where c: "skip_space s4 = c # t"
    using "3.prems" q b d v by (subst (asm) parse_members.simps) (auto split: list.splits)
  have "length s4 < length s3" using "3.IH"(1) [OF q _ b refl d(1)] d(2) v by auto
  then have t: "length t < length s" using skip_space_length [OF c] d(2) by simp
  have "length r < length t" if "c = CHR '',''" "parse_members t = Some (ms, r)" for ms
    using "3.IH"(2) [OF q _ b refl d(1) _ v refl c] that d(2) t by auto
  then show ?case using "3.prems" q b d v c t by (subst (asm) parse_members.simps) (auto split: if_splits)
qed

text \<open>So the tests on lengths always succeed: the equations of the scanner without them.\<close>

lemma parse_elements_step [code]:
  "parse_elements s = (case parse_value s of
     None \<Rightarrow> None
   | Some (v, r) \<Rightarrow>
       (case skip_space r of
          [] \<Rightarrow> None
        | c # t \<Rightarrow>
            if c = CHR '','' then map_option (\<lambda>(vs, u). (v # vs, u)) (parse_elements t)
            else if c = CHR '']'' then Some ([v], t) else None))"
proof -
  have "length t < length s" if "parse_value s = Some (v, r)" "skip_space r = c # t" for v r c t
    using parse_shorter(1) [OF that(1)] skip_space_length [OF that(2)] by simp
  then show ?thesis by (subst parse_elements.simps) (auto split: option.splits list.splits)
qed

lemma parse_members_step [code]:
  "parse_members s = (case skip_space s of
     [] \<Rightarrow> None
   | q # r \<Rightarrow>
       if q \<noteq> CHR 0x22 then None
       else (case scan_string r of
          None \<Rightarrow> None
        | Some (body, r1) \<Rightarrow>
            (case skip_space r1 of
               [] \<Rightarrow> None
             | d # r2 \<Rightarrow>
                 if d \<noteq> CHR '':'' then None
                 else (case parse_value r2 of
                    None \<Rightarrow> None
                  | Some (v, r3) \<Rightarrow>
                      (case skip_space r3 of
                         [] \<Rightarrow> None
                       | c # t \<Rightarrow>
                           if c = CHR '','' then map_option (\<lambda>(ms, u). ((unquote body, v) # ms, u)) (parse_members t)
                           else if c = CHR ''}'' then Some ([(unquote body, v)], t) else None)))))"
proof -
  have a: "length r2 < length s" if "skip_space s = q # r" "scan_string r = Some (b, r1)" "skip_space r1 = d # r2" for q r b r1 d r2
    using skip_space_length [OF that(1)] scan_string_shorter [OF that(2)] skip_space_length [OF that(3)] by simp
  have b: "length t < length r2" if "parse_value r2 = Some (v, r3)" "skip_space r3 = c # t" for r2 v r3 c t
    using parse_shorter(1) [OF that(1)] skip_space_length [OF that(2)] by simp
  have "length t < length s" if "skip_space s = q # r" "scan_string r = Some (bd, r1)" "skip_space r1 = d # r2"
    "parse_value r2 = Some (v, r3)" "skip_space r3 = c # t" for q r bd r1 d r2 v r3 c t
    using a [OF that(1-3)] b [OF that(4,5)] by simp
  with a show ?thesis by (subst parse_members.simps) (auto split: option.splits list.splits)
qed

text \<open>Comparisons of bytes as comparisons of characters, for evaluation.\<close>

lemma byte_control [code_unfold]: "byte c < 32 \<longleftrightarrow> (case c of Char b0 b1 b2 b3 b4 b5 b6 b7 \<Rightarrow> \<not> b5 \<and> \<not> b6 \<and> \<not> b7)"
  by (cases c) (auto simp: byte_def)

lemma byte_ascii [code_unfold]: "byte c < 128 \<longleftrightarrow> (case c of Char b0 b1 b2 b3 b4 b5 b6 b7 \<Rightarrow> \<not> b7)"
  by (cases c) (auto simp: byte_def)

lemma is_json_space_code [code]:
  "is_json_space c = (c = CHR 0x20 \<or> c = CHR 0x0A \<or> c = CHR 0x09 \<or> c = CHR 0x0D)"
proof -
  have b: "byte (CHR 0x20) = 32" "byte (CHR 0x0A) = 10" "byte (CHR 0x09) = 9" "byte (CHR 0x0D) = 13" by (simp_all add: byte_def)
  have eq: "byte c = byte d \<longleftrightarrow> c = d" for d by (simp add: byte_def)
  show ?thesis unfolding is_json_space_def b [symmetric] eq by blast
qed

section \<open>Unmarshal\<close>

text \<open>\<open>json.Unmarshal\<close> into a generic value: one document and nothing but space after it.\<close>

definition json_Unmarshal :: "string \<Rightarrow> json option" where
  "json_Unmarshal s = (case parse_value s of Some (v, r) \<Rightarrow> if skip_space r = [] then Some v else None | None \<Rightarrow> None)"

end
