(* ===== verification/Json_Documents.thy ===== *)
theory Json_Documents
  imports Json_Text
begin

text \<open>
  Package \<open>internal/jsondocument\<close> on the token stream of a \<open>json.Decoder\<close>: bounded UTF-8
  documents with unique object keys and bounded nesting, decided while the tokens are read,
  and the exact and closed field sets of objects. The stream is proved to accept exactly the
  documents that parse and satisfy the declarative conditions.
\<close>

section \<open>The token stream (encoding/json)\<close>

datatype token_state =
    tokenTopValue | tokenArrayStart | tokenArrayValue | tokenArrayComma
  | tokenObjectStart | tokenObjectKey | tokenObjectColon | tokenObjectValue | tokenObjectComma

record decoder =
  dc_state :: token_state
  dc_stack :: "token_state list"
  dc_input :: string

definition NewDecoder :: "string \<Rightarrow> decoder" where
  "NewDecoder s = \<lparr>dc_state = tokenTopValue, dc_stack = [], dc_input = s\<rparr>"

datatype json_token = Delim char | TString string | TValue

datatype token_result = TEOF | TError | Token json_token decoder

fun tokenValueAllowed :: "token_state \<Rightarrow> bool" where
  "tokenValueAllowed tokenTopValue = True"
| "tokenValueAllowed tokenArrayStart = True"
| "tokenValueAllowed tokenArrayValue = True"
| "tokenValueAllowed tokenObjectValue = True"
| "tokenValueAllowed _ = False"

fun tokenValueEnd :: "token_state \<Rightarrow> token_state" where
  "tokenValueEnd tokenArrayStart = tokenArrayComma"
| "tokenValueEnd tokenArrayValue = tokenArrayComma"
| "tokenValueEnd tokenObjectValue = tokenObjectComma"
| "tokenValueEnd st = st"

text \<open>Reading a scalar into \<open>any\<close>: a number outside the range of a double is an error.\<close>

fun scalar_ok :: "json \<Rightarrow> bool" where
  "scalar_ok (JNumber t) = (ParseFloat t \<noteq> None)"
| "scalar_ok _ = True"

fun scalar_token :: "json \<Rightarrow> json_token" where
  "scalar_token (JString s) = TString s"
| "scalar_token _ = TValue"

definition value_token :: "token_state \<Rightarrow> token_state list \<Rightarrow> string \<Rightarrow> token_result" where
  "value_token st stk s =
    (if \<not> tokenValueAllowed st then TError
     else (case scan_scalar s of
        None \<Rightarrow> TError
      | Some (v, r) \<Rightarrow>
          if scalar_ok v then Token (scalar_token v) \<lparr>dc_state = tokenValueEnd st, dc_stack = stk, dc_input = r\<rparr> else TError))"

definition open_token :: "char \<Rightarrow> token_state \<Rightarrow> token_state \<Rightarrow> token_state list \<Rightarrow> string \<Rightarrow> token_result" where
  "open_token c inside st stk r =
    (if tokenValueAllowed st then Token (Delim c) \<lparr>dc_state = inside, dc_stack = st # stk, dc_input = r\<rparr> else TError)"

definition close_token :: "char \<Rightarrow> token_state set \<Rightarrow> token_state \<Rightarrow> token_state list \<Rightarrow> string \<Rightarrow> token_result" where
  "close_token c closing st stk r =
    (if st \<in> closing then
       (case stk of
          outer # stk' \<Rightarrow> Token (Delim c) \<lparr>dc_state = tokenValueEnd outer, dc_stack = stk', dc_input = r\<rparr>
        | [] \<Rightarrow> TError)
     else TError)"

function decoder_token :: "token_state \<Rightarrow> token_state list \<Rightarrow> string \<Rightarrow> token_result" where
  "decoder_token st stk s = (case skip_space s of
     [] \<Rightarrow> TEOF
   | c # r \<Rightarrow>
       if c = CHR ''['' then open_token c tokenArrayStart st stk r
       else if c = CHR '']'' then close_token c {tokenArrayStart, tokenArrayComma} st stk r
       else if c = CHR ''{'' then open_token c tokenObjectStart st stk r
       else if c = CHR ''}'' then close_token c {tokenObjectStart, tokenObjectComma} st stk r
       else if c = CHR '':'' then
         (if st = tokenObjectColon then decoder_token tokenObjectValue stk r else TError)
       else if c = CHR '','' then
         (if st = tokenArrayComma then decoder_token tokenArrayValue stk r
          else if st = tokenObjectComma then decoder_token tokenObjectKey stk r else TError)
       else if c = CHR 0x22 \<and> (st = tokenObjectStart \<or> st = tokenObjectKey) then
         (case scan_string r of
            None \<Rightarrow> TError
          | Some (body, t) \<Rightarrow> Token (TString (unquote body)) \<lparr>dc_state = tokenObjectColon, dc_stack = stk, dc_input = t\<rparr>)
       else value_token st stk (c # r))"
  by pat_completeness auto
termination
  by (relation "measure (\<lambda>(_, _, s). length s)") (auto dest: skip_space_length)

declare decoder_token.simps [simp del]

definition Decoder_Token :: "decoder \<Rightarrow> token_result" where
  "Decoder_Token d = decoder_token (dc_state d) (dc_stack d) (dc_input d)"

definition Decoder_More :: "decoder \<Rightarrow> bool" where
  "Decoder_More d = (case skip_space (dc_input d) of [] \<Rightarrow> False | c # _ \<Rightarrow> c \<noteq> CHR '']'' \<and> c \<noteq> CHR ''}'')"

section \<open>Every token consumes input\<close>

lemma map_option_SomeE: "map_option f x = Some y \<Longrightarrow> (\<And>z. x = Some z \<Longrightarrow> y = f z \<Longrightarrow> P) \<Longrightarrow> P"
  by (cases x) auto

lemma ifE: "(if P then x else y) = z \<Longrightarrow> (P \<Longrightarrow> x = z \<Longrightarrow> R) \<Longrightarrow> (\<not> P \<Longrightarrow> y = z \<Longrightarrow> R) \<Longrightarrow> R"
  by (cases P) simp_all

lemma token_shorter: "decoder_token st stk s = Token t d \<Longrightarrow> length (dc_input d) < length s"
proof (induction st stk s rule: decoder_token.induct)
  case (1 st stk s)
  have run: "decoder_token st stk s = Token t d" by (rule 1(4))
  obtain c r where s: "skip_space s = c # r"
  proof (cases "skip_space s")
    case Nil
    then have "decoder_token st stk s = TEOF" by (subst decoder_token.simps) simp
    with run show ?thesis by simp
  qed blast
  note shorter = skip_space_length [OF s]
  have leaf: "open_token c x st stk r = Token t d \<Longrightarrow> length (dc_input d) < length s"
    "close_token c y st stk r = Token t d \<Longrightarrow> length (dc_input d) < length s"
    "value_token st stk (c # r) = Token t d \<Longrightarrow> length (dc_input d) < length s" for x y
    using shorter
    by (auto simp: open_token_def close_token_def value_token_def split: if_splits list.splits option.splits dest!: scan_scalar_shorter)
  have key: "length (dc_input d) < length s"
    if "(case scan_string r of None \<Rightarrow> TError | Some (body, u) \<Rightarrow> Token (TString (unquote body)) \<lparr>dc_state = x, dc_stack = stk, dc_input = u\<rparr>) = Token t d" for x
    using that shorter by (auto split: option.splits dest!: scan_string_shorter)
  have step: "length (dc_input d) < length s" if "decoder_token x stk r = Token t d \<Longrightarrow> length (dc_input d) < length r" "decoder_token x stk r = Token t d" for x
    using that shorter by simp
  note ih = 1(1-3) [OF s]
  have err: "TError \<noteq> Token t d" by simp
  show ?case
    using run unfolding decoder_token.simps [of st stk s] s list.case
    by - (elim ifE; (erule notE [OF err] | erule leaf | erule key | rule step, rule ih, assumption+))
qed

lemma Token_shorter: "Decoder_Token d = Token t d' \<Longrightarrow> length (dc_input d') < length (dc_input d)"
  by (simp add: Decoder_Token_def token_shorter)

section \<open>Unique keys and bounded nesting (document.go)\<close>

definition maximumDepth :: nat where
  "maximumDepth = 64"

definition consumeEnd :: "decoder \<Rightarrow> decoder option" where
  "consumeEnd d = (case Decoder_Token d of Token _ d' \<Rightarrow> Some d' | _ \<Rightarrow> None)"

definition atEnd :: "decoder \<Rightarrow> bool" where
  "atEnd d = (Decoder_Token d = TEOF)"

text \<open>
  The recursive descent of \<open>document.go\<close>. The two comparisons of remaining input let the loops
  be seen to end; they always hold (\<open>consume_shorter\<close>), and \<open>consumeUniqueObject_eq\<close> and
  \<open>consumeUniqueArray_eq\<close> give the loops without them.
\<close>

function consumeUniqueValue :: "nat \<Rightarrow> decoder \<Rightarrow> decoder option"
  and consumeUniqueObject :: "string list \<Rightarrow> nat \<Rightarrow> decoder \<Rightarrow> decoder option"
  and consumeUniqueArray :: "nat \<Rightarrow> decoder \<Rightarrow> decoder option" where
  "consumeUniqueValue depth d =
    (if maximumDepth < depth then None
     else (case Decoder_Token d of
        Token t d' \<Rightarrow>
          (case t of
             Delim c \<Rightarrow>
               if c = CHR ''{'' then consumeUniqueObject [] depth d'
               else if c = CHR ''['' then consumeUniqueArray depth d'
               else None
           | _ \<Rightarrow> Some d')
      | _ \<Rightarrow> None))"
| "consumeUniqueObject keys depth d =
    (if Decoder_More d then
       (case Decoder_Token d of
          Token t d' \<Rightarrow>
            (case t of
               TString key \<Rightarrow>
                 if key \<in> set keys then None
                 else (case consumeUniqueValue (depth + 1) d' of
                    None \<Rightarrow> None
                  | Some d'' \<Rightarrow>
                      if length (dc_input d'') < length (dc_input d) then consumeUniqueObject (key # keys) depth d'' else None)
             | _ \<Rightarrow> None)
        | _ \<Rightarrow> None)
     else consumeEnd d)"
| "consumeUniqueArray depth d =
    (if Decoder_More d then
       (case consumeUniqueValue (depth + 1) d of
          None \<Rightarrow> None
        | Some d' \<Rightarrow> if length (dc_input d') < length (dc_input d) then consumeUniqueArray depth d' else None)
     else consumeEnd d)"
  by pat_completeness auto
termination
  by (relation "measure (\<lambda>x. case x of Inl (_, d) \<Rightarrow> 2 * length (dc_input d) | Inr (Inl (_, _, d)) \<Rightarrow> 2 * length (dc_input d) + 1
       | Inr (Inr (_, d)) \<Rightarrow> 2 * length (dc_input d) + 1)") (auto dest: Token_shorter)

declare consumeUniqueValue.simps [simp del] consumeUniqueObject.simps [simp del] consumeUniqueArray.simps [simp del]

definition Json_Valid :: "string \<Rightarrow> int \<Rightarrow> bool" where
  "Json_Valid data maximumBytes =
    (data \<noteq> [] \<and> 1 \<le> maximumBytes \<and> int (length data) \<le> maximumBytes \<and> utf8_ValidString data
     \<and> (case consumeUniqueValue 0 (NewDecoder data) of None \<Rightarrow> False | Some d \<Rightarrow> atEnd d))"

section \<open>The stream accepts exactly the well-formed documents\<close>

text \<open>The declarative conditions: nesting, unique keys, and numbers in the range of a double.\<close>

fun nesting :: "json \<Rightarrow> nat" where
  "nesting (JArray vs) = fold max (map (\<lambda>v. Suc (nesting v)) vs) 0"
| "nesting (JObject ms) = fold max (map (\<lambda>(k, v). Suc (nesting v)) ms) 0"
| "nesting _ = 0"

fun unique_keys :: "json \<Rightarrow> bool" where
  "unique_keys (JArray vs) = list_all unique_keys vs"
| "unique_keys (JObject ms) = (distinct (map fst ms) \<and> list_all (\<lambda>(k, v). unique_keys v) ms)"
| "unique_keys _ = True"

fun numbers_in_range :: "json \<Rightarrow> bool" where
  "numbers_in_range (JNumber t) = (ParseFloat t \<noteq> None)"
| "numbers_in_range (JArray vs) = list_all numbers_in_range vs"
| "numbers_in_range (JObject ms) = list_all (\<lambda>(k, v). numbers_in_range v) ms"
| "numbers_in_range _ = True"

definition doc_ok :: "nat \<Rightarrow> json \<Rightarrow> bool" where
  "doc_ok d v = (d + nesting v \<le> maximumDepth \<and> unique_keys v \<and> numbers_in_range v)"

lemma fold_max_le: "(d::nat) + fold max ns m \<le> b \<longleftrightarrow> d + m \<le> b \<and> (\<forall>n\<in>set ns. d + n \<le> b)"
  by (induction ns arbitrary: m) auto

lemma doc_ok_JArray: "doc_ok d (JArray vs) \<longleftrightarrow> d \<le> maximumDepth \<and> (\<forall>v\<in>set vs. doc_ok (Suc d) v)"
  by (auto simp: doc_ok_def fold_max_le list_all_iff)

lemma doc_ok_JObject:
  "doc_ok d (JObject ms) \<longleftrightarrow> d \<le> maximumDepth \<and> distinct (map fst ms) \<and> (\<forall>m\<in>set ms. doc_ok (Suc d) (snd m))"
  by (auto simp: doc_ok_def fold_max_le list_all_iff split_def)

abbreviation dec :: "token_state \<Rightarrow> token_state list \<Rightarrow> string \<Rightarrow> decoder" where
  "dec st stk s \<equiv> \<lparr>dc_state = st, dc_stack = stk, dc_input = s\<rparr>"

text \<open>Punctuation starts no scalar.\<close>

lemma scan_scalar_punctuation:
  "scan_scalar (CHR '']'' # r) = None" "scan_scalar (CHR ''}'' # r) = None" "scan_scalar (CHR '':'' # r) = None"
  "scan_scalar (CHR '','' # r) = None" "scan_scalar (CHR ''['' # r) = None" "scan_scalar (CHR ''{'' # r) = None"
  by (simp_all add: scan_scalar_def scan_number_def split_sign_def scan_int_def byte_classes)

lemma scalar_kind: "scan_scalar s = Some (v, r) \<Longrightarrow> scalar_ok v = numbers_in_range v \<and> nesting v = 0 \<and> unique_keys v"
  by (auto simp: scan_scalar_def scan_literal_def split: list.splits if_splits elim!: map_option_SomeE)

lemma token_end: "skip_space s = [] \<Longrightarrow> decoder_token st stk s = TEOF"
  by (simp add: decoder_token.simps [of st stk s])

lemma token_open:
  "skip_space s = CHR ''['' # r \<Longrightarrow> tokenValueAllowed st \<Longrightarrow> decoder_token st stk s = Token (Delim CHR ''['') (dec tokenArrayStart (st # stk) r)"
  "skip_space s = CHR ''{'' # r \<Longrightarrow> tokenValueAllowed st \<Longrightarrow> decoder_token st stk s = Token (Delim CHR ''{'') (dec tokenObjectStart (st # stk) r)"
  by (simp_all add: decoder_token.simps [of st stk s] open_token_def)

lemma token_close:
  "skip_space s = CHR '']'' # r \<Longrightarrow> st = tokenArrayStart \<or> st = tokenArrayComma \<Longrightarrow>
    decoder_token st (x # stk) s = Token (Delim CHR '']'') (dec (tokenValueEnd x) stk r)"
  "skip_space s = CHR ''}'' # r \<Longrightarrow> st = tokenObjectStart \<or> st = tokenObjectComma \<Longrightarrow>
    decoder_token st (x # stk) s = Token (Delim CHR ''}'') (dec (tokenValueEnd x) stk r)"
  by (auto simp: decoder_token.simps [of st "x # stk" s] close_token_def)

lemma token_scalar:
  assumes "skip_space s = c # r" "tokenValueAllowed st" "c \<noteq> CHR ''[''" "c \<noteq> CHR ''{''" "c \<noteq> CHR '']''" "c \<noteq> CHR ''}''"
  shows "decoder_token st stk s = value_token st stk (c # r)"
proof -
  have st: "st \<noteq> tokenObjectColon" "st \<noteq> tokenArrayComma" "st \<noteq> tokenObjectComma" "st \<noteq> tokenObjectStart" "st \<noteq> tokenObjectKey"
    using assms(2) by auto
  show ?thesis
  proof (cases "c = CHR '':'' \<or> c = CHR '',''")
    case True
    then show ?thesis using assms st by (auto simp: decoder_token.simps [of st stk s] value_token_def scan_scalar_punctuation)
  next
    case False
    then show ?thesis using assms st by (simp add: decoder_token.simps [of st stk s])
  qed
qed

lemma token_bracket:
  "skip_space s = CHR '']'' # r \<Longrightarrow> decoder_token st stk s = Token t d \<Longrightarrow> t = Delim CHR '']''"
  "skip_space s = CHR ''}'' # r \<Longrightarrow> decoder_token st stk s = Token t d \<Longrightarrow> t = Delim CHR ''}''"
  by (auto simp: decoder_token.simps [of st stk s] close_token_def split: if_splits list.splits)

text \<open>Nothing but its own punctuation continues a finished value.\<close>

lemma token_stuck:
  "skip_space s = c # r \<Longrightarrow> c \<noteq> CHR '','' \<Longrightarrow> c \<noteq> CHR '']'' \<Longrightarrow> decoder_token tokenArrayComma stk s = TError"
  "skip_space s = c # r \<Longrightarrow> c \<noteq> CHR '','' \<Longrightarrow> c \<noteq> CHR ''}'' \<Longrightarrow> decoder_token tokenObjectComma stk s = TError"
  "skip_space s = c # r \<Longrightarrow> c \<noteq> CHR '':'' \<Longrightarrow> decoder_token tokenObjectColon stk s = TError"
  by (simp_all add: decoder_token.simps [of _ stk s] open_token_def close_token_def value_token_def)

lemma token_key:
  assumes "st = tokenObjectStart \<or> st = tokenObjectKey" "skip_space s = c # r"
  shows "c = CHR 0x22 \<Longrightarrow> decoder_token st stk s = (case scan_string r of
      None \<Rightarrow> TError | Some (body, t) \<Rightarrow> Token (TString (unquote body)) (dec tokenObjectColon stk t))"
    and "c \<noteq> CHR 0x22 \<Longrightarrow> decoder_token st stk s = Token t d \<Longrightarrow> \<exists>b. t = Delim b"
  using assms
  by (auto simp: decoder_token.simps [of _ stk s] open_token_def close_token_def value_token_def split: if_splits list.splits)

lemma token_separators:
  "skip_space s = CHR '','' # t \<Longrightarrow> decoder_token tokenArrayComma stk s = decoder_token tokenArrayValue stk t"
  "skip_space s = CHR '','' # t \<Longrightarrow> decoder_token tokenObjectComma stk s = decoder_token tokenObjectKey stk t"
  "skip_space s = CHR '':'' # t \<Longrightarrow> decoder_token tokenObjectColon stk s = decoder_token tokenObjectValue stk t"
  by (simp_all add: decoder_token.simps [of _ stk s])

lemma consume_shorter:
  "consumeUniqueValue depth d = Some d' \<Longrightarrow> length (dc_input d') < length (dc_input d)"
  "consumeUniqueObject keys depth d = Some d' \<Longrightarrow> length (dc_input d') < length (dc_input d)"
  "consumeUniqueArray depth d = Some d' \<Longrightarrow> length (dc_input d') < length (dc_input d)"
proof (induction depth d and keys depth d and depth d arbitrary: d' and d' and d'
    rule: consumeUniqueValue_consumeUniqueObject_consumeUniqueArray.induct)
  case (1 depth d)
  from 1(3) obtain t d1 where tok: "\<not> maximumDepth < depth" "Decoder_Token d = Token t d1"
    by (auto simp: consumeUniqueValue.simps [of depth d] split: if_splits token_result.splits)
  have "(\<exists>c. t = Delim c \<and> c = CHR ''{'' \<and> consumeUniqueObject [] depth d1 = Some d')
      \<or> (\<exists>c. t = Delim c \<and> c \<noteq> CHR ''{'' \<and> c = CHR ''['' \<and> consumeUniqueArray depth d1 = Some d') \<or> d' = d1"
    using 1(3) by (simp add: consumeUniqueValue.simps [of depth d] tok split: if_splits json_token.splits)
  with 1(1) [OF tok] 1(2) [OF tok] Token_shorter [OF tok(2)] show ?case by force
next
  case (2 keys depth d)
  show ?case
  proof (cases "Decoder_More d")
    case True
    with 2(3) obtain key d1 d2 where p: "Decoder_Token d = Token (TString key) d1" "key \<notin> set keys"
      "consumeUniqueValue (depth + 1) d1 = Some d2" "length (dc_input d2) < length (dc_input d)"
      "consumeUniqueObject (key # keys) depth d2 = Some d'"
      by (auto simp: consumeUniqueObject.simps [of keys depth d] split: if_splits token_result.splits json_token.splits option.splits)
    from 2(2) [OF True p(1) refl p(2,3,4,5)] p(4) show ?thesis by simp
  next
    case False
    with 2(3) show ?thesis by (auto simp: consumeUniqueObject.simps [of keys depth d] consumeEnd_def split: token_result.splits dest: Token_shorter)
  qed
next
  case (3 depth d)
  show ?case
  proof (cases "Decoder_More d")
    case True
    with 3(3) obtain d1 where p: "consumeUniqueValue (depth + 1) d = Some d1" "length (dc_input d1) < length (dc_input d)"
      "consumeUniqueArray depth d1 = Some d'"
      by (auto simp: consumeUniqueArray.simps [of depth d] split: if_splits option.splits)
    from 3(2) [OF True p] p(2) show ?thesis by simp
  next
    case False
    with 3(3) show ?thesis by (auto simp: consumeUniqueArray.simps [of depth d] consumeEnd_def split: token_result.splits dest: Token_shorter)
  qed
qed

text \<open>The loops without the tests on lengths.\<close>

lemma consumeUniqueObject_eq:
  "consumeUniqueObject keys depth d =
    (if Decoder_More d then
       (case Decoder_Token d of
          Token (TString key) d' \<Rightarrow>
            if key \<in> set keys then None
            else Option.bind (consumeUniqueValue (Suc depth) d') (consumeUniqueObject (key # keys) depth)
        | _ \<Rightarrow> None)
     else consumeEnd d)"
  by (auto simp: consumeUniqueObject.simps [of keys depth d] split: token_result.splits json_token.splits option.splits bind_splits
      dest!: consume_shorter(1) Token_shorter)

lemma consumeUniqueArray_eq:
  "consumeUniqueArray depth d =
    (if Decoder_More d then Option.bind (consumeUniqueValue (Suc depth) d) (consumeUniqueArray depth) else consumeEnd d)"
  by (auto simp: consumeUniqueArray.simps [of depth d] split: option.splits bind_splits dest: consume_shorter)

lemma end_of_loop:
  "skip_space s = [] \<Longrightarrow> consumeEnd (dec st stk s) = None"
  "skip_space s = CHR '']'' # r \<Longrightarrow> st = tokenArrayStart \<or> st = tokenArrayComma \<Longrightarrow> consumeEnd (dec st (x # stk) s) = Some (dec (tokenValueEnd x) stk r)"
  "skip_space s = CHR ''}'' # r \<Longrightarrow> st = tokenObjectStart \<or> st = tokenObjectComma \<Longrightarrow> consumeEnd (dec st (x # stk) s) = Some (dec (tokenValueEnd x) stk r)"
  "skip_space s = CHR ''}'' # r \<Longrightarrow> st = tokenArrayStart \<or> st = tokenArrayComma \<Longrightarrow> consumeEnd (dec st stk s) = None"
  "skip_space s = CHR '']'' # r \<Longrightarrow> st = tokenObjectStart \<or> st = tokenObjectComma \<Longrightarrow> consumeEnd (dec st stk s) = None"
  by (auto simp: consumeEnd_def Decoder_Token_def token_end token_close)
    (auto simp: decoder_token.simps [of _ stk s] close_token_def)

text \<open>A value position after its separator.\<close>

lemma consume_after_separator:
  "skip_space s = CHR '','' # t \<Longrightarrow> consumeUniqueValue depth (dec tokenArrayComma stk s) = consumeUniqueValue depth (dec tokenArrayValue stk t)"
  "skip_space s = CHR '':'' # t \<Longrightarrow> consumeUniqueValue depth (dec tokenObjectColon stk s) = consumeUniqueValue depth (dec tokenObjectValue stk t)"
  by (simp_all add: consumeUniqueValue.simps Decoder_Token_def token_separators)

lemma consume_stuck: "decoder_token st stk s = TError \<or> decoder_token st stk s = TEOF \<Longrightarrow> consumeUniqueValue depth (dec st stk s) = None"
  by (auto simp: consumeUniqueValue.simps Decoder_Token_def)

definition elements_from :: "nat \<Rightarrow> decoder \<Rightarrow> decoder option" where
  "elements_from depth d = Option.bind (consumeUniqueValue (Suc depth) d) (consumeUniqueArray depth)"

definition members_from :: "string list \<Rightarrow> nat \<Rightarrow> decoder \<Rightarrow> decoder option" where
  "members_from keys depth d = (case Decoder_Token d of
     Token (TString key) d' \<Rightarrow>
       if key \<in> set keys then None
       else Option.bind (consumeUniqueValue (Suc depth) d') (consumeUniqueObject (key # keys) depth)
   | _ \<Rightarrow> None)"

definition elements_result :: "nat \<Rightarrow> token_state \<Rightarrow> token_state list \<Rightarrow> (json list \<times> string) option \<Rightarrow> decoder option" where
  "elements_result depth x stk p = (case p of None \<Rightarrow> None
     | Some (vs, t) \<Rightarrow> if \<forall>v\<in>set vs. doc_ok (Suc depth) v then Some (dec (tokenValueEnd x) stk t) else None)"

definition members_result :: "string list \<Rightarrow> nat \<Rightarrow> token_state \<Rightarrow> token_state list \<Rightarrow> ((string \<times> json) list \<times> string) option \<Rightarrow> decoder option" where
  "members_result keys depth x stk p = (case p of None \<Rightarrow> None
     | Some (ms, t) \<Rightarrow>
         if distinct (map fst ms) \<and> set (map fst ms) \<inter> set keys = {} \<and> (\<forall>m\<in>set ms. doc_ok (Suc depth) (snd m))
         then Some (dec (tokenValueEnd x) stk t) else None)"

definition value_result :: "nat \<Rightarrow> token_state \<Rightarrow> token_state list \<Rightarrow> (json \<times> string) option \<Rightarrow> decoder option" where
  "value_result depth st stk p = (case p of None \<Rightarrow> None
     | Some (v, t) \<Rightarrow> if doc_ok depth v then Some (dec (tokenValueEnd st) stk t) else None)"

lemma array_loop_start:
  assumes "skip_space s = c # r"
  shows "consumeUniqueArray depth (dec tokenArrayStart (x # stk) s) =
    (if c = CHR '']'' then Some (dec (tokenValueEnd x) stk r)
     else if c = CHR ''}'' then None else elements_from depth (dec tokenArrayStart (x # stk) s))"
  using assms by (subst consumeUniqueArray_eq) (auto simp: Decoder_More_def elements_from_def end_of_loop)

lemma array_loop_next:
  assumes "skip_space s = c # r"
  shows "consumeUniqueArray depth (dec tokenArrayComma (x # stk) s) =
    (if c = CHR '']'' then Some (dec (tokenValueEnd x) stk r)
     else if c = CHR '','' then elements_from depth (dec tokenArrayValue (x # stk) r) else None)"
proof (cases "c = CHR '']'' \<or> c = CHR ''}'' \<or> c = CHR '',''")
  case True
  then show ?thesis
    using assms by (subst consumeUniqueArray_eq) (auto simp: Decoder_More_def elements_from_def end_of_loop consume_after_separator)
next
  case False
  then show ?thesis
    using assms token_stuck(1) [OF assms] by (subst consumeUniqueArray_eq) (simp add: Decoder_More_def consume_stuck)
qed

lemma object_loop_start:
  assumes "skip_space s = c # r"
  shows "consumeUniqueObject keys depth (dec tokenObjectStart (x # stk) s) =
    (if c = CHR ''}'' then Some (dec (tokenValueEnd x) stk r)
     else if c = CHR '']'' then None else members_from keys depth (dec tokenObjectStart (x # stk) s))"
  using assms by (subst consumeUniqueObject_eq) (auto simp: Decoder_More_def members_from_def end_of_loop)

lemma object_loop_next:
  assumes "skip_space s = c # r"
  shows "consumeUniqueObject keys depth (dec tokenObjectComma (x # stk) s) =
    (if c = CHR ''}'' then Some (dec (tokenValueEnd x) stk r)
     else if c = CHR '','' then members_from keys depth (dec tokenObjectKey (x # stk) r) else None)"
proof (cases "c = CHR '']'' \<or> c = CHR ''}'' \<or> c = CHR '',''")
  case True
  then show ?thesis
    using assms by (subst consumeUniqueObject_eq) (auto simp: Decoder_More_def members_from_def end_of_loop Decoder_Token_def token_separators)
next
  case False
  then show ?thesis
    using assms token_stuck(2) [OF assms] by (subst consumeUniqueObject_eq) (simp add: Decoder_More_def Decoder_Token_def)
qed

lemma consume_deep: "maximumDepth < depth \<Longrightarrow> consumeUniqueValue depth d = None"
  by (simp add: consumeUniqueValue.simps)

lemma consume_scalar:
  assumes "skip_space s = c # r" "tokenValueAllowed st" "c \<noteq> CHR ''[''" "c \<noteq> CHR ''{''"
  shows "consumeUniqueValue depth (dec st stk s) = value_result depth st stk (scan_scalar (c # r))"
proof (cases "maximumDepth < depth")
  case True
  then show ?thesis by (auto simp: consume_deep value_result_def doc_ok_def split: option.splits)
next
  case False
  show ?thesis
  proof (cases "c = CHR '']'' \<or> c = CHR ''}''")
    case True
    then have none: "scan_scalar (c # r) = None" by (auto simp: scan_scalar_punctuation)
    have "decoder_token st stk s = TEOF \<or> decoder_token st stk s = TError \<or> (\<exists>d. decoder_token st stk s = Token (Delim c) d)"
      using True assms(1) token_bracket [of s r st stk] by (cases "decoder_token st stk s") auto
    with True show ?thesis by (auto simp: none value_result_def consumeUniqueValue.simps Decoder_Token_def)
  next
    case plain: False
    have t: "decoder_token st stk s = value_token st stk (c # r)" using token_scalar [OF assms(1-4)] plain by blast
    show ?thesis
    proof (cases "scan_scalar (c # r)")
      case None
      then show ?thesis using t by (simp add: value_token_def value_result_def consume_stuck)
    next
      case (Some p)
      obtain v u where p: "p = (v, u)" by force
      have k: "scalar_ok v = numbers_in_range v" "nesting v = 0" "unique_keys v" using scalar_kind Some p by blast+
      have nd: "scalar_token v \<noteq> Delim b" for b by (cases v) auto
      show ?thesis
      proof (cases "scalar_ok v")
        case True
        then show ?thesis
          using t Some p k False nd assms(2)
          by (auto simp: consumeUniqueValue.simps Decoder_Token_def value_token_def value_result_def doc_ok_def split: json_token.split)
      next
        case False
        then show ?thesis using t Some p k by (simp add: value_token_def value_result_def doc_ok_def consume_stuck)
      qed
    qed
  qed
qed

lemma too_deep: "maximumDepth < depth \<Longrightarrow> value_result depth st stk p = None"
  by (auto simp: value_result_def doc_ok_def split: option.splits)

lemma parse_bracket: "skip_space s = CHR '']'' # r \<or> skip_space s = CHR ''}'' # r \<Longrightarrow> parse_value s = None \<and> parse_elements s = None \<and> parse_members s = None"
  by (auto simp: parse_value.simps [of s] parse_elements.simps [of s] parse_members.simps [of s] scan_scalar_punctuation)

lemma consume_array:
  assumes s: "skip_space s = CHR ''['' # r" and st: "tokenValueAllowed st"
    and elements: "\<And>c t. skip_space r = c # t \<Longrightarrow> c \<noteq> CHR '']'' \<Longrightarrow>
      elements_from depth (dec tokenArrayStart (st # stk) r) = elements_result depth st stk (parse_elements r)"
  shows "consumeUniqueValue depth (dec st stk s) = value_result depth st stk (parse_value s)"
proof (cases "maximumDepth < depth")
  case False
  then have open_: "consumeUniqueValue depth (dec st stk s) = consumeUniqueArray depth (dec tokenArrayStart (st # stk) r)"
    by (simp add: consumeUniqueValue.simps Decoder_Token_def token_open(1) [OF s st])
  show ?thesis
  proof (cases "skip_space r")
    case Nil
    then show ?thesis
      unfolding open_ by (subst consumeUniqueArray_eq) (simp add: parse_value.simps [of s] s value_result_def Decoder_More_def end_of_loop)
  next
    case (Cons c t)
    consider "c = CHR '']''" | "c = CHR ''}''" | "c \<noteq> CHR '']''" "c \<noteq> CHR ''}''" by blast
    then show ?thesis
    proof cases
      case 1
      then show ?thesis
        unfolding open_ array_loop_start [OF Cons] using False Cons by (simp add: parse_value.simps [of s] s value_result_def doc_ok_JArray)
    next
      case 2
      then show ?thesis
        unfolding open_ array_loop_start [OF Cons] using Cons parse_bracket [of r t]
        by (simp add: parse_value.simps [of s] s value_result_def)
    next
      case 3
      show ?thesis
        unfolding open_ array_loop_start [OF Cons] using False Cons 3 elements [OF Cons 3(1)]
        by (auto simp: parse_value.simps [of s] s value_result_def elements_result_def doc_ok_JArray split: option.splits)
    qed
  qed
qed (simp add: consume_deep too_deep)

lemma consume_object:
  assumes s: "skip_space s = CHR ''{'' # r" and st: "tokenValueAllowed st"
    and members: "\<And>c t. skip_space r = c # t \<Longrightarrow> c \<noteq> CHR ''}'' \<Longrightarrow>
      members_from [] depth (dec tokenObjectStart (st # stk) r) = members_result [] depth st stk (parse_members r)"
  shows "consumeUniqueValue depth (dec st stk s) = value_result depth st stk (parse_value s)"
proof (cases "maximumDepth < depth")
  case False
  then have open_: "consumeUniqueValue depth (dec st stk s) = consumeUniqueObject [] depth (dec tokenObjectStart (st # stk) r)"
    by (simp add: consumeUniqueValue.simps Decoder_Token_def token_open(2) [OF s st])
  show ?thesis
  proof (cases "skip_space r")
    case Nil
    then show ?thesis
      unfolding open_ by (subst consumeUniqueObject_eq) (simp add: parse_value.simps [of s] s value_result_def Decoder_More_def end_of_loop)
  next
    case (Cons c t)
    consider "c = CHR ''}''" | "c = CHR '']''" | "c \<noteq> CHR '']''" "c \<noteq> CHR ''}''" by blast
    then show ?thesis
    proof cases
      case 1
      then show ?thesis
        unfolding open_ object_loop_start [OF Cons] using False Cons by (simp add: parse_value.simps [of s] s value_result_def doc_ok_JObject)
    next
      case 2
      then show ?thesis
        unfolding open_ object_loop_start [OF Cons] using Cons parse_bracket [of r t]
        by (simp add: parse_value.simps [of s] s value_result_def)
    next
      case 3
      show ?thesis
        unfolding open_ object_loop_start [OF Cons] using False Cons 3 members [OF Cons 3(2)]
        by (auto simp: parse_value.simps [of s] s value_result_def members_result_def doc_ok_JObject split: option.splits)
    qed
  qed
qed (simp add: consume_deep too_deep)

lemma value_result_Some:
  "value_result depth st stk (Some (v, t)) = (if doc_ok depth v then Some (dec (tokenValueEnd st) stk t) else None)"
  by (simp add: value_result_def)

lemma array_rest:
  assumes v: "consumeUniqueValue (Suc depth) (dec st (x # stk) s) = value_result (Suc depth) st (x # stk) (parse_value s)"
    and st: "st = tokenArrayStart \<or> st = tokenArrayValue"
    and elements: "\<And>w r c t. parse_value s = Some (w, r) \<Longrightarrow> skip_space r = c # t \<Longrightarrow> c = CHR '','' \<and> length t < length s \<Longrightarrow>
      elements_from depth (dec tokenArrayValue (x # stk) t) = elements_result depth x stk (parse_elements t)"
  shows "elements_from depth (dec st (x # stk) s) = elements_result depth x stk (parse_elements s)"
proof (cases "parse_value s")
  case None
  then show ?thesis by (simp add: elements_from_def v value_result_def elements_result_def parse_elements.simps [of s])
next
  case (Some p)
  obtain w r where p: "parse_value s = Some (w, r)" using Some by (cases p) auto
  show ?thesis
  proof (cases "doc_ok (Suc depth) w")
    case False
    then show ?thesis
      by (auto simp: elements_from_def v p value_result_Some elements_result_def parse_elements.simps [of s] split: list.splits option.splits)
  next
    case True
    then have run: "consumeUniqueValue (Suc depth) (dec st (x # stk) s) = Some (dec tokenArrayComma (x # stk) r)"
      using st by (auto simp: v p value_result_Some)
    have r: "length r < length s" using consume_shorter(1) [OF run] by simp
    have step: "elements_from depth (dec st (x # stk) s) = consumeUniqueArray depth (dec tokenArrayComma (x # stk) r)"
      by (simp add: elements_from_def run)
    show ?thesis
    proof (cases "skip_space r")
      case Nil
      then show ?thesis
        unfolding step
        by (subst consumeUniqueArray_eq) (simp add: Decoder_More_def end_of_loop p elements_result_def parse_elements.simps [of s])
    next
      case (Cons c t)
      have t: "length t < length s" using skip_space_length [OF Cons] r by simp
      show ?thesis
        unfolding step array_loop_next [OF Cons]
        using elements [OF p Cons] t True Cons
        by (auto simp: p elements_result_def parse_elements.simps [of s] split: option.splits)
    qed
  qed
qed

text \<open>The rest of an object from the value of a fresh key.\<close>

definition pair_result :: "string \<Rightarrow> nat \<Rightarrow> string \<Rightarrow> ((string \<times> json) list \<times> string) option" where
  "pair_result key n s = (case parse_value s of
     None \<Rightarrow> None
   | Some (w, r) \<Rightarrow>
       (case skip_space r of
          [] \<Rightarrow> None
        | c # t \<Rightarrow>
            if c = CHR '','' \<and> length t < n then map_option (\<lambda>(ms, u). ((key, w) # ms, u)) (parse_members t)
            else if c = CHR ''}'' then Some ([(key, w)], t) else None))"

lemma pair_rest:
  assumes v: "consumeUniqueValue (Suc depth) (dec tokenObjectValue (x # stk) s) = value_result (Suc depth) tokenObjectValue (x # stk) (parse_value s)"
    and members: "\<And>t. length t < n \<Longrightarrow>
      members_from (key # keys) depth (dec tokenObjectKey (x # stk) t) = members_result (key # keys) depth x stk (parse_members t)"
    and n: "length s < n" and key: "key \<notin> set keys"
  shows "Option.bind (consumeUniqueValue (Suc depth) (dec tokenObjectValue (x # stk) s)) (consumeUniqueObject (key # keys) depth)
    = members_result keys depth x stk (pair_result key n s)"
proof (cases "parse_value s")
  case None
  then show ?thesis by (simp add: v value_result_def members_result_def pair_result_def)
next
  case (Some p)
  obtain w r where p: "parse_value s = Some (w, r)" using Some by (cases p) auto
  show ?thesis
  proof (cases "doc_ok (Suc depth) w")
    case False
    then show ?thesis
      by (auto simp: v p value_result_Some members_result_def pair_result_def split: list.splits option.splits)
  next
    case True
    then have run: "consumeUniqueValue (Suc depth) (dec tokenObjectValue (x # stk) s) = Some (dec tokenObjectComma (x # stk) r)"
      by (simp add: v p value_result_Some)
    have r: "length r < length s" using consume_shorter(1) [OF run] by simp
    show ?thesis
    proof (cases "skip_space r")
      case Nil
      then show ?thesis
        unfolding run bind.bind_lunit
        by (subst consumeUniqueObject_eq) (simp add: Decoder_More_def end_of_loop p members_result_def pair_result_def)
    next
      case (Cons c t)
      have t: "length t < n" using skip_space_length [OF Cons] r n by simp
      show ?thesis
        unfolding run bind.bind_lunit object_loop_next [OF Cons]
        using members [OF t] True Cons key t
        by (auto simp: p members_result_def pair_result_def split: option.splits)
    qed
  qed
qed

lemma object_rest:
  assumes st: "st = tokenObjectStart \<or> st = tokenObjectKey"
    and v: "\<And>t. length t < length s \<Longrightarrow>
      consumeUniqueValue (Suc depth) (dec tokenObjectValue (x # stk) t) = value_result (Suc depth) tokenObjectValue (x # stk) (parse_value t)"
    and members: "\<And>t keys. length t < length s \<Longrightarrow>
      members_from keys depth (dec tokenObjectKey (x # stk) t) = members_result keys depth x stk (parse_members t)"
  shows "members_from keys depth (dec st (x # stk) s) = members_result keys depth x stk (parse_members s)"
proof (cases "skip_space s")
  case Nil
  then show ?thesis by (simp add: members_from_def Decoder_Token_def token_end members_result_def parse_members.simps [of s])
next
  case (Cons q r)
  show ?thesis
  proof (cases "q = CHR 0x22")
    case False
    then show ?thesis
      using token_key(2) [OF st Cons] Cons
      by (auto simp: members_from_def Decoder_Token_def members_result_def parse_members.simps [of s] split: token_result.split json_token.split)
  next
    case q: True
    show ?thesis
    proof (cases "scan_string r")
      case None
      then show ?thesis
        using token_key(1) [OF st Cons] Cons q
        by (simp add: members_from_def Decoder_Token_def members_result_def parse_members.simps [of s])
    next
      case (Some p)
      obtain body r1 where p: "scan_string r = Some (body, r1)" using Some by (cases p) auto
      have r1: "length r1 < length s" using scan_string_shorter [OF p] skip_space_length [OF Cons] by simp
      have from_key: "members_from keys depth (dec st (x # stk) s) = (if unquote body \<in> set keys then None
          else Option.bind (consumeUniqueValue (Suc depth) (dec tokenObjectColon (x # stk) r1)) (consumeUniqueObject (unquote body # keys) depth))"
        using token_key(1) [OF st Cons q] by (simp add: members_from_def Decoder_Token_def p)
      show ?thesis
      proof (cases "\<exists>r2. skip_space r1 = CHR '':'' # r2")
        case False
        then have "consumeUniqueValue (Suc depth) (dec tokenObjectColon (x # stk) r1) = None"
          using token_end token_stuck(3) by (cases "skip_space r1") (auto intro!: consume_stuck)
        moreover have "parse_members s = None"
          using False Cons q p by (auto simp: parse_members.simps [of s] split: list.split)
        ultimately show ?thesis by (simp add: from_key members_result_def)
      next
        case True
        then obtain r2 where r2: "skip_space r1 = CHR '':'' # r2" by blast
        have len: "length r2 < length s" using skip_space_length [OF r2] r1 by simp
        have parse: "parse_members s = pair_result (unquote body) (length s) r2"
          using Cons q p r2 len by (simp add: parse_members.simps [of s] pair_result_def)
        show ?thesis
        proof (cases "unquote body \<in> set keys")
          case True
          have "members_result keys depth x stk (pair_result (unquote body) (length s) r2) = None"
            using True by (auto simp: members_result_def pair_result_def split: option.splits list.splits if_splits)
          with True show ?thesis by (simp add: from_key parse)
        next
          case False
          with pair_rest [OF v [OF len] members len] show ?thesis by (simp add: from_key parse consume_after_separator(2) [OF r2])
        qed
      qed
    qed
  qed
qed

text \<open>By induction on the length of the text: an array or object continues with shorter text.\<close>

lemma stream_simulates:
  "(tokenValueAllowed st \<longrightarrow> consumeUniqueValue depth (dec st stk s) = value_result depth st stk (parse_value s))
   \<and> (st' = tokenArrayStart \<or> st' = tokenArrayValue \<longrightarrow>
      elements_from depth (dec st' (x # stk) s) = elements_result depth x stk (parse_elements s))
   \<and> (st'' = tokenObjectStart \<or> st'' = tokenObjectKey \<longrightarrow>
      members_from keys depth (dec st'' (x # stk) s) = members_result keys depth x stk (parse_members s))"
proof (induction "length s" arbitrary: s st st' st'' depth stk x keys rule: less_induct)
  case less
  have E: "elements_from depth (dec st (x # stk) t) = elements_result depth x stk (parse_elements t)"
    if "length t < length s" "st = tokenArrayStart \<or> st = tokenArrayValue" for t st x stk depth
    using less [OF that(1)] that(2) by blast
  have M: "members_from keys depth (dec st (x # stk) t) = members_result keys depth x stk (parse_members t)"
    if "length t < length s" "st = tokenObjectStart \<or> st = tokenObjectKey" for t st x stk depth keys
    using less [OF that(1)] that(2) by blast
  have shorter: "consumeUniqueValue depth (dec st stk t) = value_result depth st stk (parse_value t)"
    if "length t < length s" "tokenValueAllowed st" for t st stk depth
    using less [OF that(1)] that(2) by blast
  have V: "consumeUniqueValue depth (dec st stk s) = value_result depth st stk (parse_value s)" if st: "tokenValueAllowed st" for st depth stk
  proof (cases "skip_space s")
    case Nil
    then show ?thesis by (simp add: parse_value.simps [of s] value_result_def consume_stuck token_end)
  next
    case (Cons c r)
    consider "c = CHR ''[''" | "c = CHR ''{''" | "c \<noteq> CHR ''[''" "c \<noteq> CHR ''{''" by blast
    then show ?thesis
    proof cases
      case 1
      with Cons st E [OF skip_space_length [OF Cons]] show ?thesis by (intro consume_array) blast+
    next
      case 2
      with Cons st M [OF skip_space_length [OF Cons]] show ?thesis by (intro consume_object) blast+
    next
      case 3
      then show ?thesis using consume_scalar [OF Cons st] by (simp add: parse_value.simps [of s] Cons)
    qed
  qed
  have "elements_from depth (dec st' (x # stk) s) = elements_result depth x stk (parse_elements s)" if "st' = tokenArrayStart \<or> st' = tokenArrayValue"
    by (rule array_rest [OF V that E]) (use that in auto)
  moreover have "members_from keys depth (dec st'' (x # stk) s) = members_result keys depth x stk (parse_members s)"
    if "st'' = tokenObjectStart \<or> st'' = tokenObjectKey"
    by (rule object_rest [OF that shorter M]) auto
  ultimately show ?case using V by blast
qed

lemma top_end: "decoder_token tokenTopValue stk s = TEOF \<longleftrightarrow> skip_space s = []"
proof (cases "skip_space s")
  case (Cons c r)
  then show ?thesis
    by (simp add: decoder_token.simps [of tokenTopValue stk s] open_token_def close_token_def value_token_def split: option.split)
qed (simp add: token_end)

theorem Json_Valid_iff:
  "Json_Valid data maximumBytes \<longleftrightarrow>
    1 \<le> maximumBytes \<and> int (length data) \<le> maximumBytes \<and> utf8_ValidString data
    \<and> (\<exists>v. json_Unmarshal data = Some v \<and> nesting v \<le> maximumDepth \<and> unique_keys v \<and> numbers_in_range v)"
proof -
  have "consumeUniqueValue 0 (NewDecoder data) = value_result 0 tokenTopValue [] (parse_value data)"
    using stream_simulates [of tokenTopValue 0 "[]" data] by (simp add: NewDecoder_def)
  moreover have "data = [] \<Longrightarrow> parse_value data = None" by (simp add: parse_value.simps skip_space_def)
  ultimately show ?thesis
    unfolding Json_Valid_def json_Unmarshal_def
    by (auto simp: value_result_def doc_ok_def atEnd_def Decoder_Token_def top_end split: option.splits)
qed

section \<open>Objects (document.go)\<close>

text \<open>\<open>json.Unmarshal\<close> into a map of raw messages; a missing message is an error, \<open>null\<close> the empty map.\<close>

type_synonym json_object = "(string \<times> json) list"

fun raw_object :: "json option \<Rightarrow> json_object option" where
  "raw_object (Some (JObject ms)) = Some ms"
| "raw_object (Some JNull) = Some []"
| "raw_object _ = None"

fun raw_array :: "json option \<Rightarrow> json list option" where
  "raw_array (Some (JArray vs)) = Some vs"
| "raw_array (Some JNull) = Some []"
| "raw_array _ = None"

definition raw_field :: "json_object \<Rightarrow> string \<Rightarrow> json option" where
  "raw_field ms name = map_of (rev ms) name"

definition ExactObject :: "json option \<Rightarrow> string list \<Rightarrow> json_object option" where
  "ExactObject data names = (case raw_object data of
     None \<Rightarrow> None
   | Some ms \<Rightarrow>
       if card (fst ` set ms) = length names \<and> list_all (\<lambda>f. f \<in> fst ` set ms) names then Some ms else None)"

definition ObjectFields :: "json option \<Rightarrow> string list \<Rightarrow> string list \<Rightarrow> json_object option" where
  "ObjectFields data required optional = (case raw_object data of
     None \<Rightarrow> None
   | Some ms \<Rightarrow>
       if list_all (\<lambda>f. f \<in> fst ` set ms) required \<and> list_all (\<lambda>f. f \<in> set required \<or> f \<in> set optional) (map fst ms)
       then Some ms else None)"

definition isNull :: "json option \<Rightarrow> bool" where
  "isNull data = (data = Some JNull)"

section \<open>Typed decoding\<close>

text \<open>
  Reading a value into a Go type: \<open>null\<close> and a missing field leave the zero value, a pointer
  is optional, a value of another kind is an error. The field sets of the objects are closed by
  the shape checks that precede every decoding, so names are compared exactly.
\<close>

fun json_string :: "json option \<Rightarrow> string option" where
  "json_string (Some (JString s)) = Some s"
| "json_string None = Some []"
| "json_string (Some JNull) = Some []"
| "json_string _ = None"

fun json_bool :: "json option \<Rightarrow> bool option" where
  "json_bool (Some (JBool b)) = Some b"
| "json_bool None = Some False"
| "json_bool (Some JNull) = Some False"
| "json_bool _ = None"

fun json_int :: "json option \<Rightarrow> int option" where
  "json_int (Some (JNumber t)) = ParseInt t"
| "json_int None = Some 0"
| "json_int (Some JNull) = Some 0"
| "json_int _ = None"

fun json_float :: "json option \<Rightarrow> float64 option" where
  "json_float (Some (JNumber t)) = ParseFloat t"
| "json_float None = Some (Fin 0)"
| "json_float (Some JNull) = Some (Fin 0)"
| "json_float _ = None"

definition json_pointer :: "(json option \<Rightarrow> 'a option) \<Rightarrow> json option \<Rightarrow> 'a option option" where
  "json_pointer f data = (case data of None \<Rightarrow> Some None | Some v \<Rightarrow> if v = JNull then Some None else map_option Some (f data))"

definition json_slice :: "(json option \<Rightarrow> 'a option) \<Rightarrow> json option \<Rightarrow> 'a list option" where
  "json_slice f data = (case data of
     None \<Rightarrow> Some []
   | Some _ \<Rightarrow> Option.bind (raw_array data) (\<lambda>vs. those (map (\<lambda>v. f (Some v)) vs)))"

definition json_struct :: "((string \<Rightarrow> json option) \<Rightarrow> 'a option) \<Rightarrow> json option \<Rightarrow> 'a option" where
  "json_struct f data = (case data of
     None \<Rightarrow> f (\<lambda>_. None)
   | Some _ \<Rightarrow> Option.bind (raw_object data) (\<lambda>ms. f (raw_field ms)))"

end
