(* ===== verification/Raw_Documents.thy ===== *)
theory Raw_Documents
  imports Json_Documents Raw_Result
begin

text \<open>
  Package \<open>internal/rawresult\<close> (\<open>manifest.go\<close>), strict parsing of raw-result manifests, with the
  shapes and decoders of artifacts and producers that the other envelopes share. The shape is
  checked with exact names first, so decoding meets neither unknown nor case-folded names.
\<close>

section \<open>Shape\<close>

definition artifact_fields :: "string list" where
  "artifact_fields = [''id'', ''runId'', ''kind'', ''uri'', ''sha256'', ''sizeBytes'', ''mediaType'', ''format'']"

definition artifact_shape :: "json option \<Rightarrow> bool" where
  "artifact_shape data = (ExactObject data artifact_fields \<noteq> None)"

definition artifacts_shape :: "json option \<Rightarrow> bool" where
  "artifacts_shape data = (case raw_array data of None \<Rightarrow> False | Some as \<Rightarrow> list_all (\<lambda>a. artifact_shape (Some a)) as)"

text \<open>An artifact without the exact name \<open>kind\<close> is rejected below whatever its discriminator.\<close>

definition validProducerShape :: "json option \<Rightarrow> bool" where
  "validProducerShape data =
    (if ExactObject data [''name'', ''version'', ''image''] \<noteq> None then True
     else (case ExactObject data [''name'', ''version'', ''artifact''] of
        None \<Rightarrow> False
      | Some obj \<Rightarrow>
          let x = raw_field obj ''artifact''
          in (case raw_object x of
             None \<Rightarrow> False
           | Some ms \<Rightarrow>
               (case json_string (raw_field ms ''kind'') of
                  None \<Rightarrow> False
                | Some kind \<Rightarrow>
                    if kind = ''oci-image'' then ExactObject x [''kind'', ''image''] \<noteq> None
                    else if kind = ''source-checkout'' then
                      (case ExactObject x [''kind'', ''repository'', ''gitSha'', ''dependencyLock''] of
                         None \<Rightarrow> False
                       | Some src \<Rightarrow> ExactObject (raw_field src ''dependencyLock'') [''path'', ''sha256''] \<noteq> None)
                    else if kind = ''release-archive'' then
                      ExactObject x [''kind'', ''url'', ''archiveSha256'', ''executableSha256''] \<noteq> None
                    else False))))"

definition hasExactFields :: "json \<Rightarrow> bool" where
  "hasExactFields data =
    (case ExactObject (Some data) [''schemaVersion'', ''kind'', ''contractsVersion'', ''runId'', ''testId'', ''workload'',
       ''producer'', ''measurementWindow'', ''createdAt'', ''artifacts''] of
     None \<Rightarrow> False
   | Some obj \<Rightarrow>
       ExactObject (raw_field obj ''workload'') [''id'', ''version'', ''sha256''] \<noteq> None
       \<and> validProducerShape (raw_field obj ''producer'')
       \<and> ExactObject (raw_field obj ''measurementWindow'') [''start'', ''end''] \<noteq> None
       \<and> artifacts_shape (raw_field obj ''artifacts''))"

section \<open>Decoding\<close>

definition decode_artifact :: "json option \<Rightarrow> artifact option" where
  "decode_artifact = json_struct (\<lambda>f.
    Option.bind (json_string (f ''id'')) (\<lambda>i. Option.bind (json_string (f ''runId'')) (\<lambda>r.
    Option.bind (json_string (f ''kind'')) (\<lambda>k. Option.bind (json_string (f ''uri'')) (\<lambda>u.
    Option.bind (json_string (f ''sha256'')) (\<lambda>h. Option.bind (json_int (f ''sizeBytes'')) (\<lambda>n.
    Option.bind (json_string (f ''mediaType'')) (\<lambda>m. Option.bind (json_string (f ''format'')) (\<lambda>t.
      Some \<lparr>a_id = i, a_runID = r, a_kind = k, a_uri = u, a_sha256 = h, a_sizeBytes = n, a_mediaType = m, a_format = t\<rparr>)))))))))"

definition decode_dependency_lock :: "json option \<Rightarrow> dependency_lock option" where
  "decode_dependency_lock = json_struct (\<lambda>f.
    Option.bind (json_string (f ''path'')) (\<lambda>p. Option.bind (json_string (f ''sha256'')) (\<lambda>h.
      Some \<lparr>dl_path = p, dl_sha256 = h\<rparr>)))"

definition decode_execution_artifact :: "json option \<Rightarrow> execution_artifact option" where
  "decode_execution_artifact = json_struct (\<lambda>f.
    Option.bind (json_string (f ''kind'')) (\<lambda>k. Option.bind (json_string (f ''image'')) (\<lambda>i.
    Option.bind (json_string (f ''repository'')) (\<lambda>r. Option.bind (json_string (f ''gitSha'')) (\<lambda>g.
    Option.bind (json_pointer decode_dependency_lock (f ''dependencyLock'')) (\<lambda>l. Option.bind (json_string (f ''url'')) (\<lambda>u.
    Option.bind (json_string (f ''archiveSha256'')) (\<lambda>a. Option.bind (json_string (f ''executableSha256'')) (\<lambda>e.
      Some \<lparr>xa_kind = k, xa_image = i, xa_repository = r, xa_gitSHA = g, xa_dependencyLock = l, xa_url = u,
        xa_archiveSHA256 = a, xa_executableSHA256 = e\<rparr>)))))))))"

definition decode_producer :: "json option \<Rightarrow> producer option" where
  "decode_producer = json_struct (\<lambda>f.
    Option.bind (json_string (f ''name'')) (\<lambda>n. Option.bind (json_string (f ''version'')) (\<lambda>v.
    Option.bind (json_string (f ''image'')) (\<lambda>i. Option.bind (json_pointer decode_execution_artifact (f ''artifact'')) (\<lambda>a.
      Some \<lparr>pd_name = n, pd_version = v, pd_image = i, pd_artifact = a\<rparr>)))))"

definition decode_identity :: "json option \<Rightarrow> identity option" where
  "decode_identity = json_struct (\<lambda>f.
    Option.bind (json_string (f ''id'')) (\<lambda>i. Option.bind (json_string (f ''version'')) (\<lambda>v.
    Option.bind (json_string (f ''sha256'')) (\<lambda>h. Some \<lparr>id_id = i, id_version = v, id_sha256 = h\<rparr>))))"

definition decode_window :: "json option \<Rightarrow> (string \<times> string) option" where
  "decode_window = json_struct (\<lambda>f.
    Option.bind (json_string (f ''start'')) (\<lambda>s. Option.bind (json_string (f ''end'')) (\<lambda>e. Some (s, e))))"

definition decode_raw :: "json option \<Rightarrow> raw_manifest option" where
  "decode_raw = json_struct (\<lambda>f.
    Option.bind (json_int (f ''schemaVersion'')) (\<lambda>sv. Option.bind (json_string (f ''kind'')) (\<lambda>k.
    Option.bind (json_string (f ''contractsVersion'')) (\<lambda>cv. Option.bind (json_string (f ''runId'')) (\<lambda>ri.
    Option.bind (json_string (f ''testId'')) (\<lambda>ti. Option.bind (decode_identity (f ''workload'')) (\<lambda>w.
    Option.bind (decode_producer (f ''producer'')) (\<lambda>p. Option.bind (decode_window (f ''measurementWindow'')) (\<lambda>(s, e).
    Option.bind (json_string (f ''createdAt'')) (\<lambda>ca. Option.bind (json_slice decode_artifact (f ''artifacts'')) (\<lambda>as.
      Some \<lparr>rm_schemaVersion = sv, rm_kind = k, rm_contractsVersion = cv, rm_runID = ri, rm_testID = ti, rm_workload = w,
        rm_producer = p, rm_windowStart = s, rm_windowEnd = e, rm_createdAt = ca, rm_artifacts = as\<rparr>)))))))))))"

definition maximumRawBytes :: int where
  "maximumRawBytes = 2 ^ 20"

definition Raw_Parse :: "string \<Rightarrow> string \<Rightarrow> string \<Rightarrow> err + raw_manifest" where
  "Raw_Parse data expectedRunID expectedVersion =
    (if \<not> Json_Valid data maximumRawBytes \<or> \<not> ValidID expectedRunID \<or> \<not> rx_match version_pattern expectedVersion
     then Inl ErrValidation
     else (case json_Unmarshal data of
        None \<Rightarrow> Inl ErrValidation
      | Some doc \<Rightarrow>
          if \<not> hasExactFields doc then Inl ErrValidation
          else (case decode_raw (Some doc) of
             None \<Rightarrow> Inl ErrValidation
           | Some m \<Rightarrow> if RawManifest_Validate m expectedRunID expectedVersion then Inr m else Inl ErrValidation)))"

lemma Raw_Parse_valid: "Raw_Parse data i v = Inr m \<Longrightarrow> RawManifest_Validate m i v"
  by (auto simp: Raw_Parse_def split: if_splits option.splits)

end
