(* ===== verification/Analysis_Result.thy ===== *)
theory Analysis_Result
  imports Raw_Documents
begin

text \<open>
  Package \<open>internal/analysisresult\<close> (\<open>manifest.go\<close>): analysis reports with independent quality,
  SLO and regression outcomes per policy rule, their strict parsing and their consistency.
\<close>

section \<open>Reports\<close>

record report_policy =
  rp_id :: string
  rp_version :: string
  rp_sha256 :: string
  rp_mode :: string

record report_metric =
  mt_name :: string
  mt_statistic :: string
  mt_unit :: string

record quality_outcome =
  qo_status :: string
  qo_reasons :: "string list"
  qo_samples :: "int option"
  qo_cv :: "float64 option"

record slo_outcome =
  so_status :: string
  so_reasons :: "string list"
  so_value :: "float64 option"

record effect =
  ef_kind :: string
  ef_value :: float64

record comparison_method =
  cm_name :: string
  cm_version :: string

record regression_outcome =
  ro_status :: string
  ro_reasons :: "string list"
  ro_candidateValue :: "float64 option"
  ro_referenceValue :: "float64 option"
  ro_referenceArtifactID :: "string option"
  ro_effect :: "effect option"
  ro_method :: "comparison_method option"

record evaluation =
  ev_ruleID :: string
  ev_metric :: report_metric
  ev_quality :: quality_outcome
  ev_slo :: slo_outcome
  ev_regression :: regression_outcome

record analysis_manifest =
  am_schemaVersion :: int
  am_kind :: string
  am_contractsVersion :: string
  am_runID :: string
  am_testID :: string
  am_createdAt :: string
  am_producer :: producer
  am_policy :: report_policy
  am_candidate :: artifact
  am_references :: "artifact list"
  am_blocking :: bool
  am_evaluations :: "evaluation list"

section \<open>Validation\<close>

text \<open>\<open>^[a-z][a-z0-9_.]*$\<close>\<close>

definition metric_name_pattern :: rx where
  "metric_name_pattern = Seq (Cls is_lower) (Star (Cls (\<lambda>c. is_lower_alnum c \<or> c = CHR ''_'' \<or> c = CHR ''.'')))"

definition known_statistic :: "string \<Rightarrow> bool" where
  "known_statistic s = (s \<in> {''mean'', ''median'', ''p90'', ''p95'', ''p99'', ''min'', ''max''})"

definition ReportMetric_valid :: "report_metric \<Rightarrow> bool" where
  "ReportMetric_valid m =
    (rx_match metric_name_pattern (mt_name m) \<and> \<not> blank_text (mt_unit m) \<and> known_statistic (mt_statistic m))"

definition decisive :: "string \<Rightarrow> bool" where
  "decisive status = (status = ''PASS'' \<or> status = ''FAIL'')"

definition optional_finite :: "float64 option \<Rightarrow> bool" where
  "optional_finite v = (case v of None \<Rightarrow> True | Some f \<Rightarrow> float_finite f)"

definition validVerdict :: "string \<Rightarrow> string list \<Rightarrow> string list \<Rightarrow> bool" where
  "validVerdict status reasons allowed =
    (status \<in> set allowed \<and> (status = ''PASS'' \<or> reasons \<noteq> []) \<and> list_all (\<lambda>r. \<not> blank_text r) reasons \<and> distinct reasons)"

definition Quality_valid :: "quality_outcome \<Rightarrow> bool" where
  "Quality_valid q =
    (validVerdict (qo_status q) (qo_reasons q) [''PASS'', ''INVALID'', ''UNSTABLE'', ''INCONCLUSIVE'', ''NOT_EVALUATED'']
     \<and> optional_finite (qo_cv q)
     \<and> (case qo_samples q of None \<Rightarrow> True | Some n \<Rightarrow> 1 \<le> n)
     \<and> (case qo_cv q of None \<Rightarrow> True | Some cv \<Rightarrow> float_le (Fin 0) cv))"

definition SLO_valid :: "slo_outcome \<Rightarrow> bool" where
  "SLO_valid s =
    (validVerdict (so_status s) (so_reasons s) [''PASS'', ''FAIL'', ''INCONCLUSIVE'', ''NOT_EVALUATED'']
     \<and> optional_finite (so_value s) \<and> (decisive (so_status s) \<longrightarrow> so_value s \<noteq> None))"

definition RegressionOutcome_valid :: "regression_outcome \<Rightarrow> string list \<Rightarrow> bool" where
  "RegressionOutcome_valid r references =
    (validVerdict (ro_status r) (ro_reasons r) [''PASS'', ''FAIL'', ''INCONCLUSIVE'', ''NOT_EVALUATED'']
     \<and> optional_finite (ro_candidateValue r) \<and> optional_finite (ro_referenceValue r)
     \<and> (case ro_referenceArtifactID r of None \<Rightarrow> True | Some i \<Rightarrow> i \<in> set references)
     \<and> (case ro_effect r of None \<Rightarrow> True
        | Some e \<Rightarrow> (ef_kind e = ''relative'' \<or> ef_kind e = ''absolute'') \<and> float_finite (ef_value e))
     \<and> (case ro_method r of None \<Rightarrow> True
        | Some m \<Rightarrow> \<not> blank_text (cm_name m) \<and> rx_match version_pattern (cm_version m))
     \<and> (decisive (ro_status r) \<longrightarrow>
          ro_candidateValue r \<noteq> None \<and> ro_referenceValue r \<noteq> None \<and> ro_referenceArtifactID r \<noteq> None
          \<and> ro_effect r \<noteq> None \<and> ro_method r \<noteq> None))"

definition Evaluation_valid :: "evaluation \<Rightarrow> string list \<Rightarrow> bool" where
  "Evaluation_valid e references =
    (rx_match resource_id_pattern (ev_ruleID e) \<and> ReportMetric_valid (ev_metric e) \<and> Quality_valid (ev_quality e)
     \<and> SLO_valid (ev_slo e) \<and> RegressionOutcome_valid (ev_regression e) references
     \<and> (qo_status (ev_quality e) = ''PASS'' \<or> \<not> decisive (so_status (ev_slo e)) \<and> \<not> decisive (ro_status (ev_regression e))))"

definition ReportPolicy_valid :: "report_policy \<Rightarrow> bool" where
  "ReportPolicy_valid p =
    (Identity_valid \<lparr>id_id = rp_id p, id_version = rp_version p, id_sha256 = rp_sha256 p\<rparr>
     \<and> (rp_mode p = ''observe'' \<or> rp_mode p = ''inform''))"

definition validNormalizedReference :: "artifact \<Rightarrow> bool" where
  "validNormalizedReference a =
    (Artifact_Validate a = Inr () \<and> a_kind a = ''normalized'' \<and> a_mediaType a = ''application/json''
     \<and> a_format a = ''normalized-result/v1'')"

text \<open>The two loops of \<open>Validate\<close> with the keys they have seen.\<close>

fun references_ok :: "string \<Rightarrow> string list \<Rightarrow> string list \<Rightarrow> artifact list \<Rightarrow> bool" where
  "references_ok runID ids uris [] = True"
| "references_ok runID ids uris (a # as) =
    (validNormalizedReference a \<and> a_runID a \<noteq> runID \<and> a_id a \<notin> set ids \<and> a_uri a \<notin> set uris
     \<and> references_ok runID (a_id a # ids) (a_uri a # uris) as)"

fun evaluations_ok :: "string list \<Rightarrow> string list \<Rightarrow> report_metric list \<Rightarrow> evaluation list \<Rightarrow> bool" where
  "evaluations_ok references rules metrics [] = True"
| "evaluations_ok references rules metrics (e # es) =
    (Evaluation_valid e references \<and> ev_ruleID e \<notin> set rules \<and> ev_metric e \<notin> set metrics
     \<and> evaluations_ok references (ev_ruleID e # rules) (ev_metric e # metrics) es)"

definition AnalysisManifest_Validate :: "analysis_manifest \<Rightarrow> string \<Rightarrow> string \<Rightarrow> bool" where
  "AnalysisManifest_Validate m expectedRunID expectedVersion =
    (am_schemaVersion m = 1 \<and> am_kind m = ''AnalysisResult'' \<and> am_contractsVersion m = expectedVersion
     \<and> am_runID m = expectedRunID \<and> rx_match version_pattern (am_contractsVersion m)
     \<and> rx_match resource_id_pattern (am_testID m) \<and> ValidTimestamp (am_createdAt m) \<and> Producer_valid (am_producer m)
     \<and> \<not> am_blocking m \<and> ReportPolicy_valid (am_policy m) \<and> am_evaluations m \<noteq> []
     \<and> validNormalizedReference (am_candidate m) \<and> a_runID (am_candidate m) = am_runID m
     \<and> references_ok (am_runID m) [a_id (am_candidate m)] [a_uri (am_candidate m)] (am_references m)
     \<and> evaluations_ok (map a_id (am_references m)) [] [] (am_evaluations m))"

section \<open>Shape\<close>

definition decisiveFieldRequirements :: "json_object \<Rightarrow> bool" where
  "decisiveFieldRequirements outcome = (case json_string (raw_field outcome ''status'') of
     None \<Rightarrow> True
   | Some status \<Rightarrow>
       if raw_field outcome ''status'' = None \<or> \<not> decisive status then True
       else if raw_field outcome ''candidateValue'' \<noteq> None then
         list_all (\<lambda>name. raw_field outcome name \<noteq> None \<and> \<not> isNull (raw_field outcome name))
           [''candidateValue'', ''referenceValue'', ''referenceArtifactId'', ''effect'', ''method'']
       else raw_field outcome ''value'' \<noteq> None \<and> \<not> isNull (raw_field outcome ''value''))"

definition validOutcomeShape :: "json option \<Rightarrow> string list \<Rightarrow> bool \<Rightarrow> bool" where
  "validOutcomeShape data optional decisiveValue = (case ObjectFields data [''status'', ''reasons''] optional of
     None \<Rightarrow> False
   | Some outcome \<Rightarrow>
       \<not> isNull (raw_field outcome ''reasons'')
       \<and> (if decisiveValue then decisiveFieldRequirements outcome
          else list_all (\<lambda>name. \<not> isNull (raw_field outcome name)) optional))"

definition validRegressionShape :: "json option \<Rightarrow> bool" where
  "validRegressionShape data =
    (case ObjectFields data [''status'', ''reasons'']
       [''candidateValue'', ''referenceValue'', ''referenceArtifactId'', ''effect'', ''method''] of
     None \<Rightarrow> False
   | Some regression \<Rightarrow>
       \<not> isNull (raw_field regression ''reasons'')
       \<and> list_all (\<lambda>name. \<not> isNull (raw_field regression name)) [''referenceArtifactId'', ''effect'', ''method'']
       \<and> (raw_field regression ''effect'' = None \<or> ExactObject (raw_field regression ''effect'') [''kind'', ''value''] \<noteq> None)
       \<and> (raw_field regression ''method'' = None \<or> ExactObject (raw_field regression ''method'') [''name'', ''version''] \<noteq> None)
       \<and> decisiveFieldRequirements regression)"

definition validEvaluationShape :: "json option \<Rightarrow> bool" where
  "validEvaluationShape data = (case ExactObject data [''ruleId'', ''metric'', ''quality'', ''slo'', ''regression''] of
     None \<Rightarrow> False
   | Some e \<Rightarrow>
       ExactObject (raw_field e ''metric'') [''name'', ''statistic'', ''unit''] \<noteq> None
       \<and> validOutcomeShape (raw_field e ''quality'') [''samples'', ''cv''] False
       \<and> validOutcomeShape (raw_field e ''slo'') [''value''] True
       \<and> validRegressionShape (raw_field e ''regression''))"

definition validArtifactArrayShape :: "json option \<Rightarrow> bool" where
  "validArtifactArrayShape data =
    (\<not> isNull data \<and> (case raw_array data of None \<Rightarrow> False | Some as \<Rightarrow> list_all (\<lambda>a. artifact_shape (Some a)) as))"

definition analysis_shape :: "json \<Rightarrow> bool" where
  "analysis_shape data =
    (case ExactObject (Some data) [''schemaVersion'', ''kind'', ''contractsVersion'', ''runId'', ''testId'', ''createdAt'',
       ''producer'', ''policy'', ''candidateArtifact'', ''referenceArtifacts'', ''blocking'', ''evaluations''] of
     None \<Rightarrow> False
   | Some obj \<Rightarrow>
       ExactObject (raw_field obj ''producer'') [''name'', ''version'', ''image''] \<noteq> None
       \<and> ExactObject (raw_field obj ''policy'') [''id'', ''version'', ''sha256'', ''mode''] \<noteq> None
       \<and> artifact_shape (raw_field obj ''candidateArtifact'') \<and> validArtifactArrayShape (raw_field obj ''referenceArtifacts'')
       \<and> \<not> isNull (raw_field obj ''evaluations'')
       \<and> (case raw_array (raw_field obj ''evaluations'') of
            None \<Rightarrow> False | Some es \<Rightarrow> list_all (\<lambda>e. validEvaluationShape (Some e)) es))"

section \<open>Decoding\<close>

definition decode_report_policy :: "json option \<Rightarrow> report_policy option" where
  "decode_report_policy = json_struct (\<lambda>f.
    Option.bind (json_string (f ''id'')) (\<lambda>i. Option.bind (json_string (f ''version'')) (\<lambda>v.
    Option.bind (json_string (f ''sha256'')) (\<lambda>h. Option.bind (json_string (f ''mode'')) (\<lambda>m.
      Some \<lparr>rp_id = i, rp_version = v, rp_sha256 = h, rp_mode = m\<rparr>)))))"

definition decode_metric :: "json option \<Rightarrow> report_metric option" where
  "decode_metric = json_struct (\<lambda>f.
    Option.bind (json_string (f ''name'')) (\<lambda>n. Option.bind (json_string (f ''statistic'')) (\<lambda>s.
    Option.bind (json_string (f ''unit'')) (\<lambda>u. Some \<lparr>mt_name = n, mt_statistic = s, mt_unit = u\<rparr>))))"

definition decode_quality :: "json option \<Rightarrow> quality_outcome option" where
  "decode_quality = json_struct (\<lambda>f.
    Option.bind (json_string (f ''status'')) (\<lambda>s. Option.bind (json_slice json_string (f ''reasons'')) (\<lambda>rs.
    Option.bind (json_pointer json_int (f ''samples'')) (\<lambda>n. Option.bind (json_pointer json_float (f ''cv'')) (\<lambda>c.
      Some \<lparr>qo_status = s, qo_reasons = rs, qo_samples = n, qo_cv = c\<rparr>)))))"

definition decode_slo :: "json option \<Rightarrow> slo_outcome option" where
  "decode_slo = json_struct (\<lambda>f.
    Option.bind (json_string (f ''status'')) (\<lambda>s. Option.bind (json_slice json_string (f ''reasons'')) (\<lambda>rs.
    Option.bind (json_pointer json_float (f ''value'')) (\<lambda>v. Some \<lparr>so_status = s, so_reasons = rs, so_value = v\<rparr>))))"

definition decode_effect :: "json option \<Rightarrow> effect option" where
  "decode_effect = json_struct (\<lambda>f.
    Option.bind (json_string (f ''kind'')) (\<lambda>k. Option.bind (json_float (f ''value'')) (\<lambda>v.
      Some \<lparr>ef_kind = k, ef_value = v\<rparr>)))"

definition decode_method :: "json option \<Rightarrow> comparison_method option" where
  "decode_method = json_struct (\<lambda>f.
    Option.bind (json_string (f ''name'')) (\<lambda>n. Option.bind (json_string (f ''version'')) (\<lambda>v.
      Some \<lparr>cm_name = n, cm_version = v\<rparr>)))"

definition decode_regression :: "json option \<Rightarrow> regression_outcome option" where
  "decode_regression = json_struct (\<lambda>f.
    Option.bind (json_string (f ''status'')) (\<lambda>s. Option.bind (json_slice json_string (f ''reasons'')) (\<lambda>rs.
    Option.bind (json_pointer json_float (f ''candidateValue'')) (\<lambda>c. Option.bind (json_pointer json_float (f ''referenceValue'')) (\<lambda>r.
    Option.bind (json_pointer json_string (f ''referenceArtifactId'')) (\<lambda>i. Option.bind (json_pointer decode_effect (f ''effect'')) (\<lambda>e.
    Option.bind (json_pointer decode_method (f ''method'')) (\<lambda>m.
      Some \<lparr>ro_status = s, ro_reasons = rs, ro_candidateValue = c, ro_referenceValue = r, ro_referenceArtifactID = i,
        ro_effect = e, ro_method = m\<rparr>))))))))"

definition decode_evaluation :: "json option \<Rightarrow> evaluation option" where
  "decode_evaluation = json_struct (\<lambda>f.
    Option.bind (json_string (f ''ruleId'')) (\<lambda>i. Option.bind (decode_metric (f ''metric'')) (\<lambda>m.
    Option.bind (decode_quality (f ''quality'')) (\<lambda>q. Option.bind (decode_slo (f ''slo'')) (\<lambda>s.
    Option.bind (decode_regression (f ''regression'')) (\<lambda>r.
      Some \<lparr>ev_ruleID = i, ev_metric = m, ev_quality = q, ev_slo = s, ev_regression = r\<rparr>))))))"

definition decode_analysis :: "json option \<Rightarrow> analysis_manifest option" where
  "decode_analysis = json_struct (\<lambda>f.
    Option.bind (json_int (f ''schemaVersion'')) (\<lambda>sv. Option.bind (json_string (f ''kind'')) (\<lambda>k.
    Option.bind (json_string (f ''contractsVersion'')) (\<lambda>cv. Option.bind (json_string (f ''runId'')) (\<lambda>ri.
    Option.bind (json_string (f ''testId'')) (\<lambda>ti. Option.bind (json_string (f ''createdAt'')) (\<lambda>ca.
    Option.bind (decode_producer (f ''producer'')) (\<lambda>p. Option.bind (decode_report_policy (f ''policy'')) (\<lambda>po.
    Option.bind (decode_artifact (f ''candidateArtifact'')) (\<lambda>c. Option.bind (json_slice decode_artifact (f ''referenceArtifacts'')) (\<lambda>rs.
    Option.bind (json_bool (f ''blocking'')) (\<lambda>b. Option.bind (json_slice decode_evaluation (f ''evaluations'')) (\<lambda>es.
      Some \<lparr>am_schemaVersion = sv, am_kind = k, am_contractsVersion = cv, am_runID = ri, am_testID = ti, am_createdAt = ca,
        am_producer = p, am_policy = po, am_candidate = c, am_references = rs, am_blocking = b, am_evaluations = es\<rparr>)))))))))))))"

definition maximumReportBytes :: int where
  "maximumReportBytes = 16 * 2 ^ 20"

definition Analysis_Parse :: "string \<Rightarrow> string \<Rightarrow> string \<Rightarrow> err + analysis_manifest" where
  "Analysis_Parse data expectedRunID expectedVersion =
    (if \<not> Json_Valid data maximumReportBytes \<or> \<not> rx_match version_pattern expectedVersion then Inl ErrValidation
     else (case json_Unmarshal data of
        None \<Rightarrow> Inl ErrValidation
      | Some doc \<Rightarrow>
          if \<not> analysis_shape doc then Inl ErrValidation
          else (case decode_analysis (Some doc) of
             None \<Rightarrow> Inl ErrValidation
           | Some m \<Rightarrow> if AnalysisManifest_Validate m expectedRunID expectedVersion then Inr m else Inl ErrValidation)))"

section \<open>What a valid report guarantees\<close>

lemma evaluations_ok_iff:
  "evaluations_ok references rules metrics es \<longleftrightarrow>
    (\<forall>e\<in>set es. Evaluation_valid e references \<and> ev_ruleID e \<notin> set rules \<and> ev_metric e \<notin> set metrics)
    \<and> distinct (map ev_ruleID es) \<and> distinct (map ev_metric es)"
proof (induction es arbitrary: rules metrics)
  case (Cons e es)
  have img: "f e \<notin> f ` set es \<longleftrightarrow> (\<forall>x\<in>set es. f x \<noteq> f e)" for f :: "evaluation \<Rightarrow> 'a" by (metis image_iff)
  show ?case by (simp add: Cons.IH img) blast
qed simp

end
