(* ===== verification/Policy.thy ===== *)
theory Policy
  imports Analysis_Result
begin

text \<open>
  Package \<open>internal/policy\<close> (\<open>policy.go\<close>): versioned performance policies, their strict parsing
  and the approval of report verdicts. An approved report covers every rule with one evaluation
  whose SLO and regression verdicts follow from the reported values, in the arithmetic of Go.
\<close>

section \<open>Policies\<close>

record quality_requirement =
  qr_minSamples :: "int option"
  qr_maxCV :: "float64 option"

record slo_requirement =
  sr_min :: "float64 option"
  sr_max :: "float64 option"

record policy_reference =
  rf_baselineID :: string
  rf_version :: string

record regression =
  rg_direction :: string
  rg_kind :: string
  rg_value :: float64
  rg_reference :: policy_reference

record policy_rule =
  ru_id :: string
  ru_metric :: report_metric
  ru_quality :: "quality_requirement option"
  ru_slo :: "slo_requirement option"
  ru_regression :: "regression option"

record policy_document =
  pl_apiVersion :: string
  pl_kind :: string
  pl_name :: string
  pl_version :: string
  pl_owner :: string
  pl_mode :: string
  pl_missingData :: string
  pl_rules :: "policy_rule list"

record baseline_resolution =
  bs_id :: string
  bs_version :: string
  bs_artifact :: "artifact option"

definition QualityRequirement_valid :: "quality_requirement \<Rightarrow> bool" where
  "QualityRequirement_valid q =
    ((qr_minSamples q \<noteq> None \<or> qr_maxCV q \<noteq> None)
     \<and> (case qr_minSamples q of None \<Rightarrow> True | Some n \<Rightarrow> 1 \<le> n)
     \<and> (case qr_maxCV q of None \<Rightarrow> True | Some c \<Rightarrow> float_finite c \<and> float_le (Fin 0) c))"

definition SLORequirement_valid :: "slo_requirement \<Rightarrow> bool" where
  "SLORequirement_valid s =
    ((sr_min s \<noteq> None \<or> sr_max s \<noteq> None) \<and> optional_finite (sr_min s) \<and> optional_finite (sr_max s)
     \<and> (case (sr_min s, sr_max s) of (Some a, Some b) \<Rightarrow> float_le a b | _ \<Rightarrow> True))"

definition Regression_valid :: "regression \<Rightarrow> bool" where
  "Regression_valid r =
    ((rg_direction r = ''lower-is-better'' \<or> rg_direction r = ''higher-is-better'')
     \<and> (rg_kind r = ''relative'' \<or> rg_kind r = ''absolute'') \<and> float_finite (rg_value r) \<and> float_less (Fin 0) (rg_value r)
     \<and> rx_match resource_id_pattern (rf_baselineID (rg_reference r)) \<and> rx_match version_pattern (rf_version (rg_reference r)))"

definition PolicyMetric_valid :: "report_metric \<Rightarrow> bool" where
  "PolicyMetric_valid m =
    (rx_match metric_name_pattern (mt_name m) \<and> validText (mt_unit m) \<and> known_statistic (mt_statistic m))"

definition Rule_valid :: "policy_rule \<Rightarrow> bool" where
  "Rule_valid r =
    (rx_match resource_id_pattern (ru_id r) \<and> PolicyMetric_valid (ru_metric r) \<and> (ru_slo r \<noteq> None \<or> ru_regression r \<noteq> None)
     \<and> (case ru_quality r of None \<Rightarrow> True | Some q \<Rightarrow> QualityRequirement_valid q)
     \<and> (case ru_slo r of None \<Rightarrow> True | Some s \<Rightarrow> SLORequirement_valid s)
     \<and> (case ru_regression r of None \<Rightarrow> True | Some g \<Rightarrow> Regression_valid g))"

definition rule_selector :: "policy_rule \<Rightarrow> string \<times> string" where
  "rule_selector r = (mt_name (ru_metric r), mt_statistic (ru_metric r))"

fun rules_ok :: "string list \<Rightarrow> (string \<times> string) list \<Rightarrow> policy_rule list \<Rightarrow> bool" where
  "rules_ok ids selectors [] = True"
| "rules_ok ids selectors (r # rs) =
    (Rule_valid r \<and> ru_id r \<notin> set ids \<and> rule_selector r \<notin> set selectors
     \<and> rules_ok (ru_id r # ids) (rule_selector r # selectors) rs)"

definition Policy_Validate :: "policy_document \<Rightarrow> bool" where
  "Policy_Validate d =
    (pl_apiVersion d = ''performance.perfeng.io/v1'' \<and> pl_kind d = ''PerformancePolicy''
     \<and> rx_match resource_id_pattern (pl_name d) \<and> rx_match version_pattern (pl_version d) \<and> validText (pl_owner d)
     \<and> (pl_mode d = ''observe'' \<or> pl_mode d = ''inform'') \<and> pl_missingData d = ''inconclusive'' \<and> pl_rules d \<noteq> []
     \<and> rules_ok [] [] (pl_rules d))"

fun references_from :: "policy_reference list \<Rightarrow> policy_rule list \<Rightarrow> policy_reference list" where
  "references_from seen [] = []"
| "references_from seen (r # rs) = (case ru_regression r of
     None \<Rightarrow> references_from seen rs
   | Some g \<Rightarrow> if rg_reference g \<in> set seen then references_from seen rs
               else rg_reference g # references_from (rg_reference g # seen) rs)"

definition BaselineReferences :: "policy_document \<Rightarrow> policy_reference list" where
  "BaselineReferences d = references_from [] (pl_rules d)"

section \<open>Parsing\<close>

definition closed_nonnull :: "json option \<Rightarrow> string list \<Rightarrow> bool" where
  "closed_nonnull data optional = (case ObjectFields data [] optional of
     None \<Rightarrow> False
   | Some ms \<Rightarrow> ms \<noteq> [] \<and> list_all (\<lambda>(k, v). v \<noteq> JNull) ms)"

definition validRuleShape :: "json option \<Rightarrow> bool" where
  "validRuleShape data = (case ObjectFields data [''id'', ''metric''] [''quality'', ''slo'', ''regression''] of
     None \<Rightarrow> False
   | Some rule \<Rightarrow>
       ExactObject (raw_field rule ''metric'') [''name'', ''statistic'', ''unit''] \<noteq> None
       \<and> (raw_field rule ''quality'' = None \<or> closed_nonnull (raw_field rule ''quality'') [''minSamples'', ''maxCv''])
       \<and> (raw_field rule ''slo'' = None \<or> closed_nonnull (raw_field rule ''slo'') [''min'', ''max''])
       \<and> (raw_field rule ''regression'' = None \<or>
           (case ExactObject (raw_field rule ''regression'') [''direction'', ''practicalDifference'', ''reference''] of
              None \<Rightarrow> False
            | Some g \<Rightarrow>
                ExactObject (raw_field g ''practicalDifference'') [''kind'', ''value''] \<noteq> None
                \<and> ExactObject (raw_field g ''reference'') [''baselineId'', ''version''] \<noteq> None))
       \<and> (raw_field rule ''slo'' \<noteq> None \<or> raw_field rule ''regression'' \<noteq> None))"

definition policy_shape :: "json \<Rightarrow> bool" where
  "policy_shape data = (case ExactObject (Some data) [''apiVersion'', ''kind'', ''metadata'', ''spec''] of
     None \<Rightarrow> False
   | Some obj \<Rightarrow>
       ExactObject (raw_field obj ''metadata'') [''name'', ''version'', ''owner''] \<noteq> None
       \<and> (case ExactObject (raw_field obj ''spec'') [''mode'', ''missingData'', ''rules''] of
            None \<Rightarrow> False
          | Some spec \<Rightarrow>
              (case raw_array (raw_field spec ''rules'') of
                 None \<Rightarrow> False
               | Some rules \<Rightarrow> rules \<noteq> [] \<and> list_all (\<lambda>r. validRuleShape (Some r)) rules)))"

definition decode_quality_requirement :: "json option \<Rightarrow> quality_requirement option" where
  "decode_quality_requirement = json_struct (\<lambda>f.
    Option.bind (json_pointer json_int (f ''minSamples'')) (\<lambda>n. Option.bind (json_pointer json_float (f ''maxCv'')) (\<lambda>c.
      Some \<lparr>qr_minSamples = n, qr_maxCV = c\<rparr>)))"

definition decode_slo_requirement :: "json option \<Rightarrow> slo_requirement option" where
  "decode_slo_requirement = json_struct (\<lambda>f.
    Option.bind (json_pointer json_float (f ''min'')) (\<lambda>a. Option.bind (json_pointer json_float (f ''max'')) (\<lambda>b.
      Some \<lparr>sr_min = a, sr_max = b\<rparr>)))"

definition decode_reference :: "json option \<Rightarrow> policy_reference option" where
  "decode_reference = json_struct (\<lambda>f.
    Option.bind (json_string (f ''baselineId'')) (\<lambda>i. Option.bind (json_string (f ''version'')) (\<lambda>v.
      Some \<lparr>rf_baselineID = i, rf_version = v\<rparr>)))"

definition decode_policy_regression :: "json option \<Rightarrow> regression option" where
  "decode_policy_regression = json_struct (\<lambda>f.
    Option.bind (json_string (f ''direction'')) (\<lambda>d. Option.bind (decode_effect (f ''practicalDifference'')) (\<lambda>p.
    Option.bind (decode_reference (f ''reference'')) (\<lambda>r.
      Some \<lparr>rg_direction = d, rg_kind = ef_kind p, rg_value = ef_value p, rg_reference = r\<rparr>))))"

definition decode_rule :: "json option \<Rightarrow> policy_rule option" where
  "decode_rule = json_struct (\<lambda>f.
    Option.bind (json_string (f ''id'')) (\<lambda>i. Option.bind (decode_metric (f ''metric'')) (\<lambda>m.
    Option.bind (json_pointer decode_quality_requirement (f ''quality'')) (\<lambda>q.
    Option.bind (json_pointer decode_slo_requirement (f ''slo'')) (\<lambda>s.
    Option.bind (json_pointer decode_policy_regression (f ''regression'')) (\<lambda>g.
      Some \<lparr>ru_id = i, ru_metric = m, ru_quality = q, ru_slo = s, ru_regression = g\<rparr>))))))"

definition decode_policy :: "json option \<Rightarrow> policy_document option" where
  "decode_policy = json_struct (\<lambda>f.
    Option.bind (json_string (f ''apiVersion'')) (\<lambda>a. Option.bind (json_string (f ''kind'')) (\<lambda>k.
    Option.bind (json_struct (\<lambda>g. Option.bind (json_string (g ''name'')) (\<lambda>n. Option.bind (json_string (g ''version'')) (\<lambda>v.
      Option.bind (json_string (g ''owner'')) (\<lambda>w. Some (n, v, w))))) (f ''metadata'')) (\<lambda>(n, v, w).
    Option.bind (json_struct (\<lambda>g. Option.bind (json_string (g ''mode'')) (\<lambda>m. Option.bind (json_string (g ''missingData'')) (\<lambda>d.
      Option.bind (json_slice decode_rule (g ''rules'')) (\<lambda>rs. Some (m, d, rs))))) (f ''spec'')) (\<lambda>(m, d, rs).
      Some \<lparr>pl_apiVersion = a, pl_kind = k, pl_name = n, pl_version = v, pl_owner = w, pl_mode = m, pl_missingData = d,
        pl_rules = rs\<rparr>)))))"

definition maximumPolicyBytes :: int where
  "maximumPolicyBytes = 2 ^ 20"

definition Policy_Parse :: "string \<Rightarrow> err + policy_document" where
  "Policy_Parse data =
    (if \<not> Json_Valid data maximumPolicyBytes then Inl ErrValidation
     else (case json_Unmarshal data of
        None \<Rightarrow> Inl ErrValidation
      | Some doc \<Rightarrow>
          if \<not> policy_shape doc then Inl ErrValidation
          else (case decode_policy (Some doc) of
             None \<Rightarrow> Inl ErrValidation
           | Some d \<Rightarrow> if Policy_Validate d then Inr d else Inl ErrValidation)))"

section \<open>Verdicts\<close>

text \<open>\<open>1e-12\<close> and \<open>1e-9\<close> are converted to doubles.\<close>

definition float_close :: "float64 \<Rightarrow> float64 \<Rightarrow> bool" where
  "float_close left right =
    (let difference = float_abs (float_sub left right);
         tolerance = float_max (float_round (1 / 10 ^ 12)) (float_mul (float_round (1 / 10 ^ 9)) (float_max (float_abs left) (float_abs right)))
     in float_le difference tolerance)"

definition approvesQuality :: "policy_rule \<Rightarrow> quality_outcome \<Rightarrow> bool" where
  "approvesQuality rule q = (case ru_quality rule of
     None \<Rightarrow> True
   | Some rq \<Rightarrow>
       qo_status q \<noteq> ''PASS''
       \<or> (case qr_minSamples rq of None \<Rightarrow> True | Some n \<Rightarrow> (case qo_samples q of None \<Rightarrow> False | Some k \<Rightarrow> n \<le> k))
         \<and> (case qr_maxCV rq of None \<Rightarrow> True | Some c \<Rightarrow> (case qo_cv q of None \<Rightarrow> False | Some v \<Rightarrow> float_le v c)))"

definition slo_passes :: "slo_requirement \<Rightarrow> float64 \<Rightarrow> bool" where
  "slo_passes s v =
    ((case sr_min s of None \<Rightarrow> True | Some a \<Rightarrow> float_le a v) \<and> (case sr_max s of None \<Rightarrow> True | Some b \<Rightarrow> float_le v b))"

definition SLO_approves :: "slo_requirement \<Rightarrow> slo_outcome \<Rightarrow> bool" where
  "SLO_approves s outcome =
    (if so_status outcome \<noteq> ''PASS'' \<and> so_status outcome \<noteq> ''FAIL'' then True
     else (case so_value outcome of
        None \<Rightarrow> False
      | Some v \<Rightarrow> (so_status outcome = ''PASS'') = slo_passes s v))"

text \<open>The change of the source in its rounded arithmetic; a relative one needs a reference other than zero.\<close>

definition regression_change :: "regression \<Rightarrow> float64 \<Rightarrow> float64 \<Rightarrow> float64 option" where
  "regression_change g candidate ref =
    (let change = float_sub candidate ref;
         change = (if rg_direction g = ''higher-is-better'' then float_neg change else change)
     in if rg_kind g = ''relative'' then (if ref = Fin 0 then None else Some (float_div change (float_abs ref)))
        else Some change)"

definition Regression_approves :: "regression \<Rightarrow> regression_outcome \<Rightarrow> artifact option \<Rightarrow> bool" where
  "Regression_approves g outcome approved =
    (if (case ro_referenceArtifactID outcome of None \<Rightarrow> False
         | Some i \<Rightarrow> (case approved of None \<Rightarrow> True | Some a \<Rightarrow> i \<noteq> a_id a)) then False
     else if ro_status outcome \<noteq> ''PASS'' \<and> ro_status outcome \<noteq> ''FAIL'' then ro_status outcome = ''INCONCLUSIVE''
     else if approved = None \<or> ro_referenceArtifactID outcome = None then False
     else (case (ro_candidateValue outcome, ro_referenceValue outcome, ro_effect outcome) of
        (Some candidate, Some ref, Some e) \<Rightarrow>
          if ef_kind e \<noteq> rg_kind g then False
          else (case regression_change g candidate ref of
             None \<Rightarrow> False
           | Some change \<Rightarrow>
               float_finite change \<and> float_close change (ef_value e)
               \<and> (ro_status outcome = ''FAIL'') = float_le (rg_value g) change)
      | _ \<Rightarrow> False))"

definition Rule_approves :: "policy_rule \<Rightarrow> evaluation \<Rightarrow> artifact option \<Rightarrow> bool" where
  "Rule_approves rule e approved =
    (mt_name (ev_metric e) = mt_name (ru_metric rule) \<and> mt_statistic (ev_metric e) = mt_statistic (ru_metric rule)
     \<and> mt_unit (ev_metric e) = mt_unit (ru_metric rule) \<and> approvesQuality rule (ev_quality e)
     \<and> (case ru_slo rule of
          None \<Rightarrow> so_status (ev_slo e) = ''NOT_EVALUATED''
        | Some s \<Rightarrow> so_status (ev_slo e) \<noteq> ''NOT_EVALUATED'' \<and> SLO_approves s (ev_slo e))
     \<and> (case ru_regression rule of
          None \<Rightarrow> ro_status (ev_regression e) = ''NOT_EVALUATED''
        | Some g \<Rightarrow> ro_status (ev_regression e) \<noteq> ''NOT_EVALUATED'' \<and> Regression_approves g (ev_regression e) approved))"

fun resolve_baselines :: "policy_reference list \<Rightarrow> (policy_reference \<times> artifact option) list \<Rightarrow> baseline_resolution list
    \<Rightarrow> (policy_reference list \<times> (policy_reference \<times> artifact option) list) option" where
  "resolve_baselines wanted resolved [] = Some (wanted, resolved)"
| "resolve_baselines wanted resolved (b # bs) =
    (let r = \<lparr>rf_baselineID = bs_id b, rf_version = bs_version b\<rparr>
     in if r \<in> fst ` set resolved \<or> r \<notin> set wanted then None
        else if (case bs_artifact b of None \<Rightarrow> False | Some a \<Rightarrow> \<not> validNormalizedReference a) then None
        else resolve_baselines (removeAll r wanted) ((r, bs_artifact b) # resolved) bs)"

definition resolvedBaselines :: "policy_document \<Rightarrow> baseline_resolution list \<Rightarrow> (policy_reference \<times> artifact option) list option" where
  "resolvedBaselines d resolutions =
    (if length resolutions \<noteq> length (BaselineReferences d) then None
     else (case resolve_baselines (BaselineReferences d) [] resolutions of
        Some ([], resolved) \<Rightarrow> Some resolved
      | _ \<Rightarrow> None))"

definition ApproveReportVerdicts :: "err + unit \<Rightarrow> string \<Rightarrow> baseline_resolution list \<Rightarrow> analysis_manifest \<Rightarrow> err + unit" where
  "ApproveReportVerdicts ctx policyBytes baselines m =
    (case ctx of Inl e \<Rightarrow> Inl e | Inr _ \<Rightarrow>
     (case Policy_Parse policyBytes of Inl e \<Rightarrow> Inl e | Inr d \<Rightarrow>
        if \<not> AnalysisManifest_Validate m (am_runID m) (am_contractsVersion m)
           \<or> rp_id (am_policy m) \<noteq> pl_name d \<or> rp_version (am_policy m) \<noteq> pl_version d
           \<or> rp_sha256 (am_policy m) \<noteq> sha256_hex policyBytes \<or> rp_mode (am_policy m) \<noteq> pl_mode d
        then Inl ErrValidation
        else (case resolvedBaselines d baselines of
           None \<Rightarrow> Inl ErrValidation
         | Some resolved \<Rightarrow>
             let evaluations = map_of (rev (map (\<lambda>e. (ev_ruleID e, e)) (am_evaluations m)))
             in if card (ev_ruleID ` set (am_evaluations m)) \<noteq> length (pl_rules d) then Inl ErrValidation
                else check (list_all (\<lambda>rule.
                  (case evaluations (ru_id rule) of
                     None \<Rightarrow> False
                   | Some e \<Rightarrow> Rule_approves rule e
                       (case ru_regression rule of None \<Rightarrow> None | Some g \<Rightarrow> Option.bind (map_of resolved (rg_reference g)) id))) (pl_rules d)))))"

end
