(* ===== verification/Policy_Safety.thy ===== *)
theory Policy_Safety
  imports Policy "HOL-Library.Multiset"
begin

text \<open>
  What an approved report says: the rules of the policy and the evaluations of the report
  correspond one to one, and decisive verdicts follow from the reported values. Rounding never
  hides a regression: with an absolute practical difference an approved \<open>PASS\<close> means that the
  exact degradation is below the limit.
\<close>

section \<open>Rounding\<close>

lemma float_round_minus: "float_round (- x) = float_neg (float_round x)"
  by (auto simp: float_round_def Let_def round_abs_def)

lemma ulp_exponent_ge: "- 1074 \<le> ulp_exponent x"
  by (simp add: ulp_exponent_def)

lemma round_even_le: "x \<le> of_int n \<Longrightarrow> round_even x \<le> n"
  using round_even_mono [of x "of_int n"] by simp

lemma significand_bound:
  assumes "0 < x"
  shows "round_even (x / 2 powi ulp_exponent x) \<le> 2 ^ 53"
proof -
  have "x < 2 powi (rat_exponent x + 1)" by (rule rat_exponent_bounds(2) [OF assms])
  also have "\<dots> \<le> 2 powi (53 + ulp_exponent x)" by (rule power_int_increasing) (auto simp: ulp_exponent_def)
  finally have "x / 2 powi ulp_exponent x < 2 ^ 53" by (simp add: power_int_add pos_divide_less_eq)
  then show ?thesis by (intro round_even_le) simp
qed

lemma is_double_zero: "is_double 0"
proof -
  have "\<bar>0::int\<bar> < 2 ^ 53 \<and> - 1074 \<le> (0::int) \<and> (0::rat) = of_int 0 * 2 powi 0" by simp
  then show ?thesis unfolding is_double_def by (metis abs_zero zero_less_numeral zero_less_power)
qed

lemma round_abs_is_double:
  assumes "0 \<le> x" "round_abs x < 2 ^ 1024"
  shows "is_double (round_abs x)"
proof (cases "x = 0")
  case True
  then show ?thesis by (simp add: round_abs_def is_double_zero)
next
  case False
  then have x: "0 < x" using assms(1) by simp
  define m where "m = round_even (x / 2 powi ulp_exponent x)"
  have r: "round_abs x = of_int m * 2 powi ulp_exponent x" using False by (simp add: round_abs_def m_def)
  have m0: "0 \<le> m" using round_even_mono [of 0 "x / 2 powi ulp_exponent x"] x round_even_int [of 0] by (simp add: m_def)
  have "\<bar>round_abs x\<bar> < 2 ^ 1024" using assms round_abs_nonneg [of x] by simp
  moreover have "\<exists>n e. \<bar>n\<bar> < 2 ^ 53 \<and> - 1074 \<le> e \<and> round_abs x = of_int n * 2 powi e"
  proof (cases "m = 2 ^ 53")
    case True
    have "round_abs x = of_int (2 ^ 52) * 2 powi (ulp_exponent x + 1)" unfolding r True by (simp add: power_int_add)
    moreover have "- 1074 \<le> ulp_exponent x + 1" "\<bar>2 ^ 52 :: int\<bar> < 2 ^ 53" using ulp_exponent_ge [of x] by simp_all
    ultimately show ?thesis by blast
  next
    case False
    then have "\<bar>m\<bar> < 2 ^ 53" using significand_bound [OF x] m0 by (simp add: m_def)
    then show ?thesis using r ulp_exponent_ge by blast
  qed
  ultimately show ?thesis unfolding is_double_def by blast
qed

lemma float_round_is_double: "float_round x = Fin y \<Longrightarrow> is_double y"
  using round_abs_is_double [of "\<bar>x\<bar>"] is_double_minus by (auto simp: float_round_def Let_def split: if_splits)

lemma ParseFloat_double:
  assumes "ParseFloat t = Some f"
  obtains v where "f = Fin v" "is_double v"
proof -
  obtain n where n: "(case float_round (number_value n) of Fin r \<Rightarrow> Some (Fin r) | _ \<Rightarrow> None) = Some f"
    using assms by (auto simp: ParseFloat_def split: option.splits prod.splits list.splits)
  then show ?thesis using that float_round_is_double by (cases "float_round (number_value n)") auto
qed

section \<open>Regression verdicts\<close>

text \<open>The exact change for the worse.\<close>

definition degradation :: "regression \<Rightarrow> rat \<Rightarrow> rat \<Rightarrow> rat" where
  "degradation g candidate ref = (if rg_direction g = ''higher-is-better'' then ref - candidate else candidate - ref)"

lemma change_rounds_degradation:
  "(if rg_direction g = ''higher-is-better'' then float_neg (float_sub (Fin c) (Fin r)) else float_sub (Fin c) (Fin r))
    = float_round (degradation g c r)"
  using float_round_minus [of "c - r"] by (simp add: degradation_def float_sub_def)

lemma regression_change_Fin:
  "regression_change g (Fin c) (Fin r) =
    (if rg_kind g = ''relative'' then (if r = 0 then None else Some (float_div (float_round (degradation g c r)) (Fin \<bar>r\<bar>)))
     else Some (float_round (degradation g c r)))"
  by (simp add: regression_change_def Let_def change_rounds_degradation)

lemma below_double:
  assumes "is_double v" "0 \<le> v" "float_round x = Fin y" "\<not> v \<le> y"
  shows "x < v"
  using float_round_ge [OF assms(1,2) _ assms(3)] assms(4) by (meson not_le)

lemma pass_below_limit:
  assumes "Regression_approves g outcome approved" "ro_status outcome = ''PASS''"
    and "ro_candidateValue outcome = Some (Fin c)" "ro_referenceValue outcome = Some (Fin r)"
    and "rg_value g = Fin v" "is_double v" "0 < v"
  shows "rg_kind g \<noteq> ''relative'' \<Longrightarrow> degradation g c r < v"
    and "rg_kind g = ''relative'' \<Longrightarrow> \<exists>y. float_round (degradation g c r) = Fin y \<and> y / \<bar>r\<bar> < v"
proof -
  obtain ch where ch: "regression_change g (Fin c) (Fin r) = Some ch" "float_finite ch" "\<not> float_le (Fin v) ch"
    using assms(1-5) by (auto simp: Regression_approves_def split: option.splits if_splits)
  obtain q where q: "ch = Fin q" using ch(2) by (cases ch) auto
  show "degradation g c r < v" if "rg_kind g \<noteq> ''relative''"
    using ch q that below_double [OF assms(6)] assms(7) by (auto simp: regression_change_Fin)
  show "\<exists>y. float_round (degradation g c r) = Fin y \<and> y / \<bar>r\<bar> < v" if rel: "rg_kind g = ''relative''"
  proof -
    have d: "r \<noteq> 0" "float_div (float_round (degradation g c r)) (Fin \<bar>r\<bar>) = Fin q"
      using ch(1) q rel by (auto simp: regression_change_Fin split: if_splits)
    obtain y where y: "float_round (degradation g c r) = Fin y"
      using d by (cases "float_round (degradation g c r)") (auto simp: infinity_of_def split: if_splits)
    have "float_round (y / \<bar>r\<bar>) = Fin q" using d y by simp
    then have "y / \<bar>r\<bar> < v" using ch(3) q below_double [OF assms(6)] assms(7) by auto
    with y show ?thesis by blast
  qed
qed

section \<open>What parsing guarantees\<close>

lemma rules_ok_iff:
  "rules_ok ids selectors rs \<longleftrightarrow>
    (\<forall>r\<in>set rs. Rule_valid r \<and> ru_id r \<notin> set ids \<and> rule_selector r \<notin> set selectors)
    \<and> distinct (map ru_id rs) \<and> distinct (map rule_selector rs)"
proof (induction rs arbitrary: ids selectors)
  case (Cons e es)
  have img: "f e \<notin> f ` set es \<longleftrightarrow> (\<forall>x\<in>set es. f x \<noteq> f e)" for f :: "policy_rule \<Rightarrow> 'a" by (metis image_iff)
  show ?case by (simp add: Cons.IH img) blast
qed simp

lemma Policy_Parse_valid: "Policy_Parse data = Inr d \<Longrightarrow> Policy_Validate d"
  by (auto simp: Policy_Parse_def split: if_splits option.splits)

lemma Policy_Parse_decoded:
  assumes "Policy_Parse data = Inr d"
  obtains doc where "decode_policy (Some doc) = Some d"
  using assms by (auto simp: Policy_Parse_def split: if_splits option.splits)

lemma json_float_double: "json_float j = Some f \<Longrightarrow> \<exists>v. f = Fin v \<and> is_double v"
proof (induction j rule: json_float.induct)
  case (1 t)
  then show ?case by (auto elim: ParseFloat_double)
qed (auto simp: is_double_zero)

lemma json_structE:
  assumes "json_struct f j = Some x"
  obtains g where "f g = Some x"
  using assms by (auto simp: json_struct_def bind_eq_Some_conv split: option.splits)

lemma those_SomeE: "those xs = Some ys \<Longrightarrow> y \<in> set ys \<Longrightarrow> Some y \<in> set xs"
  by (induction xs arbitrary: ys) (auto split: option.splits)

lemma json_slice_mem:
  assumes "json_slice f j = Some xs" "x \<in> set xs"
  shows "\<exists>v. f (Some v) = Some x"
proof (cases j)
  case None
  with assms show ?thesis by (simp add: json_slice_def)
next
  case (Some j')
  then obtain vs where "those (map (\<lambda>v. f (Some v)) vs) = Some xs" using assms(1) by (auto simp: json_slice_def bind_eq_Some_conv)
  from those_SomeE [OF this assms(2)] show ?thesis by (metis imageE list.set_map)
qed

lemma json_pointerD: "json_pointer f j = Some (Some x) \<Longrightarrow> f j = Some x"
  by (auto simp: json_pointer_def split: option.splits if_splits)

lemma decoded_limit:
  assumes "decode_policy_regression j = Some g"
  shows "\<exists>v. rg_value g = Fin v \<and> is_double v"
proof -
  obtain h p where "decode_effect h = Some p" "rg_value g = ef_value p"
    using assms unfolding decode_policy_regression_def by (elim json_structE) (auto simp: bind_eq_Some_conv)
  then obtain h' where "json_float h' = Some (rg_value g)"
    unfolding decode_effect_def by (elim json_structE) (auto simp: bind_eq_Some_conv)
  then show ?thesis by (rule json_float_double)
qed

lemma decoded_rule_limit:
  assumes "decode_rule j = Some r" "ru_regression r = Some g"
  shows "\<exists>v. rg_value g = Fin v \<and> is_double v"
proof -
  obtain h where "json_pointer decode_policy_regression h = Some (Some g)"
    using assms unfolding decode_rule_def by (elim json_structE) (auto simp: bind_eq_Some_conv)
  then show ?thesis by (rule decoded_limit [OF json_pointerD])
qed

lemma decoded_rules:
  assumes "decode_policy j = Some d" "r \<in> set (pl_rules d)"
  shows "\<exists>v. decode_rule (Some v) = Some r"
proof -
  obtain h where "json_slice decode_rule h = Some (pl_rules d)"
    using assms unfolding decode_policy_def by (elim json_structE) (auto simp: bind_eq_Some_conv elim!: json_structE)
  then show ?thesis using assms(2) by (rule json_slice_mem)
qed

text \<open>A parsed policy has positive limits that are doubles.\<close>

lemma parsed_limit:
  assumes "Policy_Parse data = Inr d" "r \<in> set (pl_rules d)" "ru_regression r = Some g"
  obtains v where "rg_value g = Fin v" "is_double v" "0 < v"
proof -
  obtain doc where "decode_policy (Some doc) = Some d" by (rule Policy_Parse_decoded [OF assms(1)])
  then obtain j where "decode_rule (Some j) = Some r" using decoded_rules assms(2) by blast
  then obtain v where v: "rg_value g = Fin v" "is_double v" using decoded_rule_limit assms(3) by blast
  have "Regression_valid g"
    using Policy_Parse_valid [OF assms(1)] assms(2,3) by (auto simp: Policy_Validate_def rules_ok_iff Rule_valid_def)
  then have "0 < v" using v(1) by (simp add: Regression_valid_def float_less_def)
  with v that show ?thesis by blast
qed

section \<open>Approved reports\<close>

lemma resolve_baselines_mem:
  assumes "resolve_baselines wanted resolved bs = Some (w, out)" "(r, Some a) \<in> set out"
  shows "(r, Some a) \<in> set resolved \<or>
    (\<exists>b\<in>set bs. r = \<lparr>rf_baselineID = bs_id b, rf_version = bs_version b\<rparr> \<and> bs_artifact b = Some a \<and> validNormalizedReference a)"
  using assms
proof (induction wanted resolved bs rule: resolve_baselines.induct)
  case (2 wanted resolved b bs)
  define r' where "r' = \<lparr>rf_baselineID = bs_id b, rf_version = bs_version b\<rparr>"
  have step: "resolve_baselines (removeAll r' wanted) ((r', bs_artifact b) # resolved) bs = Some (w, out)"
    and guards: "\<not> (r' \<in> fst ` set resolved \<or> r' \<notin> set wanted)"
      "\<not> (case bs_artifact b of None \<Rightarrow> False | Some a \<Rightarrow> \<not> validNormalizedReference a)"
    using "2.prems"(1) by (auto simp: r'_def Let_def split: if_splits)
  have "(r, Some a) \<in> set ((r', bs_artifact b) # resolved) \<or>
    (\<exists>b\<in>set bs. r = \<lparr>rf_baselineID = bs_id b, rf_version = bs_version b\<rparr> \<and> bs_artifact b = Some a \<and> validNormalizedReference a)"
    by (rule "2.IH" [OF r'_def guards step "2.prems"(2)])
  then show ?case using guards(2) by (auto simp: r'_def split: option.splits)
qed simp

lemma resolvedBaselines_approved:
  assumes "resolvedBaselines d baselines = Some resolved" "Option.bind (map_of resolved r) id = Some a"
  obtains b where "b \<in> set baselines" "r = \<lparr>rf_baselineID = bs_id b, rf_version = bs_version b\<rparr>" "bs_artifact b = Some a"
    "validNormalizedReference a"
proof -
  obtain w where "resolve_baselines (BaselineReferences d) [] baselines = Some (w, resolved)"
    using assms(1) by (auto simp: resolvedBaselines_def split: if_splits option.splits prod.splits list.splits)
  moreover have "(r, Some a) \<in> set resolved" using assms(2) by (auto simp: bind_eq_Some_conv dest: map_of_SomeD)
  ultimately show ?thesis using resolve_baselines_mem [of _ "[]"] that by fastforce
qed

text \<open>
  What a decisive regression verdict means: it compares finite values with the approved artifact of
  the pinned baseline, and it fails exactly when the rounded change reaches the limit. A pass bounds
  the exact degradation in absolute terms, and the rounded one relative to the reference.
\<close>

definition regression_sound :: "regression \<Rightarrow> baseline_resolution list \<Rightarrow> regression_outcome \<Rightarrow> bool" where
  "regression_sound g baselines outcome \<longleftrightarrow>
    (\<exists>b a c r v q. b \<in> set baselines \<and> rg_reference g = \<lparr>rf_baselineID = bs_id b, rf_version = bs_version b\<rparr>
      \<and> bs_artifact b = Some a \<and> validNormalizedReference a \<and> ro_referenceArtifactID outcome = Some (a_id a)
      \<and> ro_candidateValue outcome = Some (Fin c) \<and> ro_referenceValue outcome = Some (Fin r) \<and> rg_value g = Fin v \<and> 0 < v
      \<and> regression_change g (Fin c) (Fin r) = Some (Fin q) \<and> (ro_status outcome = ''FAIL'' \<longleftrightarrow> v \<le> q)
      \<and> (ro_status outcome = ''PASS'' \<and> rg_kind g = ''absolute'' \<longrightarrow> degradation g c r < v)
      \<and> (ro_status outcome = ''PASS'' \<and> rg_kind g = ''relative'' \<longrightarrow>
          r \<noteq> 0 \<and> (\<exists>y. float_round (degradation g c r) = Fin y \<and> y / \<bar>r\<bar> < v)))"

lemma float_le_Fin: "float_le (Fin a) (Fin b) \<longleftrightarrow> a \<le> b"
  by simp

lemma regression_approved_sound:
  assumes ok: "Regression_approves g outcome approved" and dec: "decisive (ro_status outcome)"
    and fin: "optional_finite (ro_candidateValue outcome)" "optional_finite (ro_referenceValue outcome)"
    and b: "\<And>a. approved = Some a \<Longrightarrow> \<exists>b\<in>set baselines. rg_reference g = \<lparr>rf_baselineID = bs_id b, rf_version = bs_version b\<rparr>
      \<and> bs_artifact b = Some a \<and> validNormalizedReference a"
    and v: "rg_value g = Fin v" "is_double v" "0 < v"
  shows "regression_sound g baselines outcome"
proof -
  have status: "\<not> (ro_status outcome \<noteq> ''PASS'' \<and> ro_status outcome \<noteq> ''FAIL'')" using dec by (auto simp: decisive_def)
  obtain a candidate ref ch where a: "approved = Some a" "ro_referenceArtifactID outcome = Some (a_id a)"
    and vals: "ro_candidateValue outcome = Some candidate" "ro_referenceValue outcome = Some ref"
    and ch: "regression_change g candidate ref = Some ch" "float_finite ch"
      "(ro_status outcome = ''FAIL'') = float_le (rg_value g) ch"
    using ok unfolding Regression_approves_def if_not_P [OF status]
    by (auto split: option.splits if_splits)
  obtain c r where cr: "candidate = Fin c" "ref = Fin r"
    using fin vals by (cases candidate; cases ref) (auto simp: optional_finite_def)
  obtain q where q: "ch = Fin q" using ch(2) by (cases ch) auto
  obtain b where b: "b \<in> set baselines" "rg_reference g = \<lparr>rf_baselineID = bs_id b, rf_version = bs_version b\<rparr>"
    "bs_artifact b = Some a" "validNormalizedReference a" using assms(5) a(1) by blast
  have change: "regression_change g (Fin c) (Fin r) = Some (Fin q)" using ch(1) cr q by simp
  have nz: "rg_kind g = ''relative'' \<Longrightarrow> r \<noteq> 0" using change by (auto simp: regression_change_Fin split: if_splits)
  have fails: "ro_status outcome = ''FAIL'' \<longleftrightarrow> v \<le> q" using ch(3) q v(1) by simp
  note pass = pass_below_limit [OF ok _ vals(1) [unfolded cr] vals(2) [unfolded cr] v]
  have absolute: "ro_status outcome = ''PASS'' \<and> rg_kind g = ''absolute'' \<longrightarrow> degradation g c r < v"
    using pass(1) by fastforce
  have relative: "ro_status outcome = ''PASS'' \<and> rg_kind g = ''relative'' \<longrightarrow>
      r \<noteq> 0 \<and> (\<exists>y. float_round (degradation g c r) = Fin y \<and> y / \<bar>r\<bar> < v)"
    using pass(2) nz by blast
  from b a(2) vals [unfolded cr] v(1,3) change fails absolute relative show ?thesis unfolding regression_sound_def by blast
qed

abbreviation approved_reference :: "(policy_reference \<times> artifact option) list \<Rightarrow> policy_rule \<Rightarrow> artifact option" where
  "approved_reference resolved rule \<equiv>
    (case ru_regression rule of None \<Rightarrow> None | Some g \<Rightarrow> Option.bind (map_of resolved (rg_reference g)) id)"

lemma approved_cases:
  assumes "ApproveReportVerdicts ctx policyBytes baselines m = Inr ()"
  obtains d resolved where "Policy_Parse policyBytes = Inr d" "AnalysisManifest_Validate m (am_runID m) (am_contractsVersion m)"
    "rp_id (am_policy m) = pl_name d" "rp_version (am_policy m) = pl_version d" "rp_sha256 (am_policy m) = sha256_hex policyBytes"
    "rp_mode (am_policy m) = pl_mode d" "resolvedBaselines d baselines = Some resolved"
    "card (ev_ruleID ` set (am_evaluations m)) = length (pl_rules d)"
    "\<And>rule. rule \<in> set (pl_rules d) \<Longrightarrow>
      \<exists>e. map_of (rev (map (\<lambda>e. (ev_ruleID e, e)) (am_evaluations m))) (ru_id rule) = Some e
        \<and> Rule_approves rule e (approved_reference resolved rule)"
proof -
  obtain d where d: "Policy_Parse policyBytes = Inr d"
    using assms by (auto simp: ApproveReportVerdicts_def split: sum.splits)
  have ctx: "ctx = Inr ()" using assms by (cases ctx) (auto simp: ApproveReportVerdicts_def)
  note body = assms [unfolded ApproveReportVerdicts_def ctx d, simplified sum.case Let_def]
  have ids: "\<not> (\<not> AnalysisManifest_Validate m (am_runID m) (am_contractsVersion m)
      \<or> rp_id (am_policy m) \<noteq> pl_name d \<or> rp_version (am_policy m) \<noteq> pl_version d
      \<or> rp_sha256 (am_policy m) \<noteq> sha256_hex policyBytes \<or> rp_mode (am_policy m) \<noteq> pl_mode d)"
    using body by (rule contrapos_pn) (simp only: if_P sum.distinct not_False_eq_True)
  note body = body [unfolded if_not_P [OF ids]]
  obtain resolved where res: "resolvedBaselines d baselines = Some resolved"
    using body by (cases "resolvedBaselines d baselines") auto
  note body = body [unfolded res option.case]
  have count: "card (ev_ruleID ` set (am_evaluations m)) = length (pl_rules d)" using body by (auto split: if_splits)
  have all: "list_all (\<lambda>rule. (case map_of (rev (map (\<lambda>e. (ev_ruleID e, e)) (am_evaluations m))) (ru_id rule) of
        None \<Rightarrow> False | Some e \<Rightarrow> Rule_approves rule e (approved_reference resolved rule))) (pl_rules d)"
    using body by (auto simp: count check_def split: if_splits)
  have "\<exists>e. map_of (rev (map (\<lambda>e. (ev_ruleID e, e)) (am_evaluations m))) (ru_id r) = Some e
      \<and> Rule_approves r e (approved_reference resolved r)" if r: "r \<in> set (pl_rules d)" for r
    using bspec [OF all [unfolded list_all_iff] r] by (auto split: option.splits)
  with d res count ids show ?thesis using that by blast
qed

text \<open>Rules and evaluations correspond one to one, each pair approved.\<close>

lemma approved_pairs:
  assumes "ApproveReportVerdicts ctx policyBytes baselines m = Inr ()"
  obtains d resolved where "Policy_Parse policyBytes = Inr d" "AnalysisManifest_Validate m (am_runID m) (am_contractsVersion m)"
    "rp_sha256 (am_policy m) = sha256_hex policyBytes" "resolvedBaselines d baselines = Some resolved"
    "mset (map ev_ruleID (am_evaluations m)) = mset (map ru_id (pl_rules d))"
    "\<And>e. e \<in> set (am_evaluations m) \<Longrightarrow>
      \<exists>rule\<in>set (pl_rules d). ru_id rule = ev_ruleID e \<and> Rule_approves rule e (approved_reference resolved rule)"
proof (rule approved_cases [OF assms])
  fix d resolved
  assume d: "Policy_Parse policyBytes = Inr d" and m: "AnalysisManifest_Validate m (am_runID m) (am_contractsVersion m)"
    and sha: "rp_sha256 (am_policy m) = sha256_hex policyBytes" and res: "resolvedBaselines d baselines = Some resolved"
    and count: "card (ev_ruleID ` set (am_evaluations m)) = length (pl_rules d)"
    and rule: "\<And>rule. rule \<in> set (pl_rules d) \<Longrightarrow>
      \<exists>e. map_of (rev (map (\<lambda>e. (ev_ruleID e, e)) (am_evaluations m))) (ru_id rule) = Some e
        \<and> Rule_approves rule e (approved_reference resolved rule)"
  let ?evs = "am_evaluations m"
  have dr: "distinct (map ru_id (pl_rules d))" using Policy_Parse_valid [OF d] by (simp add: Policy_Validate_def rules_ok_iff)
  have de: "distinct (map ev_ruleID ?evs)" using m by (simp add: AnalysisManifest_Validate_def evaluations_ok_iff)
  have found: "\<exists>e\<in>set ?evs. ev_ruleID e = ru_id r \<and> Rule_approves r e (approved_reference resolved r)"
    if r: "r \<in> set (pl_rules d)" for r
  proof -
    obtain e where e: "map_of (rev (map (\<lambda>e. (ev_ruleID e, e)) ?evs)) (ru_id r) = Some e"
      "Rule_approves r e (approved_reference resolved r)" using rule [OF r] by blast
    from map_of_SomeD [OF e(1)] have "(ru_id r, e) \<in> (\<lambda>e. (ev_ruleID e, e)) ` set ?evs" by simp
    with e(2) show ?thesis by auto
  qed
  have sub: "ru_id ` set (pl_rules d) \<subseteq> ev_ruleID ` set ?evs" using found by force
  have "card (ru_id ` set (pl_rules d)) = card (ev_ruleID ` set ?evs)" using distinct_card [OF dr] count by simp
  from card_subset_eq [OF _ sub this] have eq: "ru_id ` set (pl_rules d) = ev_ruleID ` set ?evs" by simp
  have ms: "mset (map ev_ruleID ?evs) = mset (map ru_id (pl_rules d))"
    using set_eq_iff_mset_eq_distinct [OF de dr] eq by simp
  have pair: "\<exists>rule\<in>set (pl_rules d). ru_id rule = ev_ruleID e \<and> Rule_approves rule e (approved_reference resolved rule)"
    if e: "e \<in> set ?evs" for e
  proof -
    obtain r where r: "r \<in> set (pl_rules d)" "ru_id r = ev_ruleID e" using eq e by (metis imageE imageI)
    obtain e' where e': "e' \<in> set ?evs" "ev_ruleID e' = ru_id r" "Rule_approves r e' (approved_reference resolved r)"
      using found [OF r(1)] by blast
    have "e' = e" using de e e'(1,2) r(2) by (metis distinct_map inj_onD)
    with r e'(3) show ?thesis by blast
  qed
  show ?thesis by (rule that [OF d m sha res ms pair])
qed

lemma evaluation_of_report:
  assumes "AnalysisManifest_Validate m run version" "e \<in> set (am_evaluations m)"
  shows "Evaluation_valid e (map a_id (am_references m))"
  using assms by (simp add: AnalysisManifest_Validate_def evaluations_ok_iff)

lemma approved_slo:
  assumes "Rule_approves rule e approved" "Evaluation_valid e references" "decisive (so_status (ev_slo e))"
  shows "\<exists>s v. ru_slo rule = Some s \<and> so_value (ev_slo e) = Some (Fin v)
    \<and> (so_status (ev_slo e) = ''PASS'' \<longleftrightarrow> slo_passes s (Fin v))"
proof -
  have ne: "so_status (ev_slo e) \<noteq> ''NOT_EVALUATED''" and st: "\<not> (so_status (ev_slo e) \<noteq> ''PASS'' \<and> so_status (ev_slo e) \<noteq> ''FAIL'')"
    using assms(3) by (auto simp: decisive_def)
  obtain s where s: "ru_slo rule = Some s" "SLO_approves s (ev_slo e)"
    using assms(1) ne by (auto simp: Rule_approves_def split: option.splits)
  obtain v where v: "so_value (ev_slo e) = Some v" using assms(2,3) by (auto simp: Evaluation_valid_def SLO_valid_def)
  obtain r where "v = Fin r" using assms(2) v by (cases v) (auto simp: Evaluation_valid_def SLO_valid_def optional_finite_def)
  then show ?thesis using s v unfolding SLO_approves_def if_not_P [OF st] by simp
qed

lemma approved_regression:
  assumes "Rule_approves rule e approved" "decisive (ro_status (ev_regression e))"
  obtains g where "ru_regression rule = Some g" "Regression_approves g (ev_regression e) approved"
  using assms by (auto simp: Rule_approves_def decisive_def split: option.splits)

text \<open>A sound evaluation of a rule: decisive outcomes rest on passed quality and on the reported values.\<close>

definition evaluation_sound :: "policy_rule \<Rightarrow> baseline_resolution list \<Rightarrow> evaluation \<Rightarrow> bool" where
  "evaluation_sound rule baselines e \<longleftrightarrow>
    ru_id rule = ev_ruleID e \<and> ev_metric e = ru_metric rule
    \<and> (decisive (so_status (ev_slo e)) \<or> decisive (ro_status (ev_regression e)) \<longrightarrow>
        qo_status (ev_quality e) = ''PASS'' \<and> approvesQuality rule (ev_quality e))
    \<and> (decisive (so_status (ev_slo e)) \<longrightarrow>
        (\<exists>s v. ru_slo rule = Some s \<and> so_value (ev_slo e) = Some (Fin v)
          \<and> (so_status (ev_slo e) = ''PASS'' \<longleftrightarrow> slo_passes s (Fin v))))
    \<and> (decisive (ro_status (ev_regression e)) \<longrightarrow>
        (\<exists>g. ru_regression rule = Some g \<and> regression_sound g baselines (ev_regression e)))"

definition verdicts_sound :: "policy_document \<Rightarrow> baseline_resolution list \<Rightarrow> analysis_manifest \<Rightarrow> bool" where
  "verdicts_sound d baselines m \<longleftrightarrow>
    mset (map ev_ruleID (am_evaluations m)) = mset (map ru_id (pl_rules d))
    \<and> (\<forall>e\<in>set (am_evaluations m). \<exists>rule\<in>set (pl_rules d). evaluation_sound rule baselines e)"

lemma approved_evaluation_sound:
  assumes "Policy_Parse bytes = Inr d" "resolvedBaselines d baselines = Some resolved" "rule \<in> set (pl_rules d)"
    and id: "ru_id rule = ev_ruleID e" and ok: "Rule_approves rule e (approved_reference resolved rule)"
    and e: "Evaluation_valid e references"
  shows "evaluation_sound rule baselines e"
proof -
  have m: "ev_metric e = ru_metric rule" using ok by (simp add: Rule_approves_def)
  have q: "qo_status (ev_quality e) = ''PASS'' \<and> approvesQuality rule (ev_quality e)"
    if "decisive (so_status (ev_slo e)) \<or> decisive (ro_status (ev_regression e))"
    using that ok e by (auto simp: Rule_approves_def Evaluation_valid_def)
  have r: "\<exists>g. ru_regression rule = Some g \<and> regression_sound g baselines (ev_regression e)"
    if dec: "decisive (ro_status (ev_regression e))"
  proof -
    obtain g where g: "ru_regression rule = Some g" "Regression_approves g (ev_regression e) (approved_reference resolved rule)"
      by (rule approved_regression [OF ok dec])
    obtain v where v: "rg_value g = Fin v" "is_double v" "0 < v" by (rule parsed_limit [OF assms(1,3) g(1)])
    have b: "\<exists>b\<in>set baselines. rg_reference g = \<lparr>rf_baselineID = bs_id b, rf_version = bs_version b\<rparr>
      \<and> bs_artifact b = Some a \<and> validNormalizedReference a" if "approved_reference resolved rule = Some a" for a
    proof -
      have "Option.bind (map_of resolved (rg_reference g)) id = Some a" using that g(1) by simp
      then show ?thesis by (rule resolvedBaselines_approved [OF assms(2)]) blast
    qed
    have fin: "optional_finite (ro_candidateValue (ev_regression e))" "optional_finite (ro_referenceValue (ev_regression e))"
      using e by (auto simp: Evaluation_valid_def RegressionOutcome_valid_def)
    show ?thesis using regression_approved_sound [OF g(2) dec fin b v] g(1) by blast
  qed
  show ?thesis unfolding evaluation_sound_def using id m q approved_slo [OF ok e] r by blast
qed

lemma approved_sound:
  assumes "ApproveReportVerdicts ctx bytes baselines m = Inr ()"
  shows "\<exists>d. Policy_Parse bytes = Inr d \<and> rp_sha256 (am_policy m) = sha256_hex bytes \<and> verdicts_sound d baselines m"
proof (rule approved_pairs [OF assms])
  fix d resolved
  assume d: "Policy_Parse bytes = Inr d" and m: "AnalysisManifest_Validate m (am_runID m) (am_contractsVersion m)"
    and sha: "rp_sha256 (am_policy m) = sha256_hex bytes" and res: "resolvedBaselines d baselines = Some resolved"
    and ms: "mset (map ev_ruleID (am_evaluations m)) = mset (map ru_id (pl_rules d))"
    and pair: "\<And>e. e \<in> set (am_evaluations m) \<Longrightarrow>
      \<exists>rule\<in>set (pl_rules d). ru_id rule = ev_ruleID e \<and> Rule_approves rule e (approved_reference resolved rule)"
  have "\<exists>rule\<in>set (pl_rules d). evaluation_sound rule baselines e" if e: "e \<in> set (am_evaluations m)" for e
    using pair [OF e] approved_evaluation_sound [OF d res _ _ _ evaluation_of_report [OF m e]] by blast
  then show ?thesis using d sha ms unfolding verdicts_sound_def by blast
qed

end
