(* ===== verification/Report_Plan.thy ===== *)
theory Report_Plan
  imports Policy_Safety Evidence
begin

text \<open>
  Package \<open>internal/reconcile\<close>, the trust behind a report: the plan that binds a candidate to its
  policy, runtime and baselines (\<open>report_plan.go\<close>) and the approval of a parsed report against it
  (\<open>report_approval.go\<close>). Registries, the baseline repository and the context are operations of a
  record of services. Values are immutable, so \<open>Clone\<close> is the identity; the constructors have
  rejected missing dependencies.
\<close>

section \<open>Data\<close>

record report_trust =
  tr_policyBytes :: string
  tr_policyMode :: string
  tr_producer :: producer
  tr_baselines :: "bl_selection list"

record report_plan =
  pn_candidate :: artifact
  pn_policyBytes :: string
  pn_policyMode :: string
  pn_producer :: producer
  pn_baselines :: "baseline_resolution list"

record 'w trust_services =
  ts_ctxErr :: "('w, unit) op"
  ts_ResolveReportTrust :: "string \<Rightarrow> run \<Rightarrow> artifact \<Rightarrow> ('w, report_trust) op"
  ts_ResolveApprovedBaseline :: "string \<Rightarrow> bl_selection \<Rightarrow> ('w, bl_record option) op"

definition validReportCandidate :: "string \<Rightarrow> artifact \<Rightarrow> bool" where
  "validReportCandidate runID a =
    (a_runID a = runID \<and> a_kind a = ''normalized'' \<and> a_mediaType a = ''application/json''
     \<and> a_format a = ''normalized-result/v1'' \<and> is_ok (Artifact_Validate a))"

definition validReportReference :: "artifact \<Rightarrow> bool" where
  "validReportReference a =
    (is_ok (Artifact_Validate a) \<and> a_kind a = ''normalized'' \<and> a_mediaType a = ''application/json''
     \<and> a_format a = ''normalized-result/v1'')"

section \<open>Plans (report_plan.go)\<close>

text \<open>Both loops delete what they have matched from the expected references.\<close>

fun take_references :: "policy_reference set \<Rightarrow> policy_reference list \<Rightarrow> policy_reference set option" where
  "take_references expected [] = Some expected"
| "take_references expected (r # rs) = (if r \<in> expected then take_references (expected - {r}) rs else None)"

definition resolution_reference :: "baseline_resolution \<Rightarrow> policy_reference" where
  "resolution_reference b = \<lparr>rf_baselineID = bs_id b, rf_version = bs_version b\<rparr>"

definition selection_reference :: "bl_selection \<Rightarrow> policy_reference" where
  "selection_reference s = \<lparr>rf_baselineID = sel_id s, rf_version = sel_version s\<rparr>"

definition matchesBaselineResolutions :: "policy_reference list \<Rightarrow> baseline_resolution list \<Rightarrow> bool" where
  "matchesBaselineResolutions references resolutions =
    (length references = length resolutions
     \<and> take_references (set references) (map resolution_reference resolutions) = Some {})"

definition ReportPlan_Validate :: "report_plan \<Rightarrow> string \<Rightarrow> bool" where
  "ReportPlan_Validate plan runID = (case Policy_Parse (pn_policyBytes plan) of
     Inl _ \<Rightarrow> False
   | Inr document \<Rightarrow>
       validReportCandidate runID (pn_candidate plan) \<and> Producer_valid (pn_producer plan)
       \<and> pn_policyMode plan = pl_mode document
       \<and> matchesBaselineResolutions (BaselineReferences document) (pn_baselines plan)
       \<and> list_all (\<lambda>b. case bs_artifact b of None \<Rightarrow> True | Some a \<Rightarrow> validReportReference a) (pn_baselines plan))"

definition validReportTrust :: "run \<Rightarrow> report_trust \<Rightarrow> bool" where
  "validReportTrust current trust =
    (tr_policyBytes trust \<noteq> [] \<and> sha256_hex (tr_policyBytes trust) = ref_sha256 (policy (r_request current))
     \<and> (tr_policyMode trust = ''observe'' \<or> tr_policyMode trust = ''inform'') \<and> Producer_valid (tr_producer trust))"

fun take_selections :: "string \<Rightarrow> policy_reference set \<Rightarrow> bl_selection list \<Rightarrow> policy_reference set option" where
  "take_selections testID expected [] = Some expected"
| "take_selections testID expected (s # ss) =
    (if sel_testID s \<noteq> testID \<or> \<not> Selection_valid s then None
     else if selection_reference s \<notin> expected then None
     else take_selections testID (expected - {selection_reference s}) ss)"

definition matchesPolicyReferences :: "policy_reference list \<Rightarrow> bl_selection list \<Rightarrow> string \<Rightarrow> bool" where
  "matchesPolicyReferences references selections testID =
    (length references = length selections \<and> take_selections testID (set references) selections = Some {})"

fun resolveReportReferences :: "'w trust_services \<Rightarrow> string \<Rightarrow> bl_selection list \<Rightarrow> ('w, baseline_resolution list) prog" where
  "resolveReportReferences sv p [] = ret []"
| "resolveReportReferences sv p (s # ss) =
    bind_ok (call (ts_ResolveApprovedBaseline sv p s)) (\<lambda>answer.
      (case answer of
         None \<Rightarrow> bind_ok (resolveReportReferences sv p ss)
           (\<lambda>rest. ret (\<lparr>bs_id = sel_id s, bs_version = sel_version s, bs_artifact = None\<rparr> # rest))
       | Some record \<Rightarrow>
           if \<not> MatchesSelection record s \<or> \<not> validReportReference (bl_artifact record) then fail ErrValidation
           else bind_ok (resolveReportReferences sv p ss)
             (\<lambda>rest. ret (\<lparr>bs_id = sel_id s, bs_version = sel_version s, bs_artifact = Some (bl_artifact record)\<rparr> # rest))))"

definition ResolveReportPlan :: "'w trust_services \<Rightarrow> string \<Rightarrow> run \<Rightarrow> artifact \<Rightarrow> ('w, report_plan) prog" where
  "ResolveReportPlan sv p current candidate =
    bind_ok (call (ts_ctxErr sv)) (\<lambda>_.
      if p = [] \<or> r_state current \<noteq> StateReporting \<or> \<not> validReportCandidate (r_id current) candidate then fail ErrValidation
      else bind_ok (call (ts_ResolveReportTrust sv p current candidate)) (\<lambda>trust.
        case Policy_Parse (tr_policyBytes trust) of
          Inl _ \<Rightarrow> fail ErrValidation
        | Inr document \<Rightarrow>
            if \<not> validReportTrust current trust \<or> pl_name document \<noteq> ref_id (policy (r_request current))
               \<or> pl_version document \<noteq> ref_version (policy (r_request current)) \<or> pl_mode document \<noteq> tr_policyMode trust
               \<or> \<not> matchesPolicyReferences (BaselineReferences document) (tr_baselines trust) (testSuite (r_request current))
            then fail ErrValidation
            else bind_ok (resolveReportReferences sv p (tr_baselines trust)) (\<lambda>resolutions.
              let plan = \<lparr>pn_candidate = candidate, pn_policyBytes = tr_policyBytes trust, pn_policyMode = tr_policyMode trust,
                          pn_producer = tr_producer trust, pn_baselines = resolutions\<rparr>
              in if ReportPlan_Validate plan (r_id current) then ret plan else fail ErrValidation)))"

section \<open>Approval (report_approval.go)\<close>

fun resolved_artifacts_from :: "artifact set \<Rightarrow> baseline_resolution list \<Rightarrow> artifact list" where
  "resolved_artifacts_from seen [] = []"
| "resolved_artifacts_from seen (b # bs) = (case bs_artifact b of
     None \<Rightarrow> resolved_artifacts_from seen bs
   | Some a \<Rightarrow> if a \<in> seen then resolved_artifacts_from seen bs else a # resolved_artifacts_from (insert a seen) bs)"

definition resolvedArtifacts :: "baseline_resolution list \<Rightarrow> artifact list" where
  "resolvedArtifacts resolutions = resolved_artifacts_from {} resolutions"

fun take_artifacts :: "artifact set \<Rightarrow> artifact list \<Rightarrow> artifact set option" where
  "take_artifacts wanted [] = Some wanted"
| "take_artifacts wanted (a # as) = (if a \<in> wanted then take_artifacts (wanted - {a}) as else None)"

definition sameArtifacts :: "artifact list \<Rightarrow> artifact list \<Rightarrow> bool" where
  "sameArtifacts actual expected =
    (length actual = length expected \<and> take_artifacts (set expected) actual = Some {})"

definition ApproveReportManifest :: "'w trust_services \<Rightarrow> string \<Rightarrow> run \<Rightarrow> artifact \<Rightarrow> analysis_manifest \<Rightarrow> ('w, unit) prog" where
  "ApproveReportManifest sv p current candidate m =
    bind_ok (call (ts_ctxErr sv)) (\<lambda>_.
      if p = [] \<or> r_state current \<noteq> StateReporting \<or> am_runID m \<noteq> r_id current \<or> am_testID m \<noteq> testSuite (r_request current)
         \<or> am_candidate m \<noteq> candidate \<or> \<not> validReportCandidate (r_id current) candidate
      then fail ErrValidation
      else bind_ok (ResolveReportPlan sv p current candidate) (\<lambda>plan.
        if \<not> ReportPlan_Validate plan (r_id current) \<or> rp_id (am_policy m) \<noteq> ref_id (policy (r_request current))
           \<or> rp_version (am_policy m) \<noteq> ref_version (policy (r_request current))
           \<or> rp_sha256 (am_policy m) \<noteq> ref_sha256 (policy (r_request current))
           \<or> rp_mode (am_policy m) \<noteq> pn_policyMode plan \<or> \<not> Producer_Equal (am_producer m) (pn_producer plan)
        then fail ErrValidation
        else if \<not> sameArtifacts (am_references m) (resolvedArtifacts (pn_baselines plan)) then fail ErrValidation
        else attempt (call (ts_ctxErr sv)) (\<lambda>ctx.
          of_result (ApproveReportVerdicts ctx (pn_policyBytes plan) (pn_baselines plan) m))))"

end
