(* ===== verification/Normalized_Result.thy ===== *)
theory Normalized_Result
  imports Analysis_Result
begin

text \<open>
  Package \<open>internal/normalizedresult\<close> (\<open>manifest.go\<close>): normalized-result envelopes, one result per
  metric with the statistics its normalizer supplied. \<open>metadata\<close> is any JSON object; its numbers
  are in range and its text is UTF-8 once the document is valid, so \<open>json.Marshal\<close> accepts it.
\<close>

section \<open>Envelopes\<close>

record normalized_metric =
  nm_name :: string
  nm_direction :: string
  nm_type :: "string option"
  nm_unit :: "string option"

record distribution =
  ds_samples :: "int option"
  ds_mean :: "float64 option"
  ds_median :: "float64 option"
  ds_p90 :: "float64 option"
  ds_p95 :: "float64 option"
  ds_p99 :: "float64 option"
  ds_stddev :: "float64 option"
  ds_min :: "float64 option"
  ds_max :: "float64 option"
  ds_cv :: "float64 option"

record slo_threshold =
  st_passed :: bool
  st_threshold :: "string option"
  st_actual :: "float64 option"

record regression_threshold =
  rt_passed :: bool
  rt_baselineValue :: "float64 option"
  rt_actualValue :: "float64 option"
  rt_percentChange :: "float64 option"

record thresholds =
  th_slo :: "(string \<times> slo_threshold) list"
  th_regression :: "(string \<times> regression_threshold) list"

record metric_result =
  nr_schemaVersion :: int
  nr_runID :: string
  nr_metric :: normalized_metric
  nr_distribution :: distribution
  nr_thresholds :: "thresholds option"
  nr_metadata :: json_object

record normalized_manifest =
  nz_schemaVersion :: int
  nz_kind :: string
  nz_contractsVersion :: string
  nz_runID :: string
  nz_testID :: string
  nz_workload :: identity
  nz_producer :: producer
  nz_windowStart :: string
  nz_windowEnd :: string
  nz_createdAt :: string
  nz_sources :: "artifact list"
  nz_results :: "metric_result list"

section \<open>Validation\<close>

definition validMetricType :: "string option \<Rightarrow> bool" where
  "validMetricType v = (case v of None \<Rightarrow> True
     | Some t \<Rightarrow> t \<in> {''latency'', ''throughput'', ''error_rate'', ''resource'', ''custom''})"

definition validOptionalString :: "string option \<Rightarrow> bool" where
  "validOptionalString v = (case v of None \<Rightarrow> True | Some s \<Rightarrow> utf8_ValidString s)"

definition nonnegative :: "float64 option list \<Rightarrow> bool" where
  "nonnegative vs =
    (list_all optional_finite vs \<and> list_all (\<lambda>v. case v of None \<Rightarrow> True | Some f \<Rightarrow> \<not> float_less f (Fin 0)) vs)"

definition Distribution_valid :: "distribution \<Rightarrow> bool" where
  "Distribution_valid d =
    ((case ds_samples d of None \<Rightarrow> True | Some n \<Rightarrow> \<not> n < 1)
     \<and> list_all optional_finite [ds_mean d, ds_median d, ds_min d, ds_max d]
     \<and> nonnegative [ds_p90 d, ds_p95 d, ds_p99 d, ds_stddev d, ds_cv d])"

definition Thresholds_valid :: "thresholds option \<Rightarrow> bool" where
  "Thresholds_valid t = (case t of None \<Rightarrow> True
   | Some th \<Rightarrow>
       list_all (\<lambda>(name, s). utf8_ValidString name \<and> validOptionalString (st_threshold s) \<and> optional_finite (st_actual s)) (th_slo th)
       \<and> list_all (\<lambda>(name, r). utf8_ValidString name
            \<and> list_all optional_finite [rt_baselineValue r, rt_actualValue r, rt_percentChange r]) (th_regression th))"

definition Result_validate :: "metric_result \<Rightarrow> string \<Rightarrow> bool" where
  "Result_validate r runID =
    (nr_schemaVersion r = 2 \<and> nr_runID r = runID \<and> rx_match metric_name_pattern (nm_name (nr_metric r))
     \<and> (nm_direction (nr_metric r) = ''lower-is-better'' \<or> nm_direction (nr_metric r) = ''higher-is-better'')
     \<and> validMetricType (nm_type (nr_metric r)) \<and> validOptionalString (nm_unit (nr_metric r))
     \<and> Distribution_valid (nr_distribution r) \<and> Thresholds_valid (nr_thresholds r))"

fun results_ok :: "string \<Rightarrow> string list \<Rightarrow> metric_result list \<Rightarrow> bool" where
  "results_ok runID metrics [] = True"
| "results_ok runID metrics (r # rs) =
    (Result_validate r runID \<and> nm_name (nr_metric r) \<notin> set metrics \<and> results_ok runID (nm_name (nr_metric r) # metrics) rs)"

text \<open>The common fields are validated as a raw-result manifest.\<close>

definition NormalizedManifest_Validate :: "normalized_manifest \<Rightarrow> string \<Rightarrow> string \<Rightarrow> bool" where
  "NormalizedManifest_Validate m expectedRunID expectedVersion =
    (nz_kind m = ''NormalizedResult'' \<and> nz_results m \<noteq> []
     \<and> RawManifest_Validate
         \<lparr>rm_schemaVersion = nz_schemaVersion m, rm_kind = ''RawResult'', rm_contractsVersion = nz_contractsVersion m,
          rm_runID = nz_runID m, rm_testID = nz_testID m, rm_workload = nz_workload m, rm_producer = nz_producer m,
          rm_windowStart = nz_windowStart m, rm_windowEnd = nz_windowEnd m, rm_createdAt = nz_createdAt m,
          rm_artifacts = nz_sources m\<rparr> expectedRunID expectedVersion
     \<and> results_ok (nz_runID m) [] (nz_results m))"

section \<open>Shape\<close>

definition validCommonShape :: "json_object \<Rightarrow> bool" where
  "validCommonShape obj =
    (ExactObject (raw_field obj ''workload'') [''id'', ''version'', ''sha256''] \<noteq> None
     \<and> ExactObject (raw_field obj ''producer'') [''name'', ''version'', ''image''] \<noteq> None
     \<and> ExactObject (raw_field obj ''measurementWindow'') [''start'', ''end''] \<noteq> None)"

text \<open>\<open>json.Unmarshal\<close> into a map accepts \<open>null\<close> as the empty map.\<close>

definition validThresholdMap :: "json option \<Rightarrow> string list \<Rightarrow> string list \<Rightarrow> bool" where
  "validThresholdMap data required optional = (case raw_object data of
     None \<Rightarrow> False
   | Some ms \<Rightarrow> list_all (\<lambda>(k, v). ObjectFields (Some v) required optional \<noteq> None) ms)"

definition validThresholdShape :: "json option \<Rightarrow> bool" where
  "validThresholdShape data = (case ObjectFields data [] [''slo'', ''regression''] of
     None \<Rightarrow> False
   | Some ts \<Rightarrow>
       (raw_field ts ''slo'' = None \<or> isNull (raw_field ts ''slo'')
         \<or> validThresholdMap (raw_field ts ''slo'') [''passed''] [''threshold'', ''actual''])
       \<and> (raw_field ts ''regression'' = None \<or> isNull (raw_field ts ''regression'')
         \<or> validThresholdMap (raw_field ts ''regression'') [''passed''] [''baselineValue'', ''actualValue'', ''percentChange'']))"

definition validResultShape :: "json option \<Rightarrow> bool" where
  "validResultShape data =
    (case ObjectFields data [''schemaVersion'', ''runId'', ''metric'', ''distribution''] [''thresholds'', ''metadata''] of
     None \<Rightarrow> False
   | Some result \<Rightarrow>
       ObjectFields (raw_field result ''metric'') [''name'', ''direction''] [''type'', ''unit''] \<noteq> None
       \<and> ObjectFields (raw_field result ''distribution'') []
            [''samples'', ''mean'', ''median'', ''p90'', ''p95'', ''p99'', ''stddev'', ''min'', ''max'', ''cv''] \<noteq> None
       \<and> (raw_field result ''thresholds'' \<noteq> None \<and> \<not> isNull (raw_field result ''thresholds'')
            \<longrightarrow> validThresholdShape (raw_field result ''thresholds'')))"

definition normalized_shape :: "json \<Rightarrow> bool" where
  "normalized_shape data =
    (case ExactObject (Some data) [''schemaVersion'', ''kind'', ''contractsVersion'', ''runId'', ''testId'', ''workload'',
       ''producer'', ''measurementWindow'', ''createdAt'', ''sourceArtifacts'', ''results''] of
     None \<Rightarrow> False
   | Some obj \<Rightarrow>
       validCommonShape obj \<and> artifacts_shape (raw_field obj ''sourceArtifacts'')
       \<and> (case raw_array (raw_field obj ''results'') of
            None \<Rightarrow> False | Some rs \<Rightarrow> list_all (\<lambda>r. validResultShape (Some r)) rs))"

section \<open>Decoding\<close>

definition decode_normalized_metric :: "json option \<Rightarrow> normalized_metric option" where
  "decode_normalized_metric = json_struct (\<lambda>f.
    Option.bind (json_string (f ''name'')) (\<lambda>n. Option.bind (json_string (f ''direction'')) (\<lambda>d.
    Option.bind (json_pointer json_string (f ''type'')) (\<lambda>t. Option.bind (json_pointer json_string (f ''unit'')) (\<lambda>u.
      Some \<lparr>nm_name = n, nm_direction = d, nm_type = t, nm_unit = u\<rparr>)))))"

definition decode_distribution :: "json option \<Rightarrow> distribution option" where
  "decode_distribution = json_struct (\<lambda>f.
    Option.bind (json_pointer json_int (f ''samples'')) (\<lambda>n. Option.bind (json_pointer json_float (f ''mean'')) (\<lambda>m.
    Option.bind (json_pointer json_float (f ''median'')) (\<lambda>d. Option.bind (json_pointer json_float (f ''p90'')) (\<lambda>a.
    Option.bind (json_pointer json_float (f ''p95'')) (\<lambda>b. Option.bind (json_pointer json_float (f ''p99'')) (\<lambda>c.
    Option.bind (json_pointer json_float (f ''stddev'')) (\<lambda>s. Option.bind (json_pointer json_float (f ''min'')) (\<lambda>l.
    Option.bind (json_pointer json_float (f ''max'')) (\<lambda>h. Option.bind (json_pointer json_float (f ''cv'')) (\<lambda>v.
      Some \<lparr>ds_samples = n, ds_mean = m, ds_median = d, ds_p90 = a, ds_p95 = b, ds_p99 = c, ds_stddev = s, ds_min = l,
        ds_max = h, ds_cv = v\<rparr>)))))))))))"

definition decode_slo_threshold :: "json option \<Rightarrow> slo_threshold option" where
  "decode_slo_threshold = json_struct (\<lambda>f.
    Option.bind (json_bool (f ''passed'')) (\<lambda>p. Option.bind (json_pointer json_string (f ''threshold'')) (\<lambda>t.
    Option.bind (json_pointer json_float (f ''actual'')) (\<lambda>a. Some \<lparr>st_passed = p, st_threshold = t, st_actual = a\<rparr>))))"

definition decode_regression_threshold :: "json option \<Rightarrow> regression_threshold option" where
  "decode_regression_threshold = json_struct (\<lambda>f.
    Option.bind (json_bool (f ''passed'')) (\<lambda>p. Option.bind (json_pointer json_float (f ''baselineValue'')) (\<lambda>b.
    Option.bind (json_pointer json_float (f ''actualValue'')) (\<lambda>a. Option.bind (json_pointer json_float (f ''percentChange'')) (\<lambda>c.
      Some \<lparr>rt_passed = p, rt_baselineValue = b, rt_actualValue = a, rt_percentChange = c\<rparr>)))))"

text \<open>A Go map with string keys.\<close>

definition json_map :: "(json option \<Rightarrow> 'a option) \<Rightarrow> json option \<Rightarrow> (string \<times> 'a) list option" where
  "json_map f data = (case data of
     None \<Rightarrow> Some []
   | Some _ \<Rightarrow> Option.bind (raw_object data) (\<lambda>ms. those (map (\<lambda>(k, v). map_option (Pair k) (f (Some v))) ms)))"

definition decode_thresholds :: "json option \<Rightarrow> thresholds option" where
  "decode_thresholds = json_struct (\<lambda>f.
    Option.bind (json_map decode_slo_threshold (f ''slo'')) (\<lambda>s.
    Option.bind (json_map decode_regression_threshold (f ''regression'')) (\<lambda>r. Some \<lparr>th_slo = s, th_regression = r\<rparr>)))"

definition decode_result :: "json option \<Rightarrow> metric_result option" where
  "decode_result = json_struct (\<lambda>f.
    Option.bind (json_int (f ''schemaVersion'')) (\<lambda>sv. Option.bind (json_string (f ''runId'')) (\<lambda>ri.
    Option.bind (decode_normalized_metric (f ''metric'')) (\<lambda>m. Option.bind (decode_distribution (f ''distribution'')) (\<lambda>d.
    Option.bind (json_pointer decode_thresholds (f ''thresholds'')) (\<lambda>t. Option.bind (json_map (\<lambda>v. v) (f ''metadata'')) (\<lambda>md.
      Some \<lparr>nr_schemaVersion = sv, nr_runID = ri, nr_metric = m, nr_distribution = d, nr_thresholds = t, nr_metadata = md\<rparr>)))))))"

definition decode_normalized :: "json option \<Rightarrow> normalized_manifest option" where
  "decode_normalized = json_struct (\<lambda>f.
    Option.bind (json_int (f ''schemaVersion'')) (\<lambda>sv. Option.bind (json_string (f ''kind'')) (\<lambda>k.
    Option.bind (json_string (f ''contractsVersion'')) (\<lambda>cv. Option.bind (json_string (f ''runId'')) (\<lambda>ri.
    Option.bind (json_string (f ''testId'')) (\<lambda>ti. Option.bind (decode_identity (f ''workload'')) (\<lambda>w.
    Option.bind (decode_producer (f ''producer'')) (\<lambda>p. Option.bind (decode_window (f ''measurementWindow'')) (\<lambda>(s, e).
    Option.bind (json_string (f ''createdAt'')) (\<lambda>ca. Option.bind (json_slice decode_artifact (f ''sourceArtifacts'')) (\<lambda>as.
    Option.bind (json_slice decode_result (f ''results'')) (\<lambda>rs.
      Some \<lparr>nz_schemaVersion = sv, nz_kind = k, nz_contractsVersion = cv, nz_runID = ri, nz_testID = ti, nz_workload = w,
        nz_producer = p, nz_windowStart = s, nz_windowEnd = e, nz_createdAt = ca, nz_sources = as, nz_results = rs\<rparr>))))))))))))"

definition maximumNormalizedBytes :: int where
  "maximumNormalizedBytes = 16 * 2 ^ 20"

definition Normalized_Parse :: "string \<Rightarrow> string \<Rightarrow> string \<Rightarrow> err + normalized_manifest" where
  "Normalized_Parse data expectedRunID expectedVersion =
    (if \<not> Json_Valid data maximumNormalizedBytes \<or> \<not> rx_match version_pattern expectedVersion then Inl ErrValidation
     else (case json_Unmarshal data of
        None \<Rightarrow> Inl ErrValidation
      | Some doc \<Rightarrow>
          if \<not> normalized_shape doc then Inl ErrValidation
          else (case decode_normalized (Some doc) of
             None \<Rightarrow> Inl ErrValidation
           | Some m \<Rightarrow> if NormalizedManifest_Validate m expectedRunID expectedVersion then Inr m else Inl ErrValidation)))"

section \<open>What a parsed envelope guarantees\<close>

lemma Normalized_Parse_valid: "Normalized_Parse data i v = Inr m \<Longrightarrow> NormalizedManifest_Validate m i v"
  by (auto simp: Normalized_Parse_def split: if_splits option.splits)

lemma results_ok_iff:
  "results_ok runID metrics rs \<longleftrightarrow>
    (\<forall>r\<in>set rs. Result_validate r runID \<and> nm_name (nr_metric r) \<notin> set metrics) \<and> distinct (map (\<lambda>r. nm_name (nr_metric r)) rs)"
  by (induction rs arbitrary: metrics) (auto simp: image_iff)

end
