(* ===== verification/Collectors.thy ===== *)
theory Collectors
  imports Report_Plan Normalized_Result
begin

text \<open>
  Package \<open>internal/reconcile\<close>, the collectors behind the evidence stages: each resolves the
  published reference, reads its verified bytes, parses them strictly and has the claims approved
  (\<open>raw_collector.go\<close>, \<open>normalized_collector.go\<close>, \<open>report_collector.go\<close>, \<open>contracts_version.go\<close>), and the
  Job executors in front of two of them (\<open>kubernetes_analysis.go\<close>, \<open>kubernetes_reporting.go\<close>).
\<close>

record 'w evidence_services = "'w trust_services" +
  es_ResolveContractsVersion :: "string \<Rightarrow> run \<Rightarrow> ('w, string) op"
  es_ResolveRawManifest :: "string \<Rightarrow> run \<Rightarrow> ('w, artifact) op"
  es_ResolveNormalizedManifest :: "string \<Rightarrow> run \<Rightarrow> ('w, artifact) op"
  es_ResolveReportManifest :: "string \<Rightarrow> run \<Rightarrow> ('w, artifact) op"
  es_Read :: "artifact \<Rightarrow> ('w, string) op"
  es_ApproveRawManifest :: "string \<Rightarrow> run \<Rightarrow> raw_manifest \<Rightarrow> ('w, unit) op"
  es_ApproveNormalizedManifest :: "string \<Rightarrow> run \<Rightarrow> analysis_input \<Rightarrow> normalized_manifest \<Rightarrow> ('w, unit) op"

section \<open>Shared steps\<close>

definition evidenceContractsVersion :: "'w evidence_services \<Rightarrow> string \<Rightarrow> run \<Rightarrow> ('w, string) prog" where
  "evidenceContractsVersion sv p current =
    bind_ok (call (es_ResolveContractsVersion sv p current)) (\<lambda>version.
      if rx_match version_pattern version then ret version else fail ErrValidation)"

text \<open>\<open>if err != nil { return f(err) }\<close>\<close>

definition bind_as :: "(err \<Rightarrow> err) \<Rightarrow> ('w, 'a) prog \<Rightarrow> ('a \<Rightarrow> ('w, 'b) prog) \<Rightarrow> ('w, 'b) prog" where
  "bind_as f m k = attempt m (\<lambda>r. case r of Inl e \<Rightarrow> fail (f e) | Inr a \<Rightarrow> k a)"

text \<open>
  The classification of evidence errors, with the sentinels of its stage: publication that may
  still come is retried, evidence that is wrong is invalid, both at once are contradictory.
\<close>

definition classify_evidence :: "err \<Rightarrow> err list \<Rightarrow> err \<Rightarrow> err \<Rightarrow> err" where
  "classify_evidence pending invalid failed e =
    (let p = errors_is e pending \<or> errors_is e ErrObjectNotFound;
         i = list_ex (errors_is e) (invalid @ [ErrObjectMismatch, ErrValidation])
     in if p \<and> i then ErrValidation else if p then pending else if i then failed else e)"

definition cancelled :: "err \<Rightarrow> bool" where
  "cancelled e = (errors_is e ErrCanceled \<or> errors_is e ErrDeadlineExceeded)"

section \<open>Raw evidence (raw_collector.go)\<close>

definition classifyCollectionEvidence :: "err \<Rightarrow> err" where
  "classifyCollectionEvidence e =
    (if cancelled e then e else classify_evidence ErrArtifactsNotReady [ErrInvalidArtifacts] ErrInvalidArtifacts e)"

definition classifyCollectionApproval :: "err \<Rightarrow> err" where
  "classifyCollectionApproval e =
    (if cancelled e then e
     else if errors_is e ErrValidation \<or> errors_is e ErrForbidden \<or> errors_is e ErrInvalidArtifacts then ErrInvalidArtifacts
     else e)"

definition validRawManifestReference :: "artifact \<Rightarrow> string \<Rightarrow> bool" where
  "validRawManifestReference a runID =
    (a_runID a = runID \<and> a_kind a = ''raw'' \<and> a_mediaType a = ''application/json'' \<and> validRawManifestFormat (a_format a)
     \<and> is_ok (Artifact_Validate a))"

definition rawManifestFormat :: "int \<Rightarrow> string" where
  "rawManifestFormat schemaVersion =
    (if schemaVersion = 1 then ''raw-result/v1'' else if schemaVersion = 2 then ''raw-result/v2'' else [])"

fun read_all :: "'w evidence_services \<Rightarrow> artifact list \<Rightarrow> ('w, unit) prog" where
  "read_all sv [] = ret ()"
| "read_all sv (a # as) = bind_as classifyCollectionEvidence (call (es_Read sv a)) (\<lambda>_. read_all sv as)"

definition CollectRawArtifacts :: "'w evidence_services \<Rightarrow> string \<Rightarrow> run \<Rightarrow> ('w, raw_artifact_set) prog" where
  "CollectRawArtifacts sv p current =
    bind_ok (call (ts_ctxErr sv)) (\<lambda>_.
      if p = [] \<or> \<not> ValidID (r_id current) then fail ErrValidation
      else bind_as classifyCollectionApproval (evidenceContractsVersion sv p current) (\<lambda>version.
        bind_as classifyCollectionEvidence (call (es_ResolveRawManifest sv p current)) (\<lambda>ref.
          if \<not> validRawManifestReference ref (r_id current) then fail ErrInvalidArtifacts
          else bind_as classifyCollectionEvidence (call (es_Read sv ref)) (\<lambda>content.
            case Raw_Parse content (r_id current) version of
              Inl _ \<Rightarrow> fail ErrInvalidArtifacts
            | Inr m \<Rightarrow>
                if a_format ref \<noteq> rawManifestFormat (rm_schemaVersion m) then fail ErrInvalidArtifacts
                else (let collected = \<lparr>ra_manifest = ref, ra_artifacts = rm_artifacts m\<rparr>
                  in if \<not> is_ok (RawArtifactSet_Validate collected (r_id current)) then fail ErrInvalidArtifacts
                     else bind_as classifyCollectionApproval (call (es_ApproveRawManifest sv p current m)) (\<lambda>_.
                       bind_ok (read_all sv (rm_artifacts m)) (\<lambda>_. ret collected)))))))"

section \<open>Normalized evidence (normalized_collector.go)\<close>

definition classifyAnalysisEvidence :: "err \<Rightarrow> err" where
  "classifyAnalysisEvidence e =
    (if cancelled e then e
     else classify_evidence ErrAnalysisPending [ErrAnalysisFailed, ErrInvalidArtifacts] ErrAnalysisFailed e)"

definition classifyAnalysisApproval :: "err \<Rightarrow> err" where
  "classifyAnalysisApproval e =
    (if cancelled e then e
     else if errors_is e ErrValidation \<or> errors_is e ErrForbidden \<or> errors_is e ErrInvalidArtifacts \<or> errors_is e ErrAnalysisFailed
     then ErrAnalysisFailed else e)"

definition classifyPersistedAnalysisInput :: "err \<Rightarrow> err" where
  "classifyPersistedAnalysisInput e =
    (if cancelled e \<or> errors_is e ErrUnavailable then e
     else if errors_is e ErrObjectNotFound \<or> errors_is e ErrObjectMismatch \<or> errors_is e ErrInvalidArtifacts
       \<or> errors_is e ErrValidation then ErrAnalysisFailed else e)"

fun subset_from :: "artifact set \<Rightarrow> artifact set \<Rightarrow> artifact list \<Rightarrow> bool" where
  "subset_from wanted seen [] = True"
| "subset_from wanted seen (a # as) = (a \<in> wanted \<and> a \<notin> seen \<and> subset_from wanted (insert a seen) as)"

definition artifactSubset :: "artifact list \<Rightarrow> artifact list \<Rightarrow> bool" where
  "artifactSubset actual expected =
    (actual \<noteq> [] \<and> length actual \<le> length expected \<and> subset_from (set expected) {} actual)"

text \<open>The parsers have accepted both creation times, so \<open>time.Parse\<close> alone decides.\<close>

definition matchesRawProvenance :: "normalized_manifest \<Rightarrow> raw_manifest \<Rightarrow> bool" where
  "matchesRawProvenance n r =
    ((case (parse_rfc3339 (rm_createdAt r), parse_rfc3339 (nz_createdAt n)) of
        (Some rawCreated, Some normalizedCreated) \<Rightarrow> \<not> normalizedCreated < rawCreated
      | _ \<Rightarrow> False)
     \<and> nz_contractsVersion n = rm_contractsVersion r \<and> nz_testID n = rm_testID r \<and> nz_workload n = rm_workload r
     \<and> nz_windowStart n = rm_windowStart r \<and> nz_windowEnd n = rm_windowEnd r)"

definition readRawManifest :: "'w evidence_services \<Rightarrow> string \<Rightarrow> analysis_input \<Rightarrow> string \<Rightarrow> ('w, raw_manifest) prog" where
  "readRawManifest sv runID input version =
    bind_as classifyPersistedAnalysisInput (call (es_Read sv (ai_manifest input))) (\<lambda>content.
      case Raw_Parse content runID version of
        Inl _ \<Rightarrow> fail ErrAnalysisFailed
      | Inr m \<Rightarrow>
          if a_format (ai_manifest input) \<noteq> rawManifestFormat (rm_schemaVersion m)
             \<or> \<not> sameArtifacts (rm_artifacts m) (ai_sources input)
          then fail ErrAnalysisFailed else ret m)"

definition CollectNormalizedArtifact :: "'w evidence_services \<Rightarrow> string \<Rightarrow> run \<Rightarrow> analysis_input \<Rightarrow> ('w, artifact) prog" where
  "CollectNormalizedArtifact sv p current input =
    bind_ok (call (ts_ctxErr sv)) (\<lambda>_.
      if p = [] \<or> \<not> ValidID (r_id current)
         \<or> \<not> is_ok (RawArtifactSet_Validate \<lparr>ra_manifest = ai_manifest input, ra_artifacts = ai_sources input\<rparr> (r_id current))
      then fail ErrValidation
      else bind_as classifyAnalysisApproval (evidenceContractsVersion sv p current) (\<lambda>version.
        bind_as classifyAnalysisEvidence (call (es_ResolveNormalizedManifest sv p current)) (\<lambda>ref.
          if \<not> is_ok (validNormalizedArtifact (r_id current) ref input) then fail ErrAnalysisFailed
          else bind_as classifyAnalysisEvidence (call (es_Read sv ref)) (\<lambda>content.
            case Normalized_Parse content (r_id current) version of
              Inl _ \<Rightarrow> fail ErrAnalysisFailed
            | Inr m \<Rightarrow>
                if \<not> artifactSubset (nz_sources m) (ai_sources input) then fail ErrAnalysisFailed
                else bind_ok (readRawManifest sv (r_id current) input version) (\<lambda>rawm.
                  if \<not> matchesRawProvenance m rawm then fail ErrAnalysisFailed
                  else bind_as classifyAnalysisApproval (call (es_ApproveNormalizedManifest sv p current input m))
                    (\<lambda>_. ret ref))))))"

section \<open>Reports (report_collector.go)\<close>

definition reportOperationalError :: "err \<Rightarrow> err option" where
  "reportOperationalError e = find (errors_is e) operational_errors"

definition classifyReportEvidence :: "err \<Rightarrow> err" where
  "classifyReportEvidence e = (case reportOperationalError e of
     Some operational \<Rightarrow> operational
   | None \<Rightarrow> classify_evidence ErrReportPending [ErrReportFailed, ErrInvalidArtifacts] ErrReportFailed e)"

definition classifyReportApproval :: "err \<Rightarrow> err" where
  "classifyReportApproval e = (case reportOperationalError e of
     Some operational \<Rightarrow> operational
   | None \<Rightarrow>
       if errors_is e ErrValidation \<or> errors_is e ErrForbidden \<or> errors_is e ErrInvalidArtifacts \<or> errors_is e ErrReportFailed
       then ErrReportFailed else e)"

definition CollectReportArtifact :: "'w evidence_services \<Rightarrow> string \<Rightarrow> run \<Rightarrow> artifact \<Rightarrow> ('w, artifact) prog" where
  "CollectReportArtifact sv p current candidate =
    bind_ok (call (ts_ctxErr sv)) (\<lambda>_.
      if p = [] \<or> \<not> ValidID (r_id current) \<or> \<not> validReportCandidate (r_id current) candidate then fail ErrValidation
      else bind_as classifyReportApproval (evidenceContractsVersion sv p current) (\<lambda>version.
        bind_as classifyReportEvidence (call (es_ResolveReportManifest sv p current)) (\<lambda>ref.
          if \<not> is_ok (validReportArtifact (r_id current) ref [candidate]) then fail ErrReportFailed
          else bind_as classifyReportEvidence (call (es_Read sv ref)) (\<lambda>content.
            case Analysis_Parse content (r_id current) version of
              Inl _ \<Rightarrow> fail ErrReportFailed
            | Inr m \<Rightarrow>
                if am_candidate m \<noteq> candidate then fail ErrReportFailed
                else bind_as classifyReportApproval
                  (ApproveReportManifest (trust_services.truncate sv) p current candidate m) (\<lambda>_. ret ref)))))"

section \<open>Job executors (kubernetes_analysis.go, kubernetes_reporting.go)\<close>

text \<open>
  \<open>resolve\<close> and \<open>ensure\<close> are the Job resolver and controller, \<open>collect\<close> the collector of the
  executor; the two executors differ in their sentinels.
\<close>

definition job_executor ::
  "err \<Rightarrow> err \<Rightarrow> ('w, 'job option) op \<Rightarrow> ('job \<Rightarrow> ('w, observation) op) \<Rightarrow> ('w, artifact) prog \<Rightarrow> ('w, artifact) prog" where
  "job_executor pending failed resolve ensure collect =
    bind_ok (call resolve) (\<lambda>template. case template of
       None \<Rightarrow> fail ErrValidation
     | Some job \<Rightarrow> bind_ok (call (ensure job)) (\<lambda>ob.
         case ob_phase ob of
           JobPending \<Rightarrow> fail pending
         | JobRunning \<Rightarrow> fail pending
         | JobFailed \<Rightarrow> fail failed
         | JobSucceeded \<Rightarrow> collect
         | _ \<Rightarrow> fail ErrValidation))"

definition KubernetesAnalysis_Normalize ::
  "('w, 'job option) op \<Rightarrow> ('job \<Rightarrow> ('w, observation) op) \<Rightarrow> 'w evidence_services \<Rightarrow> string \<Rightarrow> run \<Rightarrow> analysis_input \<Rightarrow> ('w, artifact) prog" where
  "KubernetesAnalysis_Normalize resolve ensure sv p current input =
    job_executor ErrAnalysisPending ErrAnalysisFailed resolve ensure (CollectNormalizedArtifact sv p current input)"

definition KubernetesReport_Report ::
  "('w, 'job option) op \<Rightarrow> ('job \<Rightarrow> ('w, observation) op) \<Rightarrow> 'w evidence_services \<Rightarrow> string \<Rightarrow> run \<Rightarrow> artifact \<Rightarrow> ('w, artifact) prog" where
  "KubernetesReport_Report resolve ensure sv p current candidate =
    job_executor ErrReportPending ErrReportFailed resolve ensure (CollectReportArtifact sv p current candidate)"

end
