(* ===== verification/Collector_Safety.thy ===== *)
theory Collector_Safety
  imports Collectors Pg_Baselines
begin

text \<open>
  What collected evidence guarantees. A successful collection is decomposed into the calls it
  made; the interface to the baseline repository is a locale, interpreted on the Postgres model
  with other clients interleaved between the calls of the collector.
\<close>

section \<open>Successful programs\<close>

named_theorems success \<open>how a program succeeds\<close>

lemma bind_ok_success [success]:
  "bind_ok m k w = Some (Inr b, w') \<longleftrightarrow> (\<exists>a w1. m w = Some (Inr a, w1) \<and> k a w1 = Some (Inr b, w'))"
  by (auto simp: prog_defs split: option.splits sum.splits)

lemma bind_as_success [success]:
  "bind_as f m k w = Some (Inr b, w') \<longleftrightarrow> (\<exists>a w1. m w = Some (Inr a, w1) \<and> k a w1 = Some (Inr b, w'))"
  by (auto simp: bind_as_def prog_defs split: option.splits sum.splits)

lemma call_success [success]: "call f w = Some (r, w') \<longleftrightarrow> f w = (r, w')"
  by (simp add: call_def)

lemma ret_success [success]: "ret a w = Some (Inr b, w') \<longleftrightarrow> b = a \<and> w' = w"
  by (auto simp: ret_def)

lemma fail_success [success]: "fail e w = Some (Inr b, w') \<longleftrightarrow> False"
  by (simp add: fail_def)

lemma of_result_success [success]: "of_result r w = Some (Inr b, w') \<longleftrightarrow> r = Inr b \<and> w' = w"
  by (auto simp: of_result_def)

lemma attempt_success [success]:
  "attempt m k w = Some (Inr b, w') \<longleftrightarrow> (\<exists>r w1. m w = Some (r, w1) \<and> k r w1 = Some (Inr b, w'))"
  by (auto simp: attempt_def split: option.splits)

lemma if_fail_success [success]: "(if c then fail e else m) w = Some (Inr b, w') \<longleftrightarrow> \<not> c \<and> m w = Some (Inr b, w')"
  by (simp add: fail_def)

lemma if_else_fail_success [success]: "(if c then m else fail e) w = Some (Inr b, w') \<longleftrightarrow> c \<and> m w = Some (Inr b, w')"
  by (simp add: fail_def)

lemma sum_fail_success [success]:
  "(case r of Inl _ \<Rightarrow> fail e | Inr a \<Rightarrow> k a) w = Some (Inr b, w') \<longleftrightarrow> (\<exists>a. r = Inr a \<and> k a w = Some (Inr b, w'))"
  by (cases r) (auto simp: fail_def)

section \<open>Exact sets\<close>

lemma take_artifacts_iff: "take_artifacts wanted as = Some rest \<longleftrightarrow> distinct as \<and> set as \<subseteq> wanted \<and> rest = wanted - set as"
  by (induction as arbitrary: wanted) auto

lemma sameArtifacts_iff: "sameArtifacts actual expected \<longleftrightarrow> distinct actual \<and> distinct expected \<and> set actual = set expected"
proof -
  have "distinct expected" if "distinct actual" "set actual = set expected" "length actual = length expected"
    using that by (metis card_distinct distinct_card)
  moreover have "length actual = length expected" if "distinct actual" "distinct expected" "set actual = set expected"
    using that by (metis distinct_card)
  ultimately show ?thesis by (auto simp: sameArtifacts_def take_artifacts_iff)
qed

lemma subset_from_iff: "subset_from wanted seen as \<longleftrightarrow> distinct as \<and> set as \<subseteq> wanted - seen"
  by (induction as arbitrary: seen) auto

lemma artifactSubset_iff: "artifactSubset actual expected \<longleftrightarrow> actual \<noteq> [] \<and> distinct actual \<and> set actual \<subseteq> set expected"
proof -
  have "length actual \<le> length expected" if "distinct actual" "set actual \<subseteq> set expected"
    using that by (metis card_length card_mono distinct_card finite_set le_trans)
  then show ?thesis by (auto simp: artifactSubset_def subset_from_iff)
qed

lemma take_selections_tests:
  "take_selections testID expected ss = Some rest \<Longrightarrow> s \<in> set ss \<Longrightarrow> sel_testID s = testID"
  by (induction ss arbitrary: expected) (auto split: if_splits)

section \<open>Collected raw evidence\<close>

text \<open>An operation gave the answer in some world of the collection.\<close>

definition answers :: "('w, 'a) op \<Rightarrow> 'a \<Rightarrow> bool" where
  "answers f v \<longleftrightarrow> (\<exists>w w'. f w = (Inr v, w'))"

lemma answersI: "f w = (Inr v, w') \<Longrightarrow> answers f v"
  by (auto simp: answers_def)

lemma contracts_version_success [success]:
  "evidenceContractsVersion sv p current w = Some (Inr v, w') \<longleftrightarrow>
    es_ResolveContractsVersion sv p current w = (Inr v, w') \<and> rx_match version_pattern v"
  unfolding evidenceContractsVersion_def by (auto simp: success)

lemma read_all_reads: "read_all sv as w = Some (Inr u, w') \<Longrightarrow> a \<in> set as \<Longrightarrow> \<exists>bytes. answers (es_Read sv a) bytes"
proof (induction as arbitrary: w)
  case (Cons b bs)
  then obtain c w1 where "es_Read sv b w = (Inr c, w1)" "read_all sv bs w1 = Some (Inr u, w')"
    by (auto simp: success)
  with Cons show ?case by (auto intro: answersI)
qed simp

definition raw_verified :: "'w evidence_services \<Rightarrow> string \<Rightarrow> run \<Rightarrow> raw_artifact_set \<Rightarrow> bool" where
  "raw_verified sv p current collected \<longleftrightarrow>
    RawArtifactSet_Validate collected (r_id current) = Inr ()
    \<and> (\<exists>version content m. answers (es_ResolveContractsVersion sv p current) version
        \<and> answers (es_ResolveRawManifest sv p current) (ra_manifest collected)
        \<and> answers (es_Read sv (ra_manifest collected)) content \<and> Raw_Parse content (r_id current) version = Inr m
        \<and> ra_artifacts collected = rm_artifacts m \<and> a_format (ra_manifest collected) = rawManifestFormat (rm_schemaVersion m)
        \<and> answers (es_ApproveRawManifest sv p current m) ())
    \<and> (\<forall>a\<in>set (ra_artifacts collected). \<exists>bytes. answers (es_Read sv a) bytes)"

lemma raw_collected:
  assumes "CollectRawArtifacts sv p current w = Some (Inr collected, w')"
  shows "raw_verified sv p current collected"
proof -
  obtain w1 version w2 ref w3 content w4 m w5 where
    c: "es_ResolveContractsVersion sv p current w1 = (Inr version, w2)" "es_ResolveRawManifest sv p current w2 = (Inr ref, w3)"
      "es_Read sv ref w3 = (Inr content, w4)" "Raw_Parse content (r_id current) version = Inr m"
      "a_format ref = rawManifestFormat (rm_schemaVersion m)" "es_ApproveRawManifest sv p current m w4 = (Inr (), w5)"
      "read_all sv (rm_artifacts m) w5 = Some (Inr (), w')"
      "is_ok (RawArtifactSet_Validate collected (r_id current))" "collected = \<lparr>ra_manifest = ref, ra_artifacts = rm_artifacts m\<rparr>"
    using assms unfolding CollectRawArtifacts_def Let_def by (auto simp: success)
  have reads: "\<forall>a\<in>set (ra_artifacts collected). \<exists>bytes. answers (es_Read sv a) bytes"
    using c(7,9) by (auto dest: read_all_reads)
  show ?thesis unfolding raw_verified_def
  proof (intro conjI exI)
    show "RawArtifactSet_Validate collected (r_id current) = Inr ()" using c(8) by (auto simp: is_ok_def split: sum.splits)
  qed (use c reads in \<open>auto intro: answersI\<close>)
qed

section \<open>Collected normalized evidence\<close>

definition normalized_verified :: "'w evidence_services \<Rightarrow> string \<Rightarrow> run \<Rightarrow> analysis_input \<Rightarrow> artifact \<Rightarrow> bool" where
  "normalized_verified sv p current input ref \<longleftrightarrow>
    validNormalizedArtifact (r_id current) ref input = Inr ()
    \<and> (\<exists>version content m rawContent rawm. answers (es_ResolveContractsVersion sv p current) version
        \<and> answers (es_ResolveNormalizedManifest sv p current) ref
        \<and> answers (es_Read sv ref) content \<and> Normalized_Parse content (r_id current) version = Inr m
        \<and> answers (es_Read sv (ai_manifest input)) rawContent \<and> Raw_Parse rawContent (r_id current) version = Inr rawm
        \<and> a_format (ai_manifest input) = rawManifestFormat (rm_schemaVersion rawm)
        \<and> distinct (rm_artifacts rawm) \<and> set (rm_artifacts rawm) = set (ai_sources input)
        \<and> nz_sources m \<noteq> [] \<and> distinct (nz_sources m) \<and> set (nz_sources m) \<subseteq> set (ai_sources input)
        \<and> matchesRawProvenance m rawm \<and> answers (es_ApproveNormalizedManifest sv p current input m) ())"

lemma read_raw_manifest_success [success]:
  "readRawManifest sv runID input version w = Some (Inr m, w') \<longleftrightarrow>
    (\<exists>content. es_Read sv (ai_manifest input) w = (Inr content, w') \<and> Raw_Parse content runID version = Inr m
      \<and> a_format (ai_manifest input) = rawManifestFormat (rm_schemaVersion m) \<and> sameArtifacts (rm_artifacts m) (ai_sources input))"
  unfolding readRawManifest_def by (auto simp: success)

lemma normalized_collected:
  assumes "CollectNormalizedArtifact sv p current input w = Some (Inr ref, w')"
  shows "normalized_verified sv p current input ref"
proof -
  obtain w1 version w2 w3 content w4 m rawContent w5 rawm where
    c: "es_ResolveContractsVersion sv p current w1 = (Inr version, w2)" "es_ResolveNormalizedManifest sv p current w2 = (Inr ref, w3)"
      "is_ok (validNormalizedArtifact (r_id current) ref input)"
      "es_Read sv ref w3 = (Inr content, w4)" "Normalized_Parse content (r_id current) version = Inr m"
      "artifactSubset (nz_sources m) (ai_sources input)" "es_Read sv (ai_manifest input) w4 = (Inr rawContent, w5)"
      "Raw_Parse rawContent (r_id current) version = Inr rawm"
      "a_format (ai_manifest input) = rawManifestFormat (rm_schemaVersion rawm)"
      "sameArtifacts (rm_artifacts rawm) (ai_sources input)" "matchesRawProvenance m rawm"
      "es_ApproveNormalizedManifest sv p current input m w5 = (Inr (), w')"
    using assms unfolding CollectNormalizedArtifact_def by (auto simp: success)
  show ?thesis unfolding normalized_verified_def
  proof (intro conjI exI)
    show "validNormalizedArtifact (r_id current) ref input = Inr ()" using c(3) by (auto simp: is_ok_def split: sum.splits)
  qed (use c in \<open>auto simp: sameArtifacts_iff artifactSubset_iff intro: answersI\<close>)
qed

section \<open>Approved baselines behind a report\<close>

definition backed_resolution ::
  "(string \<Rightarrow> bl_selection \<Rightarrow> bl_record \<Rightarrow> bool) \<Rightarrow> string \<Rightarrow> bl_selection list \<Rightarrow> baseline_resolution \<Rightarrow> bool" where
  "backed_resolution approved p ss b \<longleftrightarrow> (\<forall>a. bs_artifact b = Some a \<longrightarrow>
    (\<exists>s record. s \<in> set ss \<and> bs_id b = sel_id s \<and> bs_version b = sel_version s \<and> approved p s record
      \<and> MatchesSelection record s \<and> bl_artifact record = a))"

lemma backed_none [simp]: "bs_artifact b = None \<Longrightarrow> backed_resolution approved p ss b"
  by (simp add: backed_resolution_def)

lemma backed_some:
  assumes "approved p s r" "MatchesSelection r s"
  shows "backed_resolution approved p (s # ss) \<lparr>bs_id = sel_id s, bs_version = sel_version s, bs_artifact = Some (bl_artifact r)\<rparr>"
  using assms unfolding backed_resolution_def by fastforce

lemma backed_mono: "backed_resolution approved p ss b \<Longrightarrow> set ss \<subseteq> set ss' \<Longrightarrow> backed_resolution approved p ss' b"
  unfolding backed_resolution_def by blast

lemma truncate_services [simp]:
  "ts_ctxErr (trust_services.truncate sv) = ts_ctxErr sv"
  "ts_ResolveReportTrust (trust_services.truncate sv) = ts_ResolveReportTrust sv"
  "ts_ResolveApprovedBaseline (trust_services.truncate sv) = ts_ResolveApprovedBaseline sv"
  by (simp_all add: trust_services.truncate_def)

text \<open>What approval of a report against its pinned policy and the resolved baselines establishes.\<close>

definition report_trusted ::
  "(string \<Rightarrow> bl_selection \<Rightarrow> bl_record \<Rightarrow> bool) \<Rightarrow> string \<Rightarrow> run \<Rightarrow> analysis_manifest \<Rightarrow> string \<Rightarrow> baseline_resolution list \<Rightarrow> bool" where
  "report_trusted approved p current m bytes baselines \<longleftrightarrow>
    am_runID m = r_id current \<and> am_testID m = testSuite (r_request current)
    \<and> rp_id (am_policy m) = ref_id (policy (r_request current)) \<and> rp_version (am_policy m) = ref_version (policy (r_request current))
    \<and> sha256_hex bytes = ref_sha256 (policy (r_request current))
    \<and> ApproveReportVerdicts (Inr ()) bytes baselines m = Inr ()
    \<and> (\<exists>ss. (\<forall>s\<in>set ss. sel_testID s = testSuite (r_request current)) \<and> list_all (backed_resolution approved p ss) baselines)
    \<and> set (am_references m) = {a. Some a \<in> bs_artifact ` set baselines}"

lemma resolved_artifacts_set: "set (resolved_artifacts_from seen bs) = {a. Some a \<in> bs_artifact ` set bs} - seen"
proof (induction bs arbitrary: seen)
  case (Cons b bs)
  show ?case
  proof (cases "bs_artifact b")
    case (Some a)
    have eq: "{x. Some x \<in> bs_artifact ` set (b # bs)} = insert a {x. Some x \<in> bs_artifact ` set bs}" using Some by auto
    show ?thesis unfolding eq using Some Cons by auto
  next
    case None
    have eq: "{x. Some x \<in> bs_artifact ` set (b # bs)} = {x. Some x \<in> bs_artifact ` set bs}" using None by force
    show ?thesis unfolding eq using None Cons by simp
  qed
qed simp

text \<open>
  The interface to the baseline repository: along the calls of a collection an invariant of the
  world is kept, under which every record that the repository resolves is approved.
\<close>

locale approved_baselines =
  fixes sv :: "'w evidence_services"
    and I :: "'w \<Rightarrow> bool"
    and approved :: "string \<Rightarrow> bl_selection \<Rightarrow> bl_record \<Rightarrow> bool"
  assumes keeps_ctx: "I w \<Longrightarrow> I (snd (ts_ctxErr sv w))"
    and keeps_trust: "I w \<Longrightarrow> I (snd (ts_ResolveReportTrust sv p r c w))"
    and keeps_resolve: "I w \<Longrightarrow> I (snd (ts_ResolveApprovedBaseline sv p s w))"
    and keeps_version: "I w \<Longrightarrow> I (snd (es_ResolveContractsVersion sv p r w))"
    and keeps_manifest: "I w \<Longrightarrow> I (snd (es_ResolveReportManifest sv p r w))"
    and keeps_read: "I w \<Longrightarrow> I (snd (es_Read sv a w))"
    and resolved: "I w \<Longrightarrow> fst (ts_ResolveApprovedBaseline sv p s w) = Inr (Some record) \<Longrightarrow> approved p s record"
begin

lemma keeps:
  "I w \<Longrightarrow> ts_ctxErr sv w = (x1, w') \<Longrightarrow> I w'"
  "I w \<Longrightarrow> ts_ResolveReportTrust sv p r c w = (x2, w') \<Longrightarrow> I w'"
  "I w \<Longrightarrow> ts_ResolveApprovedBaseline sv p s w = (x3, w') \<Longrightarrow> I w'"
  "I w \<Longrightarrow> es_ResolveContractsVersion sv p r w = (x4, w') \<Longrightarrow> I w'"
  "I w \<Longrightarrow> es_ResolveReportManifest sv p r w = (x5, w') \<Longrightarrow> I w'"
  "I w \<Longrightarrow> es_Read sv a w = (x4, w') \<Longrightarrow> I w'"
  using keeps_ctx [of w] keeps_trust [of w p r c] keeps_resolve [of w p s] keeps_version [of w p r] keeps_manifest [of w p r]
    keeps_read [of w a] by auto

lemma resolve_references:
  assumes "resolveReportReferences (trust_services.truncate sv) p ss w = Some (Inr bs, w')" "I w"
  shows "I w' \<and> list_all (backed_resolution approved p ss) bs"
  using assms
proof (induction ss arbitrary: w bs)
  case Nil
  then show ?case by (auto simp: success)
next
  case (Cons s ss)
  obtain x w1 where x: "ts_ResolveApprovedBaseline sv p s w = (Inr x, w1)" using Cons.prems(1) by (auto simp: success)
  have I1: "I w1" using keeps(3) [OF Cons.prems(2) x] .
  obtain b rest where b: "bs = b # rest" and r: "resolveReportReferences (trust_services.truncate sv) p ss w1 = Some (Inr rest, w')"
    and bx: "backed_resolution approved p (s # ss) b"
  proof (cases x)
    case None
    with Cons.prems(1) x that show ?thesis by (auto simp: success)
  next
    case (Some rec)
    have "approved p s rec" using resolved [OF Cons.prems(2)] x Some by simp
    then show ?thesis using Cons.prems(1) x Some that by (auto simp: success backed_some)
  qed
  from Cons.IH [OF r I1] b bx show ?case by (auto simp: list_all_iff intro: backed_mono)
qed

lemma plan_trusted:
  assumes "ResolveReportPlan (trust_services.truncate sv) p current candidate w = Some (Inr plan, w')" "I w"
  shows "I w' \<and> ReportPlan_Validate plan (r_id current)
    \<and> sha256_hex (pn_policyBytes plan) = ref_sha256 (policy (r_request current))
    \<and> (\<exists>ss. (\<forall>s\<in>set ss. sel_testID s = testSuite (r_request current)) \<and> list_all (backed_resolution approved p ss) (pn_baselines plan))"
proof -
  obtain w1 tr w2 d resolutions where
    c: "ts_ctxErr sv w = (Inr (), w1)" "ts_ResolveReportTrust sv p current candidate w1 = (Inr tr, w2)"
      "Policy_Parse (tr_policyBytes tr) = Inr d" "validReportTrust current tr"
      "matchesPolicyReferences (BaselineReferences d) (tr_baselines tr) (testSuite (r_request current))"
      "resolveReportReferences (trust_services.truncate sv) p (tr_baselines tr) w2 = Some (Inr resolutions, w')"
      "plan = \<lparr>pn_candidate = candidate, pn_policyBytes = tr_policyBytes tr, pn_policyMode = tr_policyMode tr,
        pn_producer = tr_producer tr, pn_baselines = resolutions\<rparr>" "ReportPlan_Validate plan (r_id current)"
    using assms(1) unfolding ResolveReportPlan_def Let_def by (auto simp: success)
  have "I w2" using keeps(1) [OF assms(2) c(1)] keeps(2) c(2) by blast
  from resolve_references [OF c(6) this] have r: "I w'" "list_all (backed_resolution approved p (tr_baselines tr)) resolutions" by auto
  have "\<forall>s\<in>set (tr_baselines tr). sel_testID s = testSuite (r_request current)"
    using c(5) take_selections_tests unfolding matchesPolicyReferences_def by blast
  with r c(4,7,8) show ?thesis by (auto simp: validReportTrust_def)
qed

lemma manifest_trusted:
  assumes "ApproveReportManifest (trust_services.truncate sv) p current candidate m w = Some (Inr (), w')" "I w"
  shows "\<exists>bytes baselines. report_trusted approved p current m bytes baselines"
proof -
  obtain w1 plan w2 ctx where
    c: "ts_ctxErr sv w = (Inr (), w1)" "am_runID m = r_id current" "am_testID m = testSuite (r_request current)"
      "ResolveReportPlan (trust_services.truncate sv) p current candidate w1 = Some (Inr plan, w2)"
      "rp_id (am_policy m) = ref_id (policy (r_request current))" "rp_version (am_policy m) = ref_version (policy (r_request current))"
      "sameArtifacts (am_references m) (resolvedArtifacts (pn_baselines plan))"
      "ApproveReportVerdicts ctx (pn_policyBytes plan) (pn_baselines plan) m = Inr ()"
    using assms(1) unfolding ApproveReportManifest_def by (auto simp: success)
  have ctx: "ctx = Inr ()" using c(8) by (cases ctx) (auto simp: ApproveReportVerdicts_def)
  have "I w1" using keeps(1) [OF assms(2) c(1)] .
  from plan_trusted [OF c(4) this] c ctx have "report_trusted approved p current m (pn_policyBytes plan) (pn_baselines plan)"
    by (auto simp: report_trusted_def sameArtifacts_iff resolvedArtifacts_def resolved_artifacts_set)
  then show ?thesis by blast
qed

lemma collected_trusted:
  assumes "CollectReportArtifact sv p current candidate w = Some (Inr ref, w')" "I w"
  shows "\<exists>version content m bytes baselines. answers (es_ResolveContractsVersion sv p current) version
    \<and> answers (es_ResolveReportManifest sv p current) ref \<and> answers (es_Read sv ref) content
    \<and> Analysis_Parse content (r_id current) version = Inr m \<and> am_candidate m = candidate
    \<and> report_trusted approved p current m bytes baselines"
proof -
  obtain w1 version w2 w3 content w4 m where
    c: "ts_ctxErr sv w = (Inr (), w1)" "es_ResolveContractsVersion sv p current w1 = (Inr version, w2)"
      "es_ResolveReportManifest sv p current w2 = (Inr ref, w3)" "es_Read sv ref w3 = (Inr content, w4)"
      "Analysis_Parse content (r_id current) version = Inr m" "am_candidate m = candidate"
      "ApproveReportManifest (trust_services.truncate sv) p current candidate m w4 = Some (Inr (), w')"
    using assms(1) unfolding CollectReportArtifact_def by (auto simp: success)
  have "I w4" using assms(2) c(1-4) keeps(1,4,5,6) by blast
  from manifest_trusted [OF c(7) this] obtain bytes baselines where "report_trusted approved p current m bytes baselines" by blast
  with c show ?thesis by (blast intro: answersI)
qed

end

section \<open>Collectors on the Postgres baselines\<close>

text \<open>
  A world of a collection: the database and the number of calls so far. The schedule says which
  calls of other clients run before the n-th call and how the transport of a query fails; the
  registries, the object store and the approvers answer by arbitrary functions of the world.
\<close>

record collector_world =
  cw_db :: baseline_db
  cw_tick :: nat

type_synonym collector_schedule = "nat \<Rightarrow> baseline_op list \<times> db_error option"

record collector_answers =
  ca_ctx :: "collector_world \<Rightarrow> err + unit"
  ca_trust :: "string \<Rightarrow> run \<Rightarrow> artifact \<Rightarrow> collector_world \<Rightarrow> err + report_trust"
  ca_version :: "string \<Rightarrow> run \<Rightarrow> collector_world \<Rightarrow> err + string"
  ca_raw :: "string \<Rightarrow> run \<Rightarrow> collector_world \<Rightarrow> err + artifact"
  ca_normalized :: "string \<Rightarrow> run \<Rightarrow> collector_world \<Rightarrow> err + artifact"
  ca_report :: "string \<Rightarrow> run \<Rightarrow> collector_world \<Rightarrow> err + artifact"
  ca_read :: "artifact \<Rightarrow> collector_world \<Rightarrow> err + string"
  ca_approveRaw :: "string \<Rightarrow> run \<Rightarrow> raw_manifest \<Rightarrow> collector_world \<Rightarrow> err + unit"
  ca_approveNormalized :: "string \<Rightarrow> run \<Rightarrow> analysis_input \<Rightarrow> normalized_manifest \<Rightarrow> collector_world \<Rightarrow> err + unit"

definition collector_call ::
  "collector_schedule \<Rightarrow> (db_error option \<Rightarrow> baseline_db \<Rightarrow> err + 'a) \<Rightarrow> (collector_world, 'a) op" where
  "collector_call sch f w =
    (let d = fold baseline_step (fst (sch (cw_tick w))) (cw_db w)
     in (f (snd (sch (cw_tick w))) d, \<lparr>cw_db = d, cw_tick = Suc (cw_tick w)\<rparr>))"

abbreviation external :: "collector_schedule \<Rightarrow> (collector_world \<Rightarrow> err + 'a) \<Rightarrow> (collector_world, 'a) op" where
  "external sch f w \<equiv> collector_call sch (\<lambda>_ _. f w) w"

definition pg_evidence :: "collector_schedule \<Rightarrow> collector_answers \<Rightarrow> collector_world evidence_services" where
  "pg_evidence sch an =
    \<lparr>ts_ctxErr = external sch (ca_ctx an),
     ts_ResolveReportTrust = \<lambda>p r c. external sch (ca_trust an p r c),
     ts_ResolveApprovedBaseline = \<lambda>p s. collector_call sch (\<lambda>f d. pg_ResolveApprovedBaseline f p s d),
     es_ResolveContractsVersion = \<lambda>p r. external sch (ca_version an p r),
     es_ResolveRawManifest = \<lambda>p r. external sch (ca_raw an p r),
     es_ResolveNormalizedManifest = \<lambda>p r. external sch (ca_normalized an p r),
     es_ResolveReportManifest = \<lambda>p r. external sch (ca_report an p r),
     es_Read = \<lambda>a. external sch (ca_read an a),
     es_ApproveRawManifest = \<lambda>p r m. external sch (ca_approveRaw an p r m),
     es_ApproveNormalizedManifest = \<lambda>p r i m. external sch (ca_approveNormalized an p r i m)\<rparr>"

definition reachable_baselines :: "baseline_db \<Rightarrow> bool" where
  "reachable_baselines d \<longleftrightarrow> (\<exists>ops. d = fold baseline_step ops baseline_empty)"

text \<open>
  A record that the repository resolved: approved after a passed qualification, with its source
  Run completed and its artifact registered in the database the query read.
\<close>

definition approved_record :: "string \<Rightarrow> bl_selection \<Rightarrow> bl_record \<Rightarrow> bool" where
  "approved_record p s r \<longleftrightarrow>
    (\<exists>d. reachable_baselines d \<and> MatchesSelection r s \<and> map_of (bd_baselines d) (p, sel_id s, sel_version s) = Some r
      \<and> map ev_state (bl_lifecycle r) = [BlCandidate, BlQualified, BlApproved]
      \<and> q_status (bl_qualification r) = QualificationPassed
      \<and> (\<exists>source. pg_view (bd_core d) (bl_sourceRunID r) = Some (p, source) \<and> r_state source = StateCompleted)
      \<and> map_of (d_artifacts (bd_core d)) (a_id (bl_artifact r)) = Some (bl_artifact r))"

lemma resolved_is_approved:
  assumes "reachable_baselines d" "pg_ResolveApprovedBaseline f p s d = Inr (Some r)"
  shows "approved_record p s r"
proof -
  obtain ops where d: "d = fold baseline_step ops baseline_empty" using assms(1) unfolding reachable_baselines_def by blast
  note b = resolved_backed [OF assms(2) [unfolded d], folded d]
  show ?thesis unfolding approved_record_def by (rule exI [of _ d], rule conjI [OF assms(1) b])
qed

lemma collector_call_keeps: "reachable_baselines (cw_db w) \<Longrightarrow> reachable_baselines (cw_db (snd (collector_call sch f w)))"
proof -
  assume "reachable_baselines (cw_db w)"
  then obtain ops where "cw_db w = fold baseline_step ops baseline_empty" unfolding reachable_baselines_def by blast
  then have "cw_db (snd (collector_call sch f w)) = fold baseline_step (ops @ fst (sch (cw_tick w))) baseline_empty"
    by (simp add: collector_call_def Let_def)
  then show ?thesis unfolding reachable_baselines_def by blast
qed

interpretation pg_reports: approved_baselines "pg_evidence sch an" "\<lambda>w. reachable_baselines (cw_db w)" approved_record
  for sch an
proof unfold_locales
  fix w p s r
  assume I: "reachable_baselines (cw_db w)" and "fst (ts_ResolveApprovedBaseline (pg_evidence sch an) p s w) = Inr (Some r)"
  then have "pg_ResolveApprovedBaseline (snd (sch (cw_tick w))) p s (cw_db (snd (collector_call sch (\<lambda>f d. pg_ResolveApprovedBaseline f p s d) w)))
      = Inr (Some r)"
    by (simp add: pg_evidence_def collector_call_def Let_def)
  then show "approved_record p s r" by (rule resolved_is_approved [OF collector_call_keeps [OF I]])
qed (simp_all add: pg_evidence_def collector_call_keeps)

end
