(* ===== verification/Report_Samples.thy ===== *)
theory Report_Samples
  imports Collector_Safety Baseline_Samples
begin

text \<open>
  A concrete policy with one absolute regression rule, a report approved under it with the
  baseline of the sample database.
\<close>

lemma visible_text:
  assumes "list_all (\<lambda>c. 32 < byte c \<and> byte c < 127) s" "s \<noteq> []"
  shows "validText s" "\<not> blank_text s"
proof -
  have a: "list_all (\<lambda>b. b < 128) (map byte s)" using assms(1) by (auto simp: list_all_iff)
  obtain c r where s: "s = c # r" using assms(2) by (cases s) auto
  have "runes s = byte c # map byte r" unfolding runes_def runes_ascii [OF a] by (simp add: s)
  then show "\<not> blank_text s" using assms(1) s by (simp add: blank_text_def unicode_IsSpace_def)
  then show "validText s" using valid_ascii [OF a] by (simp add: validText_def utf8_ValidString_def)
qed

section \<open>A policy document\<close>

definition s_policy_text :: string where
  \<open>s_policy_text = ''{"apiVersion":"performance.perfeng.io/v1","kind":"PerformancePolicy","metadata":{"name":"policy","version":"1.0.0","owner":"qa"},"spec":{"mode":"observe","missingData":"inconclusive","rules":[{"id":"latency","metric":{"name":"latency","statistic":"p95","unit":"ms"},"regression":{"direction":"lower-is-better","practicalDifference":{"kind":"absolute","value":5},"reference":{"baselineId":"checkout","version":"1.0.0"}}}]}}''\<close>

definition s_policy_rule_json :: json where
  "s_policy_rule_json = JObject [(''id'', JString ''latency''),
     (''metric'', JObject [(''name'', JString ''latency''), (''statistic'', JString ''p95''), (''unit'', JString ''ms'')]),
     (''regression'', JObject [(''direction'', JString ''lower-is-better''),
       (''practicalDifference'', JObject [(''kind'', JString ''absolute''), (''value'', JNumber ''5'')]),
       (''reference'', JObject [(''baselineId'', JString ''checkout''), (''version'', JString ''1.0.0'')])])]"

definition s_policy_json :: json where
  "s_policy_json = JObject [(''apiVersion'', JString ''performance.perfeng.io/v1''), (''kind'', JString ''PerformancePolicy''),
     (''metadata'', JObject [(''name'', JString ''policy''), (''version'', JString ''1.0.0''), (''owner'', JString ''qa'')]),
     (''spec'', JObject [(''mode'', JString ''observe''), (''missingData'', JString ''inconclusive''),
       (''rules'', JArray [s_policy_rule_json])])]"

lemma s_policy_parsed: "json_Unmarshal s_policy_text = Some s_policy_json"
  by code_simp

lemma small_double:
  assumes "\<bar>n\<bar> < 2 ^ 53"
  shows "is_double (of_int n)"
proof -
  have "\<bar>of_int n :: rat\<bar> = of_int \<bar>n\<bar>" by simp
  also have "\<dots> < of_int (2 ^ 53)" using assms by (simp only: of_int_less_iff)
  also have "\<dots> \<le> (2 ^ 1024 :: rat)" by simp
  finally have "\<bar>of_int n :: rat\<bar> < 2 ^ 1024" .
  moreover have "of_int n = (of_int n * 2 powi 0 :: rat)" "- 1074 \<le> (0::int)" by simp_all
  ultimately show ?thesis unfolding is_double_def using assms by blast
qed

lemma round_small: "\<bar>n\<bar> < 2 ^ 53 \<Longrightarrow> float_round (of_int n) = Fin (of_int n)"
  by (rule float_round_double [OF small_double])

lemma parse_digit:
  assumes "scan_number t = Some (\<lparr>np_negative = False, np_int = t, np_frac = [], np_exp = 0\<rparr>, [])" "decimal 0 t = n" "n < 10"
  shows "ParseFloat t = Some (Fin (of_nat n))"
proof -
  have "number_value \<lparr>np_negative = False, np_int = t, np_frac = [], np_exp = 0\<rparr> = of_int (int n)" using assms(2) by (simp add: number_value_def)
  moreover have "float_round (of_int (int n)) = Fin (of_int (int n))" using assms(3) by (intro round_small) simp
  ultimately show ?thesis using assms(1) by (simp add: ParseFloat_def)
qed

lemma s_digits: "ParseFloat ''1'' = Some (Fin 1)" "ParseFloat ''2'' = Some (Fin 2)" "ParseFloat ''5'' = Some (Fin 5)"
proof -
  have "scan_number ''1'' = Some (\<lparr>np_negative = False, np_int = ''1'', np_frac = [], np_exp = 0\<rparr>, [])" "decimal 0 ''1'' = 1" by code_simp+
  from parse_digit [OF this] show "ParseFloat ''1'' = Some (Fin 1)" by simp
  have "scan_number ''2'' = Some (\<lparr>np_negative = False, np_int = ''2'', np_frac = [], np_exp = 0\<rparr>, [])" "decimal 0 ''2'' = 2" by code_simp+
  from parse_digit [OF this] show "ParseFloat ''2'' = Some (Fin 2)" by simp
  have "scan_number ''5'' = Some (\<lparr>np_negative = False, np_int = ''5'', np_frac = [], np_exp = 0\<rparr>, [])" "decimal 0 ''5'' = 5" by code_simp+
  from parse_digit [OF this] show "ParseFloat ''5'' = Some (Fin 5)" by simp
qed

lemma ascii_document_valid:
  assumes "json_Unmarshal t = Some v" "list_all (\<lambda>c. byte c < 128) t" "int (length t) \<le> n"
    "nesting v \<le> maximumDepth" "unique_keys v" "numbers_in_range v"
  shows "Json_Valid t n"
proof -
  have "t \<noteq> []" using assms(1) by (auto simp: json_Unmarshal_def parse_value.simps skip_space_def)
  then have "1 \<le> int (length t)" by (cases t) auto
  moreover have "utf8_ValidString t"
    unfolding utf8_ValidString_def by (rule valid_ascii) (use assms(2) in \<open>auto simp: list_all_iff\<close>)
  ultimately show ?thesis using assms by (auto simp: Json_Valid_iff)
qed

lemma s_policy_wellformed: "Json_Valid s_policy_text maximumPolicyBytes"
proof (rule ascii_document_valid [OF s_policy_parsed])
  show "list_all (\<lambda>c. byte c < 128) s_policy_text" by (simp add: s_policy_text_def byte_def)
  show "int (length s_policy_text) \<le> maximumPolicyBytes" by (simp add: s_policy_text_def maximumPolicyBytes_def)
  show "nesting s_policy_json \<le> maximumDepth" by code_simp
  show "unique_keys s_policy_json" by code_simp
  show "numbers_in_range s_policy_json" by (simp add: s_policy_json_def s_policy_rule_json_def s_digits)
qed

definition s_regression :: regression where
  "s_regression = \<lparr>rg_direction = ''lower-is-better'', rg_kind = ''absolute'', rg_value = Fin 5,
     rg_reference = \<lparr>rf_baselineID = ''checkout'', rf_version = ''1.0.0''\<rparr>\<rparr>"

definition s_rule :: policy_rule where
  "s_rule = \<lparr>ru_id = ''latency'', ru_metric = \<lparr>mt_name = ''latency'', mt_statistic = ''p95'', mt_unit = ''ms''\<rparr>,
     ru_quality = None, ru_slo = None, ru_regression = Some s_regression\<rparr>"

definition s_policy :: policy_document where
  "s_policy = \<lparr>pl_apiVersion = ''performance.perfeng.io/v1'', pl_kind = ''PerformancePolicy'', pl_name = ''policy'',
     pl_version = ''1.0.0'', pl_owner = ''qa'', pl_mode = ''observe'', pl_missingData = ''inconclusive'', pl_rules = [s_rule]\<rparr>"

lemma s_rule_decoded: "decode_rule (Some s_policy_rule_json) = Some s_rule"
proof -
  have e: "decode_effect (Some (JObject [(''kind'', JString ''absolute''), (''value'', JNumber ''5'')]))
      = Some \<lparr>ef_kind = ''absolute'', ef_value = Fin 5\<rparr>"
    by (simp add: decode_effect_def json_struct_def raw_field_def s_digits)
  have r: "decode_reference (Some (JObject [(''baselineId'', JString ''checkout''), (''version'', JString ''1.0.0'')]))
      = Some \<lparr>rf_baselineID = ''checkout'', rf_version = ''1.0.0''\<rparr>" by code_simp
  have m: "decode_metric (Some (JObject [(''name'', JString ''latency''), (''statistic'', JString ''p95''), (''unit'', JString ''ms'')]))
      = Some \<lparr>mt_name = ''latency'', mt_statistic = ''p95'', mt_unit = ''ms''\<rparr>" by code_simp
  have g: "decode_policy_regression (Some (JObject [(''direction'', JString ''lower-is-better''),
       (''practicalDifference'', JObject [(''kind'', JString ''absolute''), (''value'', JNumber ''5'')]),
       (''reference'', JObject [(''baselineId'', JString ''checkout''), (''version'', JString ''1.0.0'')])])) = Some s_regression"
    by (simp add: decode_policy_regression_def json_struct_def raw_field_def e r s_regression_def)
  show ?thesis
    by (simp add: s_policy_rule_json_def decode_rule_def json_struct_def json_pointer_def raw_field_def m g s_rule_def)
qed

lemma s_policy_decoded: "decode_policy (Some s_policy_json) = Some s_policy"
  by (simp add: s_policy_json_def decode_policy_def json_struct_def json_slice_def raw_field_def s_rule_decoded s_policy_def)

lemma s_Policy_Parse: "Policy_Parse s_policy_text = Inr s_policy"
proof -
  have "policy_shape s_policy_json" by code_simp
  moreover have "Policy_Validate s_policy"
  proof -
    have "rx_match resource_id_pattern ''latency''" "rx_match resource_id_pattern ''policy''" "rx_match metric_name_pattern ''latency''"
      "known_statistic ''p95''" by code_simp+
    moreover have "validText ''qa''" "validText ''ms''" by (simp_all add: visible_text(1) byte_def)
    ultimately show ?thesis using s_names(1,2)
      by (simp add: Policy_Validate_def s_policy_def s_rule_def Rule_valid_def PolicyMetric_valid_def Regression_valid_def
          s_regression_def float_less_def)
  qed
  ultimately show ?thesis by (simp add: Policy_Parse_def s_policy_wellformed s_policy_parsed s_policy_decoded)
qed

section \<open>A report\<close>

text \<open>The Run under test is in its reporting stage; its policy is pinned by digest.\<close>

definition s_candidate_run :: run where
  "s_candidate_run = s_run\<lparr>r_id := ''perf-20260102-030405-0000000b'', r_state := StateReporting,
     r_request := s_request\<lparr>policy := \<lparr>ref_id = ''policy'', ref_version = ''1.0.0'', ref_sha256 = sha256_hex s_policy_text\<rparr>\<rparr>\<rparr>"

definition s_candidate_artifact :: artifact where
  "s_candidate_artifact = (s_artifact ''b'' ''normalized'' ''normalized-result/v1'')\<lparr>a_runID := ''perf-20260102-030405-0000000b''\<rparr>"

definition s_producer :: producer where
  "s_producer = \<lparr>pd_name = ''reporter'', pd_version = ''1.0.0'', pd_image = ''reg/app@sha256:'' @ s_hash, pd_artifact = None\<rparr>"

text \<open>The candidate is slower by 4 than the reference: below the practical difference of 5.\<close>

definition s_evaluation :: evaluation where
  "s_evaluation = \<lparr>ev_ruleID = ''latency'', ev_metric = \<lparr>mt_name = ''latency'', mt_statistic = ''p95'', mt_unit = ''ms''\<rparr>,
     ev_quality = \<lparr>qo_status = ''PASS'', qo_reasons = [], qo_samples = None, qo_cv = None\<rparr>,
     ev_slo = \<lparr>so_status = ''NOT_EVALUATED'', so_reasons = [''no''], so_value = None\<rparr>,
     ev_regression = \<lparr>ro_status = ''PASS'', ro_reasons = [], ro_candidateValue = Some (Fin 104), ro_referenceValue = Some (Fin 100),
       ro_referenceArtifactID = Some (a_id s_normalized), ro_effect = Some \<lparr>ef_kind = ''absolute'', ef_value = Fin 4\<rparr>,
       ro_method = Some \<lparr>cm_name = ''t'', cm_version = ''1.0.0''\<rparr>\<rparr>\<rparr>"

definition s_report :: analysis_manifest where
  "s_report = \<lparr>am_schemaVersion = 1, am_kind = ''AnalysisResult'', am_contractsVersion = ''1.0.0'',
     am_runID = ''perf-20260102-030405-0000000b'', am_testID = ''checkout'', am_createdAt = ''2026-01-02T03:04:05Z'',
     am_producer = s_producer,
     am_policy = \<lparr>rp_id = ''policy'', rp_version = ''1.0.0'', rp_sha256 = sha256_hex s_policy_text, rp_mode = ''observe''\<rparr>,
     am_candidate = s_candidate_artifact, am_references = [s_normalized], am_blocking = False, am_evaluations = [s_evaluation]\<rparr>"

definition s_resolutions :: "baseline_resolution list" where
  "s_resolutions = [\<lparr>bs_id = ''checkout'', bs_version = ''1.0.0'', bs_artifact = Some s_normalized\<rparr>]"

lemma s_candidate_id_valid: "ValidID ''perf-20260102-030405-0000000b''"
  by code_simp

lemma s_other_run: "s_id \<noteq> ''perf-20260102-030405-0000000b''"
proof
  assume eq: "s_id = ''perf-20260102-030405-0000000b''"
  have "char_of (48 :: nat) = CHR ''0''" by code_simp
  then have "last s_id = CHR ''0''" by (simp add: s_id_def run_id_of_def hex_word_def hex_digit_def)
  then show False unfolding eq by simp
qed

lemma other_run_valid: "Artifact_Validate a = Inr () \<Longrightarrow> ValidID i \<Longrightarrow> Artifact_Validate (a\<lparr>a_runID := i\<rparr>) = Inr ()"
  by (auto simp: Artifact_Validate_def split: option.splits if_splits)

lemma relocated_valid:
  "Artifact_Validate a = Inr () \<Longrightarrow> rx_match uuid_pattern i \<Longrightarrow> rx_match uri_pattern u \<Longrightarrow>
    (case url_Parse (uri_rest u) of None \<Rightarrow> False | Some x \<Rightarrow> \<not> (url_Hostname x = [] \<or> u_user x)) \<Longrightarrow>
    Artifact_Validate (a\<lparr>a_id := i, a_uri := u\<rparr>) = Inr ()"
  by (auto simp: Artifact_Validate_def split: option.splits if_splits)

lemma s_candidate_artifact_valid: "Artifact_Validate s_candidate_artifact = Inr ()"
proof -
  have f: "rx_match format_pattern ''normalized-result/v1''" by code_simp
  have "Artifact_Validate (s_artifact ''b'' ''normalized'' ''normalized-result/v1'') = Inr ()"
    using s_artifact_valid(2) f by (auto simp: Artifact_Validate_def s_artifact_def split: option.splits if_splits)
  then show ?thesis unfolding s_candidate_artifact_def by (rule other_run_valid [OF _ s_candidate_id_valid])
qed

lemma s_evaluation_valid: "Evaluation_valid s_evaluation [a_id s_normalized]"
proof -
  have texts: "rx_match resource_id_pattern ''latency''" "rx_match metric_name_pattern ''latency''"
    "known_statistic ''p95''" by code_simp+
  moreover have "\<not> blank_text ''ms''" "\<not> blank_text ''t''" "\<not> blank_text ''no''" by (simp_all add: visible_text(2) byte_def)
  ultimately show ?thesis using s_names(2)
    by (simp add: Evaluation_valid_def s_evaluation_def ReportMetric_valid_def Quality_valid_def SLO_valid_def
        RegressionOutcome_valid_def validVerdict_def optional_finite_def decisive_def)
qed

lemma s_report_valid: "AnalysisManifest_Validate s_report (am_runID s_report) (am_contractsVersion s_report)"
proof -
  have p: "rx_match resource_id_pattern ''policy''" "ValidTimestamp ''2026-01-02T03:04:05Z''" "Producer_valid s_producer" by code_simp+
  have "rx_match hash_pattern (sha256_hex s_policy_text)" using sha256_hex_shape by (simp add: hash_pattern_def)
  with p have "ReportPolicy_valid (am_policy s_report)" using s_names by (simp add: ReportPolicy_valid_def Identity_valid_def s_report_def)
  moreover have "validNormalizedReference s_candidate_artifact" "validNormalizedReference s_normalized"
    using s_candidate_artifact_valid s_normalized_valid by (simp_all add: validNormalizedReference_def s_candidate_artifact_def s_normalized_def s_artifact_def)
  moreover have "a_runID s_normalized \<noteq> ''perf-20260102-030405-0000000b''"
    using s_other_run by (simp add: s_normalized_def s_artifact_def)
  ultimately show ?thesis using p s_names s_evaluation_valid
    by (simp add: AnalysisManifest_Validate_def s_report_def) (simp add: s_normalized_def s_candidate_artifact_def s_artifact_def)
qed

lemma s_change_value: "regression_change s_regression (Fin 104) (Fin 100) = Some (Fin 4)"
  using round_small [of 4] by (simp add: regression_change_def s_regression_def float_sub_def)

text \<open>Equal values are close: the tolerance is not negative.\<close>

lemma unit_rounds:
  assumes "0 \<le> x" "x \<le> 1"
  shows "\<exists>y. float_round x = Fin y \<and> 0 \<le> y"
proof -
  have "is_double 1" using small_double [of 1] by simp
  then have one: "round_abs 1 = 1" by (rule round_abs_double) simp
  have "round_abs x \<le> 1" using round_abs_mono [of x 1] assms one by simp
  moreover have "(1 :: rat) < 2 ^ 1024" by simp
  ultimately have "round_abs x < 2 ^ 1024" by linarith
  then show ?thesis using assms(1) round_abs_nonneg [of x] by (auto simp: float_round_def Let_def)
qed

lemma float_close_refl: "float_close (Fin x) (Fin x)"
proof -
  have z: "float_round 0 = Fin 0" by (rule float_round_double [OF is_double_zero])
  obtain a where a: "float_round (1 / 10 ^ 12) = Fin a" "0 \<le> a" using unit_rounds [of "1 / 10 ^ 12"] by auto
  obtain b where b: "float_round (1 / 10 ^ 9) = Fin b" "0 \<le> b" using unit_rounds [of "1 / 10 ^ 9"] by auto
  have "float_le (Fin 0) (float_max (Fin a) (float_round (b * \<bar>x\<bar>)))"
    using a(2) b(2) by (cases "float_round (b * \<bar>x\<bar>)") (auto simp: float_max_def float_round_def Let_def split: if_splits)
  moreover have "float_max (float_abs (Fin x)) (float_abs (Fin x)) = Fin \<bar>x\<bar>" by (simp add: float_max_def)
  ultimately show ?thesis unfolding float_close_def Let_def a(1) b(1) by (simp add: float_sub_def z)
qed

lemma s_rule_approved: "Rule_approves s_rule s_evaluation (Some s_normalized)"
  by (simp add: Rule_approves_def s_rule_def s_evaluation_def approvesQuality_def Regression_approves_def s_change_value float_close_refl)
    (simp add: s_regression_def)

lemma s_report_approved: "ApproveReportVerdicts (Inr ()) s_policy_text s_resolutions s_report = Inr ()"
proof -
  have "BaselineReferences s_policy = [\<lparr>rf_baselineID = ''checkout'', rf_version = ''1.0.0''\<rparr>]" by code_simp
  moreover have "validNormalizedReference s_normalized"
    using s_normalized_valid by (simp add: validNormalizedReference_def s_normalized_def s_artifact_def)
  ultimately have "resolvedBaselines s_policy s_resolutions = Some [(\<lparr>rf_baselineID = ''checkout'', rf_version = ''1.0.0''\<rparr>, Some s_normalized)]"
    by (simp add: resolvedBaselines_def s_resolutions_def)
  then show ?thesis using s_report_valid s_rule_approved
    by (simp add: ApproveReportVerdicts_def s_Policy_Parse check_def)
      (simp add: s_report_def s_policy_def s_evaluation_def s_rule_def s_regression_def)
qed

section \<open>Approval on the sample database\<close>

definition s_trust :: report_trust where
  "s_trust = \<lparr>tr_policyBytes = s_policy_text, tr_policyMode = ''observe'', tr_producer = s_producer, tr_baselines = [s_selection]\<rparr>"

definition s_collector_answers :: collector_answers where
  "s_collector_answers = \<lparr>ca_ctx = \<lambda>_. Inr (), ca_trust = \<lambda>_ _ _ _. Inr s_trust, ca_version = \<lambda>_ _ _. Inr ''1.0.0'',
     ca_raw = \<lambda>_ _ _. Inl ErrArtifactsNotReady, ca_normalized = \<lambda>_ _ _. Inl ErrAnalysisPending,
     ca_report = \<lambda>_ _ _. Inl ErrReportPending, ca_read = \<lambda>_ _. Inl ErrObjectNotFound,
     ca_approveRaw = \<lambda>_ _ _ _. Inr (), ca_approveNormalized = \<lambda>_ _ _ _ _. Inr ()\<rparr>"

text \<open>The curators approve the baseline while the report is being approved.\<close>

definition s_collector_schedule :: collector_schedule where
  "s_collector_schedule n = ((if n = 0 then s_baseline_history else []), None)"

definition s_collector_world :: "baseline_db \<Rightarrow> nat \<Rightarrow> collector_world" where
  "s_collector_world d n = \<lparr>cw_db = d, cw_tick = n\<rparr>"

lemma s_constant:
  "collector_call s_collector_schedule (\<lambda>_ _. r) (s_collector_world baseline_empty 0) = (r, s_collector_world (s_baseline_db s_approved) (Suc 0))"
  "0 < n \<Longrightarrow> collector_call s_collector_schedule (\<lambda>_ _. r) (s_collector_world d n) = (r, s_collector_world d (Suc n))"
  by (simp_all add: collector_call_def s_collector_world_def s_collector_schedule_def s_baseline_history_db)

lemma s_resolve_call:
  assumes "0 < n"
  shows "collector_call s_collector_schedule (\<lambda>f. pg_ResolveApprovedBaseline f ''alice'' s_selection)
      (s_collector_world (s_baseline_db s_approved) n)
    = (Inr (Some s_approved), s_collector_world (s_baseline_db s_approved) (Suc n))"
  using assms s_resolve by (simp add: collector_call_def s_collector_world_def s_collector_schedule_def)

lemma s_services [simp]:
  "ts_ctxErr (pg_evidence sch an) = external sch (ca_ctx an)"
  "ts_ResolveReportTrust (pg_evidence sch an) = (\<lambda>p r c. external sch (ca_trust an p r c))"
  "ts_ResolveApprovedBaseline (pg_evidence sch an) = (\<lambda>p s. collector_call sch (\<lambda>f. pg_ResolveApprovedBaseline f p s))"
  "es_ResolveContractsVersion (pg_evidence sch an) = (\<lambda>p r. external sch (ca_version an p r))"
  "es_ResolveRawManifest (pg_evidence sch an) = (\<lambda>p r. external sch (ca_raw an p r))"
  "es_Read (pg_evidence sch an) = (\<lambda>a. external sch (ca_read an a))"
  "es_ApproveRawManifest (pg_evidence sch an) = (\<lambda>p r m. external sch (ca_approveRaw an p r m))"
  "es_ResolveNormalizedManifest (pg_evidence sch an) = (\<lambda>p r. external sch (ca_normalized an p r))"
  "es_ApproveNormalizedManifest (pg_evidence sch an) = (\<lambda>p r i m. external sch (ca_approveNormalized an p r i m))"
  by (simp_all add: pg_evidence_def)

lemma s_references_resolved:
  "resolveReportReferences (trust_services.truncate (pg_evidence s_collector_schedule s_collector_answers)) ''alice'' [s_selection]
      (s_collector_world (s_baseline_db s_approved) (Suc (Suc (Suc 0))))
    = Some (Inr s_resolutions, s_collector_world (s_baseline_db s_approved) (Suc (Suc (Suc (Suc 0)))))"
proof -
  have "MatchesSelection s_approved s_selection" using s_resolve
    by (auto simp: pg_ResolveApprovedBaseline_def decodeBaseline_def split: if_splits option.splits sum.splits)
  moreover have "validReportReference (bl_artifact s_approved)"
    using s_normalized_valid by (simp add: validReportReference_def s_approved_def s_baseline_def s_normalized_def s_artifact_def)
  ultimately show ?thesis
    by (simp add: prog_defs s_resolve_call s_resolutions_def) (simp add: s_approved_def s_baseline_def s_selection_def)
qed

lemma s_references: "BaselineReferences s_policy = [\<lparr>rf_baselineID = ''checkout'', rf_version = ''1.0.0''\<rparr>]"
  by (simp add: BaselineReferences_def s_policy_def s_rule_def s_regression_def)

lemma s_producer_valid: "Producer_valid s_producer"
  by code_simp

lemma s_candidate_ok: "validReportCandidate (r_id s_candidate_run) s_candidate_artifact"
  using s_candidate_artifact_valid
  by (simp add: validReportCandidate_def s_candidate_run_def s_candidate_artifact_def s_artifact_def)

lemma s_plan_valid:
  "ReportPlan_Validate \<lparr>pn_candidate = s_candidate_artifact, pn_policyBytes = s_policy_text, pn_policyMode = ''observe'',
     pn_producer = s_producer, pn_baselines = s_resolutions\<rparr> (r_id s_candidate_run)"
proof -
  have "validReportReference s_normalized"
    using s_normalized_valid by (simp add: validReportReference_def s_normalized_def s_artifact_def)
  then show ?thesis using s_candidate_ok s_producer_valid
    by (simp add: ReportPlan_Validate_def s_Policy_Parse s_references matchesBaselineResolutions_def s_resolutions_def
        resolution_reference_def) (simp add: s_policy_def)
qed

lemma s_trust_ok:
  "validReportTrust s_candidate_run s_trust"
  "matchesPolicyReferences (BaselineReferences s_policy) [s_selection] ''checkout''"
proof -
  have "s_policy_text \<noteq> []" by (simp add: s_policy_text_def)
  then show "validReportTrust s_candidate_run s_trust"
    using s_producer_valid by (simp add: validReportTrust_def s_trust_def s_candidate_run_def)
  have "Selection_valid s_selection" using s_resolve by (auto simp: pg_ResolveApprovedBaseline_def split: if_splits)
  then show "matchesPolicyReferences (BaselineReferences s_policy) [s_selection] ''checkout''"
    by (simp add: matchesPolicyReferences_def s_references selection_reference_def) (simp add: s_selection_def)
qed

lemma s_plan:
  "ResolveReportPlan (trust_services.truncate (pg_evidence s_collector_schedule s_collector_answers)) ''alice'' s_candidate_run
      s_candidate_artifact (s_collector_world (s_baseline_db s_approved) (Suc 0))
    = Some (Inr \<lparr>pn_candidate = s_candidate_artifact, pn_policyBytes = s_policy_text, pn_policyMode = ''observe'',
        pn_producer = s_producer, pn_baselines = s_resolutions\<rparr>, s_collector_world (s_baseline_db s_approved) (Suc (Suc (Suc (Suc 0)))))"
proof -
  have run: "r_state s_candidate_run = StateReporting" "testSuite (r_request s_candidate_run) = ''checkout''"
    "ref_id (policy (r_request s_candidate_run)) = ''policy''" "ref_version (policy (r_request s_candidate_run)) = ''1.0.0''"
    by (simp_all add: s_candidate_run_def s_request_def)
  have pol: "pl_name s_policy = ''policy''" "pl_version s_policy = ''1.0.0''" "pl_mode s_policy = ''observe''"
    by (simp_all add: s_policy_def)
  have tr: "tr_policyBytes s_trust = s_policy_text" "tr_policyMode s_trust = ''observe''" "tr_producer s_trust = s_producer"
    "tr_baselines s_trust = [s_selection]" by (simp_all add: s_trust_def)
  have ca: "ca_ctx s_collector_answers w = Inr ()" "ca_trust s_collector_answers p r c w = Inr s_trust" for w p r c
    by (simp_all add: s_collector_answers_def)
  show ?thesis
    by (simp add: ResolveReportPlan_def bind_ok_def attempt_def call_def s_constant ca run pol tr s_candidate_ok s_Policy_Parse s_trust_ok
        s_plan_valid ret_def s_references_resolved del: resolveReportReferences.simps)
qed

lemma s_report_manifest_approved:
  "ApproveReportManifest (trust_services.truncate (pg_evidence s_collector_schedule s_collector_answers)) ''alice'' s_candidate_run
      s_candidate_artifact s_report (s_collector_world baseline_empty 0)
    = Some (Inr (), s_collector_world (s_baseline_db s_approved) (Suc (Suc (Suc (Suc (Suc 0))))))"
proof -
  have ca: "ca_ctx s_collector_answers w = Inr ()" for w by (simp add: s_collector_answers_def)
  have run: "r_state s_candidate_run = StateReporting" "am_runID s_report = r_id s_candidate_run"
    "am_testID s_report = testSuite (r_request s_candidate_run)" "am_candidate s_report = s_candidate_artifact"
    "rp_id (am_policy s_report) = ref_id (policy (r_request s_candidate_run))"
    "rp_version (am_policy s_report) = ref_version (policy (r_request s_candidate_run))"
    "rp_sha256 (am_policy s_report) = ref_sha256 (policy (r_request s_candidate_run))"
    "rp_mode (am_policy s_report) = ''observe''" "Producer_Equal (am_producer s_report) s_producer"
    by (simp_all add: s_candidate_run_def s_request_def s_report_def Producer_Equal_iff)
  have same: "sameArtifacts (am_references s_report) (resolvedArtifacts s_resolutions)"
    by (simp add: sameArtifacts_iff resolvedArtifacts_def s_resolutions_def s_report_def)
  show ?thesis
    by (simp add: ApproveReportManifest_def bind_ok_def attempt_def call_def of_result_def s_constant ca run same s_candidate_ok s_plan
        s_plan_valid s_report_approved)
qed

end
