(* ===== verification/Collector_Samples.thy ===== *)
theory Collector_Samples
  imports Report_Samples
begin

text \<open>
  Concrete raw and normalized envelopes of one Run and the answers under which the collectors
  accept them.
\<close>

section \<open>Raw evidence\<close>

definition s_raw_text :: string where
  \<open>s_raw_text = ''{"schemaVersion":1,"kind":"RawResult","contractsVersion":"1.0.0","runId":"perf-20260102-030405-0000000b","testId":"checkout","workload":{"id":"workload","version":"1.0.0","sha256":"aaaaaaaaaaaaaaaaaaaaaaaaaaaaaaaaaaaaaaaaaaaaaaaaaaaaaaaaaaaaaaaa"},"producer":{"name":"k6","version":"1.0.0","image":"reg/app@sha256:aaaaaaaaaaaaaaaaaaaaaaaaaaaaaaaaaaaaaaaaaaaaaaaaaaaaaaaaaaaaaaaa"},"measurementWindow":{"start":"2026-01-02T03:04:05Z","end":"2026-01-02T03:05:05Z"},"createdAt":"2026-01-02T03:06:05Z","artifacts":[{"id":"bbbbbbbb-aaaa-aaaa-aaaa-aaaaaaaaaaaa","runId":"perf-20260102-030405-0000000b","kind":"raw","uri":"s3://bucket/b","sha256":"aaaaaaaaaaaaaaaaaaaaaaaaaaaaaaaaaaaaaaaaaaaaaaaaaaaaaaaaaaaaaaaa","sizeBytes":1,"mediaType":"application/json","format":"k6"}]}''\<close>

abbreviation s_hash_text :: string where
  "s_hash_text \<equiv> ''aaaaaaaaaaaaaaaaaaaaaaaaaaaaaaaaaaaaaaaaaaaaaaaaaaaaaaaaaaaaaaaa''"

definition s_raw_json :: json where
  "s_raw_json = JObject [(''schemaVersion'', JNumber ''1''), (''kind'', JString ''RawResult''), (''contractsVersion'', JString ''1.0.0''),
     (''runId'', JString ''perf-20260102-030405-0000000b''), (''testId'', JString ''checkout''),
     (''workload'', JObject [(''id'', JString ''workload''), (''version'', JString ''1.0.0''), (''sha256'', JString s_hash_text)]),
     (''producer'', JObject [(''name'', JString ''k6''), (''version'', JString ''1.0.0''),
       (''image'', JString ''reg/app@sha256:aaaaaaaaaaaaaaaaaaaaaaaaaaaaaaaaaaaaaaaaaaaaaaaaaaaaaaaaaaaaaaaa'')]),
     (''measurementWindow'', JObject [(''start'', JString ''2026-01-02T03:04:05Z''), (''end'', JString ''2026-01-02T03:05:05Z'')]),
     (''createdAt'', JString ''2026-01-02T03:06:05Z''),
     (''artifacts'', JArray [JObject [(''id'', JString ''bbbbbbbb-aaaa-aaaa-aaaa-aaaaaaaaaaaa''),
       (''runId'', JString ''perf-20260102-030405-0000000b''), (''kind'', JString ''raw''), (''uri'', JString ''s3://bucket/b''),
       (''sha256'', JString s_hash_text), (''sizeBytes'', JNumber ''1''), (''mediaType'', JString ''application/json''),
       (''format'', JString ''k6'')]])]"

lemma s_raw_parsed: "json_Unmarshal s_raw_text = Some s_raw_json"
  by code_simp

definition s_raw_artifact :: artifact where
  "s_raw_artifact = \<lparr>a_id = ''bbbbbbbb-aaaa-aaaa-aaaa-aaaaaaaaaaaa'', a_runID = ''perf-20260102-030405-0000000b'', a_kind = ''raw'',
     a_uri = ''s3://bucket/b'', a_sha256 = s_hash, a_sizeBytes = 1, a_mediaType = ''application/json'', a_format = ''k6''\<rparr>"

definition s_raw_manifest :: raw_manifest where
  "s_raw_manifest = \<lparr>rm_schemaVersion = 1, rm_kind = ''RawResult'', rm_contractsVersion = ''1.0.0'',
     rm_runID = ''perf-20260102-030405-0000000b'', rm_testID = ''checkout'', rm_workload = s_identity ''workload'',
     rm_producer = \<lparr>pd_name = ''k6'', pd_version = ''1.0.0'', pd_image = ''reg/app@sha256:'' @ s_hash, pd_artifact = None\<rparr>,
     rm_windowStart = ''2026-01-02T03:04:05Z'', rm_windowEnd = ''2026-01-02T03:05:05Z'', rm_createdAt = ''2026-01-02T03:06:05Z'',
     rm_artifacts = [s_raw_artifact]\<rparr>"

lemma s_raw_wellformed: "Json_Valid s_raw_text maximumRawBytes"
proof (rule ascii_document_valid [OF s_raw_parsed])
  show "list_all (\<lambda>c. byte c < 128) s_raw_text" by (simp add: s_raw_text_def byte_def)
  show "int (length s_raw_text) \<le> maximumRawBytes" by (simp add: s_raw_text_def maximumRawBytes_def)
  show "nesting s_raw_json \<le> maximumDepth" by code_simp
  show "unique_keys s_raw_json" by code_simp
  show "numbers_in_range s_raw_json" by (simp add: s_raw_json_def s_digits)
qed

lemma s_raw_shape: "hasExactFields s_raw_json"
  by code_simp

lemma s_raw_decoded: "decode_raw (Some s_raw_json) = Some s_raw_manifest"
  by code_simp

lemma s_raw_artifact_valid: "Artifact_Validate s_raw_artifact = Inr ()"
proof -
  have "s_raw_artifact = (s_artifact ''b'' ''raw'' ''k6'')\<lparr>a_runID := ''perf-20260102-030405-0000000b''\<rparr>"
    by (simp add: s_raw_artifact_def s_artifact_def eval_nat_numeral)
  then show ?thesis using other_run_valid [OF s_artifact_valid(2) s_candidate_id_valid] by simp
qed

lemma s_raw_manifest_valid: "RawManifest_Validate s_raw_manifest ''perf-20260102-030405-0000000b'' ''1.0.0''"
proof -
  have "(case (raw_timestamp ''2026-01-02T03:04:05Z'', raw_timestamp ''2026-01-02T03:05:05Z'', raw_timestamp ''2026-01-02T03:06:05Z'') of
      (Some start, Some stop, Some created) \<Rightarrow> start < stop \<and> \<not> created < stop | _ \<Rightarrow> False)" by code_simp
  moreover have "Producer_valid (rm_producer s_raw_manifest)" by code_simp
  ultimately show ?thesis using s_names(1,2) s_identities(1) s_candidate_id_valid s_raw_artifact_valid
    by (simp add: RawManifest_Validate_def validProducer_def s_raw_manifest_def) (simp add: s_raw_artifact_def)
qed

lemma s_Raw_Parse: "Raw_Parse s_raw_text ''perf-20260102-030405-0000000b'' ''1.0.0'' = Inr s_raw_manifest"
  using s_candidate_id_valid s_names(2)
  by (simp add: Raw_Parse_def s_raw_wellformed s_raw_parsed s_raw_shape s_raw_decoded s_raw_manifest_valid)

text \<open>The published manifest and its artifact are readable; every approver agrees.\<close>

definition s_raw_reference :: artifact where
  "s_raw_reference = (s_artifact ''a'' ''raw'' ''raw-result/v1'')\<lparr>a_runID := ''perf-20260102-030405-0000000b''\<rparr>"

definition s_raw_answers :: collector_answers where
  "s_raw_answers = s_collector_answers\<lparr>ca_raw := \<lambda>_ _ _. Inr s_raw_reference,
     ca_read := \<lambda>_ _. Inr s_raw_text\<rparr>"

lemma s_raw_reference_valid: "validRawManifestReference s_raw_reference ''perf-20260102-030405-0000000b''"
proof -
  have "Artifact_Validate s_raw_reference = Inr ()"
    unfolding s_raw_reference_def by (rule other_run_valid [OF s_artifact_valid(1) s_candidate_id_valid])
  then show ?thesis by (simp add: validRawManifestReference_def s_raw_reference_def s_artifact_def validRawManifestFormat_def)
qed

definition s_raw_set :: raw_artifact_set where
  "s_raw_set = \<lparr>ra_manifest = s_raw_reference, ra_artifacts = [s_raw_artifact]\<rparr>"

lemma s_raw_set_valid: "RawArtifactSet_Validate s_raw_set (r_id s_candidate_run) = Inr ()"
  using s_raw_reference_valid s_raw_artifact_valid
  by (simp add: RawArtifactSet_Validate_def s_raw_set_def validRawManifestReference_def s_candidate_run_def)
    (simp add: s_raw_artifact_def s_raw_reference_def s_artifact_def eval_nat_numeral)

lemma s_raw_collected:
  "\<exists>w'. CollectRawArtifacts (pg_evidence s_collector_schedule s_raw_answers) ''alice'' s_candidate_run (s_collector_world baseline_empty 0)
    = Some (Inr s_raw_set, w')"
proof -
  have ca: "ca_ctx s_raw_answers w = Inr ()" "ca_version s_raw_answers p r w = Inr ''1.0.0''" "ca_raw s_raw_answers p r w = Inr s_raw_reference"
    "ca_read s_raw_answers a w = Inr s_raw_text" "ca_approveRaw s_raw_answers p r m w = Inr ()" for w p r a m
    by (simp_all add: s_raw_answers_def s_collector_answers_def)
  have run: "r_id s_candidate_run = ''perf-20260102-030405-0000000b''" by (simp add: s_candidate_run_def)
  have m: "rm_schemaVersion s_raw_manifest = 1" "rm_artifacts s_raw_manifest = [s_raw_artifact]" by (simp_all add: s_raw_manifest_def)
  have f: "a_format s_raw_reference = ''raw-result/v1''" by (simp add: s_raw_reference_def s_artifact_def)
  have v: "evidenceContractsVersion (pg_evidence s_collector_schedule s_raw_answers) ''alice'' s_candidate_run
      (s_collector_world (s_baseline_db s_approved) (Suc 0))
    = Some (Inr ''1.0.0'', s_collector_world (s_baseline_db s_approved) (Suc (Suc 0)))"
    using s_names(2) by (simp add: evidenceContractsVersion_def bind_ok_def attempt_def call_def ret_def s_constant ca)
  show ?thesis using s_raw_set_valid unfolding s_raw_set_def run
    by (simp add: CollectRawArtifacts_def bind_ok_def bind_as_def attempt_def call_def ret_def run v
        s_constant ca s_candidate_id_valid s_raw_reference_valid s_Raw_Parse m f rawManifestFormat_def Let_def)
qed

section \<open>Normalized evidence\<close>

definition s_normalized_text :: string where
  \<open>s_normalized_text = ''{"schemaVersion":1,"kind":"NormalizedResult","contractsVersion":"1.0.0","runId":"perf-20260102-030405-0000000b","testId":"checkout","workload":{"id":"workload","version":"1.0.0","sha256":"aaaaaaaaaaaaaaaaaaaaaaaaaaaaaaaaaaaaaaaaaaaaaaaaaaaaaaaaaaaaaaaa"},"producer":{"name":"k6","version":"1.0.0","image":"reg/app@sha256:aaaaaaaaaaaaaaaaaaaaaaaaaaaaaaaaaaaaaaaaaaaaaaaaaaaaaaaaaaaaaaaa"},"measurementWindow":{"start":"2026-01-02T03:04:05Z","end":"2026-01-02T03:05:05Z"},"createdAt":"2026-01-02T03:07:05Z","sourceArtifacts":[{"id":"bbbbbbbb-aaaa-aaaa-aaaa-aaaaaaaaaaaa","runId":"perf-20260102-030405-0000000b","kind":"raw","uri":"s3://bucket/b","sha256":"aaaaaaaaaaaaaaaaaaaaaaaaaaaaaaaaaaaaaaaaaaaaaaaaaaaaaaaaaaaaaaaa","sizeBytes":1,"mediaType":"application/json","format":"k6"}],"results":[{"schemaVersion":2,"runId":"perf-20260102-030405-0000000b","metric":{"name":"latency","direction":"lower-is-better"},"distribution":{"samples":5}}]}''\<close>

definition s_normalized_json :: json where
  "s_normalized_json = JObject [(''schemaVersion'', JNumber ''1''), (''kind'', JString ''NormalizedResult''),
     (''contractsVersion'', JString ''1.0.0''),
     (''runId'', JString ''perf-20260102-030405-0000000b''), (''testId'', JString ''checkout''),
     (''workload'', JObject [(''id'', JString ''workload''), (''version'', JString ''1.0.0''), (''sha256'', JString s_hash_text)]),
     (''producer'', JObject [(''name'', JString ''k6''), (''version'', JString ''1.0.0''),
       (''image'', JString ''reg/app@sha256:aaaaaaaaaaaaaaaaaaaaaaaaaaaaaaaaaaaaaaaaaaaaaaaaaaaaaaaaaaaaaaaa'')]),
     (''measurementWindow'', JObject [(''start'', JString ''2026-01-02T03:04:05Z''), (''end'', JString ''2026-01-02T03:05:05Z'')]),
     (''createdAt'', JString ''2026-01-02T03:07:05Z''),
     (''sourceArtifacts'', JArray [JObject [(''id'', JString ''bbbbbbbb-aaaa-aaaa-aaaa-aaaaaaaaaaaa''),
       (''runId'', JString ''perf-20260102-030405-0000000b''), (''kind'', JString ''raw''), (''uri'', JString ''s3://bucket/b''),
       (''sha256'', JString s_hash_text), (''sizeBytes'', JNumber ''1''), (''mediaType'', JString ''application/json''),
       (''format'', JString ''k6'')]]),
     (''results'', JArray [JObject [(''schemaVersion'', JNumber ''2''), (''runId'', JString ''perf-20260102-030405-0000000b''),
       (''metric'', JObject [(''name'', JString ''latency''), (''direction'', JString ''lower-is-better'')]),
       (''distribution'', JObject [(''samples'', JNumber ''5'')])]])]"

lemma s_normalized_parsed: "json_Unmarshal s_normalized_text = Some s_normalized_json"
  by code_simp

lemma s_normalized_wellformed: "Json_Valid s_normalized_text maximumNormalizedBytes"
proof (rule ascii_document_valid [OF s_normalized_parsed])
  show "list_all (\<lambda>c. byte c < 128) s_normalized_text" by (simp add: s_normalized_text_def byte_def)
  show "int (length s_normalized_text) \<le> maximumNormalizedBytes" by (simp add: s_normalized_text_def maximumNormalizedBytes_def)
  show "nesting s_normalized_json \<le> maximumDepth" by code_simp
  show "unique_keys s_normalized_json" by code_simp
  show "numbers_in_range s_normalized_json" by (simp add: s_normalized_json_def s_digits)
qed

definition s_result :: metric_result where
  "s_result = \<lparr>nr_schemaVersion = 2, nr_runID = ''perf-20260102-030405-0000000b'',
     nr_metric = \<lparr>nm_name = ''latency'', nm_direction = ''lower-is-better'', nm_type = None, nm_unit = None\<rparr>,
     nr_distribution = \<lparr>ds_samples = Some 5, ds_mean = None, ds_median = None, ds_p90 = None, ds_p95 = None, ds_p99 = None,
       ds_stddev = None, ds_min = None, ds_max = None, ds_cv = None\<rparr>, nr_thresholds = None, nr_metadata = []\<rparr>"

definition s_normalized_manifest :: normalized_manifest where
  "s_normalized_manifest = \<lparr>nz_schemaVersion = 1, nz_kind = ''NormalizedResult'', nz_contractsVersion = ''1.0.0'',
     nz_runID = ''perf-20260102-030405-0000000b'', nz_testID = ''checkout'', nz_workload = s_identity ''workload'',
     nz_producer = \<lparr>pd_name = ''k6'', pd_version = ''1.0.0'', pd_image = ''reg/app@sha256:'' @ s_hash, pd_artifact = None\<rparr>,
     nz_windowStart = ''2026-01-02T03:04:05Z'', nz_windowEnd = ''2026-01-02T03:05:05Z'', nz_createdAt = ''2026-01-02T03:07:05Z'',
     nz_sources = [s_raw_artifact], nz_results = [s_result]\<rparr>"

lemma s_normalized_shape: "normalized_shape s_normalized_json"
  by code_simp

lemma s_normalized_decoded: "decode_normalized (Some s_normalized_json) = Some s_normalized_manifest"
  by code_simp

lemma s_result_valid: "Result_validate s_result ''perf-20260102-030405-0000000b''"
  by code_simp

lemma s_normalized_manifest_valid: "NormalizedManifest_Validate s_normalized_manifest ''perf-20260102-030405-0000000b'' ''1.0.0''"
proof -
  have "(case (raw_timestamp ''2026-01-02T03:04:05Z'', raw_timestamp ''2026-01-02T03:05:05Z'', raw_timestamp ''2026-01-02T03:07:05Z'') of
      (Some start, Some stop, Some created) \<Rightarrow> start < stop \<and> \<not> created < stop | _ \<Rightarrow> False)" by code_simp
  moreover have "Producer_valid (nz_producer s_normalized_manifest)" by code_simp
  ultimately show ?thesis using s_names(1,2) s_identities(1) s_candidate_id_valid s_raw_artifact_valid s_result_valid
    by (simp add: NormalizedManifest_Validate_def RawManifest_Validate_def validProducer_def s_normalized_manifest_def)
      (simp add: s_raw_artifact_def)
qed

lemma s_Normalized_Parse: "Normalized_Parse s_normalized_text ''perf-20260102-030405-0000000b'' ''1.0.0'' = Inr s_normalized_manifest"
  using s_names(2)
  by (simp add: Normalized_Parse_def s_normalized_wellformed s_normalized_parsed s_normalized_shape s_normalized_decoded
      s_normalized_manifest_valid)

lemma s_provenance: "matchesRawProvenance s_normalized_manifest s_raw_manifest"
proof -
  have "(case (parse_rfc3339 ''2026-01-02T03:06:05Z'', parse_rfc3339 ''2026-01-02T03:07:05Z'') of
      (Some a, Some b) \<Rightarrow> \<not> b < a | _ \<Rightarrow> False)" by code_simp
  then show ?thesis by (simp add: matchesRawProvenance_def s_normalized_manifest_def s_raw_manifest_def)
qed

definition s_normalized_reference :: artifact where
  "s_normalized_reference = s_candidate_artifact\<lparr>a_id := ''cccccccc-aaaa-aaaa-aaaa-aaaaaaaaaaaa'', a_uri := ''s3://bucket/c''\<rparr>"

definition s_normalized_answers :: collector_answers where
  "s_normalized_answers = s_raw_answers\<lparr>ca_normalized := \<lambda>_ _ _. Inr s_normalized_reference,
     ca_read := \<lambda>a _. Inr (if a = s_normalized_reference then s_normalized_text else s_raw_text)\<rparr>"

definition s_analysis_input :: analysis_input where
  "s_analysis_input = \<lparr>ai_manifest = s_raw_reference, ai_sources = [s_raw_artifact]\<rparr>"

lemma s_normalized_reference_valid: "validNormalizedArtifact (r_id s_candidate_run) s_normalized_reference s_analysis_input = Inr ()"
proof -
  have "rx_match uuid_pattern ''cccccccc-aaaa-aaaa-aaaa-aaaaaaaaaaaa''" "rx_match uri_pattern ''s3://bucket/c''"
    "(case url_Parse (uri_rest ''s3://bucket/c'') of None \<Rightarrow> False | Some u \<Rightarrow> \<not> (url_Hostname u = [] \<or> u_user u))" by code_simp+
  from relocated_valid [OF s_candidate_artifact_valid this] have "Artifact_Validate s_normalized_reference = Inr ()"
    by (simp only: s_normalized_reference_def)
  then show ?thesis
    by (simp add: validNormalizedArtifact_def check_def s_candidate_run_def) (simp add: s_normalized_reference_def s_analysis_input_def
        s_candidate_artifact_def s_artifact_def s_raw_reference_def s_raw_artifact_def eval_nat_numeral)
qed

lemma s_normalized_collected:
  "\<exists>w'. CollectNormalizedArtifact (pg_evidence s_collector_schedule s_normalized_answers) ''alice'' s_candidate_run s_analysis_input
      (s_collector_world baseline_empty 0) = Some (Inr s_normalized_reference, w')"
proof -
  have ca: "ca_ctx s_normalized_answers w = Inr ()" "ca_version s_normalized_answers p r w = Inr ''1.0.0''"
    "ca_normalized s_normalized_answers p r w = Inr s_normalized_reference"
    "ca_read s_normalized_answers a w = Inr (if a = s_normalized_reference then s_normalized_text else s_raw_text)"
    "ca_approveNormalized s_normalized_answers p r inp m w = Inr ()" for w p r a m inp
    by (simp_all add: s_normalized_answers_def s_raw_answers_def s_collector_answers_def)
  have ne: "s_raw_reference \<noteq> s_normalized_reference"
    by (simp add: s_raw_reference_def s_normalized_reference_def s_artifact_def s_candidate_artifact_def)
  have run: "r_id s_candidate_run = ''perf-20260102-030405-0000000b''" by (simp add: s_candidate_run_def)
  have inp: "ai_manifest s_analysis_input = s_raw_reference" "ai_sources s_analysis_input = [s_raw_artifact]"
    by (simp_all add: s_analysis_input_def)
  have m: "rm_schemaVersion s_raw_manifest = 1" "rm_artifacts s_raw_manifest = [s_raw_artifact]" "nz_sources s_normalized_manifest = [s_raw_artifact]"
    by (simp_all add: s_raw_manifest_def s_normalized_manifest_def)
  have f: "a_format s_raw_reference = ''raw-result/v1''" by (simp add: s_raw_reference_def s_artifact_def)
  have v: "evidenceContractsVersion (pg_evidence s_collector_schedule s_normalized_answers) ''alice'' s_candidate_run
      (s_collector_world (s_baseline_db s_approved) (Suc 0))
    = Some (Inr ''1.0.0'', s_collector_world (s_baseline_db s_approved) (Suc (Suc 0)))"
    using s_names(2) by (simp add: evidenceContractsVersion_def bind_ok_def attempt_def call_def ret_def s_constant ca)
  have sets: "sameArtifacts [s_raw_artifact] [s_raw_artifact]" "artifactSubset [s_raw_artifact] [s_raw_artifact]"
    by (simp_all add: sameArtifacts_iff artifactSubset_iff)
  show ?thesis using s_raw_set_valid s_normalized_reference_valid unfolding s_raw_set_def run
    by (simp add: CollectNormalizedArtifact_def readRawManifest_def bind_ok_def bind_as_def attempt_def call_def ret_def run v inp ne
        s_constant ca s_candidate_id_valid s_Normalized_Parse s_Raw_Parse m f sets rawManifestFormat_def s_provenance)
qed

end
