(* ===== verification/Spec2Isabelle.thy ===== *)
theory Spec2Isabelle
  imports Native_Samples Benchmark_Samples Collector_Samples
begin

text \<open>
  \<^bold>\<open>The program.\<close> perfeng-control-plane accepts performance-test Runs over HTTP, keeps them in a
  repository and drives each one through a pinned lifecycle: validation, provisioning of a
  Kubernetes Job, warm-up, execution, collection of raw evidence, analysis, reporting. Workers
  lease Runs from the repository and reconcile them stage by stage; every write of a worker is
  fenced by its lease. Exclusive benchmark targets are held in the database until a verified
  cleanup releases them. Approved baselines are versioned records derived from completed Runs.
  Runs for native hosts are not dispatched to Kubernetes: registered workers announce
  themselves, acquire a lease with a secret capability, report phases while renewing it, upload
  evidence under grants, register it and end the attempt with one terminal report.

  \<^bold>\<open>Theories and sources\<close> (paths under \<open>src/internal\<close>).
  \<^item> \<open>Prelude\<close>, \<open>Text_Patterns\<close>, \<open>Digest\<close>, \<open>Urls\<close>, \<open>Calendar\<close>: what the source uses of the Go
    language and standard library: error values, UTF-8, anchored regular expressions (a
    derivative matcher proved against its language), SHA-256, URL parsing, civil dates.
  \<^item> \<open>Contract\<close>: the lifecycle table and identifier patterns of \<open>contract/contract.go\<close>.
  \<^item> \<open>Run_Domain\<close>: \<open>run/domain.go\<close>, \<open>claims.go\<close>, \<open>artifact.go\<close>, \<open>benchmark.go\<close>.
  \<^item> \<open>Baselines\<close>: \<open>baseline/domain.go\<close> and the identity checks it takes from \<open>rawresult\<close>.
  \<^item> \<open>Lifecycle_Spec\<close>: the abstract specifications, as locales: a Run store refines the
    lifecycle, acceptance is idempotent, leases are exclusive and fence writes, rows evolve
    monotonically, artifacts are immutable.
  \<^item> \<open>Memory_Store\<close>: \<open>memory/repository.go\<close>, \<open>artifacts.go\<close>, \<open>baselines.go\<close>; the record \<open>mem\<close> is the
    \<open>Repository\<close> struct, one definition per method, \<open>mem_step\<close> any sequence of them.
  \<^item> \<open>Pg_Store\<close>, \<open>Pg_Claims\<close>, \<open>Pg_Benchmark\<close>: \<open>postgres/database.go\<close>, \<open>repository.go\<close>,
    \<open>artifacts.go\<close>, \<open>claims.go\<close>, \<open>executions.go\<close>, \<open>benchmark_reservations.go\<close>,
    \<open>benchmark_cleanup.go\<close>; the record \<open>db\<close> is the schema of the migrations. \<open>Pg_Machine\<close> and
    \<open>Pg_Holds\<close> run arbitrary sequences of calls of arbitrary clients on it, \<open>Pg_Claiming\<close> proves
    what \<open>ClaimRuns\<close> returns.
  \<^item> \<open>Programs\<close>, \<open>Reconcile\<close>, \<open>Evidence\<close>: the stages and the router of \<open>reconcile/\<close>, written
    against a record \<open>services\<close> of the store, cluster and collector operations they call.
    \<open>Stage_Safety\<close> proves what any attempt may do, \<open>Pg_World\<close> runs the stages on the Postgres
    model with other clients interleaved between the calls.
  \<^item> \<open>Benchmark_Stage\<close>: \<open>reconcile/benchmark_dispatch.go\<close> and \<open>benchmark_cleanup.go\<close>, the reconciler of
    contained benchmarks in front of the router; target methods receive their fence as a call.
    \<open>Benchmark_World\<close> runs it on the Postgres model, \<open>Benchmark_Safety\<close> proves what an attempt may
    do under the stored hold.
  \<^item> \<open>Worker\<close>: \<open>worker/worker.go\<close>, the scheduler and the supervision of one claim.
  \<^item> \<open>Baseline_Spec\<close> is the contract of a baseline store, \<open>Pg_Baselines\<close> models
    \<open>postgres/baselines.go\<close> on the record \<open>baseline_db\<close> (the core schema and the baselines table)
    and interprets it.
  \<^item> \<open>Raw_Result\<close> (\<open>rawresult/manifest.go\<close>) and \<open>Native_Domain\<close> (\<open>nativeworker/\<close>): execution
    artifacts, plans, presence, eligibility, the mapping of phases to lifecycle states, and the
    validation of every request and reply of the native protocol.
  \<^item> \<open>Pg_Native\<close>, \<open>Pg_Native_Evidence\<close>: \<open>postgres/native_*.go\<close>; the record \<open>native_db\<close> extends
    \<open>baseline_db\<close> with the presence, lease, grant, artifact and terminal-report tables.
    \<open>Native_Effects\<close> states what each call may change, \<open>Native_Machine\<close> runs arbitrary sequences
    of all calls of the whole store (\<open>native_step\<close>) and interprets on them the contracts of the
    Run lifecycle, of baselines, of worker slots, of lease authority and of durable rows.
    \<open>Native_Reports\<close> proves what clients rely on across calls, \<open>Native_Issue\<close> what an acquisition
    hands out.
  \<^item> \<open>Json_Text\<close>, \<open>Json_Documents\<close>: the scanner and the token stream of Go's JSON decoder, and
    \<open>jsondocument/document.go\<close> on it, proved against a recursive parser. \<open>Float64\<close>: rounding and
    arithmetic of doubles as rationals, without the sign of zero.
  \<^item> \<open>Raw_Documents\<close>, \<open>Normalized_Result\<close>, \<open>Analysis_Result\<close>: strict parsing and validation of the
    three envelopes, \<open>manifest.go\<close> of \<open>rawresult\<close>, \<open>normalizedresult\<close> and \<open>analysisresult\<close>.
  \<^item> \<open>Policy\<close>: \<open>policy/policy.go\<close>, parsing of policies and the approval of verdicts;
    \<open>Policy_Safety\<close> proves what an approved verdict says of the reported values.
  \<^item> \<open>Report_Plan\<close>, \<open>Collectors\<close>: the plans, approvals, collectors and Job executors of
    \<open>reconcile/\<close> that the evidence stages call, over a record of registries, object reader and
    baseline repository. \<open>Collector_Safety\<close> decomposes a successful collection and runs the
    approval on the Postgres baselines with other clients interleaved.
  \<^item> \<open>Samples\<close>, \<open>Baseline_Samples\<close>, \<open>Native_Samples\<close>, \<open>Benchmark_Samples\<close>, \<open>Report_Samples\<close>,
    \<open>Collector_Samples\<close>: concrete values on which the properties are applied.

  \<^bold>\<open>Atomicity.\<close> Each Postgres method is one transaction that first locks its Run row (or key), so
  it is one step of the model. \<open>transact\<close> adds faults: failure before the commit, and commits
  that report an error with or without having persisted. Clock readings, random suffixes and
  tokens, query snapshots and skipped rows are arbitrary arguments of the operations. A native
  call finds its lease by identifier before it takes the locks; that read is an arbitrary older
  lease table, the argument \<open>old\<close>.

  \<^bold>\<open>Fuel.\<close> The polling loop of \<open>BoundExecutionReconciler.cancel\<close> takes the number of polls and
  answers \<open>None\<close> when it is used up: C25 shows how many are enough. The retry loop of the
  in-memory \<open>Accept\<close> takes the random draws it may use.

  \<^bold>\<open>The properties\<close> are C1 to C40 below: lifecycle invariants, both stores as refinements of the
  lifecycle, idempotent acceptance, lease exclusivity and fencing, exclusive target holds and
  their release, authorisation of every reconciliation attempt, completeness of evidence, the
  scheduler's capacity, exact baseline transitions and their append-only history, and for native
  execution the refinement of the whole store, one slot per worker, fenced authority, idempotent
  terminal reports backed by evidence, stable upload grants, phases in closed form and
  well-formed leases, and for contained benchmarks that Jobs exist only under a sealed hold. For
  evidence: the streaming document check is exact, approved verdicts follow from the reported
  values in floating-point arithmetic, approved reports rest on the pinned policy and on approved
  baselines, and what the collectors return was read, parsed and approved.

  \<^bold>\<open>Not modelled.\<close> HTTP handlers, configuration and wiring (\<open>httpapi\<close>, \<open>app\<close>, \<open>cmd\<close>), the
  Kubernetes and object store clients (I/O against external services), JSON encodings of
  stored rows (a row is its decoded value), SQL migrations as programs. Plans of contained
  benchmarks are validated, encoded and restored by functions of the services; so are the
  templates and plans of Kubernetes Jobs.
\<close>

section \<open>The Run lifecycle\<close>

text \<open>
  C1. A successful transition keeps a snapshot well formed: it follows a pinned edge,
  increments the revision by one, never moves time backwards, never touches identity,
  request or creation time, and stays within the revision bound.
\<close>

theorem transition_invariant:
  assumes "run_wf r" "Run_Transition r e ch now = Inr r'"
  shows "run_wf r' \<and> CanTransition (r_state r) (r_state r') \<and> r_revision r' = r_revision r + 1
    \<and> r_id r' = r_id r \<and> r_request r' = r_request r \<and> r_createdAt r' = r_createdAt r
    \<and> r_updatedAt r \<le> r_updatedAt r'"
  using Run_Transition_wf [OF assms] Run_Transition_monotone [OF assms(2)] by simp

theorem transition_invariant_witness:
  "run_wf (s_run\<lparr>r_state := StateValidating, r_revision := 2\<rparr>)"
proof -
  have t: "Run_Transition s_run 1 (to_state StateValidating) s_now
      = Inr (s_run\<lparr>r_state := StateValidating, r_revision := 2\<rparr>)"
    by (simp add: Run_Transition_def s_run_def new_run_def to_state_def maxRunRevision_def CanTransition_def
        requiresFailure_def Terminal_iff)
  from transition_invariant [OF s_run_simps(5) t] show ?thesis by blast
qed

lemma cancellation_idempotent:
  assumes "Run_RequestCancellation r now = Inr r'"
  shows "(r_state r' = StateCancelling \<or> r_state r' = StateAborted) \<and> Run_RequestCancellation r' now' = Inr r'"
proof -
  have "r_state x = s" if "Run_Transition r e (to_state s) now = Inr x" for e s x
    using that by (rule Run_Transition_InrE) (simp add: to_state_def)
  with assms have "r_state r' = StateCancelling \<or> r_state r' = StateAborted"
    by (auto simp: Run_RequestCancellation_def split: if_splits)
  then show ?thesis by (auto simp: Run_RequestCancellation_def)
qed

lemma cancellation_errors:
  assumes "run_wf r" "r_revision r < maxRunRevision"
  shows "Run_RequestCancellation r now = Inl e \<longleftrightarrow> Terminal (r_state r) \<and> r_state r \<noteq> StateAborted \<and> e = ErrTerminal"
proof -
  have tr: "\<exists>r'. Run_Transition r (r_revision r) (to_state s) now = Inr r'"
    if "CanTransition (r_state r) s" "\<not> requiresFailure s" for s
    using lawful_accepted [OF to_state_lawful [OF that] assms(2)] .
  have "transitions (r_state r) \<noteq> None" using assms(1) by (simp add: run_wf_def)
  then show ?thesis
    using tr [of StateAborted] tr [of StateCancelling]
    by (cases "r_state r")
      (auto simp: Run_RequestCancellation_def Terminal_iff CanTransition_def requiresFailure_def)
qed

text \<open>
  C2. Cancellation of a well-formed snapshot below the revision bound fails exactly on a terminal
  Run that was not aborted, with \<open>ErrTerminal\<close>; otherwise it ends in \<open>CANCELLING\<close> or \<open>ABORTED\<close>
  and is idempotent: asking again, at any later or earlier time, returns the same snapshot.
\<close>

theorem cancellation_exact:
  assumes "run_wf r" "r_revision r < maxRunRevision"
  shows "if Terminal (r_state r) \<and> r_state r \<noteq> StateAborted then Run_RequestCancellation r now = Inl ErrTerminal
    else \<exists>r'. Run_RequestCancellation r now = Inr r' \<and> (r_state r' = StateCancelling \<or> r_state r' = StateAborted)
      \<and> (\<forall>now'. Run_RequestCancellation r' now' = Inr r')"
  using cancellation_errors [OF assms, of now] cancellation_idempotent [of r now]
  by (cases "Run_RequestCancellation r now") auto

theorem cancellation_exact_witness:
  "\<exists>r'. Run_RequestCancellation s_run s_now = Inr r' \<and> Run_RequestCancellation r' (s_now - 1) = Inr r'"
proof -
  have "r_revision s_run < maxRunRevision" by (simp add: maxRunRevision_def)
  from cancellation_exact [OF s_run_simps(5) this, of s_now] show ?thesis by (auto simp: Terminal_iff)
qed

section \<open>Stores refine the lifecycle\<close>









section \<open>Idempotent acceptance\<close>

text \<open>
  C8. Postgres \<open>Accept\<close> is idempotent for 24 hours: after it answered, and after any calls of
  any clients before the binding expires, the same key with the same request and target
  returns the original acceptance, with anything else it is a conflict, and neither changes
  the database.
\<close>

theorem pg_accept_replay:
  assumes "fst (pg_Accept f now w p k rq t d) = Inr a"
    and "\<forall>op\<in>set ops. pg_clock op [] < acc_expiresAt a"
    and "now' < acc_expiresAt a" "p \<noteq> []" "ValidKey k" "is_ok (Request_Validate rq')" "ExecutionTarget_Valid t'"
  defines "d' \<equiv> fold pg_step ops (snd (pg_Accept f now w p k rq t d))"
  shows "pg_Accept TxOk now' w' p k rq' t' d' =
    ((if rq' = rq \<and> t' = t then Inr a else Inl ErrConflict), d')"
  using pg_accept.replay_returns_original [of "(f, now, w)" p k rq t d a ops "(TxOk, now', w')" rq' t'] assms
  by (auto simp: prod_eq_iff)

theorem pg_accept_replay_witness:
  "fst (pg_Accept TxOk (s_now + 1) 7 ''alice'' s_key s_request ExecutionTargetKubernetes
     (snd (pg_Cancel TxOk s_now ''alice'' s_id s_db))) = Inr s_accepted"
proof -
  have e: "s_now + 1 < acc_expiresAt s_accepted" "s_now < acc_expiresAt s_accepted"
    by (simp_all add: s_accepted_def minutes_def seconds_def)
  have v: "is_ok (Request_Validate s_request)" by (simp add: s_request_valid)
  show ?thesis
    using pg_accept_replay [of TxOk s_now 0 "''alice''" s_key s_request ExecutionTargetKubernetes db_empty s_accepted
        "[PCancel TxOk s_now ''alice'' s_id]" "s_now + 1" s_request ExecutionTargetKubernetes 7] e v s_key_valid
    by (simp add: s_pg_Accept ExecutionTarget_Valid_def)
qed

text \<open>
  C9. The in-memory \<open>Accept\<close> gives the same guarantee.
\<close>

theorem memory_accept_replay:
  assumes "mem_Accept None now draws p k rq t m = Some (Inr a, m1)"
    and "\<forall>op\<in>set ops. mem_op_time op < acc_expiresAt a"
    and "now' < acc_expiresAt a" "accept_input_ok p k rq' t'"
  defines "m' \<equiv> fold mem_step ops m1"
  shows "mem_Accept None now' draws' p k rq' t' m' =
    Some ((if rq' = rq \<and> t' = t then Inr a else Inl ErrConflict), m')"
proof -
  let ?e = "(None :: err option, now, draws)" and ?e' = "(None :: err option, now', draws')"
  have st: "mem_step (MAccept ?e p k rq t) m = m1" using assms(1) by simp
  have "mem_answer (MAccept ?e' p k rq' t') m' = Some (if rq' = rq \<and> t' = t then Inr a else Inl ErrConflict)
      \<and> mem_step (MAccept ?e' p k rq' t') m' = m'"
    using memory_accept.replay_returns_original [of ?e p k rq t m a ops ?e' rq' t'] assms
    unfolding st by (simp add: mem_answer_def)
  then show ?thesis by (auto simp: mem_answer_def split: option.splits)
qed

theorem memory_accept_replay_witness:
  "mem_Accept None (s_now + 1) [] ''alice'' s_key s_request ExecutionTargetNativeLinux s_mem
    = Some (Inl ErrConflict, s_mem)"
proof -
  have e: "s_now + 1 < acc_expiresAt s_accepted" by (simp add: s_accepted_def minutes_def seconds_def)
  have v: "accept_input_ok ''alice'' s_key s_request ExecutionTargetNativeLinux"
    by (simp add: accept_input_ok_def s_request_valid s_key_valid ExecutionTarget_Valid_def)
  from memory_accept_replay [OF s_mem_Accept _ e v, of "[]" "[]"] show ?thesis by simp
qed

text \<open>
  C10. An uncertain commit is safe to retry: when the commit of a first acceptance reports an
  error, retrying with the same input before expiry returns the Run of the first attempt if
  it was persisted, and otherwise runs on the unchanged database.
\<close>

theorem pg_accept_uncertain_commit:
  assumes "pg_Accept (TxCommitFails x persisted) now w p k rq t d = (res, d')"
    and "select_binding p k d = None" "ValidID (run_id_of now w)" "map_of (d_runs d) (run_id_of now w) = None"
    and "p \<noteq> []" "ValidKey k" "is_ok (Request_Validate rq)" "ExecutionTarget_Valid t"
    and "now' < now + 24 * minutes 60"
  shows "res = Inl (storageError x)
    \<and> (if persisted
       then pg_Accept TxOk now' w' p k rq t d' =
         (Inr \<lparr>acc_run = new_run (run_id_of now w) rq now, acc_expiresAt = now + 24 * minutes 60\<rparr>, d')
       else d' = d)"
  using assms
  by (auto simp: pg_Accept_def transact_def pg_create_def Let_def insert_binding_def select_binding_def new_run_def)

theorem pg_accept_uncertain_commit_witness:
  "fst (pg_Accept TxOk (s_now + 1) 7 ''alice'' s_key s_request ExecutionTargetKubernetes
     (snd (pg_Accept (TxCommitFails ConnError True) s_now 0 ''alice'' s_key s_request ExecutionTargetKubernetes db_empty)))
    = Inr s_accepted"
proof -
  obtain res d' where c: "pg_Accept (TxCommitFails ConnError True) s_now 0 ''alice'' s_key s_request
    ExecutionTargetKubernetes db_empty = (res, d')" by force
  have v: "is_ok (Request_Validate s_request)" by (simp add: s_request_valid)
  have e: "select_binding ''alice'' s_key db_empty = None" by (simp add: select_binding_def db_empty_def)
  show ?thesis
    using pg_accept_uncertain_commit [OF c e, of "s_now + 1" 7] s_id_valid v s_key_valid c
    by (simp add: ExecutionTarget_Valid_def minutes_def seconds_def s_accepted_def s_run_def db_empty_def
        flip: s_id_def)
qed

section \<open>Lease fencing\<close>

text \<open>
  C11. A live lease is exclusive: its row keeps worker, token and expiry through any calls
  that do not present its token and read a clock before its expiry, claims of other workers
  included.
\<close>

theorem lease_exclusive:
  assumes "pg_lease_at d i = Some (w, tok, e)"
    and "\<forall>op\<in>set ops. pg_clock op i < e \<and> (\<forall>l. pg_lease op = Some l \<longrightarrow> l_runID l = i \<longrightarrow> l_token l \<noteq> tok)"
  shows "pg_lease_at (fold pg_step ops d) i = Some (w, tok, e)"
  using assms by (rule pg_leases.exclusive)

theorem lease_exclusive_witness:
  "pg_lease_at (fold pg_step [PClaimRuns TxOk s_env ''worker-2'' 1 (seconds 30)] s_db1) s_id
    = Some (''worker-1'', s_token, s_now + seconds 30)"
proof -
  have "pg_lease_at s_db1 s_id = Some (''worker-1'', s_token, s_now + seconds 30)"
    by (simp add: pg_lease_at_def s_db1_def s_lease_row_def)
  from lease_exclusive [OF this, of "[PClaimRuns TxOk s_env ''worker-2'' 1 (seconds 30)]"] show ?thesis
    by (simp add: s_env_def seconds_def)
qed

text \<open>
  C12. Stale workers are harmless: while a lease is held, any sequence of calls that present
  another token for its Run (renewals, releases, advances, bindings, benchmark holds and
  cleanup alike) leaves the database exactly as it is.
\<close>

theorem stale_calls_rejected:
  assumes "pg_lease_at d i = Some (w, tok, e)"
    and "\<forall>op\<in>set ops. \<exists>l. pg_lease op = Some l \<and> l_runID l = i \<and> l_token l \<noteq> tok"
  shows "fold pg_step ops d = d"
  using assms by (rule pg_leases.stale_calls_ignored)

theorem stale_calls_rejected_witness:
  "snd (pg_AdvanceClaim TxOk s_now (s_lease\<lparr>l_token := replicate 32 (CHR ''b'')\<rparr>) 1 (to_state StateValidating) s_db1) = s_db1"
proof -
  have "pg_lease_at s_db1 s_id = Some (''worker-1'', s_token, s_now + seconds 30)"
    by (simp add: pg_lease_at_def s_db1_def s_lease_row_def)
  from stale_calls_rejected [OF this, of
      "[PAdvanceClaim TxOk s_now (s_lease\<lparr>l_token := replicate 32 (CHR ''b'')\<rparr>) 1 (to_state StateValidating)]"]
  show ?thesis by (simp add: s_lease_def s_token_def)
qed



text \<open>
  C14. No double claim: after a Run has been claimed, no claim of any worker that reads a
  clock before the lease expires returns it, whatever else happened in between without the
  lease's token and within its lifetime.
\<close>

theorem no_double_claim:
  assumes "pg_ClaimRuns f env w n ttl d = (Inr cls, d1)" "view_ok (pg_view d)" "c \<in> set cls"
    and "\<forall>op\<in>set ops. pg_clock op (r_id (cl_run c)) < l_expiresAt (cl_lease c)
      \<and> (\<forall>l. pg_lease op = Some l \<longrightarrow> l_runID l = r_id (cl_run c) \<longrightarrow> l_token l \<noteq> l_token (cl_lease c))"
    and "pg_ClaimRuns f' env' w' n' ttl' (fold pg_step ops d1) = (Inr cls', d2)"
    and "ce_clock env' (r_id (cl_run c)) < l_expiresAt (cl_lease c)" "c' \<in> set cls'"
  shows "l_runID (cl_lease c') \<noteq> r_id (cl_run c)"
proof -
  let ?i = "r_id (cl_run c)"
  have "0 < ttl" using ClaimRuns_Inr(1) [OF assms(1)] by (auto simp: ValidClaimOptions_def dest: ValidLeaseTTL_pos)
  with acquire_all_claims [OF ClaimRuns_Inr(2) [OF assms(1)]] assms(3)
  have cl: "claimed (ce_clock env) (ce_token env) w ttl
      (lockClaimCandidates (ce_query env) (ce_skip env) (nat n) (ce_snapshot env) d) d d1 c" by blast
  then have l: "cl_lease c = \<lparr>l_runID = ?i, l_principal = l_principal (cl_lease c), l_workerID = w,
       l_token = ce_token env ?i, l_expiresAt = ce_clock env ?i + ttl\<rparr>" by (simp add: claimed_def)
  then have tok: "l_token (cl_lease c) = ce_token env ?i" "l_expiresAt (cl_lease c) = ce_clock env ?i + ttl"
    by (metis lease.select_convs)+
  have "pg_lease_at d1 ?i = Some (w, ce_token env ?i, ce_clock env ?i + ttl)" using cl by (simp add: claimed_def)
  from pg_leases.exclusive [OF this, of ops] assms(4)
  have "pg_lease_at (fold pg_step ops d1) ?i = Some (w, ce_token env ?i, ce_clock env ?i + ttl)" by (simp add: tok)
  then obtain row where "map_of (d_leases (fold pg_step ops d1)) ?i = Some row"
    "lr_expiresAt row = l_expiresAt (cl_lease c)" by (auto simp: pg_lease_at_def tok)
  with acquire_all_live [OF ClaimRuns_Inr(2) [OF assms(5)], of ?i row] assms(6,7) show ?thesis by auto
qed

theorem no_double_claim_witness:
  "\<exists>cls d2. pg_ClaimRuns TxOk s_env ''worker-1'' 4 (seconds 30) s_db1 = (Inr cls, d2)
    \<and> s_id \<notin> (\<lambda>c. l_runID (cl_lease c)) ` set cls"
proof -
  obtain cls d2 where "acquire_all (ce_clock s_env) (ce_token s_env) ''worker-1'' (seconds 30)
      (lockClaimCandidates (ce_query s_env) (ce_skip s_env) 4 (ce_snapshot s_env) s_db1) s_db1 = (cls, d2)" by force
  then have c2: "pg_ClaimRuns TxOk s_env ''worker-1'' 4 (seconds 30) s_db1 = (Inr cls, d2)"
    by (simp add: pg_ClaimRuns_def s_options transact_def)
  have v: "view_ok (pg_view s_db)"
    by (auto simp: view_ok_def pg_view_def s_db_def s_row_def split: if_splits)
  have t: "ce_clock s_env s_id < s_now + seconds 30" by (simp add: s_env_def seconds_def)
  have "l_runID (cl_lease c') \<noteq> s_id" if "c' \<in> set cls" for c'
    using no_double_claim [OF s_pg_ClaimRuns v, of s_claim "[]" TxOk s_env "''worker-1''" 4 "seconds 30" cls d2 c'] c2 t that
    by (simp add: s_claim_def s_lease_def)
  then have "s_id \<notin> (\<lambda>c. l_runID (cl_lease c)) ` set cls" by (metis (mono_tags, lifting) imageE)
  with c2 show ?thesis by blast
qed

section \<open>Fenced writes\<close>

text \<open>
  C15. A successful \<open>AdvanceClaim\<close> made exactly one transition of the leased Run at the
  requested revision, under the live lease; a terminal outcome expires the lease in the same
  transaction, so the lease authorises nothing afterwards.
\<close>

theorem advance_claim_correct:
  assumes "pg_AdvanceClaim f now l rv ch d = (Inr r', d')"
  shows "\<exists>r. pg_view d (l_runID l) = Some (l_principal l, r) \<and> r_revision r = rv
      \<and> Run_Transition r rv ch now = Inr r' \<and> holds_lease l now (pg_lease_at d (l_runID l))
      \<and> pg_view d' = (pg_view d)(l_runID l \<mapsto> (l_principal l, r'))
      \<and> (Terminal (r_state r') \<longrightarrow> (\<forall>t. now \<le> t \<longrightarrow> \<not> holds_lease l t (pg_lease_at d' (l_runID l))))"
proof -
  have "transact f (\<lambda>d. case lockOwnedClaim now l d of Inl e \<Rightarrow> Abort e
      | Inr current \<Rightarrow> (case Run_Transition current rv ch now of Inl e \<Rightarrow> Abort e
        | Inr next \<Rightarrow> Commit next (expire_if_terminal now next (l_runID l) (put_snapshot (l_runID l) next d)))) d
      = (Inr r', d')"
    using assms by (simp add: pg_AdvanceClaim_def split: if_splits)
  from transact_Inr [OF this] obtain r where own: "lockOwnedClaim now l d = Inr r"
    and t: "Run_Transition r rv ch now = Inr r'"
    and d': "d' = expire_if_terminal now r' (l_runID l) (put_snapshot (l_runID l) r' d)"
    by (auto split: sum.splits)
  note v = own [unfolded lockOwnedClaim_Inr]
  have "pg_view d' = (pg_view d)(l_runID l \<mapsto> (l_principal l, r'))"
    using v put_snapshot_view [of d "l_runID l" "l_principal l" r r']
      pg_view_cong [of d' "put_snapshot (l_runID l) r' d"] by (simp add: d')
  moreover have "r_revision r = rv" using t by (rule Run_Transition_InrE)
  moreover have "Terminal (r_state r') \<longrightarrow> (\<forall>t. now \<le> t \<longrightarrow> \<not> holds_lease l t (pg_lease_at d' (l_runID l)))"
    by (auto simp: d' expire_if_terminal_def update_lease_def holds_lease_def pg_lease_at_def split: option.splits)
  ultimately show ?thesis using v t by blast
qed

theorem advance_claim_correct_witness:
  "\<exists>r d'. pg_AdvanceClaim TxOk s_now s_lease 1 (to_state StateValidating) s_db1 = (Inr r, d')
    \<and> pg_view d' s_id = Some (''alice'', r) \<and> r_state r = StateValidating"
proof -
  have o: "lockOwnedClaim s_now s_lease s_db1 = Inr s_run" by (rule s_owned) (simp_all add: seconds_def)
  obtain r where r: "Run_Transition s_run 1 (to_state StateValidating) s_now = Inr r" "r_state r = StateValidating"
    by (simp add: Run_Transition_def to_state_def maxRunRevision_def CanTransition_def requiresFailure_def Let_def)
  obtain d' where c: "pg_AdvanceClaim TxOk s_now s_lease 1 (to_state StateValidating) s_db1 = (Inr r, d')"
    using o r s_lease_valid by (simp add: pg_AdvanceClaim_def transact_def)
  from advance_claim_correct [OF c] c r show ?thesis by (auto simp: s_lease_def)
qed



text \<open>
  C17. A bound Kubernetes execution identity is never replaced or removed, by any call of any
  client.
\<close>

theorem execution_write_once:
  assumes "map_of (d_executions d) i = Some x"
  shows "map_of (d_executions (fold pg_step ops d)) i = Some x"
  using pg_executions.calls_evolve [of d i x ops] assms by simp

definition s_execution :: execution where
  "s_execution = \<lparr>x_runID = s_id, x_namespace = ''perf'', x_jobName = s_id, x_uid = ''uid-1'', x_specSHA256 = s_hash\<rparr>"

theorem execution_write_once_witness:
  "map_of (d_executions (fold pg_step
     [PBindExecution (\<lambda>_. True) TxOk s_now s_lease (s_execution\<lparr>x_uid := ''uid-2''\<rparr>)]
     (s_db1\<lparr>d_executions := [(s_id, s_execution)]\<rparr>))) s_id = Some s_execution"
  by (rule execution_write_once) simp

section \<open>Benchmark target holds\<close>



text \<open>
  C19. A hold's intent, admission, first namespace, sealed request, cleanup cutoff, intended
  outcome, fence and drain deadline are write-once under every sequence of calls; after the
  cutoff no request is sealed any more, and a released hold never changes again.
\<close>

theorem hold_write_once:
  assumes "holds_ok (d_reservations d)" "map_of (d_reservations d) i = Some rv"
  shows "\<exists>rv'. map_of (d_reservations (fold pg_step ops d)) i = Some rv' \<and> hold_evolves rv rv'"
  using assms by (rule pg_holds.calls_evolve)

theorem hold_write_once_witness:
  "\<exists>rv. map_of (d_reservations (fold pg_step
      [PRecordFence TxOk s_now s_now s_lease 4 (BenchmarkDigest ''plan'')] s_db_fenced)) s_id = Some rv
    \<and> rv_cleanupNotBefore rv = Some s_now"
proof -
  have "map_of (d_reservations s_db_fenced) s_id = Some s_fenced" by (simp add: s_db_fenced_def)
  from hold_write_once [OF s_fenced_ok this, of "[PRecordFence TxOk s_now s_now s_lease 4 (BenchmarkDigest ''plan'')]"]
  show ?thesis by (auto simp: hold_evolves_def s_fenced_def)
qed





section \<open>Reconciliation\<close>

text \<open>
  C22. Every reconciliation attempt of the router on the Postgres repository is authorised by
  its claim: with any other clients interleaved between its calls, any transaction faults
  and any answers of the cluster and the collectors, Runs change only by lifecycle
  transitions, lifecycle requests are lawful for the claimed snapshot, carry its revision and
  its lease, Jobs are created only for a \<open>PROVISIONING\<close> claim and its own Run, deleted only
  while \<open>CANCELLING\<close>, and only valid identities of the Run are bound.
\<close>

theorem attempts_are_authorised:
  assumes "Router_Reconcile n (pg_services sch an) cfg c w = Some (res, w')"
  shows "life_steps (pg_view (pw_db w)) (pg_view (pw_db w'))
    \<and> (\<exists>evs. pw_log w' = pw_log w @ evs \<and> list_all (authorised (an_dns an) c) evs)"
  using validD [OF pg_stage.router_preserves attempt_ok_refl assms] by (simp add: attempt_ok_def)

definition s_router :: router_config where
  "s_router = \<lparr>rc_provisioning = \<lparr>pc_leaseTTL = seconds 30, pc_attemptTimeout = seconds 10\<rparr>, rc_bound = s_bound,
     rc_collection = \<lparr>sc_attemptTimeout = seconds 10, sc_retryAfter = seconds 5\<rparr>,
     rc_analysis = \<lparr>sc_attemptTimeout = seconds 10, sc_retryAfter = seconds 5\<rparr>,
     rc_reporting = \<lparr>sc_attemptTimeout = seconds 10, sc_retryAfter = seconds 5\<rparr>\<rparr>"

theorem attempts_are_authorised_witness:
  "\<exists>res w'. Router_Reconcile 5 (pg_services s_quiet s_answers) s_router s_claim \<lparr>pw_db = s_db1, pw_tick = 0, pw_log = []\<rparr>
      = Some (res, w')
    \<and> life_steps (pg_view s_db1) (pg_view (pw_db w')) \<and> list_all (authorised (\<lambda>_. True) s_claim) (pw_log w')"
proof -
  have v: "validOwnedClaim s_claim" using s_lease_valid by (simp add: validOwnedClaim_def s_claim_def)
  obtain res w' where r: "Router_Reconcile 5 (pg_services s_quiet s_answers) s_router s_claim
      \<lparr>pw_db = s_db1, pw_tick = 0, pw_log = []\<rparr> = Some (res, w')"
    using v advance_ends [of "pg_services s_quiet s_answers" s_claim "to_state StateValidating"
      "\<lparr>pw_db = s_db1, pw_tick = 0, pw_log = []\<rparr>"]
    by (auto simp: Router_Reconcile_def s_claim_def)
  from attempts_are_authorised [OF r] r show ?thesis by (auto simp: s_answers_def)
qed

text \<open>
  C23. Collection is complete before analysis: when a collection attempt that received a
  verified set ends without an error, every reference of the set and its manifest are stored
  under their identifiers, whatever other clients did meanwhile.
\<close>

theorem collection_complete:
  assumes "Collection_Reconcile (pg_services sch an) cfg c w = Some (Inr delay, w')"
    and "an_collect an (l_principal (cl_lease c)) (cl_run c) w = Inr collected"
  shows "\<forall>a\<in>set (ra_artifacts collected @ [ra_manifest collected]).
    map_of (d_artifacts (pw_db w')) (a_id (canonical a)) = Some (canonical a)"
  using collection_stores_all [OF assms] by blast

theorem collection_complete_witness:
  "\<exists>w'. Collection_Reconcile (pg_services s_quiet s_answers) (rc_collection s_router) s_collecting
      \<lparr>pw_db = s_db_at StateCollecting 5, pw_tick = 0, pw_log = []\<rparr> = Some (Inr 0, w')
    \<and> map_of (d_artifacts (pw_db w')) (a_id (canonical (ra_manifest s_collected))) = Some (canonical (ra_manifest s_collected))"
proof -
  obtain w' where w': "Collection_Reconcile (pg_services s_quiet s_answers) (rc_collection s_router) s_collecting
      \<lparr>pw_db = s_db_at StateCollecting 5, pw_tick = 0, pw_log = []\<rparr> = Some (Inr 0, w')" using s_collection by blast
  have "an_collect s_answers p q w = Inr s_collected" for p q w by (simp add: s_answers_def)
  from collection_complete [OF w' this] w' show ?thesis by auto
qed

text \<open>
  C24. What collection stored, analysis recovers: from a valid raw set, listed in any order,
  \<open>analysisEvidence\<close> returns exactly the manifest and the sources and asks for normalization,
  unless a source itself has a manifest format. The validation of the set accepts such a
  source, but then every listing is rejected.
\<close>

theorem evidence_roundtrip:
  assumes "RawArtifactSet_Validate s runID = Inr ()"
    and "set (as @ bs) = set (ra_artifacts s)"
  shows "analysisEvidence runID (as @ ra_manifest s # bs) =
    (if list_all (\<lambda>a. \<not> validRawManifestFormat (a_format a)) (ra_artifacts s)
     then Inr (\<lparr>ai_manifest = ra_manifest s, ai_sources = as @ bs\<rparr>, None)
     else Inl ErrValidation)"
proof (cases "list_all (\<lambda>a. \<not> is_manifest a) (ra_artifacts s)")
  case True
  with collected_evidence [OF assms(1) _ assms(2)] show ?thesis by (simp add: is_manifest_def)
next
  case False
  then obtain a where "a \<in> set (ra_artifacts s)" "is_manifest a" by (auto simp: list_all_iff)
  from second_manifest_blocks_analysis [OF assms(1) this, of "as @ ra_manifest s # bs"] False assms(2) show ?thesis
    by (auto simp: is_manifest_def)
qed

theorem evidence_roundtrip_witness:
  "analysisEvidence s_id [s_artifact ''b'' ''raw'' ''k6'', s_artifact ''a'' ''raw'' ''raw-result/v1'']
    = Inr (\<lparr>ai_manifest = s_artifact ''a'' ''raw'' ''raw-result/v1'', ai_sources = [s_artifact ''b'' ''raw'' ''k6'']\<rparr>, None)"
  using evidence_roundtrip [OF s_collected_valid, of "[s_artifact ''b'' ''raw'' ''k6'']" "[]"]
  by (simp add: s_collected_def) (simp add: s_artifact_def validRawManifestFormat_def)

text \<open>
  C25. The cancellation loop ends: when the cluster settles (after \<open>m w\<close> polls the Job is
  absent and its Pods are gone), \<open>m w + 1\<close> polls are enough for the loop to return.
\<close>

theorem cancellation_loop_ends:
  assumes "cluster_settles sv cfg x m" "r_state (cl_run c) = StateCancelling"
  shows "\<exists>r w'. bound_cancel (Suc (m w)) sv cfg c x False w = Some (r, w')"
  using bound_cancel_ends [OF assms, of w "Suc (m w)" False] by simp

theorem cancellation_loop_ends_witness:
  "\<exists>r w'. bound_cancel 4 s_countdown s_bound (s_claim\<lparr>cl_run := s_change StateCancelling 4\<rparr>) s_execution False 3 = Some (r, w')"
  using cancellation_loop_ends [where c = "s_claim\<lparr>cl_run := s_change StateCancelling 4\<rparr>" and x = s_execution and w = 3,
      OF s_countdown_settles]
  by (simp add: s_change_def numeral_eq_Suc)


section \<open>The worker\<close>

text \<open>
  C27. The scheduler never exceeds its capacity: whatever it polls, whatever completes and
  whatever others do to the store, the active Runs are distinct and at most
  \<open>Config.Capacity\<close>, because \<open>ClaimRuns\<close> keeps to the requested limit.
\<close>

theorem worker_within_capacity:
  assumes "0 \<le> wc_capacity cfg"
  shows "distinct (wk_active (fold (worker_step (\<lambda>(f, env). pg_ClaimRuns f env) cfg) is (worker_init d)))
    \<and> int (length (wk_active (fold (worker_step (\<lambda>(f, env). pg_ClaimRuns f env) cfg) is (worker_init d))))
      \<le> wc_capacity cfg"
  using assms by (rule pg_claims.run_within_capacity)

theorem worker_within_capacity_witness:
  "wk_active (worker_step (\<lambda>(f, env). pg_ClaimRuns f env) (DefaultConfig ''worker-1'') (WPoll (TxOk, s_env) True) (worker_init s_db))
      = [s_id]
    \<and> int (length (wk_active (worker_step (\<lambda>(f, env). pg_ClaimRuns f env) (DefaultConfig ''worker-1'')
        (WPoll (TxOk, s_env) True) (worker_init s_db)))) \<le> 4"
proof -
  have v: "validClaim s_claim" using s_lease_valid by (simp add: validClaim_def s_claim_def)
  have "wk_active (worker_step (\<lambda>(f, env). pg_ClaimRuns f env) (DefaultConfig ''worker-1'') (WPoll (TxOk, s_env) True)
      (worker_init s_db)) = [s_id]"
    using v by (simp add: worker_init_def DefaultConfig_def startAvailable_def s_pg_ClaimRuns) (simp add: s_claim_def)
  with worker_within_capacity [of "DefaultConfig ''worker-1''" "[WPoll (TxOk, s_env) True]" s_db] show ?thesis
    by (simp add: DefaultConfig_def)
qed

text \<open>
  C28. Released work comes back: after the owner releases a non-terminal Kubernetes Run with a
  retry delay, the Run is a claim candidate with a free lease for every query from that delay
  on, and before it only if it is being cancelled.
\<close>

theorem release_reschedules:
  assumes "pg_ReleaseClaim TxOk now l delay d = (Inr u, d')"
    and "map_of (d_runs d) (l_runID l) = Some row" "rr_target row = ExecutionTargetKubernetes"
    and "active_state (r_state (rr_snapshot row))" "r_id (rr_snapshot row) = l_runID l"
  shows "(now + delay \<le> t \<longrightarrow> claim_candidate (\<lambda>_. (t, t)) d' (l_runID l, row) \<and> \<not> lease_blocked (rr_snapshot row) t d')
    \<and> (now \<le> t \<and> t < now + delay \<longrightarrow>
        claim_candidate (\<lambda>_. (t, t)) d' (l_runID l, row) = (r_state (rr_snapshot row) = StateCancelling))"
proof -
  have v: "ValidRetryDelay delay" using assms(1) by (auto simp: pg_ReleaseClaim_def split: if_splits)
  then have nn: "0 \<le> delay" by (simp add: ValidRetryDelay_def)
  obtain r where own: "lockOwnedClaim now l d = Inr r"
    and d': "d' = update_lease (l_runID l) (\<lambda>row. row\<lparr>lr_expiresAt := now, lr_availableAt := now + delay\<rparr>) d"
    using assms(1) v by (auto simp: pg_ReleaseClaim_def transact_def split: if_splits sum.splits)
  obtain lr where "map_of (d_leases d) (l_runID l) = Some lr"
    using own by (auto simp: lockOwnedClaim_Inr holds_lease_def pg_lease_at_def)
  then have "map_of (d_leases d') (l_runID l) = Some (lr\<lparr>lr_expiresAt := now, lr_availableAt := now + delay\<rparr>)"
    by (simp add: d' update_lease_def)
  with assms(3-5) nn show ?thesis by (auto simp: claim_candidate_def lease_blocked_def)
qed

theorem release_reschedules_witness:
  "\<exists>d'. pg_ReleaseClaim TxOk s_now s_lease (seconds 5) s_db1 = (Inr (), d')
    \<and> claim_candidate (\<lambda>_. (s_now + seconds 5, s_now + seconds 5)) d' (s_id, s_row)"
proof -
  have "ValidRetryDelay (seconds 5)" by (simp add: ValidRetryDelay_def seconds_def minutes_def)
  moreover have "lockOwnedClaim s_now s_lease s_db1 = Inr s_run" by (rule s_owned) simp_all
  ultimately obtain d' where d': "pg_ReleaseClaim TxOk s_now s_lease (seconds 5) s_db1 = (Inr (), d')"
    using s_lease_valid by (simp add: pg_ReleaseClaim_def transact_def)
  from release_reschedules [OF d', of s_row "s_now + seconds 5"] d' show ?thesis
    by (simp add: s_db1_def s_db_def s_row_def active_state_def)
qed

section \<open>Baselines\<close>




text \<open>
  C30. Only approved, evidence-backed baselines are resolved: in every reachable database, a
  resolved baseline matches every selected dimension, went through exactly candidate,
  qualified and approved with a passed qualification, and its source Run is still completed,
  owned by the same principal and has the exact artifact registered.
\<close>

theorem resolved_baseline_backed:
  assumes "pg_ResolveApprovedBaseline f p sel (fold baseline_step ops baseline_empty) = Inr (Some r)"
  defines "d \<equiv> fold baseline_step ops baseline_empty"
  shows "MatchesSelection r sel \<and> map_of (bd_baselines d) (p, sel_id sel, sel_version sel) = Some r
    \<and> map ev_state (bl_lifecycle r) = [BlCandidate, BlQualified, BlApproved]
    \<and> q_status (bl_qualification r) = QualificationPassed
    \<and> (\<exists>source. pg_view (bd_core d) (bl_sourceRunID r) = Some (p, source) \<and> r_state source = StateCompleted)
    \<and> map_of (d_artifacts (bd_core d)) (a_id (bl_artifact r)) = Some (bl_artifact r)"
  unfolding d_def by (rule resolved_backed [OF assms(1)])

theorem resolved_baseline_backed_witness:
  "map ev_state (bl_lifecycle s_approved) = [BlCandidate, BlQualified, BlApproved]
    \<and> map_of (d_artifacts s_evidence_db) (a_id (bl_artifact s_approved)) = Some (bl_artifact s_approved)"
proof -
  have "pg_ResolveApprovedBaseline None ''alice'' s_selection (fold baseline_step s_baseline_history baseline_empty)
      = Inr (Some s_approved)"
    unfolding s_baseline_history_db by (rule s_resolve)
  from resolved_baseline_backed [OF this] show ?thesis
    unfolding s_baseline_history_db by (simp add: s_baseline_db_def)
qed


text \<open>
  C31. Baselines are append-only: whatever is called, a stored baseline keeps its identity,
  evidence, software, workload, environment, dataset and creation time, its recorded events
  stay a prefix of its audit trail, and its revision counts them.
\<close>

theorem baseline_append_only:
  assumes "map_of (bd_baselines (fold baseline_step ops baseline_empty)) k = Some r"
  shows "\<exists>r'. map_of (bd_baselines (fold baseline_step (ops @ ops') baseline_empty)) k = Some r'
    \<and> baseline_evolves r r' \<and> bl_revision r' = int (length (bl_lifecycle r')) \<and> bl_revision r' \<le> 4"
proof -
  let ?inv = "\<lambda>d. baselines_backed (pg_view (bd_core d)) (map_of (d_artifacts (bd_core d))) (map_of (bd_baselines d))"
  have inv: "?inv (fold baseline_step o' baseline_empty)" for o'
    by (rule pg_baselines.calls_inv) (simp add: baselines_backed_def baseline_empty_def)
  from pg_baselines.calls_evolve [OF inv assms, of ops']
  obtain r' where r': "map_of (bd_baselines (fold baseline_step (ops @ ops') baseline_empty)) k = Some r'"
    "baseline_evolves r r'" by auto
  then have v: "Record_valid r'" using inv [of "ops @ ops'"] by (cases k) (auto simp: baselines_backed_def)
  have "length (bl_lifecycle r') = length (map ev_state (bl_lifecycle r'))" by simp
  also have "\<dots> \<le> 4" using Record_valid_path [OF v] by (auto simp: lifecycle_paths_def)
  finally show ?thesis using r' v by (auto simp: Record_valid_def)
qed

theorem baseline_append_only_witness:
  "\<exists>r'. map_of (bd_baselines (fold baseline_step (s_baseline_history
      @ [BTransition TxOk 9 ''alice'' ''checkout'' ''1.0.0'' 3 (s_to_baseline BlRetired None)]) baseline_empty))
      (''alice'', ''checkout'', ''1.0.0'') = Some r' \<and> bl_artifact r' = s_normalized"
proof -
  have "map_of (bd_baselines (fold baseline_step s_baseline_history baseline_empty)) (''alice'', ''checkout'', ''1.0.0'')
      = Some s_approved"
    unfolding s_baseline_history_db by (simp add: s_baseline_db_def)
  from baseline_append_only [OF this, of "[BTransition TxOk 9 ''alice'' ''checkout'' ''1.0.0'' 3 (s_to_baseline BlRetired None)]"]
  show ?thesis by (auto simp: baseline_evolves_def s_approved_def s_baseline_def)
qed


section \<open>Native execution\<close>


text \<open>
  C33. A native worker has one slot: when the calls that write leases read non-decreasing
  clocks, no worker ever has two current leases, so discovery, which fails on a second row,
  returns at most one slot and never that error.
\<close>

theorem worker_slot_exclusive:
  assumes "sorted (List.map_filter lease_clock ops @ [now])"
  shows "length (current_slots w now (fold native_step ops native_empty)) \<le> 1
    \<and> fst (pg_DiscoverNativeBaselineAttempt TxOk now w (fold native_step ops native_empty))
      \<noteq> Inl (ErrOther ''multiple current native worker slots'')"
proof -
  let ?d = "fold native_step ops native_empty" and ?cs = "List.map_filter lease_clock ops @ [now]"
  have "sorted (hd ?cs # ?cs)" using assms by (cases "List.map_filter lease_clock ops") auto
  moreover have "one_slot (hd ?cs) (nd_leases native_empty)" by (simp add: one_slot_def native_empty_def baseline_db.defs table_ok_def)
  ultimately have "one_slot now (nd_leases ?d)" by (rule native_slots.calls_one_slot [rotated])
  then have one: "length (current_slots w now ?d) \<le> 1" by (rule current_slots_one)
  have "scanNativeDiscovery w now s ?d \<noteq> Inl (ErrOther ''multiple current native worker slots'')" for s
    by (auto simp: scanNativeDiscovery_def observed_run_def Let_def map_sum_def split: option.splits sum.splits if_splits)
  with one have "discover_body w now ?d \<noteq> Inl (ErrOther ''multiple current native worker slots'')"
    by (cases "current_slots w now ?d") (auto simp: discover_body_def split: sum.splits)
  with one show ?thesis
    by (auto simp: pg_DiscoverNativeBaselineAttempt_def transact_def split: sum.splits if_splits)
qed

theorem worker_slot_exclusive_witness:
  "length (current_slots n_worker s_now (fold native_step n_history native_empty)) \<le> 1
    \<and> current_slots n_worker s_now (fold native_step n_history native_empty) = [(s_id, n_lease_row)]"
proof -
  have "sorted (List.map_filter lease_clock n_history @ [s_now])"
    by (simp add: n_history_def n_setup_def n_acquire_def List.map_filter_simps)
  from worker_slot_exclusive [OF this, of n_worker] show ?thesis
    using n_live by (simp add: n_history_db n_db_def current_slots_def) (simp add: n_lease_row_def)
qed

text \<open>
  C34. Native authority is fenced: while a lease is live its row survives every call that does
  not present its own lease, attempt, worker and capability; and calls that present an
  authority no live lease bears out change nothing at all.
\<close>

theorem native_authority_fenced:
  assumes "map_of (nd_leases d) i = Some l"
    and "\<forall>op\<in>set ops. live_row (call_clock op) l \<and> (\<forall>a. call_authority op = Some a \<longrightarrow> \<not> proves a l)"
    and "\<forall>op\<in>set stale. \<exists>a. call_authority op = Some a
      \<and> (\<forall>j m. map_of (nd_leases (fold native_step ops d)) j = Some m \<longrightarrow> proves a m \<longrightarrow> \<not> live_row (call_clock op) m)"
  shows "map_of (nd_leases (fold native_step (ops @ stale) d)) i = Some l
    \<and> fold native_step (ops @ stale) d = fold native_step ops d"
  using native_authority.survives [OF assms(1,2)] native_authority.no_authority_no_effect [OF assms(3)] by simp

theorem native_authority_fenced_witness:
  "fold native_step [NTerminal TxOk [] n_later ''worker-2'' n_failed] n_leased = n_leased"
proof -
  have "map_of (nd_leases n_leased) s_id = Some n_lease_row" by (simp add: n_leased_def n_db_def)
  from native_authority_fenced [OF this, of "[]" "[NTerminal TxOk [] n_later ''worker-2'' n_failed]"]
  show ?thesis by (simp add: n_leased_def n_db_def proves_def matchingNativeLeaseAuthority_def n_lease_row_def n_worker_def)
qed

text \<open>
  C35. Terminal reports are idempotent: once a report was accepted, and after any calls of
  anyone, the same report is acknowledged again with its original revision, and a different
  report of that attempt is a terminal conflict; neither changes anything.
\<close>

theorem terminal_report_idempotent:
  assumes "native_ok d" "pg_ReportNativeBaselineTerminal f old now w rq d = (Inr ack, d1)"
    and "ta_disposition ack = TerminalAccepted" "now \<noteq> zero_time"
    and "TerminalRequest_Valid rq'" "tr_leaseID rq' = tr_leaseID rq" "tr_attemptID rq' = tr_attemptID rq"
      "tr_capability rq' = tr_capability rq"
  shows "pg_ReportNativeBaselineTerminal TxOk (nd_leases (fold native_step ops d1)) now' w rq' (fold native_step ops d1) =
    ((if sameNativeTerminal rq rq'
      then Inr \<lparr>ta_attemptID = tr_attemptID rq, ta_runRevision = ta_runRevision ack, ta_disposition = TerminalAlreadyAccepted\<rparr>
      else Inl ErrTerminalConflict), fold native_step ops d1)"
  by (rule terminal_retry [OF assms])

theorem terminal_report_idempotent_witness:
  "\<exists>d1 :: native_db. pg_ReportNativeBaselineTerminal TxOk (nd_leases d1) 7 n_worker n_failed d1
    = (Inr \<lparr>ta_attemptID = n_attemptID, ta_runRevision = 3, ta_disposition = TerminalAlreadyAccepted\<rparr>, d1)"
proof -
  obtain d1 where d1: "n_report n_failed n_leased
      = (Inr \<lparr>ta_attemptID = n_attemptID, ta_runRevision = 3, ta_disposition = TerminalAccepted\<rparr>, d1)"
    using n_failed_accepted by blast
  have "native_ok n_leased" using n_leased_ok by (simp add: n_leased_def)
  from terminal_report_idempotent [OF this d1 [unfolded n_report_def] _ n_later_time(3) n_failed_valid, of "[]" 7]
  have "pg_ReportNativeBaselineTerminal TxOk (nd_leases d1) 7 n_worker n_failed d1
    = (Inr \<lparr>ta_attemptID = tr_attemptID n_failed, ta_runRevision = 3, ta_disposition = TerminalAlreadyAccepted\<rparr>, d1)"
    by (simp add: sameNativeTerminal_def)
  then show ?thesis by (auto simp: n_failed_def)
qed

text \<open>
  C36. Completion rests on evidence: an accepted completion was reported under a live lease
  with the caller's authority, the named manifest and an artifact of the planned kind, format
  and media type for every planned slot were registered for the attempt before, and it leaves
  the Run in \<open>COLLECTING\<close> at the acknowledged revision with no live lease.
\<close>

theorem completion_has_evidence:
  assumes "native_ok d" "pg_ReportNativeBaselineTerminal f old now w rq d = (Inr ack, d1)"
    and "ta_disposition ack = TerminalAccepted" "tr_kind rq = TerminalCompleted"
  shows "\<exists>i p r l. map_of (nd_leases d) i = Some l \<and> live_row now l
      \<and> matchingNativeLeaseAuthority l w (tr_leaseID rq) (tr_attemptID rq) (tr_capability rq)
      \<and> evidence_complete i (tr_attemptID rq) (lx_plan l) (tr_manifestArtifactID rq) d
      \<and> pg_view (bd_core d1) i = Some (p, r) \<and> r_state r = StateCollecting \<and> r_revision r = ta_runRevision ack
      \<and> \<not> nativeRunLeased i now d1"
  by (rule completed_report [OF assms])

theorem completion_has_evidence_witness:
  "evidence_complete s_id n_attemptID n_plan n_leaseID n_evidence"
proof -
  obtain d1 where d1: "n_report n_completed n_evidence
      = (Inr \<lparr>ta_attemptID = n_attemptID, ta_runRevision = 6, ta_disposition = TerminalAccepted\<rparr>, d1)"
    using n_completed_accepted by blast
  from completion_has_evidence [OF n_evidence_ok d1 [unfolded n_report_def]]
  obtain i l where "map_of (nd_leases n_evidence) i = Some l"
    "evidence_complete i (tr_attemptID n_completed) (lx_plan l) (tr_manifestArtifactID n_completed) n_evidence"
    by (auto simp: n_completed_def)
  then show ?thesis by (auto simp: n_evidence_def n_leased_def n_db_def n_lease_row_def n_completed_def split: if_splits)
qed



text \<open>
  C38. \<open>AdvancePhase\<close>, a loop of single transitions, equals one jump: below the revision
  bound it either fails (stale revision, unknown phase, or a Run outside or beyond the phase)
  or moves the Run to the state of the phase, counts the crossed states in the revision and
  advances the update time once.
\<close>

theorem phase_walk_closed_form:
  assumes "r_revision r + 5 \<le> maxRunRevision"
  shows "AdvancePhase r e ph now =
    (if r_revision r \<noteq> e then Inl ErrRevision
     else case phase_path (r_state r) ph of Inl x \<Rightarrow> Inl x | Inr ss \<Rightarrow> Inr (walked ss now r))"
  by (rule AdvancePhase_closed [OF assms])

theorem phase_walk_closed_form_witness:
  "\<exists>r. AdvancePhase s_run 1 PhaseRunning s_now = Inr r \<and> r_state r = StateRunning \<and> r_revision r = 5"
proof -
  have "phase_path StateCreated PhaseRunning = Inr [StateValidating, StateProvisioning, StateWarmingUp, StateRunning]" by code_simp
  with phase_walk_closed_form [of s_run 1 PhaseRunning s_now] show ?thesis by (simp add: maxRunRevision_def walked_def)
qed

text \<open>
  C39. An issued lease is well formed: with full-length random bytes, the lease an acquisition
  returns passes its own validation (version-4 identifiers, a capability in the accepted
  alphabet, a policy within bounds, a valid plan), a live row bears out its authority until the
  returned expiry, and its Run is a created one of the candidate's owner that fits the plan.
\<close>

theorem issued_lease_well_formed:
  assumes "native_ok d" "pg_AcquireNativeBaselineLease f rd now w seen cand plan age ttl ra d = (Inr (Some l), d1)"
    and "length (rd_lease rd) = 16" "length (rd_attempt rd) = 16" "length (rd_capability rd) = 32"
    and "now \<noteq> zero_time" "now + ttl \<noteq> zero_time"
  shows "NativeLease_Valid l
    \<and> (\<exists>row. map_of (nd_leases d1) (nl_runID l) = Some row \<and> live_row now row \<and> lx_expiresAt row = nl_expiresAt l
        \<and> matchingNativeLeaseAuthority row w (nl_leaseID l) (nl_attemptID l) (nl_capability l) \<and> lx_plan row = nl_plan l)
    \<and> (\<exists>r. pg_view (bd_core d1) (nl_runID l) = Some (nc_principal cand, r) \<and> r_state r = StateCreated
        \<and> r_revision r = nl_runRevision l \<and> baselinePlanMatchesRun (nl_plan l) r)"
  using issued_lease [OF assms] by blast

theorem issued_lease_well_formed_witness: "NativeLease_Valid n_lease"
  using issued_lease_well_formed [OF n_start_ok n_acquired] n_clock by (simp add: n_random_def)

section \<open>Contained benchmarks\<close>

text \<open>
  C40. Every attempt of the benchmark reconciler, in front of the bound stage and the router on
  the Postgres repository, is authorised by its claim and by the stored hold: for a Run that
  its resolver takes for a contained benchmark, with any other clients interleaved between the
  calls, any faults, and targets that call their fence any number of times, Runs change only by
  lifecycle transitions, the holds stay exclusive and well formed, a Job is created only for a
  \<open>PROVISIONING\<close> claim whose hold has a sealed request (or was already released), and a Job is
  stopped only while \<open>CANCELLING\<close> or once the cleanup of the hold has begun.
\<close>

theorem benchmark_attempts_authorised:
  assumes "holds_ok (d_reservations (pw_db w))"
    and "\<And>w. ba_resolve an (l_principal (cl_lease c)) (cl_run c) w \<noteq> Inr None"
    and "Benchmark_Reconcile (pg_bench_services sch an) cfg (Bound_Reconcile n (pg_services sch (ba_base an)) bcfg)
      (Router_Reconcile m (pg_services sch (ba_base an)) rcfg) c w = Some (res, w')"
  shows "life_steps (pg_view (pw_db w)) (pg_view (pw_db w')) \<and> holds_ok (d_reservations (pw_db w'))
    \<and> (\<exists>evs. pw_log w' = pw_log w @ evs \<and> list_all (bench_event (an_dns (ba_base an)) c (pw_db w')) evs)"
  using validD [OF reconcile_preserves [OF assms(2), where ?w0.0 = w] _ assms(3)] assms(1) by (simp add: bench_ok_def)

theorem benchmark_attempts_authorised_witness:
  "\<exists>w'. Benchmark_Reconcile (pg_bench_services s_quiet b_answers) b_config (Bound_Reconcile 5 (pg_services s_quiet (ba_base b_answers)) s_bound)
      (Router_Reconcile 5 (pg_services s_quiet (ba_base b_answers)) s_router) b_claim \<lparr>pw_db = b_db, pw_tick = 0, pw_log = []\<rparr>
      = Some (Inr (seconds 5), w')
    \<and> pw_log w' = [EvStopJob b_execution] \<and> closing_hold s_id (pw_db w')"
proof -
  obtain w' where r: "Benchmark_Reconcile (pg_bench_services s_quiet b_answers) b_config
      (Bound_Reconcile 5 (pg_services s_quiet (ba_base b_answers)) s_bound)
      (Router_Reconcile 5 (pg_services s_quiet (ba_base b_answers)) s_router) b_claim \<lparr>pw_db = b_db, pw_tick = 0, pw_log = []\<rparr>
      = Some (Inr (seconds 5), w')" and log: "pw_log w' = [EvStopJob b_execution]"
    using b_attempt by blast
  have c: "r_state (cl_run b_claim) = StateRunning" "r_id (cl_run b_claim) = s_id" by (simp_all add: b_claim_def s_change_def)
  have "list_all (bench_event (an_dns (ba_base b_answers)) b_claim (pw_db w')) (pw_log w')"
    using benchmark_attempts_authorised [OF _ _ r] b_holds by (simp add: b_answers_def)
  with r log c show ?thesis by simp
qed


section \<open>Documents, verdicts and collected evidence\<close>

text \<open>
  C3. Document validity is exact: the streaming check over decoder tokens accepts a text exactly
  when it is within the size limit, UTF-8 and one JSON document nested at most 64 deep, without
  duplicate names in an object and with all numbers in the range of a double.
\<close>

theorem json_valid_exact:
  "Json_Valid data maximumBytes \<longleftrightarrow>
    1 \<le> maximumBytes \<and> int (length data) \<le> maximumBytes \<and> utf8_ValidString data
    \<and> (\<exists>v. json_Unmarshal data = Some v \<and> nesting v \<le> 64 \<and> unique_keys v \<and> numbers_in_range v)"
  using Json_Valid_iff by (simp add: maximumDepth_def)

text \<open>
  C5. Approved verdicts are sound: an approved report names the exact policy bytes, evaluates every
  rule exactly once, decides only with passed quality, its SLO verdicts follow from the reported
  values, and each decisive regression verdict compares with the approved artifact of the pinned
  baseline; it fails exactly when the rounded change reaches the limit, and a pass means that the
  exact degradation (absolute) or the rounded one relative to the reference is below the limit.
\<close>

theorem approved_verdicts_sound:
  assumes "ApproveReportVerdicts ctx policyBytes baselines m = Inr ()"
  shows "\<exists>d. Policy_Parse policyBytes = Inr d \<and> rp_sha256 (am_policy m) = sha256_hex policyBytes \<and> verdicts_sound d baselines m"
  by (rule approved_sound [OF assms])

theorem approved_verdicts_sound_witness:
  "verdicts_sound s_policy s_resolutions s_report"
  using approved_verdicts_sound [OF s_report_approved] s_Policy_Parse by auto





end
